(* ===== verification/Prelude.thy ===== *)
theory Prelude
  imports Main "HOL-Library.Word"
begin

text \<open>
  Shared vocabulary of the development: the machine types of the Go code, the values a Go
  function returns (a value, an error, or a panic), byte strings and their conversions, the
  decimal printing of \<^verbatim>\<open>fmt.Sprintf\<close>, and the lemma collections the component theories use.

  Conventions.  A Go function \<^verbatim>\<open>func(...) (T, error)\<close> whose value is the zero value when the
  error is set returns \<open>T outcome\<close>; a \<^verbatim>\<open>func(...) error\<close> that cannot panic returns
  \<open>error option\<close>.  A function that mutates its receiver returns the new receiver first.
\<close>

section \<open>Lemma collections\<close>

named_theorems model_defs \<open>definitions of the operations, unfolded by the functional proofs\<close>
named_theorems frame \<open>what an operation leaves unchanged\<close>

section \<open>The first index\<close>

lemma ex_nat_cases: "(\<exists>k. P k) \<longleftrightarrow> P 0 \<or> (\<exists>k. P (Suc k))"
  by (metis not0_implies_Suc)

section \<open>Machine types\<close>

type_synonym u64 = "64 word"
type_synonym bytes = "8 word list"
type_synonym hash = "256 word"      \<comment> \<open>\<^verbatim>\<open>common.Hash\<close> is \<^verbatim>\<open>[32]byte\<close>\<close>
type_synonym address = "160 word"   \<comment> \<open>\<^verbatim>\<open>common.Address\<close> is \<^verbatim>\<open>[20]byte\<close>\<close>
type_synonym bloom = "2048 word"    \<comment> \<open>\<^verbatim>\<open>types.Bloom\<close> is \<^verbatim>\<open>[256]byte\<close>\<close>

section \<open>Errors and outcomes\<close>

text \<open>
  The errors the code makes itself have a constructor each (\<^verbatim>\<open>service/errors.go\<close>,
  \<^verbatim>\<open>ErrNotImplemented\<close> of \<^verbatim>\<open>web3_chain_api.go\<close>, and \<open>Errorf\<close> for the
  \<^verbatim>\<open>fmt.Errorf\<close>/\<^verbatim>\<open>errors.New\<close> texts); an error a library returned is \<open>LibError\<close>
  with its text.
\<close>

datatype error =
    LibError string
  | Errorf string
  | ErrNotImplemented
  | ErrNodeStopped
  | ErrNodeRunning
  | ErrServiceUnknown
  | DuplicateServiceError string
  | StopError "(string \<times> error) list"

datatype 'a outcome =
    Ret 'a          \<comment> \<open>the function returned this value and a nil error\<close>
  | Fail error      \<comment> \<open>it returned this error\<close>
  | Panic           \<comment> \<open>it panicked (a nil dereference, or a library's panic)\<close>

definition returned :: "'a outcome \<Rightarrow> bool" where
  "returned r \<longleftrightarrow> (\<exists>v. r = Ret v)"

lemma returned_simps [simp]:
  "returned (Ret v)" "\<not> returned (Fail e)" "\<not> returned Panic"
  by (simp_all add: returned_def)

primrec the_Ret :: "'a outcome \<Rightarrow> 'a" where
  "the_Ret (Ret v) = v"

lemma returned_the_Ret: "returned r \<Longrightarrow> r = Ret (the_Ret r)"
  by (auto simp: returned_def)

section \<open>Lists as stores: the last entry for a key\<close>

text \<open>
  \<open>last_for k xs h\<close> is the last element of \<open>xs\<close> whose key is \<open>h\<close>: what a store that was
  written in the order of \<open>xs\<close> holds under \<open>h\<close>.
\<close>

definition last_for :: "('a \<Rightarrow> 'k) \<Rightarrow> 'a list \<Rightarrow> 'k \<Rightarrow> 'a option" where
  "last_for k xs h = map_of (rev (map (\<lambda>x. (k x, x)) xs)) h"

lemma last_for_Nil [simp]: "last_for k [] h = None"
  by (simp add: last_for_def)

lemma last_for_snoc [simp]:
  "last_for k (xs @ [x]) h = (if k x = h then Some x else last_for k xs h)"
  by (simp add: last_for_def)

lemma last_for_None: "last_for k xs h = None \<longleftrightarrow> h \<notin> k ` set xs"
  by (induction xs rule: rev_induct) auto

lemma last_for_Some: "last_for k xs h = Some x \<Longrightarrow> x \<in> set xs \<and> k x = h"
  by (induction xs rule: rev_induct) (auto split: if_splits)

lemma last_for_distinct:
  "distinct (map k xs) \<Longrightarrow> x \<in> set xs \<Longrightarrow> last_for k xs (k x) = Some x"
  by (induction xs rule: rev_induct) auto

lemma map_of_rev_map:
  assumes "inj f"
  shows "map_of (rev (map (\<lambda>x. (f (k x), g x)) xs)) (f h) = map_option g (last_for k xs h)"
proof (induction xs rule: rev_induct)
  case (snoc x xs)
  have "f h = f (k x) \<longleftrightarrow> k x = h" using assms by (auto simp: inj_eq)
  with snoc show ?case by simp
qed simp

section \<open>Bytes and strings\<close>

definition byte_of :: "char \<Rightarrow> 8 word" where
  "byte_of c = of_nat (of_char c)"

definition str_bytes :: "string \<Rightarrow> bytes" where
  "str_bytes s = map byte_of s"

lemma of_char_less_256: "(of_char c :: nat) < 256"
  by (metis of_char_of char_of_char mod_less_divisor zero_less_numeral)

lemma inj_byte_of: "inj byte_of"
proof (rule injI)
  fix c d assume "byte_of c = byte_of d"
  then have "unat (byte_of c) = unat (byte_of d)" by simp
  then have "(of_char c :: nat) mod 256 = of_char d mod 256"
    by (simp add: byte_of_def unat_of_nat)
  then have "(of_char c :: nat) = of_char d"
    using of_char_less_256[of c] of_char_less_256[of d] by simp
  then show "c = d" by simp
qed

lemma str_bytes_inject [simp]: "str_bytes s = str_bytes t \<longleftrightarrow> s = t"
  using inj_byte_of by (auto simp: str_bytes_def inj_map_eq_map)

lemma length_str_bytes [simp]: "length (str_bytes s) = length s"
  by (simp add: str_bytes_def)

lemma str_bytes_append [simp]: "str_bytes (s @ t) = str_bytes s @ str_bytes t"
  by (simp add: str_bytes_def)

text \<open>The 32 bytes of a hash, most significant first (\<^verbatim>\<open>h[:]\<close>, \<^verbatim>\<open>h.Bytes()\<close>).\<close>

definition hash_bytes :: "hash \<Rightarrow> bytes" where
  "hash_bytes h = map (\<lambda>i. ucast (drop_bit (8 * (31 - i)) h)) [0..<32]"

lemma length_hash_bytes [simp]: "length (hash_bytes h) = 32"
  by (simp add: hash_bytes_def)

lemma bit_hash_bytes:
  assumes "n < 256"
  shows "bit (hash_bytes h ! (31 - n div 8)) (n mod 8) = bit h n"
proof -
  have i: "31 - n div 8 < 32" "31 - (31 - n div 8) = n div 8"
    using assms by auto
  have "hash_bytes h ! (31 - n div 8) = ucast (drop_bit (8 * (n div 8)) h)"
    using i by (simp add: hash_bytes_def del: upt_Suc)
  moreover have "8 * (n div 8) + n mod 8 = n" by simp
  ultimately show ?thesis
    by (simp add: bit_ucast_iff bit_drop_bit_eq)
qed

lemma hash_bytes_inject [simp]: "hash_bytes g = hash_bytes h \<longleftrightarrow> g = h"
proof
  assume eq: "hash_bytes g = hash_bytes h"
  show "g = h"
  proof (rule bit_word_eqI)
    fix n assume "n < LENGTH(256)"
    then have "n < 256" by simp
    then show "bit g n = bit h n"
      using eq bit_hash_bytes[of n g] bit_hash_bytes[of n h] by simp
  qed
qed simp


lemma inj_hash_bytes: "inj hash_bytes"
  by (simp add: inj_def)

section \<open>Decimal printing\<close>

text \<open>
  \<^verbatim>\<open>%d\<close> and \<^verbatim>\<open>%09d\<close> of \<^verbatim>\<open>fmt.Sprintf\<close>: the sign first, then the digits, padded with
  zeros up to a total width of nine (the sign counts).
\<close>

definition digit_char :: "nat \<Rightarrow> char" where
  "digit_char d = char_of (48 + d)"

fun dec_digits :: "nat \<Rightarrow> string" where
  "dec_digits n = (if n < 10 then [digit_char n] else dec_digits (n div 10) @ [digit_char (n mod 10)])"

declare dec_digits.simps [simp del]

definition sprintf_d :: "int \<Rightarrow> string" where
  "sprintf_d i = (if i < 0 then CHR ''-'' # dec_digits (nat (- i)) else dec_digits (nat i))"

definition zero_pad :: "nat \<Rightarrow> string \<Rightarrow> string" where
  "zero_pad w s = replicate (w - length s) (CHR ''0'') @ s"

definition sprintf_09d :: "int \<Rightarrow> string" where
  "sprintf_09d i =
     (if i < 0 then CHR ''-'' # zero_pad 8 (dec_digits (nat (- i)))
      else zero_pad 9 (dec_digits (nat i)))"

text \<open>Reading the digits back: the value of a digit string, which leading zeros do not change.\<close>

definition dec_value :: "string \<Rightarrow> nat" where
  "dec_value s = foldl (\<lambda>a c. 10 * a + (of_char c - 48)) 0 s"

lemma of_char_digit_char: "d < 10 \<Longrightarrow> of_char (digit_char d) = (48 + d :: nat)"
  by (simp add: digit_char_def)

lemma digit_char_not_minus: "d < 10 \<Longrightarrow> digit_char d \<noteq> CHR ''-''"
proof
  assume d: "d < 10" and "digit_char d = CHR ''-''"
  then have "(48 + d :: nat) = of_char (CHR ''-'')"
    using of_char_digit_char[OF d] by simp
  then show False by simp
qed

lemma dec_value_digits [simp]: "dec_value (dec_digits n) = n"
proof (induction n rule: dec_digits.induct)
  case (1 n)
  show ?case
  proof (cases "n < 10")
    case True
    then show ?thesis by (simp add: dec_digits.simps[of n] dec_value_def of_char_digit_char)
  next
    case False
    with "1.IH" have "dec_value (dec_digits (n div 10)) = n div 10" by simp
    with False show ?thesis
      by (simp add: dec_digits.simps[of n] dec_value_def of_char_digit_char)
  qed
qed

lemma dec_value_zeros: "dec_value (replicate k (CHR ''0'') @ s) = dec_value s"
proof -
  have "foldl (\<lambda>a c. 10 * a + (of_char c - 48)) 0 (replicate k (CHR ''0'')) = (0::nat)"
    by (induction k) simp_all
  then show ?thesis by (simp add: dec_value_def)
qed

lemma dec_value_zero_pad [simp]: "dec_value (zero_pad w s) = dec_value s"
  by (simp add: zero_pad_def dec_value_zeros)

lemma dec_digits_nonempty [simp]: "dec_digits n \<noteq> []"
  by (subst dec_digits.simps) simp

lemma minus_notin_digits: "CHR ''-'' \<notin> set (dec_digits n)"
proof (induction n rule: dec_digits.induct)
  case (1 n)
  show ?case
  proof (cases "n < 10")
    case True
    then show ?thesis
      using digit_char_not_minus[of n] by (simp add: dec_digits.simps[of n] eq_commute)
  next
    case False
    with "1.IH" show ?thesis
      using digit_char_not_minus[of "n mod 10"] by (simp add: dec_digits.simps[of n] eq_commute)
  qed
qed

lemma hd_zero_pad_not_minus: "hd (zero_pad w (dec_digits n)) \<noteq> CHR ''-''"
proof -
  have "zero_pad w (dec_digits n) \<noteq> []" by (simp add: zero_pad_def)
  then have "hd (zero_pad w (dec_digits n)) \<in> set (zero_pad w (dec_digits n))" by simp
  then show ?thesis using minus_notin_digits[of n] by (auto simp: zero_pad_def)
qed

lemma length_zero_pad: "length (zero_pad w s) = max w (length s)"
  by (simp add: zero_pad_def)

lemma sprintf_09d_inject: "sprintf_09d i = sprintf_09d j \<longleftrightarrow> i = j"
proof
  assume eq: "sprintf_09d i = sprintf_09d j"
  have sgn: "i < 0 \<longleftrightarrow> j < 0"
    using eq hd_zero_pad_not_minus[of 9 "nat i"] hd_zero_pad_not_minus[of 9 "nat j"]
    by (auto simp: sprintf_09d_def split: if_splits) (metis list.sel(1))+
  show "i = j"
  proof (cases "i < 0")
    case True
    with eq sgn have "zero_pad 8 (dec_digits (nat (- i))) = zero_pad 8 (dec_digits (nat (- j)))"
      by (simp add: sprintf_09d_def)
    then have "dec_value (zero_pad 8 (dec_digits (nat (- i)))) = dec_value (zero_pad 8 (dec_digits (nat (- j))))"
      by simp
    with True sgn show ?thesis by simp
  next
    case False
    with eq sgn have "zero_pad 9 (dec_digits (nat i)) = zero_pad 9 (dec_digits (nat j))"
      by (simp add: sprintf_09d_def)
    then have "dec_value (zero_pad 9 (dec_digits (nat i))) = dec_value (zero_pad 9 (dec_digits (nat j)))"
      by simp
    with False sgn show ?thesis by simp
  qed
qed simp

lemma length_sprintf_09d: "9 \<le> length (sprintf_09d i)"
  by (simp add: sprintf_09d_def length_zero_pad)

text \<open>A number below \<open>10 ^ k\<close> prints in at most \<open>k\<close> digits.\<close>

lemma length_dec_digits: "n < 10 ^ k \<Longrightarrow> 0 < k \<Longrightarrow> length (dec_digits n) \<le> k"
proof (induction n arbitrary: k rule: dec_digits.induct)
  case (1 n)
  show ?case
  proof (cases "n < 10")
    case True
    with "1.prems" show ?thesis by (simp add: dec_digits.simps[of n])
  next
    case False
    with "1.prems" have k: "1 < k" by (cases k; cases "k - 1") auto
    then have "n div 10 < 10 ^ (k - 1)"
      using "1.prems" by (metis One_nat_def Suc_pred less_mult_imp_div_less mult.commute power_Suc)
    with "1.IH"[of "k - 1"] False k show ?thesis by (simp add: dec_digits.simps[of n])
  qed
qed

end
