(* ===== verification/Numbers.thy ===== *)
theory Numbers
  imports Prelude
begin

text \<open>
  The integer conversions of the program: \<^verbatim>\<open>src/common/math.go\<close> (\<^verbatim>\<open>BigintToUInt64\<close>)
  and the EIP-155 helpers of \<^verbatim>\<open>src/state/state.go\<close> (\<^verbatim>\<open>isProtectedV\<close>,
  \<^verbatim>\<open>deriveChainId\<close>, \<^verbatim>\<open>deriveSigner\<close>), over the \<^verbatim>\<open>math/big\<close> methods they call.
  A \<^verbatim>\<open>*big.Int\<close> is an \<open>int\<close>; \<^verbatim>\<open>uint64\<close> arithmetic is on \<open>u64\<close> and wraps.
\<close>

section \<open>math/big\<close>

text \<open>
  \<^verbatim>\<open>BitLen\<close> is the length of the absolute value in bits; \<^verbatim>\<open>Uint64\<close> returns the low 64 bits
  of the absolute value (\<open>big_Uint64\<close>); \<^verbatim>\<open>Div\<close> is Euclidean division, which for a positive
  divisor is Isabelle's \<open>div\<close>.
\<close>

fun nat_bitlen :: "nat \<Rightarrow> nat" where
  "nat_bitlen n = (if n = 0 then 0 else Suc (nat_bitlen (n div 2)))"

declare nat_bitlen.simps [simp del]

definition big_BitLen :: "int \<Rightarrow> nat" where
  "big_BitLen i = nat_bitlen (nat \<bar>i\<bar>)"

definition big_Uint64 :: "int \<Rightarrow> u64" where
  "big_Uint64 i = word_of_int \<bar>i\<bar>"

lemma nat_bitlen_le: "nat_bitlen n \<le> k \<longleftrightarrow> n < 2 ^ k"
proof (induction n arbitrary: k rule: nat_bitlen.induct)
  case (1 n)
  show ?case
  proof (cases "n = 0")
    case True
    then show ?thesis by (simp add: nat_bitlen.simps)
  next
    case n: False
    show ?thesis
    proof (cases k)
      case 0
      with n show ?thesis by (simp add: nat_bitlen.simps[of n])
    next
      case (Suc j)
      from "1.IH"[OF n, of j] n show ?thesis
        by (simp add: nat_bitlen.simps[of n] Suc less_mult_imp_div_less
            div_less_iff_less_mult mult.commute)
    qed
  qed
qed

lemma big_BitLen_le: "big_BitLen i \<le> k \<longleftrightarrow> \<bar>i\<bar> < 2 ^ k"
proof -
  have "nat \<bar>i\<bar> < 2 ^ k \<longleftrightarrow> \<bar>i\<bar> < 2 ^ k"
    by (metis abs_ge_zero nat_less_iff of_nat_numeral of_nat_power)
  then show ?thesis by (simp add: big_BitLen_def nat_bitlen_le)
qed

lemma uint_big_Uint64: "0 \<le> i \<Longrightarrow> i < 2 ^ 64 \<Longrightarrow> uint (big_Uint64 i) = i"
  by (simp add: big_Uint64_def uint_word_of_int)

section \<open>BigintToUInt64\<close>

datatype accuracy = Below | Exact | Above

definition max_uint64 :: u64 where
  "max_uint64 = 18446744073709551615"

definition bigintToUint64 :: "int \<Rightarrow> u64 \<times> accuracy" where
  "bigintToUint64 i =
     (let sign = sgn i in
      if sign > 0 \<and> big_BitLen i > 64 then (max_uint64, Below)
      else if sign < 0 then (0, Above)
      else (big_Uint64 i, Exact))"

definition BigintToUInt64 :: "int \<Rightarrow> u64" where
  "BigintToUInt64 i = fst (bigintToUint64 i)"

lemma bigintToUint64_Exact:
  "snd (bigintToUint64 i) = Exact \<longleftrightarrow> 0 \<le> i \<and> i < 2 ^ 64"
proof -
  have "big_BitLen i > 64 \<longleftrightarrow> 2 ^ 64 \<le> \<bar>i\<bar>"
    using big_BitLen_le[of i 64] by linarith
  then show ?thesis by (auto simp: bigintToUint64_def Let_def sgn_if)
qed

text \<open>
  \<^verbatim>\<open>BigintToUInt64\<close> is the nearest \<^verbatim>\<open>uint64\<close>: it saturates at both ends of the range
  instead of wrapping.
\<close>

theorem BigintToUInt64_clamps:
  "uint (BigintToUInt64 i) = max 0 (min i (2 ^ 64 - 1))"
proof -
  have big: "big_BitLen i > 64 \<longleftrightarrow> 2 ^ 64 \<le> \<bar>i\<bar>"
    using big_BitLen_le[of i 64] by linarith
  consider "i < 0" | "0 \<le> i" "i < 2 ^ 64" | "2 ^ 64 \<le> i" by linarith
  then show ?thesis
  proof cases
    case 1
    then show ?thesis by (simp add: BigintToUInt64_def bigintToUint64_def)
  next
    case 2
    with big have "BigintToUInt64 i = big_Uint64 i"
      by (auto simp: BigintToUInt64_def bigintToUint64_def Let_def)
    with 2 show ?thesis by (simp add: uint_big_Uint64)
  next
    case 3
    with big have "BigintToUInt64 i = max_uint64"
      by (simp add: BigintToUInt64_def bigintToUint64_def)
    with 3 show ?thesis by (simp add: max_uint64_def)
  qed
qed

lemma BigintToUInt64_in_range:
  "0 \<le> i \<Longrightarrow> i < 2 ^ 64 \<Longrightarrow> BigintToUInt64 i = big_Uint64 i"
  using big_BitLen_le[of i 64]
  by (auto simp: BigintToUInt64_def bigintToUint64_def Let_def)

section \<open>EIP-155 signature values\<close>

text \<open>
  The signers the program uses (constructors of go-ethereum's \<^verbatim>\<open>core/types\<close>).
\<close>

datatype signer = EIP155Signer int | HomesteadSigner | FrontierSigner

definition isProtectedV :: "int \<Rightarrow> bool" where
  "isProtectedV V =
     (if big_BitLen V \<le> 8 then (let v = big_Uint64 V in v \<noteq> 27 \<and> v \<noteq> 28) else True)"

definition deriveChainId :: "int \<Rightarrow> int" where
  "deriveChainId v =
     (if big_BitLen v \<le> 64 then
        (let w = big_Uint64 v in
         if w = 27 \<or> w = 28 then 0 else uint ((w - 35) div 2))
      else (v - 35) div 2)"

definition deriveSigner :: "int \<Rightarrow> signer" where
  "deriveSigner V =
     (if sgn V \<noteq> 0 \<and> isProtectedV V then EIP155Signer (deriveChainId V) else HomesteadSigner)"

lemma big_Uint64_eq:
  assumes "0 \<le> v" "v < 2 ^ 64"
  shows "big_Uint64 v = 27 \<longleftrightarrow> v = 27" "big_Uint64 v = 28 \<longleftrightarrow> v = 28"
proof -
  have u: "uint (big_Uint64 v) = v" using assms by (rule uint_big_Uint64)
  have "big_Uint64 v = 27 \<longleftrightarrow> uint (big_Uint64 v) = uint (27 :: u64)"
    "big_Uint64 v = 28 \<longleftrightarrow> uint (big_Uint64 v) = uint (28 :: u64)"
    by (simp_all only: word_uint_eq_iff)
  with u show "big_Uint64 v = 27 \<longleftrightarrow> v = 27" "big_Uint64 v = 28 \<longleftrightarrow> v = 28" by simp_all
qed

lemma uint_sub_35:
  assumes "0 \<le> v" "v < 2 ^ 64"
  shows "uint ((big_Uint64 v - 35) div 2) = (v - 35) mod 2 ^ 64 div 2"
proof -
  have "uint (big_Uint64 v - 35) = (v - 35) mod 2 ^ 64"
    by (simp add: uint_word_ariths uint_big_Uint64[OF assms])
  then show ?thesis by (simp add: uint_div)
qed

lemma isProtectedV_iff:
  assumes "0 \<le> v"
  shows "isProtectedV v \<longleftrightarrow> v \<noteq> 27 \<and> v \<noteq> 28"
proof (cases "v < 256")
  case True
  with assms have "big_BitLen v \<le> 8" by (simp add: big_BitLen_le)
  with assms True show ?thesis by (simp add: isProtectedV_def Let_def big_Uint64_eq)
next
  case False
  with assms have "\<not> big_BitLen v \<le> 8" by (simp add: big_BitLen_le)
  with False show ?thesis by (simp add: isProtectedV_def)
qed

lemma deriveChainId_value:
  assumes "0 \<le> v"
  shows "deriveChainId v =
    (if v = 27 \<or> v = 28 then 0 else if v < 35 then (v - 35) mod 2 ^ 64 div 2 else (v - 35) div 2)"
proof (cases "v < 2 ^ 64")
  case True
  with assms have "big_BitLen v \<le> 64" by (simp add: big_BitLen_le)
  with assms True have *: "deriveChainId v =
    (if v = 27 \<or> v = 28 then 0 else (v - 35) mod 2 ^ 64 div 2)"
    by (simp only: deriveChainId_def Let_def big_Uint64_eq[OF assms True]
        uint_sub_35[OF assms True] if_True)
  show ?thesis
  proof (cases "v < 35")
    case False
    with True have "(v - 35) mod 2 ^ 64 = v - 35" by (simp add: mod_pos_pos_trivial)
    with * False show ?thesis by simp
  qed (simp add: *)
next
  case False
  with assms have "\<not> big_BitLen v \<le> 64" by (simp add: big_BitLen_le)
  with False show ?thesis by (simp add: deriveChainId_def)
qed

text \<open>
  C18. \<^verbatim>\<open>deriveSigner\<close> inverts the EIP-155 encoding of a chain id in a signature's \<open>V\<close>
  (\<open>V = 35 + 2 * chainId + parity\<close>) at every size of chain id, the 64-bit wrap-around and the
  big-integer branch included; the legacy values 27 and 28, and 0, give the Homestead signer; and a
  \<open>V\<close> below 35 that is none of these (no signer produces one) wraps to a chain id
  above \<open>2 ^ 62\<close>.
\<close>

theorem deriveSigner_inverts_EIP155:
  "(0 \<le> chain \<and> parity \<in> {0, 1} \<longrightarrow>
      deriveSigner (35 + 2 * chain + parity) = EIP155Signer chain)
   \<and> deriveSigner 0 = HomesteadSigner \<and> deriveSigner 27 = HomesteadSigner
   \<and> deriveSigner 28 = HomesteadSigner
   \<and> (0 < v \<and> v < 35 \<and> v \<noteq> 27 \<and> v \<noteq> 28 \<longrightarrow>
        (\<exists>c. deriveSigner v = EIP155Signer c \<and> 2 ^ 62 < c))"
proof (intro conjI impI)
  assume c: "0 \<le> chain \<and> parity \<in> {0, 1}"
  then show "deriveSigner (35 + 2 * chain + parity) = EIP155Signer chain"
    by (auto simp: deriveSigner_def isProtectedV_iff deriveChainId_value sgn_if)
next
  assume v: "0 < v \<and> v < 35 \<and> v \<noteq> 27 \<and> v \<noteq> 28"
  have "(v - 35 + 2 ^ 64) mod 2 ^ 64 = v - 35 + 2 ^ 64"
    using v by (intro mod_pos_pos_trivial) auto
  then have "(v - 35) mod 2 ^ 64 = v - 35 + 2 ^ 64"
    by (simp only: mod_add_self2)
  moreover have "2 ^ 62 < (v - 35 + 2 ^ 64) div 2" using v by simp presburger
  ultimately show "\<exists>c. deriveSigner v = EIP155Signer c \<and> 2 ^ 62 < c"
    using v by (simp add: deriveSigner_def isProtectedV_iff deriveChainId_value)
qed (simp_all add: deriveSigner_def isProtectedV_iff)

theorem deriveSigner_inverts_EIP155_witness:
  "deriveSigner 37 = EIP155Signer 1 \<and> (\<exists>c. deriveSigner 1 = EIP155Signer c \<and> 2 ^ 62 < c)"
  using deriveSigner_inverts_EIP155[of 1 0 1] by simp

end
