(* ===== verification/Keys.thy ===== *)
theory Keys
  imports Prelude
begin

text \<open>
  The layout of the key-value database (\<^verbatim>\<open>src/state/state.go\<close>, lines 28 to 50, and the key
  expressions of \<^verbatim>\<open>state.go\<close> and \<^verbatim>\<open>was.go\<close>).  One LevelDB holds the state root, the
  head transaction, transactions and blocks under their hashes, receipts, failed transactions and
  blocks by index; the theory shows that no two of them can share a key.

  Go's \<^verbatim>\<open>append(receiptsPrefix, h...)\<close> always copies here: the prefix literals have fewer
  spare bytes than the 32 of a hash, so the global prefixes are never written through.
\<close>

section \<open>The keys\<close>

definition receiptsPrefix :: bytes where
  "receiptsPrefix = str_bytes ''receipts-''"

definition errorPrefix :: bytes where
  "errorPrefix = str_bytes ''errors-''"

definition headTxKey :: bytes where
  "headTxKey = str_bytes ''LastTx''"

definition rootKey :: bytes where
  "rootKey = str_bytes ''root''"

definition blockPrefix :: string where
  "blockPrefix = ''block''"

definition blockKey :: "int \<Rightarrow> bytes" where
  "blockKey index = str_bytes (blockPrefix @ ''_'' @ sprintf_09d index)"

text \<open>\<^verbatim>\<open>append(receiptsPrefix, txHash[:]...)\<close> and \<^verbatim>\<open>append(errorPrefix, txHash[:]...)\<close>.\<close>

definition receiptKey :: "hash \<Rightarrow> bytes" where
  "receiptKey h = receiptsPrefix @ hash_bytes h"

definition errorKey :: "hash \<Rightarrow> bytes" where
  "errorKey h = errorPrefix @ hash_bytes h"

section \<open>Slots: what the program stores\<close>

datatype slot =
    RootSlot
  | HeadSlot
  | HashSlot hash      \<comment> \<open>a transaction, or a block, under its hash\<close>
  | ReceiptSlot hash
  | ErrorSlot hash
  | BlockSlot int

fun slot_key :: "slot \<Rightarrow> bytes" where
  "slot_key RootSlot = rootKey"
| "slot_key HeadSlot = headTxKey"
| "slot_key (HashSlot h) = hash_bytes h"
| "slot_key (ReceiptSlot h) = receiptKey h"
| "slot_key (ErrorSlot h) = errorKey h"
| "slot_key (BlockSlot i) = blockKey i"

lemma blockKey_inject: "blockKey i = blockKey j \<longleftrightarrow> i = j"
  by (simp add: blockKey_def sprintf_09d_inject del: str_bytes_append)

lemma receiptKey_inject: "receiptKey g = receiptKey h \<longleftrightarrow> g = h"
  by (simp add: receiptKey_def)

lemma errorKey_inject: "errorKey g = errorKey h \<longleftrightarrow> g = h"
  by (simp add: errorKey_def)

lemma length_rootKey: "length rootKey = 4"
  and length_headTxKey: "length headTxKey = 6"
  and length_receiptKey: "length (receiptKey h) = 41"
  and length_errorKey: "length (errorKey h) = 39"
  and length_blockKey: "15 \<le> length (blockKey i)"
  using length_sprintf_09d[of i]
  by (simp_all add: rootKey_def headTxKey_def receiptKey_def receiptsPrefix_def errorKey_def
      errorPrefix_def blockKey_def blockPrefix_def)

text \<open>
  A block key starts with \<^verbatim>\<open>block_\<close>; an index of the \<^verbatim>\<open>int64\<close> range prints in at
  most 20 characters, so such a key is also shorter than a hash.
\<close>

lemma length_blockKey_int64:
  assumes "- (2 ^ 63) \<le> i" "i < 2 ^ 63"
  shows "length (blockKey i) \<le> 26"
proof -
  have neg: "length (dec_digits (nat (- i))) \<le> 19" and pos: "length (dec_digits (nat i)) \<le> 19"
    using assms by (auto intro!: length_dec_digits)
  then show ?thesis
    by (simp add: blockKey_def blockPrefix_def sprintf_09d_def length_zero_pad)
qed

lemmas key_lengths = length_rootKey length_headTxKey length_hash_bytes length_receiptKey
  length_errorKey

text \<open>The slots an index can take: \<^verbatim>\<open>int64\<close>.\<close>

fun valid_slot :: "slot \<Rightarrow> bool" where
  "valid_slot (BlockSlot i) \<longleftrightarrow> - (2 ^ 63) \<le> i \<and> i < 2 ^ 63"
| "valid_slot _ \<longleftrightarrow> True"

lemma blockKey_length_range:
  "valid_slot (BlockSlot i) \<Longrightarrow> 15 \<le> length (blockKey i) \<and> length (blockKey i) \<le> 26"
  using length_blockKey[of i] length_blockKey_int64[of i] by simp

text \<open>The lengths of the keys of different kinds of slot never meet.\<close>

fun slot_kind :: "slot \<Rightarrow> nat" where
  "slot_kind RootSlot = 0"
| "slot_kind HeadSlot = 1"
| "slot_kind (HashSlot _) = 2"
| "slot_kind (ReceiptSlot _) = 3"
| "slot_kind (ErrorSlot _) = 4"
| "slot_kind (BlockSlot _) = 5"

definition kind_of_length :: "nat \<Rightarrow> nat" where
  "kind_of_length n =
     (if n = 4 then 0 else if n = 6 then 1 else if n = 32 then 2 else if n = 41 then 3
      else if n = 39 then 4 else 5)"

lemma kind_of_length_key:
  assumes "valid_slot s"
  shows "kind_of_length (length (slot_key s)) = slot_kind s"
proof (cases s)
  case (BlockSlot i)
  with assms blockKey_length_range[of i] show ?thesis by (auto simp: kind_of_length_def)
qed (simp_all add: kind_of_length_def key_lengths)

lemma slot_key_kind:
  "valid_slot s \<Longrightarrow> valid_slot t \<Longrightarrow> slot_key s = slot_key t \<Longrightarrow> slot_kind s = slot_kind t"
  by (metis kind_of_length_key)

lemma slot_key_inject:
  assumes "valid_slot s" "valid_slot t"
  shows "slot_key s = slot_key t \<longleftrightarrow> s = t"
  using slot_key_kind[OF assms]
  by (cases s; cases t) (auto simp: blockKey_inject receiptKey_inject errorKey_inject)

text \<open>
  C22. No two things the program stores share a database key: for block indices in the
  \<^verbatim>\<open>int64\<close> range, the keys of the state root, the head, the hashes, the receipts, the errors
  and the blocks by index are pairwise different, and different hashes or indices give different
  keys within a kind.
\<close>

theorem slot_keys_separate: "inj_on slot_key {s. valid_slot s}"
  by (auto simp: inj_on_def slot_key_inject)

end
