(* ===== verification/Geth.thy ===== *)
theory Geth
  imports Numbers Keys
begin

text \<open>
  The boundary of the program: the data it exchanges with go-ethereum, go-lachesis and LevelDB,
  and the functions of those libraries it calls.  None of that code is in the repository, so its
  functions are the fields of the record \<open>('db, 'sd) geth\<close>, over two unknown types: \<open>'db\<close>, the
  database with everything written to it, and \<open>'sd\<close>, a \<^verbatim>\<open>StateDB\<close>.  Every definition of
  the development that calls the libraries takes such a record \<open>X\<close>; what a theorem needs of them
  is one of the predicates at the end (\<open>kv_ok\<close>, \<open>trie_ok\<close>, ...), which state documented
  behaviour.  The theory \<open>Demo\<close> gives a concrete \<open>X\<close> that satisfies them.
\<close>

section \<open>Data of the libraries\<close>

record tx =                       \<comment> \<open>\<^verbatim>\<open>types.Transaction\<close>, by its accessors\<close>
  tx_Nonce :: u64
  tx_GasPrice :: int
  tx_Gas :: u64
  tx_To :: "address option"
  tx_Value :: int
  tx_Data :: bytes
  tx_V :: int
  tx_R :: int
  tx_S :: int

definition zero_tx :: tx where    \<comment> \<open>\<^verbatim>\<open>&types.Transaction{}\<close>\<close>
  "zero_tx = \<lparr>tx_Nonce = 0, tx_GasPrice = 0, tx_Gas = 0, tx_To = None, tx_Value = 0, tx_Data = [],
     tx_V = 0, tx_R = 0, tx_S = 0\<rparr>"

record msg =                      \<comment> \<open>\<^verbatim>\<open>types.Message\<close>, by its accessors\<close>
  msg_From :: address
  msg_To :: "address option"
  msg_Nonce :: u64
  msg_Value :: int
  msg_Gas :: u64
  msg_GasPrice :: int
  msg_Data :: bytes
  msg_CheckNonce :: bool

record log =                      \<comment> \<open>\<^verbatim>\<open>types.Log\<close>, its consensus fields\<close>
  log_Address :: address
  log_Topics :: "hash list"
  log_Data :: bytes

record receipt =                  \<comment> \<open>\<^verbatim>\<open>types.Receipt\<close>; a nil \<^verbatim>\<open>Logs\<close> slice is \<open>None\<close>\<close>
  PostState :: bytes
  Status :: u64
  CumulativeGasUsed :: u64
  Bloom :: bloom
  Logs :: "log list option"
  TxHash :: hash
  ContractAddress :: address
  GasUsed :: u64

record vm_context =               \<comment> \<open>\<^verbatim>\<open>vm.Context\<close>, the fields the program sets\<close>
  ctx_GetHash :: "u64 \<Rightarrow> hash"
  ctx_Origin :: address
  ctx_GasLimit :: u64
  ctx_GasPrice :: int
  ctx_BlockNumber :: int
  ctx_Time :: "int option"            \<comment> \<open>\<^verbatim>\<open>*big.Int\<close>; the program leaves it \<^verbatim>\<open>nil\<close>\<close>
  ctx_Difficulty :: "int option"      \<comment> \<open>likewise\<close>

text \<open>
  The context the state package gives every message it executes: its composite literals
  (\<^verbatim>\<open>state.go\<close>, \<^verbatim>\<open>was.go\<close>, \<^verbatim>\<open>tx_pool.go\<close>) name neither \<^verbatim>\<open>Time\<close> nor \<^verbatim>\<open>Difficulty\<close>, so both are
  \<^verbatim>\<open>nil\<close>.  The abbreviation only shortens the statements of the lemmas.
\<close>

abbreviation message_context :: "hash \<Rightarrow> msg \<Rightarrow> vm_context" where
  "message_context h m \<equiv> \<lparr>ctx_GetHash = (\<lambda>_. h), ctx_Origin = msg_From m, ctx_GasLimit = msg_Gas m,
     ctx_GasPrice = msg_GasPrice m, ctx_BlockNumber = 0, ctx_Time = None, ctx_Difficulty = None\<rparr>"

record chain_config = cc_ChainID :: "int option"
record vm_config = vm_Tracer :: bool

record block =                    \<comment> \<open>go-lachesis \<^verbatim>\<open>poset.Block\<close>\<close>
  blk_Index :: int
  blk_RoundReceived :: int
  blk_CreatedTime :: int
  blk_Hash :: bytes
  blk_Transactions :: "bytes list"

record tx_error =                 \<comment> \<open>\<^verbatim>\<open>TxError\<close> of \<^verbatim>\<open>src/state/types.go\<close>\<close>
  te_Tx :: tx
  te_Error :: string

type_synonym batch = "(bytes \<times> bytes) list"

text \<open>
  \<^verbatim>\<open>err.Error()\<close>; the errors of \<^verbatim>\<open>src/service/errors.go\<close> print their parts, a map as Go
  prints one: \<open>services_text\<close> are its entries, in the order of the iteration.
\<close>

fun error_text :: "error \<Rightarrow> string"
  and services_text :: "(string \<times> error) list \<Rightarrow> string" where
  "error_text (LibError s) = s"
| "error_text (Errorf s) = s"
| "error_text ErrNotImplemented = ''not implemented yet''"
| "error_text ErrNodeStopped = ''node not started''"
| "error_text ErrNodeRunning = ''node already running''"
| "error_text ErrServiceUnknown = ''unknown service''"
| "error_text (DuplicateServiceError k) = ''duplicate service: '' @ k"
| "error_text (StopError services) = ''server: <nil>, services: map['' @ services_text services @ '']''"
| "services_text [] = ''''"
| "services_text [(k, e)] = k @ '':'' @ error_text e"
| "services_text ((k, e) # s # services) = k @ '':'' @ error_text e @ '' '' @ services_text (s # services)"

section \<open>Functions of the libraries\<close>

record 'db kvstore =
  db_Get :: "'db \<Rightarrow> bytes \<Rightarrow> bytes outcome"
  db_Put :: "'db \<Rightarrow> bytes \<Rightarrow> bytes \<Rightarrow> 'db \<times> error option"
  batch_Put :: "batch \<Rightarrow> bytes \<Rightarrow> bytes \<Rightarrow> batch outcome"
  batch_Write :: "'db \<Rightarrow> batch \<Rightarrow> 'db \<times> error option"

record ('db, 'sd) statedb = "'db kvstore" +
  sd_New :: "'db \<Rightarrow> hash \<Rightarrow> 'sd outcome"
  sd_Reset :: "'db \<Rightarrow> 'sd \<Rightarrow> hash \<Rightarrow> 'sd \<times> error option"
  sd_Copy :: "'sd \<Rightarrow> 'sd"
  sd_Prepare :: "'sd \<Rightarrow> hash \<Rightarrow> hash \<Rightarrow> int \<Rightarrow> 'sd"
  sd_IntermediateRoot :: "'sd \<Rightarrow> bool \<Rightarrow> 'sd \<times> hash"
  sd_GetLogs :: "'sd \<Rightarrow> hash \<Rightarrow> log list option"
  sd_Commit :: "'sd \<Rightarrow> bool \<Rightarrow> 'sd \<times> hash outcome"
  trie_Commit :: "'db \<Rightarrow> 'sd \<Rightarrow> hash \<Rightarrow> bool \<Rightarrow> 'db \<times> error option"
  sd_Exist :: "'sd \<Rightarrow> address \<Rightarrow> bool"
  sd_GetBalance :: "'sd \<Rightarrow> address \<Rightarrow> int"
  sd_GetNonce :: "'sd \<Rightarrow> address \<Rightarrow> u64"
  sd_AddBalance :: "'sd \<Rightarrow> address \<Rightarrow> int \<Rightarrow> 'sd"
  sd_SetCode :: "'sd \<Rightarrow> address \<Rightarrow> bytes \<Rightarrow> 'sd"
  sd_SetState :: "'sd \<Rightarrow> address \<Rightarrow> hash \<Rightarrow> hash \<Rightarrow> 'sd"

text \<open>
  \<open>ApplyMessage X ctx sd cc vc m gp\<close> stands for
  \<^verbatim>\<open>core.ApplyMessage(vm.NewEVM(ctx, sd, &cc, vc), m, gp)\<close>.  The gas pool is a pointer that may
  be nil; the call returns the StateDB and the gas left in the pool, which it changes even when it
  fails.
\<close>

record ('db, 'sd) geth = "('db, 'sd) statedb" +
  ApplyMessage :: "vm_context \<Rightarrow> 'sd \<Rightarrow> chain_config \<Rightarrow> vm_config \<Rightarrow> msg \<Rightarrow> u64 option
      \<Rightarrow> 'sd \<times> u64 \<times> (bytes \<times> u64 \<times> bool) outcome"
  gp_AddGas :: "u64 \<Rightarrow> u64 \<Rightarrow> u64"
  AsMessage :: "signer option \<Rightarrow> tx \<Rightarrow> msg outcome"
  tx_Hash :: "tx \<Rightarrow> hash"
  NewReceipt :: "bytes \<Rightarrow> bool \<Rightarrow> u64 \<Rightarrow> receipt"
  CreateBloom :: "receipt list \<Rightarrow> bloom"
  CreateAddress :: "address \<Rightarrow> u64 \<Rightarrow> address"
  rlp_Decode_tx :: "bytes \<Rightarrow> tx outcome"           \<comment> \<open>\<^verbatim>\<open>rlp.Decode(bytes.NewReader(b), &t)\<close>\<close>
  rlp_DecodeBytes_tx :: "bytes \<Rightarrow> tx outcome"      \<comment> \<open>\<^verbatim>\<open>rlp.DecodeBytes(b, &t)\<close>\<close>
  rlp_Encode_tx :: "tx \<Rightarrow> bytes outcome"
  rlp_Encode_receipt :: "receipt \<Rightarrow> bytes outcome"
  rlp_DecodeBytes_receipt :: "bytes \<Rightarrow> receipt outcome"
  json_Encode_txerror :: "tx_error \<Rightarrow> bytes outcome"
  json_Decode_txerror :: "bytes \<Rightarrow> tx_error outcome"
  BlockHash :: "block \<Rightarrow> bytes \<times> error option"
  ProtoMarshal :: "block \<Rightarrow> bytes \<times> error option"
  ProtoUnmarshal :: "bytes \<Rightarrow> block outcome"
  BytesToHash :: "bytes \<Rightarrow> hash"
  HexToHash :: "string \<Rightarrow> hash"
  HexToAddress :: "string \<Rightarrow> address"
  Hex2Bytes :: "string \<Rightarrow> bytes"
  MustParseBig256 :: "string \<Rightarrow> int outcome"       \<comment> \<open>\<open>Ret\<close> or \<open>Panic\<close>\<close>

text \<open>The write of the gas left through the pointer: a nil pointer stays nil.\<close>

definition set_pool :: "u64 option \<Rightarrow> u64 \<Rightarrow> u64 option" where
  "set_pool gp left = map_option (\<lambda>_. left) gp"

lemma set_pool_simps [simp]:
  "set_pool None left = None" "set_pool (Some g) left = Some left"
  "set_pool gp left = None \<longleftrightarrow> gp = None" "set_pool gp (the gp) = gp"
  "set_pool (set_pool gp left) left' = set_pool gp left'"
  by (cases gp; simp add: set_pool_def)+

section \<open>Contracts of the libraries\<close>

text \<open>
  LevelDB: a successful \<^verbatim>\<open>Put\<close> stores the value under its key, and no \<^verbatim>\<open>Put\<close> changes
  another key; a successful batch \<^verbatim>\<open>Write\<close> stores the batch's entries, the last one for a key;
  a batch \<^verbatim>\<open>Put\<close> appends.
\<close>

definition get_after_batch :: "(bytes \<Rightarrow> bytes outcome) \<Rightarrow> batch \<Rightarrow> bytes \<Rightarrow> bytes outcome" where
  "get_after_batch old b k = (case map_of (rev b) k of Some v \<Rightarrow> Ret v | None \<Rightarrow> old k)"

definition kv_ok :: "('db, 'a) kvstore_scheme \<Rightarrow> bool" where
  "kv_ok X \<longleftrightarrow>
     (\<forall>db k v db'. db_Put X db k v = (db', None) \<longrightarrow> db_Get X db' = (db_Get X db)(k := Ret v)) \<and>
     (\<forall>db k v k'. k' \<noteq> k \<longrightarrow> db_Get X (fst (db_Put X db k v)) k' = db_Get X db k') \<and>
     (\<forall>db b db'. batch_Write X db b = (db', None) \<longrightarrow> db_Get X db' = get_after_batch (db_Get X db) b) \<and>
     (\<forall>b k v b'. batch_Put X b k v = Ret b' \<longrightarrow> b' = b @ [(k, v)])"

lemma kv_ok_Put: "kv_ok X \<Longrightarrow> db_Put X db k v = (db', None) \<Longrightarrow> db_Get X db' = (db_Get X db)(k := Ret v)"
  and kv_ok_Put_other: "kv_ok X \<Longrightarrow> k' \<noteq> k \<Longrightarrow> db_Get X (fst (db_Put X db k v)) k' = db_Get X db k'"
  and kv_ok_Write: "kv_ok X \<Longrightarrow> batch_Write X db b = (db', None) \<Longrightarrow> db_Get X db' = get_after_batch (db_Get X db) b"
  and kv_ok_batch: "kv_ok X \<Longrightarrow> batch_Put X b k v = Ret b' \<Longrightarrow> b' = b @ [(k, v)]"
  by (auto simp: kv_ok_def)

text \<open>
  The Merkle trie store.  \<open>node k\<close> says that \<open>k\<close> is the key of a trie node or of contract code (the
  hash of its content, 32 bytes); \<open>stored db r sd\<close> says that the database holds the trie of root \<open>r\<close>,
  whose accounts are those of \<open>sd\<close>.  Committing the trie makes it so and touches node keys only; a
  write to other keys keeps it; and opening a root that is stored (\<^verbatim>\<open>state.New\<close>,
  \<^verbatim>\<open>Reset\<close>) succeeds and shows its accounts.
\<close>

definition same_accounts :: "('db, 'sd, 'a) statedb_scheme \<Rightarrow> 'sd \<Rightarrow> 'sd \<Rightarrow> bool" where
  "same_accounts X sd1 sd2 \<longleftrightarrow>
     (\<forall>a. sd_GetBalance X sd1 a = sd_GetBalance X sd2 a \<and> sd_GetNonce X sd1 a = sd_GetNonce X sd2 a
        \<and> sd_Exist X sd1 a = sd_Exist X sd2 a)"

definition trie_ok ::
  "('db, 'sd, 'a) statedb_scheme \<Rightarrow> (bytes \<Rightarrow> bool) \<Rightarrow> ('db \<Rightarrow> hash \<Rightarrow> 'sd \<Rightarrow> bool) \<Rightarrow> bool" where
  "trie_ok X node stored \<longleftrightarrow>
     (\<forall>k. node k \<longrightarrow> length k = 32) \<and>
     (\<forall>db sd sd' r db'. sd_Commit X sd True = (sd', Ret r) \<and> trie_Commit X db sd' r True = (db', None)
        \<longrightarrow> stored db' r sd' \<and> (\<forall>k. \<not> node k \<longrightarrow> db_Get X db' k = db_Get X db k)) \<and>
     (\<forall>db k v r sd. stored db r sd \<and> \<not> node k \<longrightarrow> stored (fst (db_Put X db k v)) r sd) \<and>
     (\<forall>db b r sd. stored db r sd \<and> (\<forall>k \<in> fst ` set b. \<not> node k) \<longrightarrow>
        stored (fst (batch_Write X db b)) r sd) \<and>
     (\<forall>db r sd sd0. stored db r sd \<longrightarrow>
        (\<exists>sd1. sd_Reset X db sd0 r = (sd1, None) \<and> same_accounts X sd1 sd)) \<and>
     (\<forall>db r sd. stored db r sd \<longrightarrow> (\<exists>sd1. sd_New X db r = Ret sd1 \<and> same_accounts X sd1 sd))"

lemma trie_okD:
  assumes "trie_ok X node stored"
  shows trie_ok_node: "length k \<noteq> 32 \<Longrightarrow> \<not> node k"
    and trie_ok_commit: "sd_Commit X sd True = (sd', Ret r) \<Longrightarrow>
      trie_Commit X db sd' r True = (db', None) \<Longrightarrow> stored db' r sd'"
    and trie_ok_keeps: "sd_Commit X sd True = (sd', Ret r) \<Longrightarrow>
      trie_Commit X db sd' r True = (db', None) \<Longrightarrow> \<not> node k \<Longrightarrow> db_Get X db' k = db_Get X db k"
    and trie_ok_Put: "stored db r sd \<Longrightarrow> \<not> node k \<Longrightarrow> stored (fst (db_Put X db k v)) r sd"
    and trie_ok_Write: "stored db r sd \<Longrightarrow> \<forall>k \<in> fst ` set b. \<not> node k
      \<Longrightarrow> stored (fst (batch_Write X db b)) r sd"
    and trie_ok_Reset: "stored db r sd \<Longrightarrow>
      \<exists>sd1. sd_Reset X db sd0 r = (sd1, None) \<and> same_accounts X sd1 sd"
    and trie_ok_New: "stored db r sd \<Longrightarrow> \<exists>sd1. sd_New X db r = Ret sd1 \<and> same_accounts X sd1 sd"
  using assms by (auto simp: trie_ok_def)

text \<open>
  The constructor \<^verbatim>\<open>NewReceipt(root, failed, cumulativeGasUsed)\<close> stores its arguments.
\<close>

definition receipt_ok :: "('db, 'sd, 'a) geth_scheme \<Rightarrow> bool" where
  "receipt_ok X \<longleftrightarrow> (\<forall>root failed c. CumulativeGasUsed (NewReceipt X root failed c) = c
                        \<and> PostState (NewReceipt X root failed c) = root)"

text \<open>
  The codecs.  What was encoded decodes to itself; a receipt's storage encoding keeps neither the
  status beside a post-state nor the difference between a nil and an empty slice of logs.
\<close>

definition log_list :: "receipt \<Rightarrow> log list" where
  "log_list r = (case Logs r of None \<Rightarrow> [] | Some ls \<Rightarrow> ls)"

definition same_receipt :: "receipt \<Rightarrow> receipt \<Rightarrow> bool" where
  "same_receipt r1 r2 \<longleftrightarrow>
     PostState r1 = PostState r2 \<and> CumulativeGasUsed r1 = CumulativeGasUsed r2 \<and> Bloom r1 = Bloom r2
     \<and> log_list r1 = log_list r2 \<and> TxHash r1 = TxHash r2 \<and> ContractAddress r1 = ContractAddress r2
     \<and> GasUsed r1 = GasUsed r2"

definition codec_ok :: "('db, 'sd, 'a) geth_scheme \<Rightarrow> bool" where
  "codec_ok X \<longleftrightarrow>
     (\<forall>t b. rlp_Encode_tx X t = Ret b \<longrightarrow> rlp_DecodeBytes_tx X b = Ret t \<and> rlp_Decode_tx X b = Ret t) \<and>
     (\<forall>r b. rlp_Encode_receipt X r = Ret b \<longrightarrow>
        (\<exists>r'. rlp_DecodeBytes_receipt X b = Ret r' \<and> same_receipt r' r)) \<and>
     (\<forall>te b. json_Encode_txerror X te = Ret b \<longrightarrow> json_Decode_txerror X b = Ret te) \<and>
     (\<forall>b d. ProtoMarshal X b = (d, None) \<longrightarrow> ProtoUnmarshal X d = Ret b)"

lemma codec_ok_tx: "codec_ok X \<Longrightarrow> rlp_Encode_tx X t = Ret b \<Longrightarrow> rlp_DecodeBytes_tx X b = Ret t"
  and codec_ok_receipt: "codec_ok X \<Longrightarrow> rlp_Encode_receipt X r = Ret b
    \<Longrightarrow> \<exists>r'. rlp_DecodeBytes_receipt X b = Ret r' \<and> same_receipt r' r"
  and codec_ok_txerror: "codec_ok X \<Longrightarrow> json_Encode_txerror X te = Ret b \<Longrightarrow> json_Decode_txerror X b = Ret te"
  and codec_ok_block: "codec_ok X \<Longrightarrow> ProtoMarshal X blk = (d, None) \<Longrightarrow> ProtoUnmarshal X d = Ret blk"
  by (simp_all add: codec_ok_def)

text \<open>A copied StateDB has the same accounts; a hash is its 32 bytes.\<close>

definition copy_ok :: "('db, 'sd, 'a) statedb_scheme \<Rightarrow> bool" where
  "copy_ok X \<longleftrightarrow> (\<forall>sd. same_accounts X (sd_Copy X sd) sd)"

definition hash_ok :: "('db, 'sd, 'a) geth_scheme \<Rightarrow> bool" where
  "hash_ok X \<longleftrightarrow> (\<forall>h. BytesToHash X (hash_bytes h) = h)"

text \<open>Balances: \<^verbatim>\<open>AddBalance\<close> adds to one account; code and storage do not touch them.\<close>

definition balance_ok :: "('db, 'sd, 'a) statedb_scheme \<Rightarrow> bool" where
  "balance_ok X \<longleftrightarrow>
     (\<forall>sd a v. sd_GetBalance X (sd_AddBalance X sd a v) = (sd_GetBalance X sd)(a := sd_GetBalance X sd a + v)) \<and>
     (\<forall>sd a c. sd_GetBalance X (sd_SetCode X sd a c) = sd_GetBalance X sd) \<and>
     (\<forall>sd a k v. sd_GetBalance X (sd_SetState X sd a k v) = sd_GetBalance X sd)"

lemma same_accounts_refl [simp]: "same_accounts X sd sd"
  and same_accounts_sym: "same_accounts X sd1 sd2 \<Longrightarrow> same_accounts X sd2 sd1"
  and same_accounts_trans: "same_accounts X sd1 sd2 \<Longrightarrow> same_accounts X sd2 sd3 \<Longrightarrow> same_accounts X sd1 sd3"
  by (simp_all add: same_accounts_def)

text \<open>
  A method call on a nil \<^verbatim>\<open>Signer\<close> interface panics, and \<^verbatim>\<open>AsMessage\<close> makes one.
\<close>

definition nil_signer_panics :: "('db, 'sd, 'a) geth_scheme \<Rightarrow> bool" where
  "nil_signer_panics X \<longleftrightarrow> (\<forall>t. AsMessage X None t = Panic)"

section \<open>Reading back what was stored under a slot\<close>

text \<open>
  The key layout as an interface: different slots have different keys, so a write to one slot is
  seen by a read of that slot and by no other.
\<close>

locale key_layout =
  fixes key :: "'s \<Rightarrow> bytes" and valid :: "'s \<Rightarrow> bool"
  assumes key_inject: "valid s \<Longrightarrow> valid t \<Longrightarrow> key s = key t \<longleftrightarrow> s = t"
begin

lemma get_put:
  assumes "kv_ok X" "db_Put X db (key s) v = (db', None)"
  shows "db_Get X db' (key s) = Ret v"
  using assms by (simp add: kv_ok_Put)

lemma get_put_other:
  assumes "kv_ok X" "db_Put X db (key s) v = (db', None)" "valid s" "valid t" "s \<noteq> t"
  shows "db_Get X db' (key t) = db_Get X db (key t)"
  using assms by (simp add: kv_ok_Put key_inject)

lemma get_write_miss:
  assumes "kv_ok X" "batch_Write X db b = (db', None)" "\<forall>(k, v) \<in> set b. \<exists>s \<in> S. k = key s"
    "\<forall>s \<in> S. valid s" "valid t" "t \<notin> S"
  shows "db_Get X db' (key t) = db_Get X db (key t)"
proof -
  have "key t \<notin> fst ` set b" using assms(3-6) by (force simp: key_inject)
  then have "map_of (rev b) (key t) = None" by (simp add: map_of_eq_None_iff)
  then show ?thesis using assms(1,2) by (simp add: kv_ok_Write get_after_batch_def)
qed

end

interpretation slots: key_layout slot_key valid_slot
  by unfold_locales (rule slot_key_inject)

end
