(* ===== verification/Was.thy ===== *)
theory Was
  imports Geth
begin

text \<open>
  The write-ahead state (\<^verbatim>\<open>src/state/was.go\<close>): the working StateDB of the next block and the
  transactions, receipts, logs and gas it has accumulated since the last commit.  The database
  handle \<^verbatim>\<open>was.db\<close> is the one of \<^verbatim>\<open>State\<close>; it is an argument of the operations that use it.
  Pointers that can be nil are options: the signer, the gas pool and the gas counter.
\<close>

section \<open>The record and its operations\<close>

record 'sd was =
  w_ethState :: 'sd
  w_signer :: "signer option"
  w_chainConfig :: chain_config
  w_vmConfig :: vm_config
  w_gasLimit :: u64
  w_txIndex :: int
  w_transactions :: "tx list"
  w_receipts :: "receipt list"
  w_allLogs :: "log list"
  w_totalUsedGas :: "int option"
  w_gp :: "u64 option"

definition NewWriteAheadState ::
  "('db, 'sd, 'x) geth_scheme \<Rightarrow> 'db \<Rightarrow> hash \<Rightarrow> signer option \<Rightarrow> chain_config \<Rightarrow> vm_config \<Rightarrow> u64
   \<Rightarrow> 'sd was outcome" where
  "NewWriteAheadState X db root signer cc vc gasLimit =
     (case sd_New X db root of
        Fail e \<Rightarrow> Fail e
      | Panic \<Rightarrow> Panic
      | Ret sd \<Rightarrow> Ret \<lparr>w_ethState = sd, w_signer = signer, w_chainConfig = cc, w_vmConfig = vc,
          w_gasLimit = gasLimit, w_txIndex = 0, w_transactions = [], w_receipts = [],
          w_allLogs = [], w_totalUsedGas = None, w_gp = None\<rparr>)"

definition was_Reset ::
  "('db, 'sd, 'x) geth_scheme \<Rightarrow> 'db \<Rightarrow> 'sd was \<Rightarrow> hash \<Rightarrow> 'sd was \<times> error option" where
  "was_Reset X db w root =
     (case sd_Reset X db (w_ethState w) root of (sd, err) \<Rightarrow>
        let w = w\<lparr>w_ethState := sd\<rparr> in
        case err of
          Some e \<Rightarrow> (w, Some e)
        | None \<Rightarrow> (w\<lparr>w_txIndex := 0, w_transactions := [], w_receipts := [], w_allLogs := [],
              w_totalUsedGas := Some 0, w_gp := Some (gp_AddGas X 0 (w_gasLimit w))\<rparr>, None))"

text \<open>
  The receipt of an executed transaction: its hash and gas, the address of the contract if it
  created one, the logs the StateDB holds for it and their bloom filter.
\<close>

definition tx_receipt ::
  "('db, 'sd, 'x) geth_scheme \<Rightarrow> hash \<Rightarrow> bool \<Rightarrow> u64 \<Rightarrow> u64 \<Rightarrow> msg \<Rightarrow> address \<Rightarrow> tx \<Rightarrow> 'sd \<Rightarrow> receipt" where
  "tx_receipt X root failed cumulative gas m origin t sd =
     (let r = (NewReceipt X (hash_bytes root) failed cumulative)\<lparr>TxHash := tx_Hash X t, GasUsed := gas\<rparr>;
          r = (if msg_To m = None then r\<lparr>ContractAddress := CreateAddress X origin (tx_Nonce t)\<rparr> else r);
          r = r\<lparr>Logs := sd_GetLogs X sd (tx_Hash X t)\<rparr>
      in r\<lparr>Bloom := CreateBloom X [r]\<rparr>)"

text \<open>
  \<^verbatim>\<open>WriteAheadState.ApplyTransaction\<close>.  The StateDB and the gas pool change even when
  \<^verbatim>\<open>ApplyMessage\<close> fails; the lists change only when it succeeds.
\<close>

definition was_ApplyTransaction ::
  "('db, 'sd, 'x) geth_scheme \<Rightarrow> 'sd was \<Rightarrow> tx \<Rightarrow> int \<Rightarrow> hash \<Rightarrow> 'sd was \<times> unit outcome" where
  "was_ApplyTransaction X w t txIndex blockHash =
     (case AsMessage X (w_signer w) t of
        Fail e \<Rightarrow> (w, Fail e)
      | Panic \<Rightarrow> (w, Panic)
      | Ret m \<Rightarrow>
          let context = \<lparr>ctx_GetHash = (\<lambda>_. blockHash), ctx_Origin = msg_From m, ctx_GasLimit = msg_Gas m,
                ctx_GasPrice = msg_GasPrice m, ctx_BlockNumber = 0, ctx_Time = None, ctx_Difficulty = None\<rparr>;
              sd = sd_Prepare X (w_ethState w) (tx_Hash X t) blockHash txIndex
          in case ApplyMessage X context sd (w_chainConfig w) (w_vmConfig w) m (w_gp w) of (sd, left, res) \<Rightarrow>
             let w = w\<lparr>w_ethState := sd, w_gp := set_pool (w_gp w) left\<rparr> in
             case res of
               Fail e \<Rightarrow> (w, Fail e)
             | Panic \<Rightarrow> (w, Panic)
             | Ret (_, gas, failed) \<Rightarrow>
                 case w_totalUsedGas w of
                   None \<Rightarrow> (w, Panic)
                 | Some used \<Rightarrow>
                     let used = used + uint gas;
                         (sd, root) = sd_IntermediateRoot X sd True;
                         r = tx_receipt X root failed (big_Uint64 used) gas m (ctx_Origin context) t sd
                     in (w\<lparr>w_ethState := sd, w_totalUsedGas := Some used,
                           w_txIndex := w_txIndex w + 1,
                           w_transactions := w_transactions w @ [t],
                           w_receipts := w_receipts w @ [r],
                           w_allLogs := w_allLogs w @ log_list r\<rparr>, Ret ()))"

definition writeRoot :: "('db, 'sd, 'x) geth_scheme \<Rightarrow> 'db \<Rightarrow> hash \<Rightarrow> 'db \<times> error option" where
  "writeRoot X db root = db_Put X db rootKey (hash_bytes root)"

definition writeHead :: "('db, 'sd, 'x) geth_scheme \<Rightarrow> 'db \<Rightarrow> 'sd was \<Rightarrow> 'db \<times> error option" where
  "writeHead X db w =
     (let head = (if w_transactions w \<noteq> [] then last (w_transactions w) else zero_tx)
      in db_Put X db headTxKey (hash_bytes (tx_Hash X head)))"

text \<open>The loops of \<^verbatim>\<open>writeTransactions\<close> and \<^verbatim>\<open>writeReceipts\<close>: fill a batch, stop at the first error.\<close>

fun batch_transactions :: "('db, 'sd, 'x) geth_scheme \<Rightarrow> batch \<Rightarrow> tx list \<Rightarrow> batch outcome" where
  "batch_transactions X b [] = Ret b"
| "batch_transactions X b (t # ts) =
     (case rlp_Encode_tx X t of
        Fail e \<Rightarrow> Fail e
      | Panic \<Rightarrow> Panic
      | Ret data \<Rightarrow>
          (case batch_Put X b (hash_bytes (tx_Hash X t)) data of
             Fail e \<Rightarrow> Fail e
           | Panic \<Rightarrow> Panic
           | Ret b \<Rightarrow> batch_transactions X b ts))"

definition writeTransactions :: "('db, 'sd, 'x) geth_scheme \<Rightarrow> 'db \<Rightarrow> 'sd was \<Rightarrow> 'db \<times> unit outcome" where
  "writeTransactions X db w =
     (case batch_transactions X [] (w_transactions w) of
        Fail e \<Rightarrow> (db, Fail e)
      | Panic \<Rightarrow> (db, Panic)
      | Ret b \<Rightarrow> (case batch_Write X db b of
                  (db, Some e) \<Rightarrow> (db, Fail e)
                | (db, None) \<Rightarrow> (db, Ret ())))"

fun batch_receipts :: "('db, 'sd, 'x) geth_scheme \<Rightarrow> batch \<Rightarrow> receipt list \<Rightarrow> batch outcome" where
  "batch_receipts X b [] = Ret b"
| "batch_receipts X b (r # rs) =
     (case rlp_Encode_receipt X r of
        Fail e \<Rightarrow> Fail e
      | Panic \<Rightarrow> Panic
      | Ret data \<Rightarrow>
          (case batch_Put X b (receiptKey (TxHash r)) data of
             Fail e \<Rightarrow> Fail e
           | Panic \<Rightarrow> Panic
           | Ret b \<Rightarrow> batch_receipts X b rs))"

definition writeReceipts :: "('db, 'sd, 'x) geth_scheme \<Rightarrow> 'db \<Rightarrow> 'sd was \<Rightarrow> 'db \<times> unit outcome" where
  "writeReceipts X db w =
     (case batch_receipts X [] (w_receipts w) of
        Fail e \<Rightarrow> (db, Fail e)
      | Panic \<Rightarrow> (db, Panic)
      | Ret b \<Rightarrow> (case batch_Write X db b of
                  (db, Some e) \<Rightarrow> (db, Fail e)
                | (db, None) \<Rightarrow> (db, Ret ())))"

definition was_Commit ::
  "('db, 'sd, 'x) geth_scheme \<Rightarrow> 'db \<Rightarrow> 'sd was \<Rightarrow> 'db \<times> 'sd was \<times> hash outcome" where
  "was_Commit X db w =
     (case sd_Commit X (w_ethState w) True of (sd, res) \<Rightarrow>
        let w = w\<lparr>w_ethState := sd\<rparr> in
        case res of
          Fail e \<Rightarrow> (db, w, Fail e)
        | Panic \<Rightarrow> (db, w, Panic)
        | Ret root \<Rightarrow>
            (case trie_Commit X db sd root True of
               (db, Some e) \<Rightarrow> (db, w, Fail e)
             | (db, None) \<Rightarrow>
                 (case writeRoot X db root of
                    (db, Some e) \<Rightarrow> (db, w, Fail e)
                  | (db, None) \<Rightarrow>
                      (case writeHead X db w of
                         (db, Some e) \<Rightarrow> (db, w, Fail e)
                       | (db, None) \<Rightarrow>
                           (case writeTransactions X db w of
                              (db, Fail e) \<Rightarrow> (db, w, Fail e)
                            | (db, Panic) \<Rightarrow> (db, w, Panic)
                            | (db, Ret _) \<Rightarrow>
                                (case writeReceipts X db w of
                                   (db, Fail e) \<Rightarrow> (db, w, Fail e)
                                 | (db, Panic) \<Rightarrow> (db, w, Panic)
                                 | (db, Ret _) \<Rightarrow> (db, w, Ret root)))))))"


section \<open>ApplyTransaction\<close>

text \<open>The gas the receipts add up to, and what a receipt records of it.\<close>

definition gas_sum :: "receipt list \<Rightarrow> int" where
  "gas_sum rs = sum_list (map (\<lambda>r. uint (GasUsed r)) rs)"

lemma gas_sum_simps [simp]:
  "gas_sum [] = 0" "gas_sum (rs @ [r]) = gas_sum rs + uint (GasUsed r)"
  by (simp_all add: gas_sum_def)

lemma gas_sum_nonneg: "0 \<le> gas_sum rs"
  by (induction rs rule: rev_induct) simp_all

text \<open>
  The bookkeeping invariant: one receipt per transaction, in the same order and under the same
  hash; the counter, the logs and the gas are those of the receipts; and each receipt's cumulative
  gas is the sum up to it, as long as that sum is a \<^verbatim>\<open>uint64\<close>.
\<close>

definition cumulative_ok :: "receipt list \<Rightarrow> bool" where
  "cumulative_ok rs \<longleftrightarrow>
     (\<forall>i < length rs. gas_sum (take (Suc i) rs) < 2 ^ 64 \<longrightarrow>
        uint (CumulativeGasUsed (rs ! i)) = gas_sum (take (Suc i) rs))"

definition was_wf :: "('db, 'sd, 'x) geth_scheme \<Rightarrow> 'sd was \<Rightarrow> bool" where
  "was_wf X w \<longleftrightarrow>
     map TxHash (w_receipts w) = map (tx_Hash X) (w_transactions w)
     \<and> w_txIndex w = int (length (w_transactions w))
     \<and> w_allLogs w = concat (map log_list (w_receipts w))
     \<and> w_totalUsedGas w = Some (gas_sum (w_receipts w))
     \<and> cumulative_ok (w_receipts w)"

lemma cumulative_ok_Nil [simp]: "cumulative_ok []"
  by (simp add: cumulative_ok_def)

lemma cumulative_ok_snoc:
  "cumulative_ok (rs @ [r]) \<longleftrightarrow> cumulative_ok rs \<and>
     (gas_sum (rs @ [r]) < 2 ^ 64 \<longrightarrow> uint (CumulativeGasUsed r) = gas_sum (rs @ [r]))"
proof -
  have "(\<forall>i < Suc (length rs). P i) \<longleftrightarrow> (\<forall>i < length rs. P i) \<and> P (length rs)" for P
    by (auto simp: less_Suc_eq)
  then show ?thesis by (auto simp: cumulative_ok_def nth_append)
qed

lemma tx_receipt_sel [simp]:
  "TxHash (tx_receipt X root failed c gas m origin t sd) = tx_Hash X t"
  "GasUsed (tx_receipt X root failed c gas m origin t sd) = gas"
  "Logs (tx_receipt X root failed c gas m origin t sd) = sd_GetLogs X sd (tx_Hash X t)"
  "msg_To m = None \<Longrightarrow>
     ContractAddress (tx_receipt X root failed c gas m origin t sd) = CreateAddress X origin (tx_Nonce t)"
  by (simp_all add: tx_receipt_def Let_def)

lemma tx_receipt_cumulative:
  "receipt_ok X \<Longrightarrow> CumulativeGasUsed (tx_receipt X root failed c gas m origin t sd) = c"
  "receipt_ok X \<Longrightarrow> PostState (tx_receipt X root failed c gas m origin t sd) = hash_bytes root"
  by (simp_all add: tx_receipt_def Let_def receipt_ok_def)

text \<open>
  What a successful application does: the message ran, and exactly one transaction and one receipt
  for it were added.  \<open>conv\<close> is the conversion of the gas counter to \<^verbatim>\<open>uint64\<close>.
\<close>

definition applied ::
  "('db, 'sd, 'x) geth_scheme \<Rightarrow> (int \<Rightarrow> u64) \<Rightarrow> 'sd was \<Rightarrow> tx \<Rightarrow> receipt \<Rightarrow> 'sd was \<Rightarrow> bool" where
  "applied X conv w t r w' \<longleftrightarrow>
     (\<exists>sd gp used gas root failed m.
        w_totalUsedGas w = Some used
        \<and> r = tx_receipt X root failed (conv (used + uint gas)) gas m (msg_From m) t sd
        \<and> w' = w\<lparr>w_ethState := sd, w_gp := set_pool (w_gp w) gp, w_totalUsedGas := Some (used + uint gas),
                w_txIndex := w_txIndex w + 1, w_transactions := w_transactions w @ [t],
                w_receipts := w_receipts w @ [r], w_allLogs := w_allLogs w @ log_list r\<rparr>)"

text \<open>What a failed one does: at most the StateDB and the gas pool differ.\<close>

definition same_but_evm :: "'sd was \<Rightarrow> 'sd was \<Rightarrow> bool" where
  "same_but_evm w w' \<longleftrightarrow> (\<exists>sd gp. w' = w\<lparr>w_ethState := sd, w_gp := set_pool (w_gp w) gp\<rparr>)"

lemma same_but_evm_refl [simp]: "same_but_evm w w"
  unfolding same_but_evm_def by (intro exI[of _ "w_ethState w"] exI[of _ "the (w_gp w)"]) simp

lemma same_but_evmI [simp]: "same_but_evm w (w\<lparr>w_ethState := sd, w_gp := set_pool (w_gp w) gp\<rparr>)"
  by (auto simp: same_but_evm_def)

lemma was_ApplyTransaction_cases:
  assumes "was_ApplyTransaction X w t i h = (w', res)"
  shows "case res of Ret _ \<Rightarrow> \<exists>r. applied X big_Uint64 w t r w' | _ \<Rightarrow> same_but_evm w w'"
proof (cases "AsMessage X (w_signer w) t")
  case m: (Ret m)
  let ?c = "message_context h m"
  let ?sd = "sd_Prepare X (w_ethState w) (tx_Hash X t) h i"
  obtain sd gp r where run:
    "ApplyMessage X ?c ?sd (w_chainConfig w) (w_vmConfig w) m (w_gp w) = (sd, gp, r)"
    by (metis prod_cases3)
  show ?thesis
  proof (cases r)
    case (Ret v)
    obtain out gas failed where v: "v = (out, gas, failed)" by (metis prod_cases3)
    obtain sd' root where ir: "sd_IntermediateRoot X sd True = (sd', root)" by fastforce
    show ?thesis
    proof (cases "w_totalUsedGas w")
      case None
      with assms run Ret v m show ?thesis by (auto simp: was_ApplyTransaction_def Let_def)
    next
      case (Some used)
      let ?r = "tx_receipt X root failed (big_Uint64 (used + uint gas)) gas m (msg_From m) t sd'"
      from assms run Ret v Some ir m have "res = Ret ()" and
        "w' = w\<lparr>w_ethState := sd', w_gp := set_pool (w_gp w) gp, w_totalUsedGas := Some (used + uint gas),
                w_txIndex := w_txIndex w + 1, w_transactions := w_transactions w @ [t],
                w_receipts := w_receipts w @ [?r], w_allLogs := w_allLogs w @ log_list ?r\<rparr>"
        by (auto simp: was_ApplyTransaction_def Let_def)
      with Some have "res = Ret ()" "applied X big_Uint64 w t ?r w'" unfolding applied_def by blast+
      then show ?thesis by auto
    qed
  qed (use assms run m in \<open>auto simp: was_ApplyTransaction_def Let_def\<close>)
qed (use assms in \<open>auto simp: was_ApplyTransaction_def\<close>)

lemma was_ApplyTransaction_Ret:
  assumes "was_ApplyTransaction X w t i h = (w', Ret u)"
  obtains r where "applied X big_Uint64 w t r w'"
  using was_ApplyTransaction_cases[OF assms] by auto

lemma was_ApplyTransaction_not_Ret:
  "was_ApplyTransaction X w t i h = (w', res) \<Longrightarrow> \<not> returned res \<Longrightarrow> same_but_evm w w'"
  using was_ApplyTransaction_cases[of X w t i h w' res] by (cases res) auto


section \<open>The invariant is kept\<close>

definition was_config :: "'sd was \<Rightarrow> signer option \<times> chain_config \<times> vm_config \<times> u64" where
  "was_config w = (w_signer w, w_chainConfig w, w_vmConfig w, w_gasLimit w)"

text \<open>A fresh WAS, as \<^verbatim>\<open>Reset\<close> and \<^verbatim>\<open>resetWAS\<close> leave it.\<close>

definition was_empty :: "'sd was \<Rightarrow> bool" where
  "was_empty w \<longleftrightarrow> w_txIndex w = 0 \<and> w_transactions w = [] \<and> w_receipts w = []
     \<and> w_allLogs w = [] \<and> w_totalUsedGas w = Some 0"

lemma was_empty_wf: "was_empty w \<Longrightarrow> was_wf X w"
  by (simp add: was_empty_def was_wf_def)

lemma same_but_evm_wf: "same_but_evm w w' \<Longrightarrow> was_wf X w' \<longleftrightarrow> was_wf X w"
  by (auto simp: same_but_evm_def was_wf_def)

lemma was_wf_ethState [simp]: "was_wf X (w\<lparr>w_ethState := sd\<rparr>) \<longleftrightarrow> was_wf X w"
  by (simp add: was_wf_def)

lemma same_but_evm_config: "same_but_evm w w' \<Longrightarrow> was_config w' = was_config w"
  by (auto simp: same_but_evm_def was_config_def)

lemma applied_config: "applied X conv w t r w' \<Longrightarrow> was_config w' = was_config w"
  by (auto simp: applied_def was_config_def)

lemma applied_lists:
  "applied X conv w t r w' \<Longrightarrow> w_transactions w' = w_transactions w @ [t] \<and> w_receipts w' = w_receipts w @ [r]
   \<and> TxHash r = tx_Hash X t"
  by (auto simp: applied_def)

lemma applied_wf:
  assumes "applied X conv w t r w'" "was_wf X w" "receipt_ok X"
    and conv: "\<And>c. 0 \<le> c \<Longrightarrow> c < 2 ^ 64 \<Longrightarrow> uint (conv c) = c"
  shows "was_wf X w'"
proof -
  from assms(1) obtain sd gp used gas root failed m where
    used: "w_totalUsedGas w = Some used" and
    r: "r = tx_receipt X root failed (conv (used + uint gas)) gas m (msg_From m) t sd" and
    w': "w' = w\<lparr>w_ethState := sd, w_gp := set_pool (w_gp w) gp, w_totalUsedGas := Some (used + uint gas),
                w_txIndex := w_txIndex w + 1, w_transactions := w_transactions w @ [t],
                w_receipts := w_receipts w @ [r], w_allLogs := w_allLogs w @ log_list r\<rparr>"
    unfolding applied_def by blast
  from assms(2) used have u: "used = gas_sum (w_receipts w)" by (simp add: was_wf_def)
  have g: "GasUsed r = gas" and h: "TxHash r = tx_Hash X t"
    and c: "CumulativeGasUsed r = conv (gas_sum (w_receipts w @ [r]))"
    using assms(3) by (simp_all add: r u tx_receipt_cumulative)
  have "0 \<le> gas_sum (w_receipts w @ [r])" by (rule gas_sum_nonneg)
  with assms(2) g h c u show ?thesis
    by (simp add: was_wf_def w' cumulative_ok_snoc conv)
qed

lemma was_ApplyTransaction_wf:
  assumes "was_ApplyTransaction X w t i h = (w', res)" "was_wf X w" "receipt_ok X"
  shows "was_wf X w'"
proof (cases res)
  case (Ret u)
  with assms obtain r where "applied X big_Uint64 w t r w'"
    by (blast elim: was_ApplyTransaction_Ret)
  then show ?thesis using assms(2,3) uint_big_Uint64 by (rule applied_wf)
qed (use was_ApplyTransaction_not_Ret[OF assms(1)] assms(2) same_but_evm_wf in auto)

lemma was_ApplyTransaction_config:
  "was_ApplyTransaction X w t i h = (w', res) \<Longrightarrow> was_config w' = was_config w"
  using was_ApplyTransaction_cases[of X w t i h w' res] same_but_evm_config applied_config
  by (cases res) fastforce+

lemma was_Reset_None:
  assumes "was_Reset X db w root = (w', None)"
  shows "was_empty w'" "w_gp w' = Some (gp_AddGas X 0 (w_gasLimit w))" "was_config w' = was_config w"
    "sd_Reset X db (w_ethState w) root = (w_ethState w', None)"
  using assms by (auto simp: was_Reset_def Let_def was_empty_def was_config_def split: prod.splits option.splits)

lemma was_Reset_Some:
  assumes "was_Reset X db w root = (w', Some e)"
  shows "\<exists>sd. w' = w\<lparr>w_ethState := sd\<rparr>"
  using assms by (auto simp: was_Reset_def Let_def split: prod.splits option.splits)

section \<open>Commit\<close>

text \<open>The batches hold one entry per transaction (receipt), in order.\<close>

lemma batch_transactions_Ret:
  assumes "kv_ok X" "batch_transactions X b ts = Ret b'"
  shows "b' = b @ map (\<lambda>t. (hash_bytes (tx_Hash X t), the_Ret (rlp_Encode_tx X t))) ts
    \<and> (\<forall>t \<in> set ts. returned (rlp_Encode_tx X t))"
  using assms(2)
proof (induction ts arbitrary: b)
  case (Cons t ts)
  from Cons.prems obtain d where d: "rlp_Encode_tx X t = Ret d" by (auto split: outcome.splits)
  with Cons.prems obtain b1 where b1: "batch_Put X b (hash_bytes (tx_Hash X t)) d = Ret b1"
    by (auto split: outcome.splits)
  with assms(1) have "b1 = b @ [(hash_bytes (tx_Hash X t), d)]" by (rule kv_ok_batch)
  with Cons.IH[of b1] Cons.prems d b1 show ?case by simp
qed simp

lemma batch_receipts_Ret:
  assumes "kv_ok X" "batch_receipts X b rs = Ret b'"
  shows "b' = b @ map (\<lambda>r. (receiptKey (TxHash r), the_Ret (rlp_Encode_receipt X r))) rs
    \<and> (\<forall>r \<in> set rs. returned (rlp_Encode_receipt X r))"
  using assms(2)
proof (induction rs arbitrary: b)
  case (Cons r rs)
  from Cons.prems obtain d where d: "rlp_Encode_receipt X r = Ret d" by (auto split: outcome.splits)
  with Cons.prems obtain b1 where b1: "batch_Put X b (receiptKey (TxHash r)) d = Ret b1"
    by (auto split: outcome.splits)
  with assms(1) have "b1 = b @ [(receiptKey (TxHash r), d)]" by (rule kv_ok_batch)
  with Cons.IH[of b1] Cons.prems d b1 show ?case by simp
qed simp

text \<open>What the database holds in each slot after the two batches.\<close>

fun put_transactions ::
  "('db, 'sd, 'x) geth_scheme \<Rightarrow> tx list \<Rightarrow> (slot \<Rightarrow> bytes outcome) \<Rightarrow> slot \<Rightarrow> bytes outcome" where
  "put_transactions X ts old (HashSlot h) =
     (case last_for (tx_Hash X) ts h of Some t \<Rightarrow> rlp_Encode_tx X t | None \<Rightarrow> old (HashSlot h))"
| "put_transactions X ts old s = old s"

fun put_receipts ::
  "('db, 'sd, 'x) geth_scheme \<Rightarrow> receipt list \<Rightarrow> (slot \<Rightarrow> bytes outcome) \<Rightarrow> slot \<Rightarrow> bytes outcome" where
  "put_receipts X rs old (ReceiptSlot h) =
     (case last_for TxHash rs h of Some r \<Rightarrow> rlp_Encode_receipt X r | None \<Rightarrow> old (ReceiptSlot h))"
| "put_receipts X rs old s = old s"

definition db_slots :: "('db, 'a) kvstore_scheme \<Rightarrow> 'db \<Rightarrow> slot \<Rightarrow> bytes outcome" where
  "db_slots X db s = db_Get X db (slot_key s)"

lemma get_after_batch_map:
  assumes "inj f"
  shows "get_after_batch old (map (\<lambda>x. (f (k x), g x)) xs) (f h)
     = (case last_for k xs h of Some x \<Rightarrow> Ret (g x) | None \<Rightarrow> old (f h))"
  by (simp add: get_after_batch_def map_of_rev_map[OF assms] split: option.splits)

lemma get_after_batch_miss: "key \<notin> fst ` set b \<Longrightarrow> get_after_batch old b key = old key"
  using map_of_eq_None_iff[of "rev b" key] by (simp add: get_after_batch_def)

lemma inj_receiptKey: "inj receiptKey"
  by (simp add: inj_def receiptKey_inject)

lemma writeTransactions_slots:
  assumes "kv_ok X" "writeTransactions X db w = (db', Ret u)" "valid_slot s"
  shows "db_slots X db' s = put_transactions X (w_transactions w) (db_slots X db) s"
proof -
  let ?ts = "w_transactions w" and ?e = "\<lambda>t. the_Ret (rlp_Encode_tx X t)"
  let ?b = "map (\<lambda>t. (hash_bytes (tx_Hash X t), ?e t)) ?ts"
  from assms(2) obtain b where b: "batch_transactions X [] ?ts = Ret b" "batch_Write X db b = (db', None)"
    by (auto simp: writeTransactions_def split: outcome.splits prod.splits option.splits)
  with assms(1) have enc: "b = ?b" "\<forall>t \<in> set ?ts. returned (rlp_Encode_tx X t)"
    using batch_transactions_Ret[OF assms(1) b(1)] by simp_all
  have get: "db_Get X db' = get_after_batch (db_Get X db) ?b"
    using kv_ok_Write[OF assms(1) b(2)] enc by simp
  show ?thesis
  proof (cases "\<exists>h. s = HashSlot h")
    case True
    then obtain h where s: "s = HashSlot h" by blast
    show ?thesis
    proof (cases "last_for (tx_Hash X) ?ts h")
      case None
      then show ?thesis
        by (simp add: s db_slots_def get get_after_batch_map[OF inj_hash_bytes])
    next
      case (Some t)
      with enc(2) have "rlp_Encode_tx X t = Ret (?e t)"
        by (auto dest!: last_for_Some intro: returned_the_Ret)
      with Some show ?thesis
        by (simp add: s db_slots_def get get_after_batch_map[OF inj_hash_bytes])
    qed
  next
    case False
    then have ne: "slot_key s \<noteq> hash_bytes h" for h
      using slot_key_inject[OF assms(3), of "HashSlot h"] by auto
    have "slot_key s \<notin> fst ` set ?b" by (auto simp: ne)
    with False show ?thesis by (cases s) (auto simp: db_slots_def get get_after_batch_miss)
  qed
qed

lemma writeReceipts_slots:
  assumes "kv_ok X" "writeReceipts X db w = (db', Ret u)" "valid_slot s"
  shows "db_slots X db' s = put_receipts X (w_receipts w) (db_slots X db) s"
proof -
  let ?rs = "w_receipts w" and ?e = "\<lambda>r. the_Ret (rlp_Encode_receipt X r)"
  let ?b = "map (\<lambda>r. (receiptKey (TxHash r), ?e r)) ?rs"
  from assms(2) obtain b where b: "batch_receipts X [] ?rs = Ret b" "batch_Write X db b = (db', None)"
    by (auto simp: writeReceipts_def split: outcome.splits prod.splits option.splits)
  with assms(1) have enc: "b = ?b" "\<forall>r \<in> set ?rs. returned (rlp_Encode_receipt X r)"
    using batch_receipts_Ret[OF assms(1) b(1)] by simp_all
  have get: "db_Get X db' = get_after_batch (db_Get X db) ?b"
    using kv_ok_Write[OF assms(1) b(2)] enc by simp
  show ?thesis
  proof (cases "\<exists>h. s = ReceiptSlot h")
    case True
    then obtain h where s: "s = ReceiptSlot h" by blast
    show ?thesis
    proof (cases "last_for TxHash ?rs h")
      case None
      then show ?thesis
        by (simp add: s db_slots_def get get_after_batch_map[OF inj_receiptKey])
    next
      case (Some r)
      with enc(2) have "rlp_Encode_receipt X r = Ret (?e r)"
        by (auto dest!: last_for_Some intro: returned_the_Ret)
      with Some show ?thesis
        by (simp add: s db_slots_def get get_after_batch_map[OF inj_receiptKey])
    qed
  next
    case False
    then have ne: "slot_key s \<noteq> receiptKey h" for h
      using slot_key_inject[OF assms(3), of "ReceiptSlot h"] by auto
    have "slot_key s \<notin> fst ` set ?b" by (auto simp: ne)
    with False show ?thesis by (cases s) (auto simp: db_slots_def get get_after_batch_miss)
  qed
qed


definition head_tx :: "'sd was \<Rightarrow> tx" where
  "head_tx w = (if w_transactions w \<noteq> [] then last (w_transactions w) else zero_tx)"

text \<open>What a successful commit leaves in each slot.\<close>

definition commit_slots ::
  "('db, 'sd, 'x) geth_scheme \<Rightarrow> 'sd was \<Rightarrow> hash \<Rightarrow> (slot \<Rightarrow> bytes outcome) \<Rightarrow> slot \<Rightarrow> bytes outcome" where
  "commit_slots X w root old =
     put_receipts X (w_receipts w) (put_transactions X (w_transactions w)
       (old(RootSlot := Ret (hash_bytes root), HeadSlot := Ret (hash_bytes (tx_Hash X (head_tx w))))))"

lemma commit_slots_simps [simp]:
  "commit_slots X w root old RootSlot = Ret (hash_bytes root)"
  "commit_slots X w root old HeadSlot = Ret (hash_bytes (tx_Hash X (head_tx w)))"
  "commit_slots X w root old (HashSlot h) =
     (case last_for (tx_Hash X) (w_transactions w) h of Some t \<Rightarrow> rlp_Encode_tx X t | None \<Rightarrow> old (HashSlot h))"
  "commit_slots X w root old (ReceiptSlot h) =
     (case last_for TxHash (w_receipts w) h of Some r \<Rightarrow> rlp_Encode_receipt X r | None \<Rightarrow> old (ReceiptSlot h))"
  "commit_slots X w root old (ErrorSlot h) = old (ErrorSlot h)"
  "commit_slots X w root old (BlockSlot i) = old (BlockSlot i)"
  by (simp_all add: commit_slots_def split: option.splits)

lemma was_Commit_frame:
  "was_Commit X db w = (db', w', res) \<Longrightarrow> \<exists>sd. w' = w\<lparr>w_ethState := sd\<rparr>"
  by (auto simp: was_Commit_def Let_def split: prod.splits outcome.splits option.splits)

lemma was_Commit_gasLimit: "was_Commit X db w = (db', w', res) \<Longrightarrow> w_gasLimit w' = w_gasLimit w"
  by (auto dest: was_Commit_frame)

text \<open>The steps of a successful commit, in order.\<close>

lemma write_ignores_ethState [simp]:
  "writeHead X db (w\<lparr>w_ethState := sd\<rparr>) = writeHead X db w"
  "writeTransactions X db (w\<lparr>w_ethState := sd\<rparr>) = writeTransactions X db w"
  "writeReceipts X db (w\<lparr>w_ethState := sd\<rparr>) = writeReceipts X db w"
  by (simp_all add: writeHead_def writeTransactions_def writeReceipts_def)

lemma was_Commit_steps:
  assumes "was_Commit X db w = (db', w', Ret root)"
  obtains sd db1 db2 db3 db4 where
    "sd_Commit X (w_ethState w) True = (sd, Ret root)" "w' = w\<lparr>w_ethState := sd\<rparr>"
    "trie_Commit X db sd root True = (db1, None)" "writeRoot X db1 root = (db2, None)"
    "writeHead X db2 w = (db3, None)" "writeTransactions X db3 w = (db4, Ret ())"
    "writeReceipts X db4 w = (db', Ret ())"
  using assms
  by (auto simp: was_Commit_def Let_def split: prod.splits outcome.splits option.splits)

text \<open>No transaction of the batch has the hash of a trie node.\<close>

definition hashes_apart :: "('db, 'sd, 'x) geth_scheme \<Rightarrow> (bytes \<Rightarrow> bool) \<Rightarrow> tx list \<Rightarrow> bool" where
  "hashes_apart X node ts \<longleftrightarrow> (\<forall>t \<in> set ts. \<not> node (hash_bytes (tx_Hash X t)))"

lemma db_slots_Put:
  assumes "kv_ok X" "db_Put X db (slot_key s) v = (db', None)" "valid_slot s" "valid_slot t"
  shows "db_slots X db' t = ((db_slots X db)(s := Ret v)) t"
  using assms by (simp add: db_slots_def kv_ok_Put slot_key_inject)

lemma was_Commit_slots:
  assumes "was_Commit X db w = (db', w', Ret root)" "kv_ok X" "trie_ok X node stored"
    and s: "valid_slot s" "\<not> node (slot_key s)"
  shows "db_slots X db' s = commit_slots X w root (db_slots X db) s"
proof -
  from assms(1) obtain sd db1 db2 db3 db4 where
    steps: "sd_Commit X (w_ethState w) True = (sd, Ret root)"
    "trie_Commit X db sd root True = (db1, None)" "writeRoot X db1 root = (db2, None)"
    "writeHead X db2 w = (db3, None)" "writeTransactions X db3 w = (db4, Ret ())"
    "writeReceipts X db4 w = (db', Ret ())"
    by (blast elim: was_Commit_steps)
  have 1: "db_slots X db1 s = db_slots X db s"
    using trie_ok_keeps[OF assms(3) steps(1,2) s(2)] by (simp add: db_slots_def)
  have 2: "db_slots X db2 s = ((db_slots X db1)(RootSlot := Ret (hash_bytes root))) s"
    using steps(3) s(1) assms(2) by (intro db_slots_Put) (simp_all add: writeRoot_def)
  have 3: "db_slots X db3 s = ((db_slots X db2)(HeadSlot := Ret (hash_bytes (tx_Hash X (head_tx w))))) s"
    using steps(4) s(1) assms(2) by (intro db_slots_Put) (simp_all add: writeHead_def head_tx_def Let_def)
  have 4: "db_slots X db4 s = put_transactions X (w_transactions w) (db_slots X db3) s"
    by (rule writeTransactions_slots[OF assms(2) steps(5) s(1)])
  have 5: "db_slots X db' s = put_receipts X (w_receipts w) (db_slots X db4) s"
    by (rule writeReceipts_slots[OF assms(2) steps(6) s(1)])
  show ?thesis
    using 1 2 3 4 5 by (cases s) (simp_all split: option.splits)
qed

lemma was_Commit_encoded:
  assumes "was_Commit X db w = (db', w', Ret root)" "kv_ok X"
  shows "t \<in> set (w_transactions w) \<Longrightarrow> returned (rlp_Encode_tx X t)"
    and "r \<in> set (w_receipts w) \<Longrightarrow> returned (rlp_Encode_receipt X r)"
proof -
  from assms(1) obtain db3 db4 where
    "writeTransactions X db3 w = (db4, Ret ())" "writeReceipts X db4 w = (db', Ret ())"
    by (blast elim: was_Commit_steps)
  then obtain b c where b: "batch_transactions X [] (w_transactions w) = Ret b"
    and c: "batch_receipts X [] (w_receipts w) = Ret c"
    by (auto simp: writeTransactions_def writeReceipts_def split: outcome.splits)
  show "t \<in> set (w_transactions w) \<Longrightarrow> returned (rlp_Encode_tx X t)"
    and "r \<in> set (w_receipts w) \<Longrightarrow> returned (rlp_Encode_receipt X r)"
    using batch_transactions_Ret[OF assms(2) b] batch_receipts_Ret[OF assms(2) c] by auto
qed

lemma was_Commit_stored:
  assumes "was_Commit X db w = (db', w', Ret root)" "kv_ok X" "trie_ok X node stored"
    and apart: "hashes_apart X node (w_transactions w)"
  shows "stored db' root (w_ethState w')"
proof -
  from assms(1) obtain sd db1 db2 db3 db4 where
    steps: "sd_Commit X (w_ethState w) True = (sd, Ret root)" "w' = w\<lparr>w_ethState := sd\<rparr>"
    "trie_Commit X db sd root True = (db1, None)" "writeRoot X db1 root = (db2, None)"
    "writeHead X db2 w = (db3, None)" "writeTransactions X db3 w = (db4, Ret ())"
    "writeReceipts X db4 w = (db', Ret ())"
    by (blast elim: was_Commit_steps)
  note node = trie_ok_node[OF assms(3)]
  have 1: "stored db1 root sd" by (rule trie_ok_commit[OF assms(3) steps(1,3)])
  have nodes: "\<not> node rootKey" "\<not> node headTxKey"
    using node by (simp_all add: length_rootKey length_headTxKey)
  have 2: "stored db2 root sd"
    using trie_ok_Put[OF assms(3) 1 nodes(1), of "hash_bytes root"] steps(4) by (simp add: writeRoot_def)
  have 3: "stored db3 root sd"
    using trie_ok_Put[OF assms(3) 2 nodes(2), of "hash_bytes (tx_Hash X (head_tx w))"] steps(5)
    by (simp add: writeHead_def head_tx_def Let_def)
  obtain b4 where b4: "batch_transactions X [] (w_transactions w) = Ret b4" "batch_Write X db3 b4 = (db4, None)"
    using steps(6) by (auto simp: writeTransactions_def split: outcome.splits prod.splits option.splits)
  have "\<forall>k \<in> fst ` set b4. \<not> node k"
    using batch_transactions_Ret[OF assms(2) b4(1)] apart by (auto simp: hashes_apart_def)
  then have 4: "stored db4 root sd" using trie_ok_Write[OF assms(3) 3] b4(2) by (metis fst_conv)
  obtain b5 where b5: "batch_receipts X [] (w_receipts w) = Ret b5" "batch_Write X db4 b5 = (db', None)"
    using steps(7) by (auto simp: writeReceipts_def split: outcome.splits prod.splits option.splits)
  have "\<forall>k \<in> fst ` set b5. \<not> node k"
    using batch_receipts_Ret[OF assms(2) b5(1)] node by (auto simp: length_receiptKey)
  then have "stored db' root sd" using trie_ok_Write[OF assms(3) 4] b5(2) by (metis fst_conv)
  then show ?thesis by (simp add: steps(2))
qed

end
