(* ===== verification/TxPool.thy ===== *)
theory TxPool
  imports Was
begin

text \<open>
  The transaction pool (\<^verbatim>\<open>src/state/txpool.go\<close>): a StateDB of its own on which transactions
  are tried before they are submitted.  \<^verbatim>\<open>NewTxPool\<close> sets no gas pool, so the pointer is nil
  until the first \<^verbatim>\<open>Reset\<close>.
\<close>

section \<open>The record and its operations\<close>

record 'sd txpool =
  p_ethState :: 'sd
  p_signer :: "signer option"
  p_chainConfig :: chain_config
  p_vmConfig :: vm_config
  p_gasLimit :: u64
  p_totalUsedGas :: u64
  p_gp :: "u64 option"

definition NewTxPool :: "'sd \<Rightarrow> signer option \<Rightarrow> chain_config \<Rightarrow> vm_config \<Rightarrow> u64 \<Rightarrow> 'sd txpool" where
  "NewTxPool sd signer cc vc gasLimit =
     \<lparr>p_ethState = sd, p_signer = signer, p_chainConfig = cc, p_vmConfig = vc, p_gasLimit = gasLimit,
      p_totalUsedGas = 0, p_gp = None\<rparr>"

definition pool_Reset ::
  "('db, 'sd, 'x) geth_scheme \<Rightarrow> 'db \<Rightarrow> 'sd txpool \<Rightarrow> hash \<Rightarrow> 'sd txpool \<times> error option" where
  "pool_Reset X db p root =
     (case sd_Reset X db (p_ethState p) root of
        (sd, Some e) \<Rightarrow> (p\<lparr>p_ethState := sd\<rparr>, Some e)
      | (sd, None) \<Rightarrow> (p\<lparr>p_ethState := sd, p_totalUsedGas := 0,
                        p_gp := Some (gp_AddGas X 0 (p_gasLimit p))\<rparr>, None))"

definition pool_CheckTx ::
  "('db, 'sd, 'x) geth_scheme \<Rightarrow> 'sd txpool \<Rightarrow> tx \<Rightarrow> 'sd txpool \<times> unit outcome" where
  "pool_CheckTx X p t =
     (case AsMessage X (p_signer p) t of
        Fail e \<Rightarrow> (p, Fail e)
      | Panic \<Rightarrow> (p, Panic)
      | Ret m \<Rightarrow>
          let context = \<lparr>ctx_GetHash = (\<lambda>_. 0), ctx_Origin = msg_From m, ctx_GasLimit = msg_Gas m,
                ctx_GasPrice = msg_GasPrice m, ctx_BlockNumber = 0, ctx_Time = None, ctx_Difficulty = None\<rparr>
          in case ApplyMessage X context (p_ethState p) (p_chainConfig p) (p_vmConfig p) m (p_gp p) of
               (sd, left, res) \<Rightarrow>
             let p = p\<lparr>p_ethState := sd, p_gp := set_pool (p_gp p) left\<rparr> in
             case res of
               Fail e \<Rightarrow> (p, Fail e)
             | Panic \<Rightarrow> (p, Panic)
             | Ret (_, gas, _) \<Rightarrow> (p\<lparr>p_totalUsedGas := p_totalUsedGas p + gas\<rparr>, Ret ()))"

definition pool_GetNonce :: "('db, 'sd, 'x) geth_scheme \<Rightarrow> 'sd txpool \<Rightarrow> address \<Rightarrow> u64" where
  "pool_GetNonce X p addr = sd_GetNonce X (p_ethState p) addr"

section \<open>Lemmas\<close>

definition pool_config :: "'sd txpool \<Rightarrow> signer option \<times> chain_config \<times> vm_config \<times> u64" where
  "pool_config p = (p_signer p, p_chainConfig p, p_vmConfig p, p_gasLimit p)"

lemma pool_Reset_None:
  assumes "pool_Reset X db p root = (p', None)"
  shows "p_totalUsedGas p' = 0" "p_gp p' = Some (gp_AddGas X 0 (p_gasLimit p))"
    "pool_config p' = pool_config p" "sd_Reset X db (p_ethState p) root = (p_ethState p', None)"
  using assms by (auto simp: pool_Reset_def pool_config_def split: prod.splits option.splits)

lemma pool_Reset_config [frame]: "pool_config (fst (pool_Reset X db p root)) = pool_config p"
  by (auto simp: pool_Reset_def pool_config_def split: prod.splits option.splits)

lemma pool_CheckTx_config [frame]: "pool_config (fst (pool_CheckTx X p t)) = pool_config p"
  by (auto simp: pool_CheckTx_def pool_config_def Let_def split: outcome.splits prod.splits)

text \<open>A transaction the pool refuses costs it no counted gas.\<close>

lemma pool_CheckTx_not_Ret:
  assumes "pool_CheckTx X p t = (p', res)" "\<not> returned res"
  shows "p_totalUsedGas p' = p_totalUsedGas p"
  using assms by (auto simp: pool_CheckTx_def Let_def split: outcome.splits prod.splits)

text \<open>
  The pool runs the same message as the write-ahead state does.  \<open>vm_blind X\<close> says that
  \<^verbatim>\<open>ApplyMessage\<close> reads neither the log position that \<^verbatim>\<open>Prepare\<close> sets nor the block
  hash, as far as its verdict goes (a contract can read the hash with BLOCKHASH: then the two
  runs may differ).
\<close>

definition vm_blind :: "('db, 'sd, 'x) geth_scheme \<Rightarrow> bool" where
  "vm_blind X \<longleftrightarrow> (\<forall>ctx g sd h b i cc vc m gp.
     snd (snd (ApplyMessage X (ctx\<lparr>ctx_GetHash := g\<rparr>) (sd_Prepare X sd h b i) cc vc m gp))
     = snd (snd (ApplyMessage X ctx sd cc vc m gp)))"

text \<open>The pool and the WAS hold the same account state, gas and configuration.\<close>

definition in_step :: "'sd txpool \<Rightarrow> 'sd was \<Rightarrow> bool" where
  "in_step p w \<longleftrightarrow> p_ethState p = w_ethState w \<and> p_gp p = w_gp w \<and> p_signer p = w_signer w
     \<and> p_chainConfig p = w_chainConfig w \<and> p_vmConfig p = w_vmConfig w"

lemma CheckTx_predicts_was:
  assumes "vm_blind X" "in_step p w" "w_totalUsedGas w = Some used"
  shows "snd (pool_CheckTx X p t) = snd (was_ApplyTransaction X w t i h)"
proof (cases "AsMessage X (w_signer w) t")
  case (Ret m)
  let ?c0 = "message_context 0 m"
  let ?run = "\<lambda>c sd. ApplyMessage X c sd (w_chainConfig w) (w_vmConfig w) m (w_gp w)"
  obtain sd1 gp1 r1 where r1: "?run ?c0 (w_ethState w) = (sd1, gp1, r1)" by (metis prod_cases3)
  obtain sd2 gp2 r2 where
    r2: "?run (?c0\<lparr>ctx_GetHash := \<lambda>_. h\<rparr>) (sd_Prepare X (w_ethState w) (tx_Hash X t) h i) = (sd2, gp2, r2)"
    by (metis prod_cases3)
  have "r2 = snd (snd (?run (?c0\<lparr>ctx_GetHash := \<lambda>_. h\<rparr>) (sd_Prepare X (w_ethState w) (tx_Hash X t) h i)))"
    by (simp only: r2 snd_conv)
  also have "\<dots> = snd (snd (?run ?c0 (w_ethState w)))"
    using assms(1) unfolding vm_blind_def by blast
  finally have "r2 = r1" by (simp add: r1)
  with r1 r2 Ret assms(2,3) show ?thesis
    by (simp add: in_step_def pool_CheckTx_def was_ApplyTransaction_def Let_def split: outcome.splits prod.splits)
qed (use assms(2) in \<open>simp_all add: in_step_def pool_CheckTx_def was_ApplyTransaction_def\<close>)

end
