(* ===== verification/StateCore.thy ===== *)
theory StateCore
  imports TxPool
begin

text \<open>
  The application state (\<^verbatim>\<open>src/state/state.go\<close>, \<^verbatim>\<open>src/state/types.go\<close>): the database, the
  committed StateDB, the write-ahead state, the transaction pool, and the operations on them.
  The mutex \<^verbatim>\<open>commitMutex\<close> is not in the record: each operation is one step of the model.
\<close>

section \<open>The record\<close>

text \<open>What a \<^verbatim>\<open>State\<close> holds before \<^verbatim>\<open>InitState\<close> has filled its three pointers, and after.\<close>

record 'db state0 =
  s_db :: 'db
  s_blockIndex :: int
  s_signer :: "signer option"
  s_chainConfig :: chain_config
  s_vmConfig :: vm_config

record ('db, 'sd) state = "'db state0" +
  s_ethState :: 'sd
  s_was :: "'sd was"
  s_txPool :: "'sd txpool"

definition chainID :: int where "chainID = 1"
definition gasLimit :: u64 where "gasLimit = 1000000000000000000"

section \<open>Opening a state\<close>

definition InitState ::
  "('db, 'sd, 'x) geth_scheme \<Rightarrow> 'db state0 \<Rightarrow> ('db, 'sd) state outcome" where
  "InitState X s =
     (let data = (case db_Get X (s_db s) rootKey of Ret d \<Rightarrow> d | _ \<Rightarrow> []);
          rootHash = (if data \<noteq> [] then BytesToHash X data else 0)
      in case sd_New X (s_db s) rootHash of
           Fail e \<Rightarrow> Fail e
         | Panic \<Rightarrow> Panic
         | Ret sd \<Rightarrow>
             (case NewWriteAheadState X (s_db s) rootHash (s_signer s) (s_chainConfig s) (s_vmConfig s) gasLimit of
                Fail e \<Rightarrow> Fail e
              | Panic \<Rightarrow> Panic
              | Ret w \<Rightarrow> Ret (state0.extend s \<lparr>s_ethState = sd, s_was = w,
                  s_txPool = NewTxPool (sd_Copy X sd) (s_signer s) (s_chainConfig s) (s_vmConfig s) gasLimit\<rparr>)))"

text \<open>
  \<^verbatim>\<open>resetWAS\<close> builds a new write-ahead state.  The composite literal names neither the signer nor
  the two configurations, so these fields get their zero values.
\<close>

definition resetWAS :: "('db, 'sd, 'x) geth_scheme \<Rightarrow> ('db, 'sd) state \<Rightarrow> ('db, 'sd) state" where
  "resetWAS X s = s\<lparr>s_was := \<lparr>w_ethState = sd_Copy X (s_ethState s), w_signer = None,
     w_chainConfig = \<lparr>cc_ChainID = None\<rparr>, w_vmConfig = \<lparr>vm_Tracer = False\<rparr>, w_gasLimit = gasLimit,
     w_txIndex = 0, w_transactions = [], w_receipts = [], w_allLogs = [], w_totalUsedGas = Some 0,
     w_gp = Some (gp_AddGas X 0 gasLimit)\<rparr>\<rparr>"

text \<open>\<^verbatim>\<open>int(limit.Cur)\<close>; the system call's result is an argument.\<close>

definition getFdLimit :: "u64 outcome \<Rightarrow> int outcome" where
  "getFdLimit Getrlimit =
     (case Getrlimit of Fail e \<Rightarrow> Fail e | Panic \<Rightarrow> Panic | Ret cur \<Rightarrow> Ret (sint cur))"

definition NewState ::
  "('db, 'sd, 'x) geth_scheme \<Rightarrow> u64 outcome \<Rightarrow> (string \<Rightarrow> int \<Rightarrow> int \<Rightarrow> 'db outcome) \<Rightarrow> string \<Rightarrow> int
   \<Rightarrow> ('db, 'sd) state outcome" where
  "NewState X Getrlimit NewLDBDatabase dbFile dbCache =
     (case getFdLimit Getrlimit of
        Fail e \<Rightarrow> Fail e
      | Panic \<Rightarrow> Panic
      | Ret handles \<Rightarrow>
          (case NewLDBDatabase dbFile dbCache handles of
             Fail e \<Rightarrow> Fail e
           | Panic \<Rightarrow> Panic
           | Ret db \<Rightarrow>
               let s = \<lparr>s_db = db, s_blockIndex = 0, s_signer = Some (EIP155Signer chainID),
                        s_chainConfig = \<lparr>cc_ChainID = Some chainID\<rparr>, s_vmConfig = \<lparr>vm_Tracer = True\<rparr>\<rparr>
               in case InitState X s of
                    Fail e \<Rightarrow> Fail e
                  | Panic \<Rightarrow> Panic
                  | Ret s \<Rightarrow> Ret (resetWAS X s)))"

section \<open>Reads\<close>

definition Exist :: "('db, 'sd, 'x) geth_scheme \<Rightarrow> ('db, 'sd) state \<Rightarrow> address \<Rightarrow> bool" where
  "Exist X s addr = sd_Exist X (s_ethState s) addr"

definition GetBalance :: "('db, 'sd, 'x) geth_scheme \<Rightarrow> ('db, 'sd) state \<Rightarrow> address \<Rightarrow> int" where
  "GetBalance X s addr = sd_GetBalance X (s_ethState s) addr"

definition GetNonce :: "('db, 'sd, 'x) geth_scheme \<Rightarrow> ('db, 'sd) state \<Rightarrow> address \<Rightarrow> u64" where
  "GetNonce X s addr = sd_GetNonce X (w_ethState (s_was s)) addr"

definition GetPoolNonce :: "('db, 'sd, 'x) geth_scheme \<Rightarrow> ('db, 'sd) state \<Rightarrow> address \<Rightarrow> u64" where
  "GetPoolNonce X s addr = sd_GetNonce X (p_ethState (s_txPool s)) addr"

definition GetBlockIndex :: "('db, 'sd) state \<Rightarrow> int" where
  "GetBlockIndex s = s_blockIndex s"

definition get_block :: "('db, 'sd, 'x) geth_scheme \<Rightarrow> bytes outcome \<Rightarrow> block outcome" where
  "get_block X got =
     (case got of Fail e \<Rightarrow> Fail e | Panic \<Rightarrow> Panic | Ret data \<Rightarrow> ProtoUnmarshal X data)"

definition GetBlock :: "('db, 'sd, 'x) geth_scheme \<Rightarrow> ('db, 'sd) state \<Rightarrow> hash \<Rightarrow> block outcome" where
  "GetBlock X s h = get_block X (db_Get X (s_db s) (hash_bytes h))"

definition GetBlockById :: "('db, 'sd, 'x) geth_scheme \<Rightarrow> ('db, 'sd) state \<Rightarrow> int \<Rightarrow> block outcome" where
  "GetBlockById X s i = get_block X (db_Get X (s_db s) (blockKey i))"

definition GetTransaction :: "('db, 'sd, 'x) geth_scheme \<Rightarrow> ('db, 'sd) state \<Rightarrow> hash \<Rightarrow> tx outcome" where
  "GetTransaction X s h =
     (case db_Get X (s_db s) (hash_bytes h) of
        Fail e \<Rightarrow> Fail e | Panic \<Rightarrow> Panic | Ret data \<Rightarrow> rlp_DecodeBytes_tx X data)"

definition GetReceipt :: "('db, 'sd, 'x) geth_scheme \<Rightarrow> ('db, 'sd) state \<Rightarrow> hash \<Rightarrow> receipt outcome" where
  "GetReceipt X s h =
     (case db_Get X (s_db s) (receiptKey h) of
        Fail e \<Rightarrow> Fail e | Panic \<Rightarrow> Panic | Ret data \<Rightarrow> rlp_DecodeBytes_receipt X data)"

definition txerror_Marshal :: "('db, 'sd, 'x) geth_scheme \<Rightarrow> tx_error \<Rightarrow> bytes outcome" where
  "txerror_Marshal X te = json_Encode_txerror X te"

definition txerror_Unmarshal :: "('db, 'sd, 'x) geth_scheme \<Rightarrow> bytes \<Rightarrow> tx_error outcome" where
  "txerror_Unmarshal X data = json_Decode_txerror X data"

definition GetFailedTx :: "('db, 'sd, 'x) geth_scheme \<Rightarrow> ('db, 'sd) state \<Rightarrow> hash \<Rightarrow> tx_error outcome" where
  "GetFailedTx X s h =
     (case db_Get X (s_db s) (errorKey h) of
        Fail e \<Rightarrow> Fail e | Panic \<Rightarrow> Panic | Ret data \<Rightarrow> txerror_Unmarshal X data)"

text \<open>\<^verbatim>\<open>Call\<close> runs on a copy; its log lines dereference \<^verbatim>\<open>callMsg.To()\<close>.\<close>

definition Call :: "('db, 'sd, 'x) geth_scheme \<Rightarrow> ('db, 'sd) state \<Rightarrow> msg \<Rightarrow> bytes outcome" where
  "Call X s m =
     (let context = \<lparr>ctx_GetHash = (\<lambda>_. 0), ctx_Origin = msg_From m, ctx_GasLimit = msg_Gas m,
            ctx_GasPrice = msg_GasPrice m, ctx_BlockNumber = 0, ctx_Time = None, ctx_Difficulty = None\<rparr>
      in if msg_To m = None then Panic
         else case ApplyMessage X context (sd_Copy X (w_ethState (s_was s))) (s_chainConfig s)
                     (s_vmConfig s) m (Some (gp_AddGas X 0 gasLimit)) of
                (_, _, Fail e) \<Rightarrow> Fail e
              | (_, _, Panic) \<Rightarrow> Panic
              | (_, _, Ret (res, _, _)) \<Rightarrow> Ret res)"

section \<open>Applying transactions\<close>

definition CheckTx ::
  "('db, 'sd, 'x) geth_scheme \<Rightarrow> ('db, 'sd) state \<Rightarrow> tx \<Rightarrow> ('db, 'sd) state \<times> unit outcome" where
  "CheckTx X s t = (case pool_CheckTx X (s_txPool s) t of (p, res) \<Rightarrow> (s\<lparr>s_txPool := p\<rparr>, res))"

definition ApplyTransaction ::
  "('db, 'sd, 'x) geth_scheme \<Rightarrow> ('db, 'sd) state \<Rightarrow> bytes \<Rightarrow> int \<Rightarrow> hash
   \<Rightarrow> ('db, 'sd) state \<times> unit outcome" where
  "ApplyTransaction X s txBytes txIndex blockHash =
     (case rlp_Decode_tx X txBytes of
        Fail e \<Rightarrow> (s, Fail e)
      | Panic \<Rightarrow> (s, Panic)
      | Ret t \<Rightarrow> (case was_ApplyTransaction X (s_was s) t txIndex blockHash of
                   (w, res) \<Rightarrow> (s\<lparr>s_was := w\<rparr>, res)))"

text \<open>The record of a transaction that \<^verbatim>\<open>ApplyMessage\<close> refused; errors of the write are only logged.\<close>

definition put_failed_tx ::
  "('db, 'sd, 'x) geth_scheme \<Rightarrow> 'db \<Rightarrow> tx \<Rightarrow> error \<Rightarrow> 'db" where
  "put_failed_tx X db t err =
     fst (db_Put X db (errorKey (tx_Hash X t))
       (case txerror_Marshal X \<lparr>te_Tx = t, te_Error = error_text err\<rparr> of Ret b \<Rightarrow> b | _ \<Rightarrow> []))"

text \<open>
  The unexported \<^verbatim>\<open>applyTransaction\<close> of \<^verbatim>\<open>ProcessBlock\<close>.  It uses the signer and the
  configuration of the \<^verbatim>\<open>State\<close>, not those of the write-ahead state.
\<close>

definition apply_transaction ::
  "('db, 'sd, 'x) geth_scheme \<Rightarrow> ('db, 'sd) state \<Rightarrow> bytes \<Rightarrow> int \<Rightarrow> hash
   \<Rightarrow> ('db, 'sd) state \<times> unit outcome" where
  "apply_transaction X s txBytes txIndex blockHash =
     (case rlp_Decode_tx X txBytes of
        Fail e \<Rightarrow> (s, Fail e)
      | Panic \<Rightarrow> (s, Panic)
      | Ret t \<Rightarrow>
     (case AsMessage X (s_signer s) t of
        Fail e \<Rightarrow> (s, Fail e)
      | Panic \<Rightarrow> (s, Panic)
      | Ret m \<Rightarrow>
          let context = \<lparr>ctx_GetHash = (\<lambda>_. blockHash), ctx_Origin = msg_From m, ctx_GasLimit = msg_Gas m,
                ctx_GasPrice = msg_GasPrice m, ctx_BlockNumber = 0, ctx_Time = None, ctx_Difficulty = None\<rparr>;
              w = s_was s;
              sd = sd_Prepare X (w_ethState w) (tx_Hash X t) blockHash txIndex
          in case ApplyMessage X context sd (s_chainConfig s) (s_vmConfig s) m (w_gp w) of (sd, left, res) \<Rightarrow>
             let w = w\<lparr>w_ethState := sd, w_gp := set_pool (w_gp w) left\<rparr> in
             case res of
               Fail e \<Rightarrow> (s\<lparr>s_was := w, s_db := put_failed_tx X (s_db s) t e\<rparr>, Fail e)
             | Panic \<Rightarrow> (s\<lparr>s_was := w\<rparr>, Panic)
             | Ret (_, gas, failed) \<Rightarrow>
                 case w_totalUsedGas w of
                   None \<Rightarrow> (s\<lparr>s_was := w\<rparr>, Panic)
                 | Some used \<Rightarrow>
                     let used = used + uint gas;
                         (sd, root) = sd_IntermediateRoot X sd True;
                         r = tx_receipt X root failed (BigintToUInt64 used) gas m (ctx_Origin context) t sd
                     in (s\<lparr>s_was := w\<lparr>w_ethState := sd, w_totalUsedGas := Some used,
                             w_txIndex := w_txIndex w + 1,
                             w_transactions := w_transactions w @ [t],
                             w_receipts := w_receipts w @ [r],
                             w_allLogs := w_allLogs w @ log_list r\<rparr>\<rparr>, Ret ())))"

section \<open>Committing\<close>

text \<open>
  \<^verbatim>\<open>Commit\<close> returns the root together with the error when one of the three resets fails; the
  operations done before the failure stay done.
\<close>

definition Commit ::
  "('db, 'sd, 'x) geth_scheme \<Rightarrow> ('db, 'sd) state \<Rightarrow> ('db, 'sd) state \<times> (hash \<times> error option) outcome" where
  "Commit X s =
     (case was_Commit X (s_db s) (s_was s) of
        (db, w, res) \<Rightarrow>
          let s = s\<lparr>s_db := db, s_was := w\<rparr> in
          case res of
            Fail e \<Rightarrow> (s, Ret (0, Some e))
          | Panic \<Rightarrow> (s, Panic)
          | Ret root \<Rightarrow>
              (case sd_Reset X db (s_ethState s) root of (sd, err) \<Rightarrow>
                 let s = s\<lparr>s_ethState := sd\<rparr> in
                 case err of
                   Some e \<Rightarrow> (s, Ret (root, Some e))
                 | None \<Rightarrow>
                     (case was_Reset X db (s_was s) root of (w, err) \<Rightarrow>
                        let s = s\<lparr>s_was := w\<rparr> in
                        case err of
                          Some e \<Rightarrow> (s, Ret (root, Some e))
                        | None \<Rightarrow>
                            (case pool_Reset X db (s_txPool s) root of (p, err) \<Rightarrow>
                               (s\<lparr>s_txPool := p\<rparr>, Ret (root, err))))))"

text \<open>The loop of \<^verbatim>\<open>ProcessBlock\<close>: an error of a transaction is logged, a panic ends the call.\<close>

fun apply_block_transactions ::
  "('db, 'sd, 'x) geth_scheme \<Rightarrow> ('db, 'sd) state \<Rightarrow> int \<Rightarrow> hash \<Rightarrow> bytes list
   \<Rightarrow> ('db, 'sd) state \<times> unit outcome" where
  "apply_block_transactions X s i h [] = (s, Ret ())"
| "apply_block_transactions X s i h (b # bs) =
     (case apply_transaction X s b i h of
        (s, Panic) \<Rightarrow> (s, Panic)
      | (s, _) \<Rightarrow> apply_block_transactions X s (i + 1) h bs)"

text \<open>\<^verbatim>\<open>ProcessBlock\<close> stamps a block without a creation time; \<open>now\<close> is \<^verbatim>\<open>time.Now().Unix()\<close>.\<close>

definition stamp_block :: "int \<Rightarrow> block \<Rightarrow> block" where
  "stamp_block now blk = (if blk_CreatedTime blk = 0 then blk\<lparr>blk_CreatedTime := now\<rparr> else blk)"

definition ProcessBlock ::
  "('db, 'sd, 'x) geth_scheme \<Rightarrow> int \<Rightarrow> ('db, 'sd) state \<Rightarrow> block
   \<Rightarrow> ('db, 'sd) state \<times> (hash \<times> error option) outcome" where
  "ProcessBlock X now s blk =
     (let blockIndex = blk_Index blk;
          h = fst (BlockHash X blk);
          blockHash = BytesToHash X h;
          blk = stamp_block now blk;
          data = fst (ProtoMarshal X blk);
          s = s\<lparr>s_blockIndex := blockIndex\<rparr>
      in case db_Put X (s_db s) h data of
           (db, Some e) \<Rightarrow> (s\<lparr>s_db := db\<rparr>, Ret (0, Some e))
         | (db, None) \<Rightarrow>
             (case db_Put X db (blockKey blockIndex) data of
                (db, Some e) \<Rightarrow> (s\<lparr>s_db := db\<rparr>, Ret (0, Some e))
              | (db, None) \<Rightarrow>
                  (case apply_block_transactions X (s\<lparr>s_db := db\<rparr>) 0 blockHash (blk_Transactions blk) of
                     (s, Ret _) \<Rightarrow> Commit X s
                   | (s, Fail e) \<Rightarrow> Commit X s
                   | (s, Panic) \<Rightarrow> (s, Panic))))"

section \<open>Genesis accounts\<close>

record account =
  acc_Code :: string
  acc_Storage :: "(string \<times> string) list"
  acc_Balance :: string

text \<open>\<^verbatim>\<open>AccountMap\<close>: a Go map is ranged in any order, so it is the list of its entries in that order.\<close>

type_synonym account_map = "(string \<times> account) list"

definition set_storage ::
  "('db, 'sd, 'x) geth_scheme \<Rightarrow> address \<Rightarrow> (string \<times> string) list \<Rightarrow> 'sd \<Rightarrow> 'sd" where
  "set_storage X addr kvs sd =
     fold (\<lambda>(k, v) sd. sd_SetState X sd addr (HexToHash X k) (HexToHash X v)) kvs sd"

fun create_accounts ::
  "('db, 'sd, 'x) geth_scheme \<Rightarrow> ('db, 'sd) state \<Rightarrow> account_map \<Rightarrow> ('db, 'sd) state \<times> unit outcome" where
  "create_accounts X s [] = (s, Ret ())"
| "create_accounts X s ((addr, acc) # rest) =
     (let address = HexToAddress X addr in
      if Exist X s address then create_accounts X s rest
      else case MustParseBig256 X (acc_Balance acc) of
             Panic \<Rightarrow> (s, Panic)
           | Fail e \<Rightarrow> (s, Fail e)
           | Ret bal \<Rightarrow>
               let sd = sd_AddBalance X (w_ethState (s_was s)) address bal;
                   sd = sd_SetCode X sd address (Hex2Bytes X (acc_Code acc));
                   sd = set_storage X address (acc_Storage acc) sd
               in create_accounts X (s\<lparr>s_was := (s_was s)\<lparr>w_ethState := sd\<rparr>\<rparr>) rest)"

definition CreateAccounts ::
  "('db, 'sd, 'x) geth_scheme \<Rightarrow> ('db, 'sd) state \<Rightarrow> account_map
   \<Rightarrow> ('db, 'sd) state \<times> error option outcome" where
  "CreateAccounts X s accounts =
     (case create_accounts X s accounts of
        (s, Panic) \<Rightarrow> (s, Panic)
      | (s, Fail e) \<Rightarrow> (s, Fail e)
      | (s, Ret _) \<Rightarrow> (case Commit X s of
                         (s, Ret (_, err)) \<Rightarrow> (s, Ret err)
                       | (s, Fail e) \<Rightarrow> (s, Fail e)
                       | (s, Panic) \<Rightarrow> (s, Panic)))"

end
