(* ===== verification/Demo.thy ===== *)
theory Demo
  imports Geth
begin

text \<open>
  A small concrete instance of the external libraries, \<open>demo\<close>, that meets every contract of
  \<open>Geth\<close>: a key-value map with a trie table, accounts with a nonce and a balance, an
  \<^verbatim>\<open>ApplyMessage\<close> that checks the nonce and charges 21000 gas, and codecs for a family of
  transactions, receipts and blocks.  It is only used to show, at concrete inputs, that the
  hypotheses of the theorems can hold.
\<close>

section \<open>Database and accounts\<close>

record demo_sd =
  d_nonce :: "address \<Rightarrow> u64"
  d_bal :: "address \<Rightarrow> int"
  d_seq :: nat

record demo_db =
  d_kv :: "bytes \<Rightarrow> bytes outcome"
  d_tries :: "hash \<Rightarrow> demo_sd option"

definition demo_sd0 :: demo_sd where
  "demo_sd0 = \<lparr>d_nonce = (\<lambda>_. 0), d_bal = (\<lambda>_. 0), d_seq = 0\<rparr>"

definition demo_db0 :: demo_db where
  "demo_db0 = \<lparr>d_kv = (\<lambda>_. Fail (LibError ''leveldb: not found'')), d_tries = (\<lambda>_. None)\<rparr>"

fun demo_open :: "demo_db \<Rightarrow> hash \<Rightarrow> demo_sd outcome" where
  "demo_open db r = (case d_tries db r of
     Some sd \<Rightarrow> Ret sd
   | None \<Rightarrow> if r = 0 then Ret demo_sd0 else Fail (LibError ''missing trie node''))"

fun demo_reset :: "demo_db \<Rightarrow> demo_sd \<Rightarrow> hash \<Rightarrow> demo_sd \<times> error option" where
  "demo_reset db sd r = (case demo_open db r of
     Ret sd' \<Rightarrow> (sd', None) | Fail e \<Rightarrow> (sd, Some e) | Panic \<Rightarrow> (sd, None))"

fun demo_write :: "demo_db \<Rightarrow> batch \<Rightarrow> demo_db \<times> error option" where
  "demo_write db [] = (db, None)"
| "demo_write db ((k, v) # b) = demo_write (db\<lparr>d_kv := (d_kv db)(k := Ret v)\<rparr>) b"

definition demo_root :: "demo_sd \<Rightarrow> hash" where
  "demo_root sd = of_nat (d_seq sd) + 1"

section \<open>Messages\<close>

definition demo_message :: "tx \<Rightarrow> msg" where
  "demo_message t = \<lparr>msg_From = word_of_int (tx_R t), msg_To = tx_To t, msg_Nonce = tx_Nonce t,
     msg_Value = tx_Value t, msg_Gas = tx_Gas t, msg_GasPrice = tx_GasPrice t, msg_Data = tx_Data t,
     msg_CheckNonce = True\<rparr>"

fun demo_AsMessage :: "signer option \<Rightarrow> tx \<Rightarrow> msg outcome" where
  "demo_AsMessage None t = Panic"
| "demo_AsMessage (Some s) t = Ret (demo_message t)"

definition demo_ApplyMessage ::
  "vm_context \<Rightarrow> demo_sd \<Rightarrow> chain_config \<Rightarrow> vm_config \<Rightarrow> msg \<Rightarrow> u64 option
   \<Rightarrow> demo_sd \<times> u64 \<times> (bytes \<times> u64 \<times> bool) outcome" where
  "demo_ApplyMessage ctx sd cc vc m gp =
     (if msg_CheckNonce m \<and> msg_Nonce m \<noteq> d_nonce sd (msg_From m)
      then (sd, the gp, Fail (LibError ''nonce too low''))
      else case gp of
        None \<Rightarrow> (sd, 0, Panic)
      | Some g \<Rightarrow>
          (sd\<lparr>d_nonce := (d_nonce sd)(msg_From m := d_nonce sd (msg_From m) + 1), d_seq := d_seq sd + 1\<rparr>,
           g - 21000, Ret ([], 21000, False)))"

section \<open>Codecs\<close>

definition demo_tx :: "8 word \<Rightarrow> tx" where
  "demo_tx n = \<lparr>tx_Nonce = ucast n, tx_GasPrice = 1, tx_Gas = 21000, tx_To = Some 5, tx_Value = 3,
     tx_Data = [], tx_V = 37, tx_R = 9, tx_S = 7 + uint n\<rparr>"

definition demo_receipt :: "8 word \<Rightarrow> 8 word \<Rightarrow> receipt" where
  "demo_receipt n k = \<lparr>PostState = hash_bytes (2 + ucast n), Status = 1,
     CumulativeGasUsed = 21000 * ucast k, Bloom = 0, Logs = None, TxHash = 7 + ucast n,
     ContractAddress = 0, GasUsed = 21000\<rparr>"

definition demo_error :: "8 word \<Rightarrow> tx_error" where
  "demo_error n = \<lparr>te_Tx = demo_tx n, te_Error = ''nonce too low''\<rparr>"

definition demo_block :: "8 word \<Rightarrow> 8 word \<Rightarrow> 8 word list \<Rightarrow> block" where
  "demo_block i c ns = \<lparr>blk_Index = uint i, blk_RoundReceived = 0, blk_CreatedTime = uint c,
     blk_Hash = [], blk_Transactions = map (\<lambda>n. [193, n]) ns\<rparr>"

fun demo_decode_tx :: "bytes \<Rightarrow> tx outcome" where
  "demo_decode_tx [c, n] = (if c = 193 then Ret (demo_tx n) else Fail (LibError ''rlp''))"
| "demo_decode_tx _ = Fail (LibError ''rlp'')"

definition demo_encode_tx :: "tx \<Rightarrow> bytes outcome" where
  "demo_encode_tx t = (let n = ucast (tx_Nonce t) in
     if t = demo_tx n then Ret [193, n] else Fail (LibError ''rlp''))"

fun demo_decode_receipt :: "bytes \<Rightarrow> receipt outcome" where
  "demo_decode_receipt [n, k] = Ret (demo_receipt n k)"
| "demo_decode_receipt _ = Fail (LibError ''rlp'')"

definition demo_encode_receipt :: "receipt \<Rightarrow> bytes outcome" where
  "demo_encode_receipt r = (let n = ucast (TxHash r - 7); k = ucast (CumulativeGasUsed r div 21000) in
     if same_receipt (demo_receipt n k) r then Ret [n, k] else Fail (LibError ''rlp''))"

fun demo_decode_error :: "bytes \<Rightarrow> tx_error outcome" where
  "demo_decode_error [n] = Ret (demo_error n)"
| "demo_decode_error _ = Fail (LibError ''json'')"

definition demo_encode_error :: "tx_error \<Rightarrow> bytes outcome" where
  "demo_encode_error te = (let n = ucast (tx_Nonce (te_Tx te)) in
     if te = demo_error n then Ret [n] else Fail (LibError ''json''))"

fun demo_decode_block :: "bytes \<Rightarrow> block outcome" where
  "demo_decode_block (i # c # ns) = Ret (demo_block i c ns)"
| "demo_decode_block _ = Fail (LibError ''proto'')"

definition demo_encode_block :: "block \<Rightarrow> bytes \<times> error option" where
  "demo_encode_block b =
     (let i = word_of_int (blk_Index b); c = word_of_int (blk_CreatedTime b);
          ns = map last (blk_Transactions b)
      in if b = demo_block i c ns then (i # c # ns, None) else ([], Some (LibError ''proto'')))"

definition demo_BytesToHash :: "bytes \<Rightarrow> hash" where
  "demo_BytesToHash b = horner_sum of_bool 2 (map (\<lambda>n. bit (b ! (31 - n div 8)) (n mod 8)) [0..<256])"

definition demo_BlockHash :: "block \<Rightarrow> bytes \<times> error option" where
  "demo_BlockHash b = (hash_bytes (1000 + word_of_int (blk_Index b)), None)"

definition demo :: "(demo_db, demo_sd) geth" where
  "demo = \<lparr>
     db_Get = d_kv,
     db_Put = (\<lambda>db k v. (db\<lparr>d_kv := (d_kv db)(k := Ret v)\<rparr>, None)),
     batch_Put = (\<lambda>b k v. Ret (b @ [(k, v)])),
     batch_Write = demo_write,
     sd_New = demo_open, sd_Reset = demo_reset, sd_Copy = id,
     sd_Prepare = (\<lambda>sd _ _ _. sd), sd_IntermediateRoot = (\<lambda>sd _. (sd, demo_root sd)),
     sd_GetLogs = (\<lambda>_ _. None), sd_Commit = (\<lambda>sd _. (sd, Ret (demo_root sd))),
     trie_Commit = (\<lambda>db sd r _. (db\<lparr>d_tries := (d_tries db)(r := Some sd)\<rparr>, None)),
     sd_Exist = (\<lambda>sd a. d_nonce sd a \<noteq> 0 \<or> d_bal sd a \<noteq> 0), sd_GetBalance = d_bal, sd_GetNonce = d_nonce,
     sd_AddBalance = (\<lambda>sd a v. sd\<lparr>d_bal := (d_bal sd)(a := d_bal sd a + v)\<rparr>),
     sd_SetCode = (\<lambda>sd _ _. sd), sd_SetState = (\<lambda>sd _ _ _. sd),
     ApplyMessage = demo_ApplyMessage, gp_AddGas = (+), AsMessage = demo_AsMessage,
     tx_Hash = (\<lambda>t. word_of_int (tx_S t)),
     NewReceipt = (\<lambda>root failed c. \<lparr>PostState = root, Status = (if failed then 0 else 1),
       CumulativeGasUsed = c, Bloom = 0, Logs = None, TxHash = 0, ContractAddress = 0, GasUsed = 0\<rparr>),
     CreateBloom = (\<lambda>_. 0), CreateAddress = (\<lambda>a n. a + ucast n),
     rlp_Decode_tx = demo_decode_tx, rlp_DecodeBytes_tx = demo_decode_tx, rlp_Encode_tx = demo_encode_tx,
     rlp_Encode_receipt = demo_encode_receipt, rlp_DecodeBytes_receipt = demo_decode_receipt,
     json_Encode_txerror = demo_encode_error, json_Decode_txerror = demo_decode_error,
     BlockHash = demo_BlockHash, ProtoMarshal = demo_encode_block, ProtoUnmarshal = demo_decode_block,
     BytesToHash = demo_BytesToHash, HexToHash = (\<lambda>s. of_nat (length s)),
     HexToAddress = (\<lambda>s. of_nat (length s)), Hex2Bytes = str_bytes,
     MustParseBig256 = (\<lambda>s. if s = ''x'' then Panic else Ret (int (length s)))\<rparr>"

lemma demo_sel [simp]:
  "db_Get demo = d_kv"
  "db_Put demo = (\<lambda>db k v. (db\<lparr>d_kv := (d_kv db)(k := Ret v)\<rparr>, None))"
  "batch_Put demo = (\<lambda>b k v. Ret (b @ [(k, v)]))"
  "batch_Write demo = demo_write"
  "sd_New demo = demo_open"
  "sd_Reset demo = demo_reset"
  "sd_Copy demo = id"
  "sd_Prepare demo = (\<lambda>sd _ _ _. sd)"
  "sd_IntermediateRoot demo = (\<lambda>sd _. (sd, demo_root sd))"
  "sd_GetLogs demo = (\<lambda>_ _. None)"
  "sd_Commit demo = (\<lambda>sd _. (sd, Ret (demo_root sd)))"
  "trie_Commit demo = (\<lambda>db sd r _. (db\<lparr>d_tries := (d_tries db)(r := Some sd)\<rparr>, None))"
  "sd_Exist demo = (\<lambda>sd a. d_nonce sd a \<noteq> 0 \<or> d_bal sd a \<noteq> 0)"
  "sd_GetBalance demo = d_bal"
  "sd_GetNonce demo = d_nonce"
  "sd_AddBalance demo = (\<lambda>sd a v. sd\<lparr>d_bal := (d_bal sd)(a := d_bal sd a + v)\<rparr>)"
  "sd_SetCode demo = (\<lambda>sd _ _. sd)"
  "sd_SetState demo = (\<lambda>sd _ _ _. sd)"
  "ApplyMessage demo = demo_ApplyMessage"
  "gp_AddGas demo = (+)"
  "AsMessage demo = demo_AsMessage"
  "tx_Hash demo = (\<lambda>t. word_of_int (tx_S t))"
  "NewReceipt demo = (\<lambda>root failed c. \<lparr>PostState = root, Status = (if failed then 0 else 1), CumulativeGasUsed = c, Bloom = 0, Logs = None, TxHash = 0, ContractAddress = 0, GasUsed = 0\<rparr>)"
  "CreateBloom demo = (\<lambda>_. 0)"
  "CreateAddress demo = (\<lambda>a n. a + ucast n)"
  "rlp_Decode_tx demo = demo_decode_tx"
  "rlp_DecodeBytes_tx demo = demo_decode_tx"
  "rlp_Encode_tx demo = demo_encode_tx"
  "rlp_Encode_receipt demo = demo_encode_receipt"
  "rlp_DecodeBytes_receipt demo = demo_decode_receipt"
  "json_Encode_txerror demo = demo_encode_error"
  "json_Decode_txerror demo = demo_decode_error"
  "BlockHash demo = demo_BlockHash"
  "ProtoMarshal demo = demo_encode_block"
  "ProtoUnmarshal demo = demo_decode_block"
  "BytesToHash demo = demo_BytesToHash"
  "HexToHash demo = (\<lambda>s. of_nat (length s))"
  "HexToAddress demo = (\<lambda>s. of_nat (length s))"
  "Hex2Bytes demo = str_bytes"
  "MustParseBig256 demo = (\<lambda>s. if s = ''x'' then Panic else Ret (int (length s)))"
  by (simp_all add: demo_def)

text \<open>The trie table as the \<open>stored\<close> predicate of the contract; the demo stores no node in the map.\<close>

definition demo_stored :: "demo_db \<Rightarrow> hash \<Rightarrow> demo_sd \<Rightarrow> bool" where
  "demo_stored db r sd \<longleftrightarrow> d_tries db r = Some sd"

section \<open>The contracts hold\<close>

lemma demo_write_get:
  "demo_write db b = (db', e) \<Longrightarrow> d_kv db' = get_after_batch (d_kv db) b"
proof (induction b arbitrary: db rule: list.induct)
  case (Cons kv b)
  obtain k v where kv: "kv = (k, v)" by fastforce
  with Cons.prems have "demo_write (db\<lparr>d_kv := (d_kv db)(k := Ret v)\<rparr>) b = (db', e)" by simp
  then have "d_kv db' = get_after_batch ((d_kv db)(k := Ret v)) b"
    using Cons.IH[of "db\<lparr>d_kv := (d_kv db)(k := Ret v)\<rparr>"] by (simp del: fun_upd_apply)
  then show ?case by (auto simp: kv get_after_batch_def map_add_def fun_eq_iff split: option.splits)
qed (simp add: get_after_batch_def fun_eq_iff)

lemma demo_write_ok [simp]: "snd (demo_write db b) = None" "d_tries (fst (demo_write db b)) = d_tries db"
  by (induction db b rule: demo_write.induct) simp_all

lemma demo_kv_ok: "kv_ok demo"
  by (auto simp: kv_ok_def demo_write_get)

lemma demo_trie_ok: "trie_ok demo (\<lambda>_. False) demo_stored"
  by (auto simp: trie_ok_def demo_stored_def same_accounts_def)

lemma demo_receipt_ok: "receipt_ok demo"
  by (simp add: receipt_ok_def)

lemma demo_codec_ok: "codec_ok demo"
  by (auto simp: codec_ok_def demo_encode_tx_def demo_encode_receipt_def demo_encode_error_def
      demo_encode_block_def Let_def split: if_splits)

lemma demo_nil_signer: "nil_signer_panics demo"
  by (simp add: nil_signer_panics_def)

lemma demo_copy_ok: "copy_ok demo"
  by (simp add: copy_ok_def)

lemma demo_BytesToHash_bytes [simp]: "demo_BytesToHash (hash_bytes h) = h"
proof -
  have "map (\<lambda>n. bit (hash_bytes h ! (31 - n div 8)) (n mod 8)) [0..<256] = map (bit h) [0..<256]"
    by (rule map_cong) (simp_all add: bit_hash_bytes)
  then have "demo_BytesToHash (hash_bytes h) = take_bit 256 h"
    by (simp only: demo_BytesToHash_def horner_sum_bit_eq_take_bit)
  also have "\<dots> = h" by (rule bit_word_eqI) (simp add: bit_take_bit_iff)
  finally show ?thesis .
qed

lemma demo_hash_ok: "hash_ok demo"
  by (simp add: hash_ok_def)

lemma demo_balance_ok: "balance_ok demo"
  by (auto simp: balance_ok_def)

end
