(* ===== verification/StateProps.thy ===== *)
theory StateProps
  imports StateCore Demo "HOL-Library.Multiset"
begin

text \<open>
  Lemmas and properties of the application state: what one transaction does, what a commit does,
  the invariant of every reachable state, and what the reads return after a commit.
\<close>

section \<open>One transaction of a block\<close>

text \<open>The three ways \<^verbatim>\<open>applyTransaction\<close> ends.\<close>

inductive apply_result ::
  "('db, 'sd, 'x) geth_scheme \<Rightarrow> ('db, 'sd) state \<Rightarrow> bytes \<Rightarrow> ('db, 'sd) state \<Rightarrow> unit outcome \<Rightarrow> bool"
  for X s b where
  executed: "rlp_Decode_tx X b = Ret t \<Longrightarrow> applied X BigintToUInt64 (s_was s) t r w
      \<Longrightarrow> apply_result X s b (s\<lparr>s_was := w\<rparr>) (Ret ())"
| refused: "rlp_Decode_tx X b = Ret t \<Longrightarrow> same_but_evm (s_was s) w
      \<Longrightarrow> apply_result X s b (s\<lparr>s_was := w, s_db := put_failed_tx X (s_db s) t e\<rparr>) (Fail e)"
| skipped: "same_but_evm (s_was s) w \<Longrightarrow> \<not> returned res \<Longrightarrow> apply_result X s b (s\<lparr>s_was := w\<rparr>) res"

inductive_cases apply_result_RetE: "apply_result X s b s' (Ret u)"
inductive_cases apply_resultE: "apply_result X s b s' res"

lemma skipped_same: "\<not> returned res \<Longrightarrow> apply_result X s b s res"
  using skipped[of s "s_was s" res X b] by simp

lemma apply_transaction_result:
  assumes "apply_transaction X s b i h = (s', res)"
  shows "apply_result X s b s' res"
proof (cases "rlp_Decode_tx X b")
  case t: (Ret t)
  show ?thesis
  proof (cases "AsMessage X (s_signer s) t")
    case m: (Ret m)
    let ?w = "s_was s"
    let ?c = "message_context h m"
    let ?sd = "sd_Prepare X (w_ethState ?w) (tx_Hash X t) h i"
    obtain sd gp r where run:
      "ApplyMessage X ?c ?sd (s_chainConfig s) (s_vmConfig s) m (w_gp ?w) = (sd, gp, r)"
      by (metis prod_cases3)
    let ?w' = "?w\<lparr>w_ethState := sd, w_gp := set_pool (w_gp ?w) gp\<rparr>"
    show ?thesis
    proof (cases r)
      case (Ret v)
      obtain out gas failed where v: "v = (out, gas, failed)" by (metis prod_cases3)
      obtain sd' root where ir: "sd_IntermediateRoot X sd True = (sd', root)" by fastforce
      show ?thesis
      proof (cases "w_totalUsedGas ?w")
        case None
        with assms t run Ret v m have "s' = s\<lparr>s_was := ?w'\<rparr>" "res = Panic"
          by (auto simp: apply_transaction_def Let_def)
        then show ?thesis by (auto intro: skipped)
      next
        case (Some used)
        let ?r = "tx_receipt X root failed (BigintToUInt64 (used + uint gas)) gas m (msg_From m) t sd'"
        let ?w2 = "?w\<lparr>w_ethState := sd', w_gp := set_pool (w_gp ?w) gp, w_totalUsedGas := Some (used + uint gas),
                  w_txIndex := w_txIndex ?w + 1, w_transactions := w_transactions ?w @ [t],
                  w_receipts := w_receipts ?w @ [?r], w_allLogs := w_allLogs ?w @ log_list ?r\<rparr>"
        from assms t run Ret v Some ir m have "res = Ret ()" "s' = s\<lparr>s_was := ?w2\<rparr>"
          by (auto simp: apply_transaction_def Let_def)
        moreover have "applied X BigintToUInt64 ?w t ?r ?w2" using Some unfolding applied_def by blast
        ultimately show ?thesis using t by (auto intro: executed)
      qed
    next
      case (Fail e)
      with assms t run m have "s' = s\<lparr>s_was := ?w', s_db := put_failed_tx X (s_db s) t e\<rparr>" "res = Fail e"
        by (auto simp: apply_transaction_def Let_def)
      then show ?thesis using t by (auto intro: refused)
    next
      case Panic
      with assms t run m have "s' = s\<lparr>s_was := ?w'\<rparr>" "res = Panic"
        by (auto simp: apply_transaction_def Let_def)
      then show ?thesis by (auto intro: skipped)
    qed
  qed (use assms t in \<open>auto simp: apply_transaction_def intro: skipped_same\<close>)
qed (use assms in \<open>auto simp: apply_transaction_def intro: skipped_same\<close>)


section \<open>Commit\<close>

text \<open>The part of the state no operation but \<^verbatim>\<open>ProcessBlock\<close> changes.\<close>

definition state_config :: "('db, 'sd) state \<Rightarrow> signer option \<times> chain_config \<times> vm_config" where
  "state_config s = (s_signer s, s_chainConfig s, s_vmConfig s)"

text \<open>What a successful commit did.\<close>

lemma Commit_ok:
  assumes "Commit X s = (s', Ret (root, None))"
  obtains db w w' sd p where
    "was_Commit X (s_db s) (s_was s) = (db, w, Ret root)"
    "sd_Reset X db (s_ethState s) root = (sd, None)"
    "was_Reset X db w root = (w', None)"
    "pool_Reset X db (s_txPool s) root = (p, None)"
    "s' = s\<lparr>s_db := db, s_ethState := sd, s_was := w', s_txPool := p\<rparr>"
  using assms
  by (auto simp: Commit_def Let_def split: prod.splits outcome.splits option.splits)

lemma Commit_empty:
  assumes "Commit X s = (s', Ret (root, None))"
  shows "was_empty (s_was s')" "w_gp (s_was s') = Some (gp_AddGas X 0 (w_gasLimit (s_was s)))"
    "p_totalUsedGas (s_txPool s') = 0" "p_gp (s_txPool s') = Some (gp_AddGas X 0 (p_gasLimit (s_txPool s)))"
proof -
  obtain db w w' sd p where
    c: "was_Commit X (s_db s) (s_was s) = (db, w, Ret root)" "was_Reset X db w root = (w', None)"
      "pool_Reset X db (s_txPool s) root = (p, None)"
    and s': "s' = s\<lparr>s_db := db, s_ethState := sd, s_was := w', s_txPool := p\<rparr>"
    using assms by (rule Commit_ok)
  show "was_empty (s_was s')" "w_gp (s_was s') = Some (gp_AddGas X 0 (w_gasLimit (s_was s)))"
    "p_totalUsedGas (s_txPool s') = 0" "p_gp (s_txPool s') = Some (gp_AddGas X 0 (p_gasLimit (s_txPool s)))"
    using was_Reset_None[OF c(2)] was_Commit_gasLimit[OF c(1)] pool_Reset_None[OF c(3)] s' by simp_all
qed

text \<open>What any commit did to the pending block: it kept it (up to the StateDB) or it emptied it.\<close>

lemma Commit_was:
  assumes "Commit X s = (s', res)"
  shows "(\<exists>sd. s_was s' = (s_was s)\<lparr>w_ethState := sd\<rparr>) \<or>
    (was_empty (s_was s') \<and> w_gp (s_was s') = Some (gp_AddGas X 0 (w_gasLimit (s_was s))))"
    and "was_config (s_was s') = was_config (s_was s)"
proof -
  obtain db w r where c: "was_Commit X (s_db s) (s_was s) = (db, w, r)" by (metis prod_cases3)
  then obtain sd where w: "w = (s_was s)\<lparr>w_ethState := sd\<rparr>" using was_Commit_frame[OF c] by blast
  have "s_was s' = w \<or> (\<exists>db root e. was_Reset X db w root = (s_was s', e))"
    using assms c by (auto simp: Commit_def Let_def split: prod.splits outcome.splits option.splits)
  moreover have "was_Reset X db w root = (w1, e) \<Longrightarrow>
      (\<exists>sd. w1 = (s_was s)\<lparr>w_ethState := sd\<rparr>) \<or>
      (was_empty w1 \<and> w_gp w1 = Some (gp_AddGas X 0 (w_gasLimit (s_was s)))) " 
    and "was_Reset X db w root = (w1, e) \<Longrightarrow> was_config w1 = was_config (s_was s)" for db root w1 e
    using w by (auto simp: was_Reset_def was_empty_def was_config_def Let_def split: prod.splits option.splits)
  ultimately show "(\<exists>sd. s_was s' = (s_was s)\<lparr>w_ethState := sd\<rparr>) \<or>
    (was_empty (s_was s') \<and> w_gp (s_was s') = Some (gp_AddGas X 0 (w_gasLimit (s_was s))))"
    and "was_config (s_was s') = was_config (s_was s)"
    using w by (auto simp: was_config_def)
qed

lemma Commit_config [frame]:
  assumes "Commit X s = (s', res)"
  shows "state_config s' = state_config s" "s_blockIndex s' = s_blockIndex s"
    "pool_config (s_txPool s') = pool_config (s_txPool s)"
  using assms pool_Reset_config[of X _ "s_txPool s"]
  by (auto simp: Commit_def state_config_def Let_def split: prod.splits outcome.splits option.splits)
     (metis fst_conv)+

section \<open>Reachable states\<close>

text \<open>
  A state is reachable when \<^verbatim>\<open>NewState\<close> returned it or one of the exported operations left it,
  whether the operation succeeded, failed or panicked; the states between two transactions of a
  block are reachable too.
\<close>

inductive reachable :: "('db, 'sd, 'x) geth_scheme \<Rightarrow> ('db, 'sd) state \<Rightarrow> bool" for X where
  opened: "NewState X limit open file cache = Ret s \<Longrightarrow> reachable X s"
| applied_tx: "reachable X s \<Longrightarrow> ApplyTransaction X s b i h = (s', res) \<Longrightarrow> reachable X s'"
| stepped: "reachable X s \<Longrightarrow> apply_transaction X s b i h = (s', res) \<Longrightarrow> reachable X s'"
| checked_tx: "reachable X s \<Longrightarrow> CheckTx X s t = (s', res) \<Longrightarrow> reachable X s'"
| processed: "reachable X s \<Longrightarrow> ProcessBlock X now s blk = (s', out) \<Longrightarrow> reachable X s'"
| committed: "reachable X s \<Longrightarrow> Commit X s = (s', out) \<Longrightarrow> reachable X s'"
| accounts: "reachable X s \<Longrightarrow> CreateAccounts X s accs = (s', err) \<Longrightarrow> reachable X s'"

text \<open>
  The contract an invariant of the state has to meet: it holds of an opened state, and the few
  elementary changes the operations are made of keep it.
\<close>

locale state_property =
  fixes X :: "('db, 'sd, 'x) geth_scheme" and I :: "('db, 'sd) state \<Rightarrow> bool"
  assumes init: "NewState X limit open file cache = Ret s \<Longrightarrow> I s"
    and put_db: "I s \<Longrightarrow> I (s\<lparr>s_db := db\<rparr>)"
    and put_index: "I s \<Longrightarrow> I (s\<lparr>s_blockIndex := i\<rparr>)"
    and pool: "I s \<Longrightarrow> pool_config p = pool_config (s_txPool s) \<Longrightarrow> I (s\<lparr>s_txPool := p\<rparr>)"
    and evm: "I s \<Longrightarrow> same_but_evm (s_was s) w \<Longrightarrow> I (s\<lparr>s_was := w\<rparr>)"
    and appended: "I s \<Longrightarrow> applied X conv (s_was s) t r w \<Longrightarrow> conv = big_Uint64 \<or> conv = BigintToUInt64
      \<Longrightarrow> I (s\<lparr>s_was := w\<rparr>)"
    and commit: "I s \<Longrightarrow> Commit X s = (s', out) \<Longrightarrow> I s'"
begin

lemma apply_tx:
  assumes "I s" "apply_transaction X s b i h = (s', res)"
  shows "I s'"
  using apply_transaction_result[OF assms(2)] assms(1)
proof cases
  case (executed t r w)
  then show ?thesis using assms(1) by (auto intro: appended)
next
  case (refused t w e)
  then show ?thesis using put_db[OF evm[OF assms(1)]] by simp
next
  case (skipped w)
  then show ?thesis using assms(1) by (auto intro: evm)
qed

lemma apply_txs: "I s \<Longrightarrow> apply_block_transactions X s i h bs = (s', res) \<Longrightarrow> I s'"
proof (induction bs arbitrary: s i)
  case (Cons b bs)
  obtain s1 r where 1: "apply_transaction X s b i h = (s1, r)" by fastforce
  with Cons.prems(1) have "I s1" by (rule apply_tx)
  with Cons 1 show ?case by (auto split: outcome.splits)
qed simp

lemma process:
  assumes "I s" "ProcessBlock X now s blk = (s', out)"
  shows "I s'"
proof -
  let ?s = "s\<lparr>s_blockIndex := blk_Index blk\<rparr>"
  have put: "I (?s\<lparr>s_db := db\<rparr>)" for db
    using assms(1) by (intro put_db put_index)
  have run: "apply_block_transactions X (?s\<lparr>s_db := db\<rparr>) i h bs = (s1, r) \<Longrightarrow> I s1" for db i h bs s1 r
    using apply_txs[OF put] .
  have fin: "apply_block_transactions X (?s\<lparr>s_db := db\<rparr>) i h bs = (s1, r) \<Longrightarrow> Commit X s1 = (s', out) \<Longrightarrow> I s'"
    for db i h bs s1 r
    using run commit by blast
  show ?thesis
    using assms(2)
    by (auto simp: ProcessBlock_def Let_def split: prod.splits option.splits outcome.splits
        intro: put[simplified] run[simplified] fin[simplified])
qed

lemma create: "I s \<Longrightarrow> create_accounts X s accs = (s', res) \<Longrightarrow> I s'"
proof (induction accs arbitrary: s)
  case (Cons a accs)
  have "I (s\<lparr>s_was := s_was s\<lparr>w_ethState := sd\<rparr>\<rparr>)" for sd
    using Cons.prems(1) same_but_evmI[where w = "s_was s" and sd = sd and gp = "the (w_gp (s_was s))"] by (auto intro: evm)
  with Cons show ?case by (cases a) (auto simp: Let_def split: if_splits outcome.splits)
qed simp

lemma create_commit: "I s \<Longrightarrow> CreateAccounts X s accs = (s', err) \<Longrightarrow> I s'"
  by (auto simp: CreateAccounts_def split: prod.splits outcome.splits intro: commit create)

lemma apply_exported:
  assumes "I s" "ApplyTransaction X s b i h = (s', res)"
  shows "I s'"
proof (cases "rlp_Decode_tx X b")
  case (Ret t)
  obtain w r where w: "was_ApplyTransaction X (s_was s) t i h = (w, r)" by fastforce
  have "I (s\<lparr>s_was := w\<rparr>)"
    using was_ApplyTransaction_cases[OF w] assms(1) by (cases r) (auto intro: appended evm)
  with assms(2) Ret w show ?thesis by (simp add: ApplyTransaction_def)
qed (use assms in \<open>simp_all add: ApplyTransaction_def\<close>)

lemma check: "I s \<Longrightarrow> CheckTx X s t = (s', res) \<Longrightarrow> I s'"
  using pool_CheckTx_config[of X "s_txPool s" t] by (auto simp: CheckTx_def intro: pool split: prod.splits)

theorem invariant: "reachable X s \<Longrightarrow> I s"
  by (induction rule: reachable.induct)
     (blast intro: init apply_exported apply_tx check process commit create_commit)+

end

section \<open>Invariants of the reachable states\<close>

lemma InitState_config:
  "InitState X s0 = Ret s \<Longrightarrow>
     state_config s = (state0.s_signer s0, state0.s_chainConfig s0, state0.s_vmConfig s0)
     \<and> pool_config (s_txPool s) = (state0.s_signer s0, state0.s_chainConfig s0, state0.s_vmConfig s0, gasLimit)"
  by (auto simp: InitState_def Let_def state_config_def pool_config_def NewTxPool_def state0.defs
      split: outcome.splits)

lemma resetWAS_simps [simp]:
  "was_empty (s_was (resetWAS X s))" "w_gp (s_was (resetWAS X s)) = Some (gp_AddGas X 0 gasLimit)"
  "was_config (s_was (resetWAS X s)) = (None, \<lparr>cc_ChainID = None\<rparr>, \<lparr>vm_Tracer = False\<rparr>, gasLimit)"
  "state_config (resetWAS X s) = state_config s" "s_txPool (resetWAS X s) = s_txPool s"
  "s_ethState (resetWAS X s) = s_ethState s" "s_db (resetWAS X s) = s_db s"
  by (simp_all add: resetWAS_def was_empty_def was_config_def state_config_def)

lemma NewState_Ret:
  assumes "NewState X limit open file cache = Ret s"
  obtains db s1 where "s = resetWAS X s1"
    "InitState X \<lparr>s_db = db, s_blockIndex = 0, s_signer = Some (EIP155Signer chainID),
        s_chainConfig = \<lparr>cc_ChainID = Some chainID\<rparr>, s_vmConfig = \<lparr>vm_Tracer = True\<rparr>\<rparr> = Ret s1"
    "\<exists>handles. open file cache handles = Ret db"
  using assms by (auto simp: NewState_def Let_def split: outcome.splits)

text \<open>The bookkeeping of the write-ahead state is right in every reachable state.\<close>

interpretation bookkeeping: state_property X "\<lambda>s. receipt_ok X \<longrightarrow> was_wf X (s_was s)"
  for X :: "('db, 'sd, 'x) geth_scheme"
proof (unfold_locales, goal_cases)
  case (1 rl opn fn cs s)
  then show ?case by (auto elim!: NewState_Ret intro: was_empty_wf)
next
  case (6 s conv t r w)
  then show ?case
    using applied_wf[of X conv "s_was s"] by (auto simp: BigintToUInt64_in_range uint_big_Uint64)
next
  case (7 s s' out)
  then show ?case
    using Commit_was(1)[OF 7(2)] by (auto intro: was_empty_wf)
qed (simp_all add: same_but_evm_wf)

text \<open>
  The configuration never changes: that of the \<^verbatim>\<open>State\<close> and the pool is the one \<^verbatim>\<open>NewState\<close>
  chose, that of the write-ahead state the zero one \<^verbatim>\<open>resetWAS\<close> left.
\<close>

definition config_inv :: "('db, 'sd) state \<Rightarrow> bool" where
  "config_inv s \<longleftrightarrow>
     state_config s = (Some (EIP155Signer chainID), \<lparr>cc_ChainID = Some chainID\<rparr>, \<lparr>vm_Tracer = True\<rparr>)
     \<and> pool_config (s_txPool s) =
         (Some (EIP155Signer chainID), \<lparr>cc_ChainID = Some chainID\<rparr>, \<lparr>vm_Tracer = True\<rparr>, gasLimit)
     \<and> was_config (s_was s) = (None, \<lparr>cc_ChainID = None\<rparr>, \<lparr>vm_Tracer = False\<rparr>, gasLimit)
     \<and> w_gp (s_was s) \<noteq> None \<and> w_totalUsedGas (s_was s) \<noteq> None"

lemma Commit_pointers:
  assumes "Commit X s = (s', res)" "w_gp (s_was s) \<noteq> None" "w_totalUsedGas (s_was s) \<noteq> None"
  shows "w_gp (s_was s') \<noteq> None" "w_totalUsedGas (s_was s') \<noteq> None"
  using Commit_was(1)[OF assms(1)] assms(2,3) by (auto simp: was_empty_def)

interpretation config: state_property X config_inv for X :: "('db, 'sd, 'x) geth_scheme"
proof (unfold_locales, goal_cases)
  case (1 rl opn fn cs s)
  then show ?case
    by (elim NewState_Ret) (auto simp: config_inv_def was_empty_def resetWAS_def was_config_def
        state_config_def dest!: InitState_config)
next
  case (5 s w)
  then show ?case
    using same_but_evm_config[OF 5(2)] by (auto simp: config_inv_def state_config_def same_but_evm_def)
next
  case (6 s conv t r w)
  then show ?case
    using applied_config[OF 6(2)] by (auto simp: config_inv_def state_config_def applied_def)
next
  case (7 s s' out)
  then show ?case
    using Commit_was(2)[OF 7(2)] Commit_config[OF 7(2)] Commit_pointers[OF 7(2)]
    by (simp add: config_inv_def)
qed (auto simp: config_inv_def state_config_def)

section \<open>Progress\<close>

text \<open>
  The calls into the libraries that do not panic, given a signer.  \<^verbatim>\<open>core.ApplyMessage\<close> is not
  among them: the program gives it a context whose \<^verbatim>\<open>Time\<close> and \<^verbatim>\<open>Difficulty\<close> are \<^verbatim>\<open>nil\<close>.
\<close>

definition libs_total :: "('db, 'sd, 'x) geth_scheme \<Rightarrow> bool" where
  "libs_total X \<longleftrightarrow>
     (\<forall>b. rlp_Decode_tx X b \<noteq> Panic) \<and>
     (\<forall>s t. AsMessage X (Some s) t \<noteq> Panic) \<and>
     (\<forall>sd. snd (sd_Commit X sd True) \<noteq> Panic) \<and>
     (\<forall>t. rlp_Encode_tx X t \<noteq> Panic) \<and> (\<forall>r. rlp_Encode_receipt X r \<noteq> Panic) \<and>
     (\<forall>b k v. batch_Put X b k v \<noteq> Panic)"

lemma libs_totalD:
  assumes "libs_total X"
  shows "rlp_Decode_tx X b \<noteq> Panic" "AsMessage X (Some sg) t \<noteq> Panic"
    "sd_Commit X sd True \<noteq> (sd', Panic)" "rlp_Encode_tx X t \<noteq> Panic" "rlp_Encode_receipt X r \<noteq> Panic"
    "batch_Put X bt k v \<noteq> Panic"
  using assms unfolding libs_total_def by (blast | metis snd_conv)+

text \<open>
  Executing the transaction of \<open>b\<close> on the write-ahead state panics: it decodes, it converts to a
  message, and \<^verbatim>\<open>ApplyMessage\<close> panics on that message in the context of the state package.
\<close>

definition execution_panics ::
  "('db, 'sd, 'x) geth_scheme \<Rightarrow> ('db, 'sd) state \<Rightarrow> bytes \<Rightarrow> int \<Rightarrow> hash \<Rightarrow> bool" where
  "execution_panics X s b i h \<longleftrightarrow>
     (\<exists>t m. rlp_Decode_tx X b = Ret t \<and> AsMessage X (s_signer s) t = Ret m \<and>
        snd (snd (ApplyMessage X (message_context h m)
          (sd_Prepare X (w_ethState (s_was s)) (tx_Hash X t) h i)
          (s_chainConfig s) (s_vmConfig s) m (w_gp (s_was s)))) = Panic)"

lemma apply_transaction_panics_iff:
  assumes "libs_total X" "config_inv s"
  shows "snd (apply_transaction X s b i h) = Panic \<longleftrightarrow> execution_panics X s b i h"
proof -
  obtain u where "w_totalUsedGas (s_was s) = Some u" "s_signer s = Some (EIP155Signer chainID)"
    using assms(2) by (auto simp: config_inv_def state_config_def)
  then show ?thesis
    using libs_totalD(1,2)[OF assms(1)]
    by (auto simp: apply_transaction_def execution_panics_def Let_def split: outcome.splits prod.splits)
qed

text \<open>The loop of \<^verbatim>\<open>ProcessBlock\<close> never reports an error, and panics where an execution does.\<close>

lemma apply_block_transactions_not_Fail [simp]: "apply_block_transactions X s i h bs \<noteq> (s', Fail e)"
  by (induction bs arbitrary: s i) (auto split: outcome.splits prod.splits)

lemma apply_block_transactions_config:
  "apply_block_transactions X s i h bs = (s', r) \<Longrightarrow> config_inv s \<Longrightarrow> config_inv s'"
proof (induction bs arbitrary: s i)
  case (Cons b bs)
  obtain s1 r1 where 1: "apply_transaction X s b i h = (s1, r1)" by fastforce
  then have "config_inv s1" using config.apply_tx[OF Cons.prems(2) 1] by auto
  with Cons 1 show ?case by (auto split: outcome.splits)
qed simp

lemma apply_block_transactions_panics_iff:
  assumes "libs_total X" "config_inv s"
  shows "snd (apply_block_transactions X s i h bs) = Panic \<longleftrightarrow>
    (\<exists>k s1. k < length bs \<and> apply_block_transactions X s i h (take k bs) = (s1, Ret ()) \<and>
       execution_panics X s1 (bs ! k) (i + int k) h)"
  using assms(2)
proof (induction bs arbitrary: s i)
  case (Cons b bs)
  obtain s1 r where 1: "apply_transaction X s b i h = (s1, r)" by fastforce
  then have conf: "config_inv s1" using config.apply_tx[OF Cons.prems 1] by auto
  have iff: "r = Panic \<longleftrightarrow> execution_panics X s b i h"
    using apply_transaction_panics_iff[OF assms(1) Cons.prems, of b i h] 1 by simp
  have "(\<exists>k s2. k < length (b # bs) \<and> apply_block_transactions X s i h (take k (b # bs)) = (s2, Ret ())
            \<and> execution_panics X s2 ((b # bs) ! k) (i + int k) h)
        \<longleftrightarrow> execution_panics X s b i h \<or>
          (\<exists>k s2. k < length bs \<and> apply_block_transactions X s i h (take (Suc k) (b # bs)) = (s2, Ret ())
            \<and> execution_panics X s2 (bs ! k) (i + 1 + int k) h)"
    by (subst ex_nat_cases) (auto simp: algebra_simps)
  then show ?case
    using Cons.IH[OF conf, of "i + 1"] 1 iff by (cases r) auto
qed simp

lemma batch_no_panic:
  assumes "libs_total X"
  shows "batch_transactions X bt ts \<noteq> Panic" "batch_receipts X bt rs \<noteq> Panic"
  by (induction ts arbitrary: bt, auto simp: libs_totalD[OF assms] split: outcome.splits)
     (induction rs arbitrary: bt, auto simp: libs_totalD[OF assms] split: outcome.splits)

lemma was_Commit_no_panic: "libs_total X \<Longrightarrow> was_Commit X db w \<noteq> (db', w', Panic)"
  using batch_no_panic[of X "[]"] libs_totalD(3)[of X]
  by (auto simp: was_Commit_def writeTransactions_def writeReceipts_def Let_def
      split: outcome.splits prod.splits option.splits)

lemma Commit_Ret:
  assumes "libs_total X"
  shows "\<exists>s' h err. Commit X s = (s', Ret (h, err))"
  using was_Commit_no_panic[OF assms]
  by (auto simp: Commit_def Let_def split: outcome.splits prod.splits option.splits)

section \<open>The database slots the operations write\<close>

text \<open>Every key but that of a transaction or a block has a length no trie node has.\<close>

lemma slot_not_node:
  assumes "trie_ok X node stored" "valid_slot sl" "\<And>h. sl \<noteq> HashSlot h"
  shows "\<not> node (slot_key sl)"
proof -
  have "length (slot_key sl) \<noteq> 32"
  proof (cases sl)
    case (BlockSlot i)
    with assms(2) blockKey_length_range[of i] show ?thesis by auto
  qed (use assms(3) in \<open>simp_all add: key_lengths\<close>)
  then show ?thesis by (rule trie_ok_node[OF assms(1)])
qed

lemma Commit_slots:
  assumes "Commit X s = (s', Ret (root, None))" "kv_ok X" "trie_ok X node stored"
    "valid_slot sl" "\<not> node (slot_key sl)"
  shows "db_slots X (s_db s') sl = commit_slots X (s_was s) root (db_slots X (s_db s)) sl"
  using assms(1)
proof (rule Commit_ok)
  fix db w w' sd p
  assume "was_Commit X (s_db s) (s_was s) = (db, w, Ret root)"
    and s': "s' = s\<lparr>s_db := db, s_ethState := sd, s_was := w', s_txPool := p\<rparr>"
  then show ?thesis using was_Commit_slots[OF _ assms(2-5)] by simp
qed

text \<open>Applying a transaction writes to error slots only.\<close>

lemma put_failed_tx_slots:
  assumes "kv_ok X" "valid_slot sl" "sl \<noteq> ErrorSlot (tx_Hash X t)"
  shows "db_slots X (put_failed_tx X db t e) sl = db_slots X db sl"
  using assms slot_key_inject[of sl "ErrorSlot (tx_Hash X t)"]
  by (auto simp: put_failed_tx_def db_slots_def intro!: kv_ok_Put_other)

lemma apply_transaction_slots:
  assumes "apply_transaction X s b i h = (s', res)" "kv_ok X" "valid_slot sl" "\<And>e. sl \<noteq> ErrorSlot e"
  shows "db_slots X (s_db s') sl = db_slots X (s_db s) sl"
  using apply_transaction_result[OF assms(1)] assms(2-)
  by cases (simp_all add: put_failed_tx_slots)

lemma apply_block_transactions_slots:
  assumes "apply_block_transactions X s i h bs = (s', res)" "kv_ok X" "valid_slot sl" "\<And>e. sl \<noteq> ErrorSlot e"
  shows "db_slots X (s_db s') sl = db_slots X (s_db s) sl"
  using assms(1)
proof (induction bs arbitrary: s i)
  case (Cons b bs)
  obtain s1 r where 1: "apply_transaction X s b i h = (s1, r)" by fastforce
  with Cons show ?case
    using apply_transaction_slots[OF 1 assms(2-)] by (auto split: outcome.splits)
qed simp

section \<open>Reads, by slots\<close>

lemma reads_by_slots:
  "GetTransaction X s h = (case db_slots X (s_db s) (HashSlot h) of
     Fail e \<Rightarrow> Fail e | Panic \<Rightarrow> Panic | Ret d \<Rightarrow> rlp_DecodeBytes_tx X d)"
  "GetReceipt X s h = (case db_slots X (s_db s) (ReceiptSlot h) of
     Fail e \<Rightarrow> Fail e | Panic \<Rightarrow> Panic | Ret d \<Rightarrow> rlp_DecodeBytes_receipt X d)"
  "GetFailedTx X s h = (case db_slots X (s_db s) (ErrorSlot h) of
     Fail e \<Rightarrow> Fail e | Panic \<Rightarrow> Panic | Ret d \<Rightarrow> txerror_Unmarshal X d)"
  "GetBlock X s h = get_block X (db_slots X (s_db s) (HashSlot h))"
  "GetBlockById X s i = get_block X (db_slots X (s_db s) (BlockSlot i))"
  by (simp_all add: GetTransaction_def GetReceipt_def GetFailedTx_def GetBlock_def GetBlockById_def db_slots_def)

lemma Commit_encoded:
  assumes "Commit X s = (s', Ret (root, None))" "kv_ok X"
  shows "t \<in> set (w_transactions (s_was s)) \<Longrightarrow> returned (rlp_Encode_tx X t)"
    and "r \<in> set (w_receipts (s_was s)) \<Longrightarrow> returned (rlp_Encode_receipt X r)"
  using assms(1) by (auto elim!: Commit_ok dest: was_Commit_encoded[OF _ assms(2)])

lemma Commit_stored:
  assumes "Commit X s = (s', Ret (root, None))" "kv_ok X" "trie_ok X node stored"
    "hashes_apart X node (w_transactions (s_was s))"
  obtains sd where "snd (sd_Commit X (w_ethState (s_was s)) True) = Ret root"
    "fst (sd_Commit X (w_ethState (s_was s)) True) = sd" "stored (s_db s') root sd"
    "same_accounts X (s_ethState s') sd" "same_accounts X (w_ethState (s_was s')) sd"
    "same_accounts X (p_ethState (s_txPool s')) sd" "db_slots X (s_db s') RootSlot = Ret (hash_bytes root)"
  using assms(1)
proof (rule Commit_ok)
  fix db w w' sd p
  assume c: "was_Commit X (s_db s) (s_was s) = (db, w, Ret root)"
    and r: "sd_Reset X db (s_ethState s) root = (sd, None)" "was_Reset X db w root = (w', None)"
      "pool_Reset X db (s_txPool s) root = (p, None)"
    and s': "s' = s\<lparr>s_db := db, s_ethState := sd, s_was := w', s_txPool := p\<rparr>"
  from c obtain sd0 where sd0: "sd_Commit X (w_ethState (s_was s)) True = (sd0, Ret root)"
    "w = (s_was s)\<lparr>w_ethState := sd0\<rparr>" by (blast elim: was_Commit_steps)
  have st: "stored db root sd0" using was_Commit_stored[OF c assms(2-4)] sd0(2) by simp
  note same = trie_ok_Reset[OF assms(3) st]
  have "same_accounts X sd sd0" "same_accounts X (w_ethState w') sd0" "same_accounts X (p_ethState p) sd0"
    using same[of "s_ethState s"] same[of "w_ethState w"] same[of "p_ethState (s_txPool s)"]
      r(1) was_Reset_None(4)[OF r(2)] pool_Reset_None(4)[OF r(3)] by auto
  moreover have "db_slots X db RootSlot = Ret (hash_bytes root)"
    using Commit_slots[OF assms(1-3), of RootSlot] slot_not_node[OF assms(3), of RootSlot] s' by simp
  ultimately show thesis using sd0 st s' by (intro that[of sd0]) simp_all
qed

lemma stamp_block_sel [simp]:
  "blk_Transactions (stamp_block now blk) = blk_Transactions blk"
  "blk_Index (stamp_block now blk) = blk_Index blk"
  by (simp_all add: stamp_block_def)

lemma ProcessBlock_ok:
  assumes "ProcessBlock X now s blk = (s', Ret (root, None))"
  obtains db1 db2 s1 where
    "db_Put X (s_db s) (fst (BlockHash X blk))
       (fst (ProtoMarshal X (stamp_block now blk))) = (db1, None)"
    "db_Put X db1 (blockKey (blk_Index blk))
       (fst (ProtoMarshal X (stamp_block now blk))) = (db2, None)"
    "fst (apply_block_transactions X (s\<lparr>s_blockIndex := blk_Index blk, s_db := db2\<rparr>) 0
        (BytesToHash X (fst (BlockHash X blk))) (blk_Transactions blk)) = s1"
    "Commit X s1 = (s', Ret (root, None))"
  using assms by (auto simp: ProcessBlock_def Let_def split: prod.splits option.splits outcome.splits)

text \<open>What the slots hold after a block, before the transactions' errors.\<close>

lemma ProcessBlock_slots:
  assumes "ProcessBlock X now s blk = (s', Ret (root, None))" "kv_ok X" "trie_ok X node stored"
    and h: "fst (BlockHash X blk) = hash_bytes h" and idx: "valid_slot (BlockSlot (blk_Index blk))"
    and sl: "valid_slot sl" "\<not> node (slot_key sl)" "\<And>e. sl \<noteq> ErrorSlot e"
  obtains s1 where
    "db_slots X (s_db s') sl = commit_slots X (s_was s1) root ((db_slots X (s_db s))
      (HashSlot h := Ret (fst (ProtoMarshal X (stamp_block now blk))),
       BlockSlot (blk_Index blk) := Ret (fst (ProtoMarshal X (stamp_block now blk))))) sl"
    "\<exists>db. fst (apply_block_transactions X (s\<lparr>s_blockIndex := blk_Index blk, s_db := db\<rparr>) 0
        (BytesToHash X (fst (BlockHash X blk))) (blk_Transactions blk)) = s1"
    "Commit X s1 = (s', Ret (root, None))"
  using assms(1)
proof (rule ProcessBlock_ok)
  fix db1 db2 s1
  let ?d = "fst (ProtoMarshal X (stamp_block now blk))"
  let ?run = "apply_block_transactions X (s\<lparr>s_blockIndex := blk_Index blk, s_db := db2\<rparr>) 0
        (BytesToHash X (fst (BlockHash X blk))) (blk_Transactions blk)"
  assume puts: "db_Put X (s_db s) (fst (BlockHash X blk)) ?d = (db1, None)"
    "db_Put X db1 (blockKey (blk_Index blk)) ?d = (db2, None)"
    and run: "fst ?run = s1" and c: "Commit X s1 = (s', Ret (root, None))"
  obtain r where run': "?run = (s1, r)" using run by (metis prod.collapse)
  have 1: "db_slots X db1 t = ((db_slots X (s_db s))(HashSlot h := Ret ?d)) t" if "valid_slot t" for t
    using puts(1) h that assms(2) by (intro db_slots_Put) simp_all
  have 2: "db_slots X db2 t = ((db_slots X db1)(BlockSlot (blk_Index blk) := Ret ?d)) t" if "valid_slot t" for t
    using puts(2) idx that assms(2) by (intro db_slots_Put) simp_all
  have 3: "db_slots X (s_db s1) sl = ((db_slots X (s_db s))
      (HashSlot h := Ret ?d, BlockSlot (blk_Index blk) := Ret ?d)) sl"
    using apply_block_transactions_slots[OF run' assms(2) sl(1,3)] 1[OF sl(1)] 2[OF sl(1)] by simp
  have 4: "db_slots X (s_db s') sl = commit_slots X (s_was s1) root (db_slots X (s_db s1)) sl"
    by (rule Commit_slots[OF c assms(2,3) sl(1,2)])
  with 3 have "db_slots X (s_db s') sl = commit_slots X (s_was s1) root ((db_slots X (s_db s))
      (HashSlot h := Ret ?d, BlockSlot (blk_Index blk) := Ret ?d)) sl"
    by (cases sl) (simp_all split: option.splits)
  then show thesis using run c by (intro that[of s1]) blast+
qed

text \<open>The pending lists only grow while a block is applied.\<close>

lemma apply_transaction_grows:
  "apply_transaction X s b i h = (s', res) \<Longrightarrow>
     \<exists>ts. w_transactions (s_was s') = w_transactions (s_was s) @ ts"
  using apply_transaction_result[of X s b i h s' res]
  by (auto elim!: apply_resultE simp: applied_def same_but_evm_def)

lemma apply_block_transactions_grows:
  "apply_block_transactions X s i h bs = (s', res) \<Longrightarrow>
     \<exists>ts. w_transactions (s_was s') = w_transactions (s_was s) @ ts"
proof (induction bs arbitrary: s i)
  case (Cons b bs)
  obtain s1 r where 1: "apply_transaction X s b i h = (s1, r)" by fastforce
  from apply_transaction_grows[OF this] obtain ts where
    ts: "w_transactions (s_was s1) = w_transactions (s_was s) @ ts" by blast
  show ?case
  proof (cases "r = Panic")
    case False
    with Cons.prems 1 have "apply_block_transactions X s1 (i + 1) h bs = (s', res)"
      by (cases r) auto
    with Cons.IH ts show ?thesis by fastforce
  qed (use Cons.prems 1 ts in auto)
qed simp

text \<open>A pending transaction was pending before or is in the block.\<close>

lemma apply_block_transactions_members:
  "apply_block_transactions X s i h bs = (s', res) \<Longrightarrow> t \<in> set (w_transactions (s_was s')) \<Longrightarrow>
     t \<in> set (w_transactions (s_was s)) \<or> (\<exists>b \<in> set bs. rlp_Decode_tx X b = Ret t)"
proof (induction bs arbitrary: s i)
  case (Cons b bs)
  obtain s1 r where 1: "apply_transaction X s b i h = (s1, r)" by fastforce
  have one: "t \<in> set (w_transactions (s_was s1)) \<Longrightarrow>
      t \<in> set (w_transactions (s_was s)) \<or> rlp_Decode_tx X b = Ret t"
    using apply_transaction_result[OF 1] by (auto elim!: apply_resultE simp: applied_def same_but_evm_def)
  show ?case
  proof (cases "r = Panic")
    case False
    with Cons.prems(1) 1 have "apply_block_transactions X s1 (i + 1) h bs = (s', res)"
      by (cases r) auto
    from Cons.IH[OF this Cons.prems(2)] one show ?thesis by auto
  qed (use Cons.prems 1 one in auto)
qed simp

lemma apply_block_transactions_append:
  assumes "apply_block_transactions X s i h bs = (s1, Ret ())"
  shows "apply_block_transactions X s i h (bs @ cs) = apply_block_transactions X s1 (i + int (length bs)) h cs"
  using assms
proof (induction bs arbitrary: s i)
  case (Cons b bs)
  obtain s2 r where 2: "apply_transaction X s b i h = (s2, r)" by fastforce
  with Cons.prems have "r \<noteq> Panic" "apply_block_transactions X s2 (i + 1) h bs = (s1, Ret ())"
    by (auto split: outcome.splits)
  with 2 Cons.IH[of s2 "i + 1"] show ?case by (cases r) (simp_all add: algebra_simps)
qed simp

text \<open>The transactions do not read the database or the block index.\<close>

definition same_but_db :: "('db, 'sd) state \<Rightarrow> ('db, 'sd) state \<Rightarrow> bool" where
  "same_but_db s u \<longleftrightarrow> state_config u = state_config s \<and> s_ethState u = s_ethState s
     \<and> s_was u = s_was s \<and> s_txPool u = s_txPool s"

lemma same_but_dbI [simp]: "same_but_db s (s\<lparr>s_blockIndex := i, s_db := db\<rparr>)"
  by (simp add: same_but_db_def state_config_def)

lemma apply_transaction_same_but_db:
  assumes "apply_transaction X s b i h = (s', res)" "same_but_db s u"
  shows "\<exists>u'. apply_transaction X u b i h = (u', res) \<and> same_but_db s' u'"
  using assms
  by (auto simp: same_but_db_def state_config_def apply_transaction_def Let_def
      split: outcome.splits prod.splits option.splits)

lemma apply_block_transactions_same_but_db:
  assumes "apply_block_transactions X s i h bs = (s', res)" "same_but_db s u"
  shows "\<exists>u'. apply_block_transactions X u i h bs = (u', res) \<and> same_but_db s' u'"
  using assms
proof (induction bs arbitrary: s u i)
  case (Cons b bs)
  obtain s1 r where 1: "apply_transaction X s b i h = (s1, r)" by fastforce
  obtain u1 where 2: "apply_transaction X u b i h = (u1, r)" "same_but_db s1 u1"
    using apply_transaction_same_but_db[OF 1 Cons.prems(2)] by blast
  show ?case using Cons.prems(1) Cons.IH[OF _ 2(2), of "i + 1"] 1 2 by (cases r) auto
qed auto

text \<open>A commit that emptied the pending lists had stored them.\<close>

lemma Commit_kept_or_stored:
  assumes "Commit X s = (s', res)"
  shows "(\<exists>sd. s_was s' = (s_was s)\<lparr>w_ethState := sd\<rparr>) \<or>
    (\<exists>w root. was_Commit X (s_db s) (s_was s) = (s_db s', w, Ret root))"
proof -
  obtain db w r where c: "was_Commit X (s_db s) (s_was s) = (db, w, r)" by (metis prod_cases3)
  obtain sd where "w = (s_was s)\<lparr>w_ethState := sd\<rparr>" using was_Commit_frame[OF c] by blast
  with assms c show ?thesis
    by (auto simp: Commit_def Let_def split: prod.splits outcome.splits option.splits)
qed

section \<open>Genesis accounts\<close>

text \<open>What an entry of the account map adds to the balance of \<open>a\<close>.\<close>

definition genesis_balance :: "('db, 'sd, 'x) geth_scheme \<Rightarrow> ('db, 'sd) state \<Rightarrow> address \<Rightarrow> string \<times> account \<Rightarrow> int" where
  "genesis_balance X s a e =
     (if HexToAddress X (fst e) = a \<and> \<not> Exist X s a then the_Ret (MustParseBig256 X (acc_Balance (snd e))) else 0)"

text \<open>The entries whose balance has to parse.\<close>

definition genesis_parses :: "('db, 'sd, 'x) geth_scheme \<Rightarrow> ('db, 'sd) state \<Rightarrow> string \<times> account \<Rightarrow> bool" where
  "genesis_parses X s e \<longleftrightarrow>
     Exist X s (HexToAddress X (fst e)) \<or> returned (MustParseBig256 X (acc_Balance (snd e)))"

lemma set_storage_balance [simp]:
  "balance_ok X \<Longrightarrow> sd_GetBalance X (set_storage X a kvs sd) = sd_GetBalance X sd"
  by (induction kvs arbitrary: sd) (auto simp: set_storage_def balance_ok_def)

lemma Exist_was [simp]: "Exist X (s\<lparr>s_was := w\<rparr>) a = Exist X s a"
  by (simp add: Exist_def)

lemma genesis_was [simp]:
  "genesis_balance X (s\<lparr>s_was := w\<rparr>) a = genesis_balance X s a"
  "genesis_parses X (s\<lparr>s_was := w\<rparr>) = genesis_parses X s"
  by (simp_all add: genesis_balance_def genesis_parses_def fun_eq_iff)

lemma create_accounts_Ret_iff:
  "snd (create_accounts X s accs) = Ret () \<longleftrightarrow> (\<forall>e \<in> set accs. genesis_parses X s e)"
proof (induction accs arbitrary: s)
  case (Cons e accs)
  obtain k acc where "e = (k, acc)" by fastforce
  with Cons show ?case
    by (auto simp: Let_def genesis_parses_def split: outcome.splits)
qed simp

lemma create_accounts_balance:
  assumes "balance_ok X" "create_accounts X s accs = (s', Ret ())"
  shows "sd_GetBalance X (w_ethState (s_was s')) a
     = sd_GetBalance X (w_ethState (s_was s)) a + sum_list (map (genesis_balance X s a) accs)"
  using assms(2)
proof (induction accs arbitrary: s)
  case (Cons e accs)
  obtain k acc where e: "e = (k, acc)" by fastforce
  show ?case
  proof (cases "Exist X s (HexToAddress X k)")
    case True
    with Cons e show ?thesis by (auto simp: genesis_balance_def Let_def)
  next
    case False
    with Cons.prems e obtain bal where bal: "MustParseBig256 X (acc_Balance acc) = Ret bal"
      by (auto simp: Let_def split: outcome.splits)
    let ?ad = "HexToAddress X k" and ?w = "s_was s"
    let ?sd = "set_storage X ?ad (acc_Storage acc)
      (sd_SetCode X (sd_AddBalance X (w_ethState ?w) ?ad bal) ?ad (Hex2Bytes X (acc_Code acc)))"
    have "create_accounts X (s\<lparr>s_was := ?w\<lparr>w_ethState := ?sd\<rparr>\<rparr>) accs = (s', Ret ())"
      using Cons.prems e False bal by (simp add: Let_def)
    from Cons.IH[OF this] have "sd_GetBalance X (w_ethState (s_was s')) a
        = sd_GetBalance X ?sd a + sum_list (map (genesis_balance X s a) accs)" by simp
    moreover have "sd_GetBalance X ?sd a = sd_GetBalance X (w_ethState ?w) a + genesis_balance X s a e"
      using assms(1) False e bal
      by (simp only: set_storage_balance) (auto simp: genesis_balance_def balance_ok_def)
    ultimately show ?thesis by simp
  qed
qed simp

end
