(* ===== verification/StateSpec.thy ===== *)
theory StateSpec
  imports StateProps
begin

text \<open>
  The properties of the application state, with the concrete states on which their hypotheses hold.
\<close>

section \<open>Concrete states\<close>

text \<open>A state opened on an empty database, and a block with an invalid transaction between two good ones.\<close>

definition demo_s0 :: "(demo_db, demo_sd) state" where
  "demo_s0 = \<lparr>s_db = demo_db0, s_blockIndex = 0, s_signer = Some (EIP155Signer 1),
     s_chainConfig = \<lparr>cc_ChainID = Some 1\<rparr>, s_vmConfig = \<lparr>vm_Tracer = True\<rparr>, s_ethState = demo_sd0,
     s_was = \<lparr>w_ethState = demo_sd0, w_signer = None, w_chainConfig = \<lparr>cc_ChainID = None\<rparr>,
       w_vmConfig = \<lparr>vm_Tracer = False\<rparr>, w_gasLimit = 1000000000000000000, w_txIndex = 0,
       w_transactions = [], w_receipts = [], w_allLogs = [], w_totalUsedGas = Some 0,
       w_gp = Some 1000000000000000000\<rparr>,
     s_txPool = \<lparr>p_ethState = demo_sd0, p_signer = Some (EIP155Signer 1),
       p_chainConfig = \<lparr>cc_ChainID = Some 1\<rparr>, p_vmConfig = \<lparr>vm_Tracer = True\<rparr>,
       p_gasLimit = 1000000000000000000, p_totalUsedGas = 0, p_gp = None\<rparr>\<rparr>"

definition demo_blk :: block where
  "demo_blk = demo_block 1 9 [0, 5, 1]"

lemma demo_opened:
  "NewState demo (Ret 1024) (\<lambda>_ _ _. Ret demo_db0) ''chaindata'' 128 = Ret demo_s0"
  by (simp add: NewState_def getFdLimit_def InitState_def NewWriteAheadState_def resetWAS_def NewTxPool_def
      demo_s0_def demo_db0_def chainID_def gasLimit_def state0.defs)

lemma demo_reachable: "reachable demo demo_s0"
  using demo_opened by (rule reachable.opened)

lemmas run_defs = ProcessBlock_def stamp_block_def apply_transaction_def Commit_def was_Commit_def was_Reset_def pool_Reset_def
  writeRoot_def writeHead_def writeTransactions_def writeReceipts_def put_failed_tx_def txerror_Marshal_def
  tx_receipt_def Let_def demo_AsMessage.simps demo_message_def demo_ApplyMessage_def demo_tx_def
  demo_encode_tx_def demo_encode_receipt_def demo_receipt_def same_receipt_def log_list_def demo_root_def
  demo_encode_block_def demo_block_def demo_BlockHash_def demo_sd0_def demo_db0_def
  BigintToUInt64_in_range big_Uint64_def

lemma demo_processed:
  "snd (ProcessBlock demo 0 demo_s0 demo_blk) = Ret (3, None)"
  by (simp add: demo_s0_def demo_blk_def run_defs)


section \<open>The write-ahead state\<close>

text \<open>
  C2. In every reachable state the write-ahead state is consistent: it has one receipt per
  transaction, in the same order and under the same hash, \<open>txIndex\<close> counts them, \<open>allLogs\<close>
  holds the receipts' logs, \<open>totalUsedGas\<close> is the sum of the receipts' gas, and each receipt's
  cumulative gas is the gas used up to it, as long as that fits a \<^verbatim>\<open>uint64\<close>.
\<close>

theorem reachable_was_wf:
  assumes "receipt_ok X" "reachable X s"
  shows "was_wf X (s_was s)"
  using bookkeeping.invariant[OF assms(2)] assms(1) by simp

definition demo_pending :: "(demo_db, demo_sd) state" where
  "demo_pending = fst (apply_transaction demo (fst (apply_transaction demo demo_s0 [193, 0] 0 4)) [193, 1] 1 4)"

lemma demo_pending_reachable: "reachable demo demo_pending"
  unfolding demo_pending_def
  by (rule reachable.stepped[OF reachable.stepped[OF demo_reachable]]; rule prod.collapse[symmetric])

theorem reachable_was_wf_witness:
  "was_wf demo (s_was demo_pending) \<and> length (w_transactions (s_was demo_pending)) = 2"
  using reachable_was_wf[OF demo_receipt_ok demo_pending_reachable]
  by (simp add: demo_pending_def demo_s0_def run_defs)

text \<open>
  C14. The write-ahead state that \<^verbatim>\<open>resetWAS\<close> builds has a nil signer, no operation sets one, and so
  the exported \<^verbatim>\<open>ApplyTransaction\<close>, which the Solo, Raft and in-memory Lachesis consensus call,
  panics in every reachable state on every transaction that decodes.
\<close>

theorem reachable_ApplyTransaction_panics:
  assumes "nil_signer_panics X" "reachable X s" "rlp_Decode_tx X b = Ret t"
  shows "ApplyTransaction X s b i h = (s, Panic)"
proof -
  have "w_signer (s_was s) = None"
    using config.invariant[OF assms(2)] by (simp add: config_inv_def was_config_def)
  with assms(1,3) show ?thesis
    by (simp add: ApplyTransaction_def was_ApplyTransaction_def nil_signer_panics_def)
qed

theorem reachable_ApplyTransaction_panics_witness:
  "ApplyTransaction demo demo_pending [193, 2] 0 4 = (demo_pending, Panic)"
  by (rule reachable_ApplyTransaction_panics[OF demo_nil_signer demo_pending_reachable]) simp

section \<open>Processing a block\<close>

text \<open>The state in which the loop over the transactions starts: both copies of the block are stored.\<close>

definition block_stored ::
  "('db, 'sd, 'x) geth_scheme \<Rightarrow> int \<Rightarrow> ('db, 'sd) state \<Rightarrow> block \<Rightarrow> ('db, 'sd) state \<Rightarrow> bool" where
  "block_stored X now s blk s1 \<longleftrightarrow>
     (\<exists>db1 db2. db_Put X (s_db s) (fst (BlockHash X blk)) (fst (ProtoMarshal X (stamp_block now blk))) = (db1, None)
        \<and> db_Put X db1 (blockKey (blk_Index blk)) (fst (ProtoMarshal X (stamp_block now blk))) = (db2, None)
        \<and> s1 = s\<lparr>s_blockIndex := blk_Index blk, s_db := db2\<rparr>)"

lemma block_stored_config: "block_stored X now s blk s1 \<Longrightarrow> reachable X s \<Longrightarrow> config_inv s1"
  using config.put_db[OF config.put_index[OF config.invariant]] by (auto simp: block_stored_def)

lemma ProcessBlock_by_storing:
  obtains (stored) s1 where "block_stored X now s blk s1"
    "ProcessBlock X now s blk =
       (case apply_block_transactions X s1 0 (BytesToHash X (fst (BlockHash X blk))) (blk_Transactions blk) of
          (s, Ret _) \<Rightarrow> Commit X s | (s, Fail e) \<Rightarrow> Commit X s | (s, Panic) \<Rightarrow> (s, Panic))"
  | (not_stored) s' e where "\<And>s1. \<not> block_stored X now s blk s1" "ProcessBlock X now s blk = (s', Ret (0, Some e))"
proof -
  let ?d = "fst (ProtoMarshal X (stamp_block now blk))"
  obtain db1 e1 where 1: "db_Put X (s_db s) (fst (BlockHash X blk)) ?d = (db1, e1)" by fastforce
  obtain db2 e2 where 2: "db_Put X db1 (blockKey (blk_Index blk)) ?d = (db2, e2)" by fastforce
  show thesis
  proof (cases "e1 = None \<and> e2 = None")
    case True
    with 1 2 show thesis
      by (intro stored[of "s\<lparr>s_blockIndex := blk_Index blk, s_db := db2\<rparr>"])
         (auto simp: block_stored_def ProcessBlock_def Let_def)
  next
    case False
    with 1 2 not_stored show thesis
      by (cases e1; cases e2) (auto simp: block_stored_def ProcessBlock_def Let_def)
  qed
qed

lemma ProcessBlock_stored:
  assumes "ProcessBlock X now s blk = (s', Ret (root, err))" "block_stored X now s blk s1"
  shows "\<exists>s2. apply_block_transactions X s1 0 (BytesToHash X (fst (BlockHash X blk))) (blk_Transactions blk) = (s2, Ret ())
    \<and> Commit X s2 = (s', Ret (root, err))"
proof (cases rule: ProcessBlock_by_storing[of X now s blk])
  case (stored s2)
  then have "s2 = s1" using assms(2) by (auto simp: block_stored_def)
  with stored assms(1) show ?thesis
    by (auto split: outcome.splits prod.splits)
qed (use assms(2) in blast)

text \<open>
  C6. In every reachable state, \<^verbatim>\<open>ProcessBlock\<close> returns (with or without an error), whatever bytes the
  transactions of the block are, with one exception: both copies of the block were stored, the transactions
  before the \<open>k\<close>-th ran to their ends, refused or not, and the execution of the \<open>k\<close>-th panics in
  \<^verbatim>\<open>core.ApplyMessage\<close>; the panic then leaves \<^verbatim>\<open>ProcessBlock\<close>.  The context it is run in, with a
  \<^verbatim>\<open>nil\<close> \<^verbatim>\<open>Time\<close> and \<^verbatim>\<open>Difficulty\<close>, is part of \<open>execution_panics\<close>; the second witness has a contract that
  reads the time.
\<close>

theorem ProcessBlock_returns:
  assumes "libs_total X" "reachable X s"
  shows "if \<exists>s1 k s2. block_stored X now s blk s1 \<and> k < length (blk_Transactions blk)
            \<and> apply_block_transactions X s1 0 (BytesToHash X (fst (BlockHash X blk)))
                (take k (blk_Transactions blk)) = (s2, Ret ())
            \<and> execution_panics X s2 (blk_Transactions blk ! k) (int k) (BytesToHash X (fst (BlockHash X blk)))
    then \<exists>s'. ProcessBlock X now s blk = (s', Panic)
    else \<exists>s' h err. ProcessBlock X now s blk = (s', Ret (h, err))"
proof (cases rule: ProcessBlock_by_storing[of X now s blk])
  case (stored s1)
  let ?run = "apply_block_transactions X s1 0 (BytesToHash X (fst (BlockHash X blk))) (blk_Transactions blk)"
  have only: "block_stored X now s blk s2 \<longleftrightarrow> s2 = s1" for s2 using stored(1) by (auto simp: block_stored_def)
  obtain s2 r where run: "?run = (s2, r)" by fastforce
  have ret: "\<exists>s' h err. Commit X s2 = (s', Ret (h, err))" by (rule Commit_Ret[OF assms(1)])
  show ?thesis
    using apply_block_transactions_panics_iff[OF assms(1) block_stored_config[OF stored(1) assms(2)], of 0
        "BytesToHash X (fst (BlockHash X blk))" "blk_Transactions blk"] run ret stored(2)
    by (cases r) (auto simp: only)
qed simp

lemma demo_libs_total: "libs_total demo"
proof -
  have "demo_decode_tx b \<noteq> Panic" for b by (cases b rule: demo_decode_tx.cases) auto
  then show ?thesis
    by (auto simp: libs_total_def demo_encode_tx_def demo_encode_receipt_def Let_def)
qed

text \<open>
  The demo libraries with a contract at address 5 that executes the \<^verbatim>\<open>TIMESTAMP\<close> instruction: it
  reads the time of the context, and a \<^verbatim>\<open>nil\<close> time is dereferenced.
\<close>

definition demo_clock_ApplyMessage ::
  "vm_context \<Rightarrow> demo_sd \<Rightarrow> chain_config \<Rightarrow> vm_config \<Rightarrow> msg \<Rightarrow> u64 option
   \<Rightarrow> demo_sd \<times> u64 \<times> (bytes \<times> u64 \<times> bool) outcome" where
  "demo_clock_ApplyMessage ctx sd cc vc m gp =
     (case demo_ApplyMessage ctx sd cc vc m gp of
        (sd', left, Ret r) \<Rightarrow>
          if msg_To m = Some 5 \<and> ctx_Time ctx = None then (sd, the gp, Panic) else (sd', left, Ret r)
      | other \<Rightarrow> other)"

abbreviation "demo_clock \<equiv> demo\<lparr>ApplyMessage := demo_clock_ApplyMessage\<rparr>"

lemma demo_clock_libs_total: "libs_total demo_clock"
  using demo_libs_total by (simp add: libs_total_def)

lemma demo_clock_reachable: "reachable demo_clock demo_s0"
proof (rule reachable.opened)
  show "NewState demo_clock (Ret 1024) (\<lambda>_ _ _. Ret demo_db0) ''chaindata'' 128 = Ret demo_s0"
    by (simp add: NewState_def getFdLimit_def InitState_def NewWriteAheadState_def resetWAS_def NewTxPool_def
        demo_s0_def demo_db0_def chainID_def gasLimit_def state0.defs)
qed

lemma demo_clock_runs:
  "block_stored demo_clock 0 demo_s0 (demo_block 1 9 [5, 0]) s1 \<Longrightarrow>
   \<exists>s2. apply_block_transactions demo_clock s1 0 h [[193, 5]] = (s2, Ret ())
     \<and> execution_panics demo_clock s2 [193, 0] 1 h"
  by (auto simp: block_stored_def execution_panics_def demo_clock_ApplyMessage_def demo_s0_def run_defs)

lemma demo_no_execution_panics: "config_inv s \<Longrightarrow> \<not> execution_panics demo s b i h"
  by (auto simp: execution_panics_def demo_ApplyMessage_def config_inv_def state_config_def split: if_splits)

theorem ProcessBlock_returns_witness:
  "(\<exists>s' h err. ProcessBlock demo 0 demo_pending demo_blk = (s', Ret (h, err)))
   \<and> (\<exists>s'. ProcessBlock demo_clock 0 demo_s0 (demo_block 1 9 [5, 0]) = (s', Panic))"
proof (intro conjI)
  have "\<not> execution_panics demo s2 b k h"
    if "block_stored demo 0 demo_pending demo_blk s1" "apply_block_transactions demo s1 0 h bs = (s2, Ret ())"
    for s1 s2 h bs b k
    using demo_no_execution_panics[OF apply_block_transactions_config[OF that(2)
      block_stored_config[OF that(1) demo_pending_reachable]]] .
  then show "\<exists>s' h err. ProcessBlock demo 0 demo_pending demo_blk = (s', Ret (h, err))"
    using ProcessBlock_returns[OF demo_libs_total demo_pending_reachable, of 0 demo_blk]
    by (auto split: if_splits)
next
  obtain s1 where s1: "block_stored demo_clock 0 demo_s0 (demo_block 1 9 [5, 0]) s1"
    by (simp add: block_stored_def)
  let ?h = "BytesToHash demo_clock (fst (BlockHash demo_clock (demo_block 1 9 [5, 0])))"
  have "1 < length (blk_Transactions (demo_block 1 9 [5, 0]))"
    "take 1 (blk_Transactions (demo_block 1 9 [5, 0])) = [[193, 5]]"
    "blk_Transactions (demo_block 1 9 [5, 0]) ! 1 = [193, 0]"
    by (simp_all add: demo_block_def)
  with s1 demo_clock_runs[OF s1, of ?h]
  show "\<exists>s'. ProcessBlock demo_clock 0 demo_s0 (demo_block 1 9 [5, 0]) = (s', Panic)"
    using ProcessBlock_returns[OF demo_clock_libs_total demo_clock_reachable, of 0 "demo_block 1 9 [5, 0]"]
    by (metis of_nat_1)
qed

section \<open>What a commit stores\<close>

text \<open>
  C7. After a successful \<^verbatim>\<open>Commit\<close>, \<^verbatim>\<open>GetTransaction\<close> returns each transaction that was pending
  in the write-ahead state under its hash, and every other hash reads as before.
\<close>

theorem Commit_GetTransaction:
  assumes "Commit X s = (s', Ret (root, None))" "kv_ok X" "trie_ok X node stored" "codec_ok X"
    "\<not> node (hash_bytes h)"
  shows "GetTransaction X s' h = (case last_for (tx_Hash X) (w_transactions (s_was s)) h of
     Some t \<Rightarrow> Ret t | None \<Rightarrow> GetTransaction X s h)"
proof (cases "last_for (tx_Hash X) (w_transactions (s_was s)) h")
  case (Some t)
  then have "returned (rlp_Encode_tx X t)"
    using Commit_encoded(1)[OF assms(1,2)] by (auto dest: last_for_Some)
  then obtain d where "rlp_Encode_tx X t = Ret d" by (auto simp: returned_def)
  with Some assms(5) show ?thesis
    using Commit_slots[OF assms(1-3), of "HashSlot h"] codec_ok_tx[OF assms(4)] by (simp add: reads_by_slots)
qed (use Commit_slots[OF assms(1-3), of "HashSlot h"] assms(5) in \<open>simp add: reads_by_slots\<close>)

definition demo_committed :: "(demo_db, demo_sd) state" where
  "demo_committed = fst (Commit demo demo_pending)"

lemma demo_committed_eq: "Commit demo demo_pending = (demo_committed, Ret (3, None))"
  by (rule prod_eqI) (simp_all add: demo_committed_def demo_pending_def demo_s0_def run_defs)

theorem Commit_GetTransaction_witness:
  "GetTransaction demo demo_committed 8 = Ret (demo_tx 1)
   \<and> GetTransaction demo demo_committed 11 = Fail (LibError ''leveldb: not found'')"
  using Commit_GetTransaction[OF demo_committed_eq demo_kv_ok demo_trie_ok demo_codec_ok, of 8]
    Commit_GetTransaction[OF demo_committed_eq demo_kv_ok demo_trie_ok demo_codec_ok, of 11]
  by (simp add: demo_pending_def demo_s0_def run_defs last_for_def GetTransaction_def)

text \<open>
  After a successful \<^verbatim>\<open>Commit\<close>, \<^verbatim>\<open>GetReceipt\<close> returns the receipt of each transaction that was
  pending, up to what the storage encoding drops, and every other hash reads as before.
\<close>

theorem Commit_GetReceipt:
  assumes "Commit X s = (s', Ret (root, None))" "kv_ok X" "trie_ok X node stored" "codec_ok X"
  shows "case last_for TxHash (w_receipts (s_was s)) h of
     Some r \<Rightarrow> \<exists>r'. GetReceipt X s' h = Ret r' \<and> same_receipt r' r
   | None \<Rightarrow> GetReceipt X s' h = GetReceipt X s h"
proof -
  have nn: "\<not> node (slot_key (ReceiptSlot h))" by (rule slot_not_node[OF assms(3)]) simp_all
  note slot = Commit_slots[OF assms(1-3) _ nn]
  show ?thesis
  proof (cases "last_for TxHash (w_receipts (s_was s)) h")
    case (Some r)
    then have "returned (rlp_Encode_receipt X r)"
      using Commit_encoded(2)[OF assms(1,2)] by (auto dest: last_for_Some)
    then obtain d where "rlp_Encode_receipt X r = Ret d" by (auto simp: returned_def)
    with Some slot show ?thesis
      using codec_ok_receipt[OF assms(4)] by (simp add: reads_by_slots)
  qed (use slot in \<open>simp add: reads_by_slots\<close>)
qed

theorem Commit_GetReceipt_witness:
  "\<exists>r. GetReceipt demo demo_committed 8 = Ret r \<and> same_receipt r (demo_receipt 1 2)"
  using Commit_GetReceipt[OF demo_committed_eq demo_kv_ok demo_trie_ok demo_codec_ok, of 8]
  by (simp add: demo_pending_def demo_s0_def run_defs last_for_def)

text \<open>
  C20. A successful \<^verbatim>\<open>Commit\<close> leaves the committed StateDB, the write-ahead state and the pool on the
  same accounts, those the write-ahead state had committed; the write-ahead state is empty, and both
  gas pools are full again.
\<close>

theorem Commit_resets_all:
  assumes "Commit X s = (s', Ret (root, None))" "kv_ok X" "trie_ok X node stored"
    "hashes_apart X node (w_transactions (s_was s))"
  shows "(\<exists>sd. sd_Commit X (w_ethState (s_was s)) True = (sd, Ret root)
      \<and> same_accounts X (s_ethState s') sd \<and> same_accounts X (w_ethState (s_was s')) sd
      \<and> same_accounts X (p_ethState (s_txPool s')) sd)
    \<and> was_empty (s_was s') \<and> w_gp (s_was s') = Some (gp_AddGas X 0 (w_gasLimit (s_was s)))
    \<and> p_totalUsedGas (s_txPool s') = 0
    \<and> p_gp (s_txPool s') = Some (gp_AddGas X 0 (p_gasLimit (s_txPool s)))"
proof (intro conjI)
  show "\<exists>sd. sd_Commit X (w_ethState (s_was s)) True = (sd, Ret root)
      \<and> same_accounts X (s_ethState s') sd \<and> same_accounts X (w_ethState (s_was s')) sd
      \<and> same_accounts X (p_ethState (s_txPool s')) sd"
    by (rule Commit_stored[OF assms]) (metis prod.collapse)
qed (use Commit_empty[OF assms(1)] in simp_all)

lemma demo_apart: "hashes_apart demo (\<lambda>_. False) ts"
  by (simp add: hashes_apart_def)

theorem Commit_resets_all_witness:
  "was_empty (s_was demo_committed) \<and> w_gp (s_was demo_committed) = Some 1000000000000000000
   \<and> p_gp (s_txPool demo_committed) = Some 1000000000000000000"
  using Commit_resets_all[OF demo_committed_eq demo_kv_ok demo_trie_ok demo_apart]
  by (simp add: demo_pending_def demo_s0_def run_defs)

section \<open>What a block stores\<close>

lemma ProcessBlock_stores_block:
  assumes "ProcessBlock X now s blk = (s', Ret (root, None))"
    "kv_ok X" "trie_ok X node stored" "codec_ok X"
    "fst (BlockHash X blk) = hash_bytes h" "snd (ProtoMarshal X (stamp_block now blk)) = None"
    "valid_slot (BlockSlot (blk_Index blk))" "\<not> node (hash_bytes h)"
    "\<forall>t \<in> set (w_transactions (s_was s)). tx_Hash X t \<noteq> h"
    "\<forall>b \<in> set (blk_Transactions blk). \<forall>t. rlp_Decode_tx X b = Ret t \<longrightarrow> tx_Hash X t \<noteq> h"
  shows "GetBlockById X s' (blk_Index blk) = Ret (stamp_block now blk)
    \<and> GetBlock X s' h = Ret (stamp_block now blk)"
proof
  let ?b = "stamp_block now blk"
  obtain d where d: "ProtoMarshal X ?b = (d, None)" using assms(6) by (metis prod.collapse)
  have dec: "get_block X (Ret d) = Ret ?b" using codec_ok_block[OF assms(4) d] by (simp add: get_block_def)
  have nn: "\<not> node (slot_key (BlockSlot (blk_Index blk)))"
    by (rule slot_not_node[OF assms(3,7)]) simp
  have "db_slots X (s_db s') (BlockSlot (blk_Index blk)) = Ret d"
    using assms(7) nn by (rule ProcessBlock_slots[OF assms(1-3,5,7)]) (simp_all add: d)
  then show "GetBlockById X s' (blk_Index blk) = Ret ?b" by (simp add: reads_by_slots dec)
  have "db_slots X (s_db s') (HashSlot h) = Ret d"
  proof (rule ProcessBlock_slots[OF assms(1-3,5,7), of "HashSlot h"])
    fix s1
    assume sl: "db_slots X (s_db s') (HashSlot h) = commit_slots X (s_was s1) root ((db_slots X (s_db s))
        (HashSlot h := Ret (fst (ProtoMarshal X ?b)), BlockSlot (blk_Index blk) := Ret (fst (ProtoMarshal X ?b))))
        (HashSlot h)"
      and run: "\<exists>db. fst (apply_block_transactions X (s\<lparr>s_blockIndex := blk_Index blk, s_db := db\<rparr>) 0
        (BytesToHash X (fst (BlockHash X blk))) (blk_Transactions blk)) = s1"
    have "h \<notin> tx_Hash X ` set (w_transactions (s_was s1))"
      using run assms(9,10) by (fastforce dest: apply_block_transactions_members[OF prod.collapse[symmetric]])
    then show ?thesis using sl by (simp add: d flip: last_for_None)
  qed (use assms(8) in simp_all)
  then show "GetBlock X s' h = Ret ?b" by (simp add: reads_by_slots dec)
qed

text \<open>
  C19. When \<^verbatim>\<open>ProcessBlock\<close> succeeds, \<^verbatim>\<open>GetBlockById\<close> returns the block, with its creation time
  set, under its index, and \<^verbatim>\<open>GetBlock\<close> returns the same block under its hash, unless a pending
  transaction or one of the block has the hash of the block.
\<close>

theorem ProcessBlock_GetBlock:
  assumes "ProcessBlock X now s blk = (s', Ret (root, None))"
    "kv_ok X" "trie_ok X node stored" "codec_ok X"
    "fst (BlockHash X blk) = hash_bytes h" "snd (ProtoMarshal X (stamp_block now blk)) = None"
    "valid_slot (BlockSlot (blk_Index blk))" "\<not> node (hash_bytes h)"
    "\<forall>t \<in> set (w_transactions (s_was s)). tx_Hash X t \<noteq> h"
    "\<forall>b \<in> set (blk_Transactions blk). \<forall>t. rlp_Decode_tx X b = Ret t \<longrightarrow> tx_Hash X t \<noteq> h"
  shows "GetBlockById X s' (blk_Index blk) = Ret (stamp_block now blk)
    \<and> GetBlock X s' h = Ret (stamp_block now blk)"
  by (rule ProcessBlock_stores_block[OF assms])

definition demo_s1 :: "(demo_db, demo_sd) state" where
  "demo_s1 = fst (ProcessBlock demo 0 demo_s0 demo_blk)"

lemma demo_s1_eq: "ProcessBlock demo 0 demo_s0 demo_blk = (demo_s1, Ret (3, None))"
  using demo_processed by (metis demo_s1_def prod.collapse)

theorem ProcessBlock_GetBlock_witness:
  "GetBlockById demo demo_s1 1 = Ret demo_blk \<and> GetBlock demo demo_s1 1001 = Ret demo_blk"
proof -
  have b: "stamp_block 0 demo_blk = demo_blk" "blk_Index demo_blk = 1"
    "fst (BlockHash demo demo_blk) = hash_bytes 1001" "snd (ProtoMarshal demo demo_blk) = None"
    "blk_Transactions demo_blk = [[193, 0], [193, 5], [193, 1]]"
    by (simp_all add: demo_blk_def stamp_block_def demo_BlockHash_def demo_encode_block_def Let_def demo_block_def)
  show ?thesis
    using ProcessBlock_GetBlock[OF demo_s1_eq demo_kv_ok demo_trie_ok demo_codec_ok b(3)] b
    by (simp add: demo_s0_def demo_tx_def)
qed

text \<open>
  A transaction of the block that executes, at its place after the transactions before it, can
  be read by \<^verbatim>\<open>GetTransaction\<close> once \<^verbatim>\<open>ProcessBlock\<close> has succeeded: the read returns it, or a
  transaction of the same hash.
\<close>

theorem ProcessBlock_executed_stored:
  assumes "ProcessBlock X now s blk = (s', Ret (root, None))"
    "kv_ok X" "trie_ok X node stored" "codec_ok X"
    "fst (BlockHash X blk) = hash_bytes bh" "valid_slot (BlockSlot (blk_Index blk))"
    "blk_Transactions blk = bs @ b # cs"
    "apply_block_transactions X s 0 (BytesToHash X (hash_bytes bh)) bs = (s1, Ret ())"
    "apply_transaction X s1 b (int (length bs)) (BytesToHash X (hash_bytes bh)) = (s2, Ret ())"
    "rlp_Decode_tx X b = Ret t" "\<not> node (hash_bytes (tx_Hash X t))"
  shows "\<exists>t'. GetTransaction X s' (tx_Hash X t) = Ret t' \<and> tx_Hash X t' = tx_Hash X t"
proof (rule ProcessBlock_slots[OF assms(1-3,5,6), of "HashSlot (tx_Hash X t)"])
  let ?h = "tx_Hash X t" and ?bh = "BytesToHash X (hash_bytes bh)"
  fix s3
  assume sl: "db_slots X (s_db s') (HashSlot ?h) = commit_slots X (s_was s3) root ((db_slots X (s_db s))
        (HashSlot bh := Ret (fst (ProtoMarshal X (stamp_block now blk))),
         BlockSlot (blk_Index blk) := Ret (fst (ProtoMarshal X (stamp_block now blk))))) (HashSlot ?h)"
    and ran: "\<exists>db. fst (apply_block_transactions X (s\<lparr>s_blockIndex := blk_Index blk, s_db := db\<rparr>) 0
        (BytesToHash X (fst (BlockHash X blk))) (blk_Transactions blk)) = s3"
    and c: "Commit X s3 = (s', Ret (root, None))"
  from ran obtain db where ran: "fst (apply_block_transactions X (s\<lparr>s_blockIndex := blk_Index blk, s_db := db\<rparr>) 0
        ?bh (bs @ b # cs)) = s3" by (auto simp: assms(5,7))
  obtain u1 where u1: "apply_block_transactions X (s\<lparr>s_blockIndex := blk_Index blk, s_db := db\<rparr>) 0 ?bh bs
      = (u1, Ret ())" "same_but_db s1 u1"
    using apply_block_transactions_same_but_db[OF assms(8) same_but_dbI] by blast
  obtain u2 where u2: "apply_transaction X u1 b (int (length bs)) ?bh = (u2, Ret ())"
    using apply_transaction_same_but_db[OF assms(9) u1(2)] by blast
  have "fst (apply_block_transactions X u2 (int (length bs) + 1) ?bh cs) = s3"
    using ran apply_block_transactions_append[OF u1(1), of "b # cs"] u2 by simp
  then obtain r where last: "apply_block_transactions X u2 (int (length bs) + 1) ?bh cs = (s3, r)"
    by (metis prod.collapse)
  have "t \<in> set (w_transactions (s_was u2))"
    using apply_transaction_result[OF u2] assms(10) by (auto elim!: apply_result_RetE simp: applied_def)
  then have "t \<in> set (w_transactions (s_was s3))"
    using apply_block_transactions_grows[OF last] by auto
  then obtain t' where t': "last_for (tx_Hash X) (w_transactions (s_was s3)) ?h = Some t'"
    by (metis (no_types, lifting) imageI last_for_None option.exhaust)
  then have hash: "t' \<in> set (w_transactions (s_was s3))" "tx_Hash X t' = ?h" by (auto dest: last_for_Some)
  with Commit_encoded(1)[OF c assms(2)] obtain d where "rlp_Encode_tx X t' = Ret d" by (auto simp: returned_def)
  with sl t' show ?thesis
    using codec_ok_tx[OF assms(4)] hash(2) by (simp add: reads_by_slots)
qed (use assms(11) in simp_all)

theorem ProcessBlock_executed_stored_witness:
  "\<exists>t'. GetTransaction demo demo_s1 8 = Ret t' \<and> tx_Hash demo t' = 8"
proof -
  let ?h = "BytesToHash demo (hash_bytes 1001)"
  have b: "fst (BlockHash demo demo_blk) = hash_bytes 1001" "valid_slot (BlockSlot (blk_Index demo_blk))"
    "blk_Transactions demo_blk = [[193, 0], [193, 5]] @ [193, 1] # []"
    by (simp_all add: demo_blk_def demo_BlockHash_def demo_block_def)
  let ?s1 = "fst (apply_block_transactions demo demo_s0 0 ?h [[193, 0], [193, 5]])"
  have run: "apply_block_transactions demo demo_s0 0 ?h [[193, 0], [193, 5]] = (?s1, Ret ())"
    "apply_transaction demo ?s1 [193, 1] (int (length [[193, 0], [193, 5 :: 8 word]])) ?h
     = (fst (apply_transaction demo ?s1 [193, 1] 2 ?h), Ret ())"
    by (rule prod_eqI; simp add: demo_s0_def run_defs)+
  have t: "rlp_Decode_tx demo [193, 1] = Ret (demo_tx 1)" by simp
  have "tx_Hash demo (demo_tx 1) = 8" by (simp add: demo_tx_def)
  then show ?thesis
    using ProcessBlock_executed_stored[OF demo_s1_eq demo_kv_ok demo_trie_ok demo_codec_ok b run t] by simp
qed

section \<open>Refused transactions\<close>

text \<open>
  C16. A transaction that decodes and has a valid signature but that \<^verbatim>\<open>ApplyMessage\<close> refuses
  leaves no trace in the pending block, and \<^verbatim>\<open>GetFailedTx\<close> then returns it with the text of the
  error; the record survives the commit of the block.
\<close>

theorem refused_tx_recorded:
  assumes "apply_transaction X s b i h = (s', Fail e)"
    "rlp_Decode_tx X b = Ret t" "AsMessage X (s_signer s) t = Ret m"
    "kv_ok X" "trie_ok X node stored" "codec_ok X"
    "txerror_Marshal X \<lparr>te_Tx = t, te_Error = error_text e\<rparr> = Ret d"
    "snd (db_Put X (s_db s) (errorKey (tx_Hash X t)) d) = None"
  shows "GetFailedTx X s' (tx_Hash X t) = Ret \<lparr>te_Tx = t, te_Error = error_text e\<rparr>
    \<and> w_transactions (s_was s') = w_transactions (s_was s) \<and> w_receipts (s_was s') = w_receipts (s_was s)
    \<and> (\<forall>s'' root. Commit X s' = (s'', Ret (root, None)) \<longrightarrow>
         GetFailedTx X s'' (tx_Hash X t) = Ret \<lparr>te_Tx = t, te_Error = error_text e\<rparr>)"
proof -
  let ?h = "tx_Hash X t" and ?te = "\<lparr>te_Tx = t, te_Error = error_text e\<rparr>"
  have db: "s_db s' = put_failed_tx X (s_db s) t e"
    and lists: "w_transactions (s_was s') = w_transactions (s_was s)" "w_receipts (s_was s') = w_receipts (s_was s)"
    using assms(1-3) by (auto simp: apply_transaction_def Let_def split: outcome.splits prod.splits option.splits)
  obtain db' where "db_Put X (s_db s) (errorKey ?h) d = (db', None)" using assms(8) by (metis prod.collapse)
  then have slot: "db_slots X (s_db s') (ErrorSlot ?h) = Ret d"
    using assms(4,7) by (simp add: db put_failed_tx_def db_slots_def kv_ok_Put)
  have dec: "txerror_Unmarshal X d = Ret ?te"
    using codec_ok_txerror[OF assms(6)] assms(7) by (simp add: txerror_Marshal_def txerror_Unmarshal_def)
  have "GetFailedTx X s'' ?h = Ret ?te" if c: "Commit X s' = (s'', Ret (root, None))" for s'' root
    using Commit_slots[OF c assms(4,5), of "ErrorSlot ?h"] slot_not_node[OF assms(5), of "ErrorSlot ?h"] slot dec
    by (simp add: reads_by_slots)
  with slot dec lists show ?thesis by (simp add: reads_by_slots)
qed

theorem refused_tx_recorded_witness:
  "GetFailedTx demo (fst (apply_transaction demo demo_s0 [193, 5] 1 0)) 12
     = Ret \<lparr>te_Tx = demo_tx 5, te_Error = ''nonce too low''\<rparr>"
proof -
  have r: "apply_transaction demo demo_s0 [193, 5] 1 0
      = (fst (apply_transaction demo demo_s0 [193, 5] 1 0), Fail (LibError ''nonce too low''))"
    by (rule prod_eqI) (simp_all add: demo_s0_def run_defs)
  have "AsMessage demo (s_signer demo_s0) (demo_tx 5) = Ret (demo_message (demo_tx 5))"
    by (simp add: demo_s0_def)
  moreover have "txerror_Marshal demo \<lparr>te_Tx = demo_tx 5, te_Error = error_text (LibError ''nonce too low'')\<rparr> = Ret [5]"
    by (simp add: txerror_Marshal_def demo_encode_error_def demo_error_def demo_tx_def Let_def)
  moreover have "tx_Hash demo (demo_tx 5) = 12" by (simp add: demo_tx_def)
  ultimately show ?thesis
    using refused_tx_recorded[OF r _ _ demo_kv_ok demo_trie_ok demo_codec_ok, of "demo_tx 5"] by simp
qed

section \<open>Restarting\<close>

text \<open>
  C8. Restart round trip: opening a new \<^verbatim>\<open>State\<close> on the database a successful \<^verbatim>\<open>Commit\<close> left
  succeeds, and all three StateDBs of the new state hold the accounts that were committed.
\<close>

theorem restart_after_Commit:
  assumes "Commit X s = (s', Ret (root, None))" "kv_ok X" "trie_ok X node stored" "hash_ok X" "copy_ok X"
    "hashes_apart X node (w_transactions (s_was s))"
    "open file cache (sint limit) = Ret (s_db s')"
  shows "\<exists>s2. NewState X (Ret limit) open file cache = Ret s2 \<and> s_db s2 = s_db s'
    \<and> same_accounts X (s_ethState s2) (s_ethState s') \<and> same_accounts X (w_ethState (s_was s2)) (s_ethState s')
    \<and> same_accounts X (p_ethState (s_txPool s2)) (s_ethState s')"
proof (rule Commit_stored[OF assms(1-3,6)])
  fix sd
  assume st: "stored (s_db s') root sd" and eth: "same_accounts X (s_ethState s') sd"
    and "db_slots X (s_db s') RootSlot = Ret (hash_bytes root)"
  moreover have "hash_bytes root \<noteq> []" using length_hash_bytes[of root] by (metis list.size(3) zero_neq_numeral)
  ultimately have root: "db_Get X (s_db s') rootKey = Ret (hash_bytes root)" "hash_bytes root \<noteq> []"
    by (simp_all add: db_slots_def)
  obtain sd1 where sd1: "sd_New X (s_db s') root = Ret sd1" "same_accounts X sd1 sd"
    using trie_ok_New[OF assms(3) st] by blast
  have "same_accounts X (sd_Copy X sd1) sd1" using assms(5) by (simp add: copy_ok_def)
  then have c: "same_accounts X sd1 (s_ethState s')" "same_accounts X (sd_Copy X sd1) (s_ethState s')"
    using sd1(2) eth by (blast intro: same_accounts_trans same_accounts_sym)+
  have "BytesToHash X (hash_bytes root) = root" using assms(4) by (simp add: hash_ok_def)
  then show ?thesis
    using c sd1(1) root assms(7)
    by (simp add: NewState_def getFdLimit_def InitState_def NewWriteAheadState_def resetWAS_def NewTxPool_def
        state0.defs)
qed

theorem restart_after_Commit_witness:
  "\<exists>s2. NewState demo (Ret 1024) (\<lambda>_ _ _. Ret (s_db demo_committed)) ''chaindata'' 128 = Ret s2
     \<and> same_accounts demo (s_ethState s2) (s_ethState demo_committed)"
  using restart_after_Commit[OF demo_committed_eq demo_kv_ok demo_trie_ok demo_hash_ok demo_copy_ok demo_apart,
      of "\<lambda>_ _ _. Ret (s_db demo_committed)" "''chaindata''" 128 1024] by auto

section \<open>Errors of a commit, two ways to apply a transaction, genesis\<close>

text \<open>
  C21. No commit loses a pending transaction: whatever \<^verbatim>\<open>Commit\<close> returns, each transaction that
  was pending is still pending, or \<^verbatim>\<open>GetTransaction\<close> returns it or one of the same hash.
\<close>

theorem Commit_loses_nothing:
  assumes "Commit X s = (s', res)" "kv_ok X" "trie_ok X node stored" "codec_ok X"
    "t \<in> set (w_transactions (s_was s))" "\<not> node (hash_bytes (tx_Hash X t))"
  shows "t \<in> set (w_transactions (s_was s')) \<or>
    (\<exists>t'. GetTransaction X s' (tx_Hash X t) = Ret t' \<and> tx_Hash X t' = tx_Hash X t)"
  using Commit_kept_or_stored[OF assms(1)]
proof
  assume "\<exists>w root. was_Commit X (s_db s) (s_was s) = (s_db s', w, Ret root)"
  then obtain w root where c: "was_Commit X (s_db s) (s_was s) = (s_db s', w, Ret root)" by blast
  let ?h = "tx_Hash X t"
  obtain t' where t': "last_for (tx_Hash X) (w_transactions (s_was s)) ?h = Some t'"
    using assms(5) by (metis (no_types, lifting) imageI last_for_None option.exhaust)
  then have hash: "t' \<in> set (w_transactions (s_was s))" "tx_Hash X t' = ?h" by (auto dest: last_for_Some)
  with was_Commit_encoded(1)[OF c assms(2)] obtain d where d: "rlp_Encode_tx X t' = Ret d"
    by (auto simp: returned_def)
  have "db_slots X (s_db s') (HashSlot ?h) = Ret d"
    using was_Commit_slots[OF c assms(2,3), of "HashSlot ?h"] assms(6) t' d by simp
  then show ?thesis
    using codec_ok_tx[OF assms(4) d] hash(2) by (simp add: reads_by_slots)
qed (use assms(5) in auto)

theorem Commit_loses_nothing_witness:
  "demo_tx 0 \<in> set (w_transactions (s_was demo_committed)) \<or>
    (\<exists>t'. GetTransaction demo demo_committed (tx_Hash demo (demo_tx 0)) = Ret t'
        \<and> tx_Hash demo t' = tx_Hash demo (demo_tx 0))"
  by (rule Commit_loses_nothing[OF demo_committed_eq demo_kv_ok demo_trie_ok demo_codec_ok])
     (simp_all add: demo_pending_def demo_s0_def run_defs)

text \<open>The write-ahead state with the signer and the configurations of the \<^verbatim>\<open>State\<close>.\<close>

definition adopt :: "('db, 'sd) state \<Rightarrow> 'sd was" where
  "adopt s = (s_was s)\<lparr>w_signer := s_signer s, w_chainConfig := s_chainConfig s, w_vmConfig := s_vmConfig s\<rparr>"

text \<open>
  C38. The two copies of the transaction code agree: as long as the gas counter is a
  \<^verbatim>\<open>uint64\<close>, \<^verbatim>\<open>State.applyTransaction\<close> leaves the write-ahead state that
  \<^verbatim>\<open>WriteAheadState.ApplyTransaction\<close> would leave if it had the signer and the configurations of
  the \<^verbatim>\<open>State\<close>, and returns the same error.
\<close>

theorem apply_transaction_as_was:
  assumes "rlp_Decode_tx X b = Ret t" "apply_transaction X s b i h = (s', res)"
    "was_ApplyTransaction X (adopt s) t i h = (w', res')"
    "\<forall>used. w_totalUsedGas (s_was s) = Some used \<longrightarrow> 0 \<le> used"
    "\<forall>used. w_totalUsedGas w' = Some used \<longrightarrow> used < 2 ^ 64"
  shows "res' = res \<and> adopt s' = w'"
proof (cases "AsMessage X (s_signer s) t")
  case m: (Ret m)
  let ?w = "s_was s"
  let ?c = "message_context h m"
  let ?sd = "sd_Prepare X (w_ethState ?w) (tx_Hash X t) h i"
  obtain sd gp r where run:
    "ApplyMessage X ?c ?sd (s_chainConfig s) (s_vmConfig s) m (w_gp ?w) = (sd, gp, r)"
    by (metis prod_cases3)
  show ?thesis
  proof (cases r)
    case (Ret v)
    obtain out gas failed where v: "v = (out, gas, failed)" by (metis prod_cases3)
    obtain sd' root where ir: "sd_IntermediateRoot X sd True = (sd', root)" by fastforce
    show ?thesis
    proof (cases "w_totalUsedGas ?w")
      case None
      with assms(1-3) m run Ret v show ?thesis
        by (auto simp: apply_transaction_def was_ApplyTransaction_def adopt_def Let_def)
    next
      case (Some used)
      have "w_totalUsedGas w' = Some (used + uint gas)"
        using assms(1,3) m run Ret v ir Some by (auto simp: was_ApplyTransaction_def adopt_def Let_def)
      with assms(4,5) Some have "BigintToUInt64 (used + uint gas) = big_Uint64 (used + uint gas)"
        by (intro BigintToUInt64_in_range) auto
      with assms(1-3) m run Ret v ir Some show ?thesis
        by (auto simp: apply_transaction_def was_ApplyTransaction_def adopt_def Let_def)
    qed
  qed (use assms(1-3) m run in \<open>auto simp: apply_transaction_def was_ApplyTransaction_def adopt_def Let_def\<close>)
qed (use assms(1-3) in \<open>auto simp: apply_transaction_def was_ApplyTransaction_def adopt_def\<close>)

theorem apply_transaction_as_was_witness:
  "adopt (fst (apply_transaction demo demo_s0 [193, 0] 0 4))
     = fst (was_ApplyTransaction demo (adopt demo_s0) (demo_tx 0) 0 4)"
  using apply_transaction_as_was[of demo "[193, 0]" "demo_tx 0" demo_s0 0 4
      "fst (apply_transaction demo demo_s0 [193, 0] 0 4)" "snd (apply_transaction demo demo_s0 [193, 0] 0 4)"
      "fst (was_ApplyTransaction demo (adopt demo_s0) (demo_tx 0) 0 4)"
      "snd (was_ApplyTransaction demo (adopt demo_s0) (demo_tx 0) 0 4)"]
  by (simp add: demo_s0_def was_ApplyTransaction_def adopt_def run_defs)

text \<open>
  \<^verbatim>\<open>CreateAccounts\<close> ranges over a Go map, whose order is random; the order does not matter:
  it succeeds in every order or in none, and every balance is the old one plus the sum of the parsed
  balances of the map's entries for that address, none for an address that the committed state has.
\<close>

theorem create_accounts_any_order:
  assumes "balance_ok X" "mset accs = mset accs'" "create_accounts X s accs = (s1, Ret ())"
  shows "\<exists>s2. create_accounts X s accs' = (s2, Ret ()) \<and>
    (\<forall>a. sd_GetBalance X (w_ethState (s_was s2)) a = sd_GetBalance X (w_ethState (s_was s1)) a
       \<and> sd_GetBalance X (w_ethState (s_was s1)) a
         = sd_GetBalance X (w_ethState (s_was s)) a + (\<Sum>e\<leftarrow>accs. genesis_balance X s a e))"
proof -
  have "set accs = set accs'" using assms(2) by (rule mset_eq_setD)
  then have "snd (create_accounts X s accs') = Ret ()"
    using create_accounts_Ret_iff[of X s accs] assms(3) by (simp add: create_accounts_Ret_iff)
  then obtain s2 where s2: "create_accounts X s accs' = (s2, Ret ())" by (metis prod.collapse)
  have "(\<Sum>e\<leftarrow>accs. genesis_balance X s a e) = (\<Sum>e\<leftarrow>accs'. genesis_balance X s a e)" for a
    using assms(2) by (metis mset_map sum_mset_sum_list)
  then show ?thesis
    using s2 create_accounts_balance[OF assms(1) assms(3)] create_accounts_balance[OF assms(1) s2] by auto
qed

definition demo_accounts :: account_map where
  "demo_accounts = [(''a'', \<lparr>acc_Code = [], acc_Storage = [(''k'', ''v'')], acc_Balance = ''ten''\<rparr>),
     (''bb'', \<lparr>acc_Code = [], acc_Storage = [], acc_Balance = ''five5''\<rparr>)]"

theorem create_accounts_any_order_witness:
  "\<exists>s2. create_accounts demo demo_s0 (rev demo_accounts) = (s2, Ret ())
     \<and> sd_GetBalance demo (w_ethState (s_was s2)) 2 = 5"
proof -
  have "mset demo_accounts = mset (rev demo_accounts)" by simp
  moreover have "snd (create_accounts demo demo_s0 demo_accounts) = Ret ()"
    by (simp add: demo_accounts_def demo_s0_def Exist_def demo_sd0_def Let_def)
  then obtain s1 where "create_accounts demo demo_s0 demo_accounts = (s1, Ret ())"
    by (metis prod.collapse)
  moreover have "(\<Sum>e\<leftarrow>demo_accounts. genesis_balance demo demo_s0 2 e) = 5"
    "sd_GetBalance demo (w_ethState (s_was demo_s0)) 2 = 0"
    by (simp_all add: demo_accounts_def genesis_balance_def demo_s0_def Exist_def demo_sd0_def)
  ultimately show ?thesis
    using create_accounts_any_order[OF demo_balance_ok] by (metis add_0)
qed

end
