(* ===== verification/Ledger.thy ===== *)
theory Ledger
  imports StateSpec
begin

text \<open>
  An abstract specification of the application state: a ledger is what the slots of the store hold
  and the executed transactions that are not committed yet, each with its receipt.  Its events are
  what a client can observe: a record is stored, a transaction is executed, refused or skipped, the
  pending ones are committed.  A block that \<^verbatim>\<open>ProcessBlock\<close> accepts is a run of events of the
  ledger, one per transaction and in their order; which one is computed on the accounts, the gas pool and the gas
  used alone.
\<close>

section \<open>The specification\<close>

record ledger =
  l_store :: "slot \<Rightarrow> bytes outcome"
  l_pending :: "(tx \<times> receipt) list"

datatype event =
    Stored slot bytes
  | Executed tx receipt
  | Refused tx "bytes outcome"
  | Skipped
  | Committed hash

definition commit_ledger :: "('db, 'sd, 'x) geth_scheme \<Rightarrow> hash \<Rightarrow> ledger \<Rightarrow> ledger" where
  "commit_ledger X root l =
     (let ts = map fst (l_pending l); rs = map snd (l_pending l);
          head = (if ts \<noteq> [] then last ts else zero_tx)
      in \<lparr>l_store = put_receipts X rs (put_transactions X ts ((l_store l)
            (RootSlot := Ret (hash_bytes root), HeadSlot := Ret (hash_bytes (tx_Hash X head))))),
          l_pending = []\<rparr>)"

inductive ledger_step ::
  "('db, 'sd, 'x) geth_scheme \<Rightarrow> event \<Rightarrow> ledger \<Rightarrow> ledger \<Rightarrow> bool" for X where
  store: "ledger_step X (Stored sl d) l (l\<lparr>l_store := (l_store l)(sl := Ret d)\<rparr>)"
| execute: "TxHash r = tx_Hash X t \<Longrightarrow>
    ledger_step X (Executed t r) l (l\<lparr>l_pending := l_pending l @ [(t, r)]\<rparr>)"
| refuse: "ledger_step X (Refused t v) l (l\<lparr>l_store := (l_store l)(ErrorSlot (tx_Hash X t) := v)\<rparr>)"
| skip: "ledger_step X Skipped l l"
| commit: "\<forall>(t, r) \<in> set (l_pending l). returned (rlp_Encode_tx X t) \<and> returned (rlp_Encode_receipt X r)
    \<Longrightarrow> ledger_step X (Committed root) l (commit_ledger X root l)"

inductive_cases ledger_stepE: "ledger_step X ev l l'"

inductive ledger_run ::
  "('db, 'sd, 'x) geth_scheme \<Rightarrow> event list \<Rightarrow> ledger \<Rightarrow> ledger \<Rightarrow> bool" for X where
  done_run: "ledger_run X [] l l"
| step_run: "ledger_step X ev l l1 \<Longrightarrow> ledger_run X evs l1 l' \<Longrightarrow> ledger_run X (ev # evs) l l'"

lemma ledger_run_append:
  "ledger_run X evs l l1 \<Longrightarrow> ledger_run X evs' l1 l' \<Longrightarrow> ledger_run X (evs @ evs') l l'"
  by (induction rule: ledger_run.induct) (auto intro: ledger_run.intros)

text \<open>
  An invariant of the specification, by induction on the run: whoever finds a receipt finds an entry
  under the hash of its transaction.
\<close>

definition receipts_covered :: "ledger \<Rightarrow> bool" where
  "receipts_covered l \<longleftrightarrow> (\<forall>h. returned (l_store l (ReceiptSlot h)) \<longrightarrow> returned (l_store l (HashSlot h)))"

definition pending_ok :: "('db, 'sd, 'x) geth_scheme \<Rightarrow> ledger \<Rightarrow> bool" where
  "pending_ok X l \<longleftrightarrow> (\<forall>(t, r) \<in> set (l_pending l). TxHash r = tx_Hash X t)"

lemma commit_ledger_covered:
  assumes "receipts_covered l" "pending_ok X l"
    "\<forall>(t, r) \<in> set (l_pending l). returned (rlp_Encode_tx X t) \<and> returned (rlp_Encode_receipt X r)"
  shows "receipts_covered (commit_ledger X root l)"
proof -
  let ?ts = "map fst (l_pending l)" and ?rs = "map snd (l_pending l)"
  have "returned (l_store (commit_ledger X root l) (HashSlot h))"
    if r: "returned (l_store (commit_ledger X root l) (ReceiptSlot h))" for h
  proof (cases "last_for (tx_Hash X) ?ts h")
    case None
    have "h \<notin> TxHash ` set ?rs" using None assms(2) by (force simp: last_for_None pending_ok_def)
    then have "last_for TxHash ?rs h = None" by (simp add: last_for_None)
    with r None assms(1) show ?thesis by (simp add: commit_ledger_def Let_def receipts_covered_def)
  next
    case (Some t)
    then have "returned (rlp_Encode_tx X t)" using assms(3) by (fastforce dest: last_for_Some)
    with Some show ?thesis by (simp add: commit_ledger_def Let_def)
  qed
  then show ?thesis by (simp add: receipts_covered_def)
qed

lemma ledger_step_covered:
  assumes "ledger_step X ev l l'" "receipts_covered l" "pending_ok X l" "\<And>h d. ev \<noteq> Stored (ReceiptSlot h) d"
  shows "receipts_covered l' \<and> pending_ok X l'"
  using assms(1)
proof cases
  case (store sl d)
  then show ?thesis using assms(2-4) by (auto simp: receipts_covered_def pending_ok_def)
next
  case (commit root)
  then show ?thesis using commit_ledger_covered[OF assms(2,3)] by (simp add: pending_ok_def commit_ledger_def Let_def)
qed (use assms(2,3) in \<open>auto simp: receipts_covered_def pending_ok_def\<close>)

section \<open>The state implements it\<close>

text \<open>
  \<open>sees X node s l\<close>: the state shows the ledger \<open>l\<close>, in every slot but those whose key is a trie
  node's.
\<close>

definition sees ::
  "('db, 'sd, 'x) geth_scheme \<Rightarrow> (bytes \<Rightarrow> bool) \<Rightarrow> ('db, 'sd) state \<Rightarrow> ledger \<Rightarrow> bool" where
  "sees X node s l \<longleftrightarrow>
     (\<forall>sl. valid_slot sl \<and> \<not> node (slot_key sl) \<longrightarrow> db_slots X (s_db s) sl = l_store l sl)
     \<and> w_transactions (s_was s) = map fst (l_pending l) \<and> w_receipts (s_was s) = map snd (l_pending l)"

lemma sees_put:
  assumes "sees X node s l" "kv_ok X" "db_Put X (s_db s) (slot_key sl) d = (db, None)" "valid_slot sl"
  shows "sees X node (s\<lparr>s_db := db\<rparr>) (l\<lparr>l_store := (l_store l)(sl := Ret d)\<rparr>)"
  using assms db_slots_Put[OF assms(2,3,4)] by (auto simp: sees_def)

subsection \<open>The events of a block\<close>

text \<open>
  What executing the transactions of a block one after the other comes to, computed on the accounts,
  the gas pool and the gas used alone: the fate of each transaction, executed with a receipt, refused
  with an error, or not run because its bytes are no transaction or carry no valid signature.
\<close>

record 'sd evm =
  e_sd :: 'sd
  e_gp :: "u64 option"
  e_used :: "int option"

datatype fate = Runs tx receipt | Refuses tx error | NotRun | Stuck

definition evm_of :: "('db, 'sd) state \<Rightarrow> 'sd evm" where
  "evm_of s = \<lparr>e_sd = w_ethState (s_was s), e_gp = w_gp (s_was s), e_used = w_totalUsedGas (s_was s)\<rparr>"

fun execution ::
  "('db, 'sd, 'x) geth_scheme \<Rightarrow> signer option \<times> chain_config \<times> vm_config \<Rightarrow> hash \<Rightarrow> int
   \<Rightarrow> 'sd evm \<Rightarrow> bytes \<Rightarrow> 'sd evm \<times> fate" where
  "execution X (sg, cc, vc) h i v b =
     (case rlp_Decode_tx X b of
        Ret t \<Rightarrow> (case AsMessage X sg t of
            Ret m \<Rightarrow>
              (case ApplyMessage X (message_context h m) (sd_Prepare X (e_sd v) (tx_Hash X t) h i) cc vc m (e_gp v) of
                 (sd, left, Ret (_, gas, failed)) \<Rightarrow>
                   (case (e_used v, sd_IntermediateRoot X sd True) of
                      (Some used, (sd, root)) \<Rightarrow>
                        (\<lparr>e_sd = sd, e_gp = set_pool (e_gp v) left, e_used = Some (used + uint gas)\<rparr>,
                         Runs t (tx_receipt X root failed (BigintToUInt64 (used + uint gas)) gas m (msg_From m) t sd))
                    | (None, _) \<Rightarrow> (v, Stuck))
               | (sd, left, Fail e) \<Rightarrow> (v\<lparr>e_sd := sd, e_gp := set_pool (e_gp v) left\<rparr>, Refuses t e)
               | (sd, left, Panic) \<Rightarrow> (v, Stuck))
          | Fail _ \<Rightarrow> (v, NotRun) | Panic \<Rightarrow> (v, Stuck))
      | Fail _ \<Rightarrow> (v, NotRun) | Panic \<Rightarrow> (v, Stuck))"

fun fates ::
  "('db, 'sd, 'x) geth_scheme \<Rightarrow> signer option \<times> chain_config \<times> vm_config \<Rightarrow> hash \<Rightarrow> int
   \<Rightarrow> 'sd evm \<Rightarrow> bytes list \<Rightarrow> fate list" where
  "fates X c h i v [] = []"
| "fates X c h i v (b # bs) = (case execution X c h i v b of (v', f) \<Rightarrow> f # fates X c h (i + 1) v' bs)"

text \<open>
  The event a fate makes.  The record of a refused transaction is what \<^verbatim>\<open>applyTransaction\<close> marshalled,
  unless the database refused the write; the code does not look at that error.
\<close>

definition failed_record :: "('db, 'sd, 'x) geth_scheme \<Rightarrow> tx \<Rightarrow> error \<Rightarrow> bytes" where
  "failed_record X t e =
     (case txerror_Marshal X \<lparr>te_Tx = t, te_Error = error_text e\<rparr> of Ret b \<Rightarrow> b | _ \<Rightarrow> [])"

definition puts_succeed :: "('db, 'sd, 'x) geth_scheme \<Rightarrow> bool" where
  "puts_succeed X \<longleftrightarrow> (\<forall>db k v. snd (db_Put X db k v) = None)"

fun fate_event :: "('db, 'sd, 'x) geth_scheme \<Rightarrow> fate \<Rightarrow> event \<Rightarrow> bool" where
  "fate_event X (Runs t r) ev \<longleftrightarrow> ev = Executed t r"
| "fate_event X (Refuses t e) ev \<longleftrightarrow>
     (\<exists>v. ev = Refused t v \<and> (puts_succeed X \<longrightarrow> v = Ret (failed_record X t e)))"
| "fate_event X NotRun ev \<longleftrightarrow> ev = Skipped"
| "fate_event X Stuck ev \<longleftrightarrow> False"

lemma fate_event_not_stored: "fate_event X f ev \<Longrightarrow> ev \<noteq> Stored sl d"
  by (cases f) auto

lemma apply_transaction_execution:
  assumes "apply_transaction X s b i h = (s', res)" "res \<noteq> Panic"
    "execution X (state_config s) h i (evm_of s) b = (v, f)"
  shows "evm_of s' = v" "state_config s' = state_config s"
    "case f of
       Runs t r \<Rightarrow> TxHash r = tx_Hash X t \<and> s_db s' = s_db s
         \<and> w_transactions (s_was s') = w_transactions (s_was s) @ [t] \<and> w_receipts (s_was s') = w_receipts (s_was s) @ [r]
     | Refuses t e \<Rightarrow> s_db s' = put_failed_tx X (s_db s) t e
         \<and> w_transactions (s_was s') = w_transactions (s_was s) \<and> w_receipts (s_was s') = w_receipts (s_was s)
     | NotRun \<Rightarrow> s_db s' = s_db s
         \<and> w_transactions (s_was s') = w_transactions (s_was s) \<and> w_receipts (s_was s') = w_receipts (s_was s)
     | Stuck \<Rightarrow> False"
  using assms
  by (auto simp: apply_transaction_def evm_of_def state_config_def Let_def tx_receipt_def
      split: outcome.splits prod.splits option.splits)

lemma failed_tx_slot:
  assumes "kv_ok X" "puts_succeed X"
  shows "db_slots X (put_failed_tx X db t e) (ErrorSlot (tx_Hash X t)) = Ret (failed_record X t e)"
proof -
  obtain db' where put: "db_Put X db (errorKey (tx_Hash X t)) (failed_record X t e) = (db', None)"
    using assms(2) by (metis puts_succeed_def prod.collapse)
  then have "put_failed_tx X db t e = db'" by (simp add: put_failed_tx_def failed_record_def)
  then show ?thesis using db_slots_Put[OF assms(1), of db "ErrorSlot (tx_Hash X t)"] put by simp
qed

lemma apply_transaction_refines:
  assumes "apply_transaction X s b i h = (s', res)" "res \<noteq> Panic"
    "execution X (state_config s) h i (evm_of s) b = (v, f)" "sees X node s l" "kv_ok X"
  shows "\<exists>ev l'. fate_event X f ev \<and> ledger_step X ev l l' \<and> sees X node s' l'"
proof -
  note step = apply_transaction_execution(3)[OF assms(1-3)]
  show ?thesis
  proof (cases f)
    case (Runs t r)
    with step assms(4) have "sees X node s' (l\<lparr>l_pending := l_pending l @ [(t, r)]\<rparr>)" by (auto simp: sees_def)
    with Runs step ledger_step.execute[of r X t l] show ?thesis by auto
  next
    case (Refuses t e)
    let ?sl = "ErrorSlot (tx_Hash X t)"
    let ?v = "db_slots X (s_db s') ?sl"
    have "sees X node s' (l\<lparr>l_store := (l_store l)(?sl := ?v)\<rparr>)"
      using assms(4) step Refuses put_failed_tx_slots[OF assms(5), of _ t "s_db s" e] by (auto simp: sees_def)
    with Refuses step failed_tx_slot[OF assms(5)] ledger_step.refuse[of X t ?v l] show ?thesis by fastforce
  next
    case NotRun
    with step assms(4) have "sees X node s' l" by (auto simp: sees_def)
    with NotRun show ?thesis by (auto intro: ledger_step.skip)
  qed (use step in simp)
qed

lemma apply_block_transactions_refines:
  assumes "apply_block_transactions X s i h bs = (s', Ret ())" "sees X node s l" "kv_ok X"
  shows "\<exists>evs l'. list_all2 (fate_event X) (fates X (state_config s) h i (evm_of s) bs) evs
    \<and> ledger_run X evs l l' \<and> sees X node s' l'"
  using assms(1,2)
proof (induction bs arbitrary: s i l)
  case Nil
  then show ?case by (auto intro!: exI[of _ "[]"] exI[of _ l] ledger_run.intros)
next
  case (Cons b bs)
  obtain s1 r where 1: "apply_transaction X s b i h = (s1, r)" by fastforce
  obtain v f where x: "execution X (state_config s) h i (evm_of s) b = (v, f)" by fastforce
  from Cons.prems(1) 1 have r: "r \<noteq> Panic" and rest: "apply_block_transactions X s1 (i + 1) h bs = (s', Ret ())"
    by (cases r; auto)+
  obtain ev l1 where ev: "fate_event X f ev" "ledger_step X ev l l1" "sees X node s1 l1"
    using apply_transaction_refines[OF 1 r x Cons.prems(2) assms(3)] by blast
  from Cons.IH[OF rest ev(3)] obtain evs l' where
    "list_all2 (fate_event X) (fates X (state_config s1) h (i + 1) (evm_of s1) bs) evs"
    "ledger_run X evs l1 l'" "sees X node s' l'" by blast
  with ev x apply_transaction_execution(1,2)[OF 1 r x] show ?case
    by (intro exI[of _ "ev # evs"] exI[of _ l']) (auto intro: ledger_run.intros)
qed

lemma Commit_refines:
  assumes "Commit X s = (s', Ret (root, None))" "sees X node s l" "kv_ok X" "trie_ok X node stored"
  shows "ledger_step X (Committed root) l (commit_ledger X root l) \<and> sees X node s' (commit_ledger X root l)"
proof
  have ts: "w_transactions (s_was s) = map fst (l_pending l)" "w_receipts (s_was s) = map snd (l_pending l)"
    using assms(2) by (simp_all add: sees_def)
  show "ledger_step X (Committed root) l (commit_ledger X root l)"
    using Commit_encoded[OF assms(1,3)] ts by (intro ledger_step.commit) force
  have slots: "db_slots X (s_db s') sl = l_store (commit_ledger X root l) sl"
    if "valid_slot sl" "\<not> node (slot_key sl)" for sl
    using Commit_slots[OF assms(1,3,4) that] assms(2) that ts
    by (cases sl) (auto simp: sees_def commit_ledger_def Let_def head_tx_def split: option.splits)
  have "w_transactions (s_was s') = []" "w_receipts (s_was s') = []"
    using Commit_empty(1)[OF assms(1)] by (simp_all add: was_empty_def)
  with slots show "sees X node s' (commit_ledger X root l)"
    by (simp add: sees_def) (simp add: commit_ledger_def Let_def)
qed

text \<open>The fates of the transactions of a block, in the state \<^verbatim>\<open>ProcessBlock\<close> is called in.\<close>

abbreviation block_fates :: "('db, 'sd, 'x) geth_scheme \<Rightarrow> ('db, 'sd) state \<Rightarrow> block \<Rightarrow> fate list" where
  "block_fates X s blk \<equiv>
     fates X (state_config s) (BytesToHash X (fst (BlockHash X blk))) 0 (evm_of s) (blk_Transactions blk)"

lemma ProcessBlock_refines:
  assumes "ProcessBlock X now s blk = (s', Ret (root, None))" "sees X node s l"
    "kv_ok X" "trie_ok X node stored"
    "fst (BlockHash X blk) = hash_bytes h" "valid_slot (BlockSlot (blk_Index blk))"
    "d = fst (ProtoMarshal X (stamp_block now blk))"
  shows "\<exists>evs l'. list_all2 (fate_event X) (block_fates X s blk) evs
    \<and> ledger_run X (Stored (HashSlot h) d # Stored (BlockSlot (blk_Index blk)) d # evs @ [Committed root]) l l'
    \<and> sees X node s' l'"
  using assms(1)
proof (rule ProcessBlock_ok)
  fix db1 db2 s1
  let ?s = "s\<lparr>s_blockIndex := blk_Index blk\<rparr>"
  let ?run = "apply_block_transactions X (s\<lparr>s_blockIndex := blk_Index blk, s_db := db2\<rparr>) 0
        (BytesToHash X (fst (BlockHash X blk))) (blk_Transactions blk)"
  assume puts: "db_Put X (s_db s) (fst (BlockHash X blk)) (fst (ProtoMarshal X (stamp_block now blk))) = (db1, None)"
    "db_Put X db1 (blockKey (blk_Index blk)) (fst (ProtoMarshal X (stamp_block now blk))) = (db2, None)"
    and run: "fst ?run = s1" and c: "Commit X s1 = (s', Ret (root, None))"
  let ?l1 = "l\<lparr>l_store := (l_store l)(HashSlot h := Ret d)\<rparr>"
  let ?l2 = "?l1\<lparr>l_store := (l_store ?l1)(BlockSlot (blk_Index blk) := Ret d)\<rparr>"
  have "sees X node ?s l" using assms(2) by (simp add: sees_def)
  from sees_put[OF this assms(3), of "HashSlot h" d db1] have l1: "sees X node (?s\<lparr>s_db := db1\<rparr>) ?l1"
    using puts(1) assms(5,7) by simp
  from sees_put[OF l1 assms(3), of "BlockSlot (blk_Index blk)" d db2]
  have l2: "sees X node (?s\<lparr>s_db := db1, s_db := db2\<rparr>) ?l2"
    using puts(2) assms(6,7) by simp
  have "snd ?run = Ret ()"
    using assms(1) puts run by (auto simp: ProcessBlock_def Let_def split: outcome.splits prod.splits)
  with run have "?run = (s1, Ret ())" by (metis prod.collapse)
  from apply_block_transactions_refines[OF this _ assms(3), of node ?l2] l2 obtain evs l3 where
    evs: "list_all2 (fate_event X) (block_fates X s blk) evs" "ledger_run X evs ?l2 l3" "sees X node s1 l3"
    by (auto simp: state_config_def evm_of_def)
  note cm = Commit_refines[OF c evs(3) assms(3,4)]
  have "ledger_run X (evs @ [Committed root]) ?l2 (commit_ledger X root l3)"
    using evs(2) cm by (intro ledger_run_append) (auto intro: ledger_run.intros)
  then have "ledger_run X (Stored (HashSlot h) d # Stored (BlockSlot (blk_Index blk)) d # evs @ [Committed root])
      l (commit_ledger X root l3)"
    by (rule ledger_run.step_run[OF ledger_step.store ledger_run.step_run[OF ledger_step.store]])
  with evs(1) cm show ?thesis by blast
qed

text \<open>
  C1. Refinement: a block that \<^verbatim>\<open>ProcessBlock\<close> accepts is a run of the abstract ledger.  It stores the
  marshalled block, with its time stamped, under its hash and under its index; then it makes one
  event per transaction of the block, in order, and which event is determined by executing the transactions one
  after the other on the accounts, the gas pool and the gas used alone (\<open>block_fates\<close>): executed with
  this receipt, refused and recorded with this error, or skipped; then everything that is pending is committed.
\<close>

theorem ProcessBlock_refines_ledger:
  assumes "ProcessBlock X now s blk = (s', Ret (root, None))" "sees X node s l"
    "kv_ok X" "trie_ok X node stored"
    "fst (BlockHash X blk) = hash_bytes h" "valid_slot (BlockSlot (blk_Index blk))"
    "d = fst (ProtoMarshal X (stamp_block now blk))"
  shows "\<exists>evs l'. list_all2 (fate_event X) (block_fates X s blk) evs
    \<and> ledger_run X (Stored (HashSlot h) d # Stored (BlockSlot (blk_Index blk)) d # evs @ [Committed root]) l l'
    \<and> sees X node s' l'"
  using assms by (rule ProcessBlock_refines)

lemma demo_fates:
  "block_fates demo demo_s0 demo_blk =
     [Runs (demo_tx 0) (demo_receipt 0 1), Refuses (demo_tx 5) (LibError ''nonce too low''),
      Runs (demo_tx 1) (demo_receipt 1 2)]"
  by (simp add: state_config_def evm_of_def demo_s0_def demo_blk_def run_defs)

theorem ProcessBlock_refines_ledger_witness:
  "\<exists>l'. ledger_run demo
      [Stored (HashSlot 1001) [1, 9, 0, 5, 1], Stored (BlockSlot 1) [1, 9, 0, 5, 1],
       Executed (demo_tx 0) (demo_receipt 0 1), Refused (demo_tx 5) (Ret [5]),
       Executed (demo_tx 1) (demo_receipt 1 2), Committed 3]
      \<lparr>l_store = (\<lambda>_. Fail (LibError ''leveldb: not found'')), l_pending = []\<rparr> l'
    \<and> sees demo (\<lambda>_. False) demo_s1 l'"
proof -
  have b: "fst (BlockHash demo demo_blk) = hash_bytes 1001" "valid_slot (BlockSlot (blk_Index demo_blk))"
    "blk_Index demo_blk = 1" "[1, 9, 0, 5, 1] = fst (ProtoMarshal demo (stamp_block 0 demo_blk))"
    by (simp_all add: demo_blk_def demo_BlockHash_def demo_block_def stamp_block_def demo_encode_block_def)
  have s: "sees demo (\<lambda>_. False) demo_s0 \<lparr>l_store = (\<lambda>_. Fail (LibError ''leveldb: not found'')), l_pending = []\<rparr>"
    by (simp add: sees_def demo_s0_def demo_db0_def db_slots_def)
  have r: "puts_succeed demo" "failed_record demo (demo_tx 5) (LibError ''nonce too low'') = [5]"
    by (simp_all add: puts_succeed_def failed_record_def txerror_Marshal_def demo_encode_error_def demo_error_def
        demo_tx_def Let_def)
  show ?thesis
    using ProcessBlock_refines_ledger[OF demo_s1_eq s demo_kv_ok demo_trie_ok b(1,2,4)]
    unfolding demo_fates b(3) by (auto simp: list_all2_Cons1 r)
qed

section \<open>Chains\<close>

text \<open>A state opened on an empty database that has accepted a number of blocks.\<close>

inductive chain :: "('db, 'sd, 'x) geth_scheme \<Rightarrow> ('db, 'sd) state \<Rightarrow> bool" for X where
  genesis: "NewState X limit open file cache = Ret s
    \<Longrightarrow> \<forall>sl. valid_slot sl \<longrightarrow> \<not> returned (db_slots X (s_db s) sl) \<Longrightarrow> chain X s"
| block: "chain X s \<Longrightarrow> ProcessBlock X now s blk = (s', Ret (root, None))
    \<Longrightarrow> fst (BlockHash X blk) = hash_bytes h \<Longrightarrow> valid_slot (BlockSlot (blk_Index blk)) \<Longrightarrow> chain X s'"

text \<open>The ledger a state shows, with the receipts of the slots that are no int64 index left out.\<close>

lemma ledger_run_covered:
  assumes "ledger_run X evs l l'" "receipts_covered l" "pending_ok X l"
    "\<forall>ev \<in> set evs. \<forall>h d. ev \<noteq> Stored (ReceiptSlot h) d"
  shows "receipts_covered l' \<and> pending_ok X l'"
  using assms
proof (induction rule: ledger_run.induct)
  case (step_run ev l l1 evs l')
  then show ?case using ledger_step_covered[OF step_run.hyps(1)] by auto
qed simp

lemma chain_sees:
  assumes "chain X s" "kv_ok X" "trie_ok X node stored"
  shows "\<exists>l. sees X node s l \<and> receipts_covered l \<and> pending_ok X l"
  using assms(1)
proof (induction rule: chain.induct)
  case (genesis limit opn fn cs s)
  have "was_empty (s_was s)" using genesis.hyps(1) by (auto elim!: NewState_Ret)
  then have "sees X node s \<lparr>l_store = db_slots X (s_db s), l_pending = []\<rparr>"
    by (simp add: sees_def was_empty_def)
  moreover have "receipts_covered \<lparr>l_store = db_slots X (s_db s), l_pending = []\<rparr>"
    using genesis.hyps(2) by (simp add: receipts_covered_def)
  ultimately show ?case by (auto simp: pending_ok_def intro!: exI[of _ "\<lparr>l_store = db_slots X (s_db s), l_pending = []\<rparr>"])
next
  case (block s now blk s' root h)
  then obtain l where l: "sees X node s l" "receipts_covered l" "pending_ok X l" by blast
  from ProcessBlock_refines[OF block.hyps(2) l(1) assms(2,3) block.hyps(3,4) refl] obtain d evs l' where
    evs: "list_all2 (fate_event X) (block_fates X s blk) evs"
    "ledger_run X (Stored (HashSlot h) d # Stored (BlockSlot (blk_Index blk)) d # evs @ [Committed root]) l l'"
    "sees X node s' l'" by blast
  have "ev \<noteq> Stored (ReceiptSlot g) d'" if "ev \<in> set evs" for ev g d'
    using evs(1) that by (auto simp: list_all2_conv_all_nth in_set_conv_nth fate_event_not_stored)
  then have "receipts_covered l' \<and> pending_ok X l'"
    by (intro ledger_run_covered[OF evs(2) l(2,3)]) auto
  with evs(3) show ?case by blast
qed

text \<open>
  C15. On a chain of accepted blocks, a receipt is never found without its transaction: when
  \<^verbatim>\<open>GetReceipt\<close> returns a receipt for a hash, the database has an entry under that hash.
\<close>

theorem chain_receipt_has_tx:
  assumes "chain X s" "kv_ok X" "trie_ok X node stored" "GetReceipt X s h = Ret r" "\<not> node (hash_bytes h)"
  shows "\<exists>d. db_Get X (s_db s) (hash_bytes h) = Ret d"
proof -
  obtain l where l: "sees X node s l" "receipts_covered l" using chain_sees[OF assms(1-3)] by blast
  have "returned (db_slots X (s_db s) (ReceiptSlot h))"
    using assms(4) by (auto simp: reads_by_slots returned_def split: outcome.splits)
  moreover have "\<not> node (slot_key (ReceiptSlot h))" by (rule slot_not_node[OF assms(3)]) simp_all
  ultimately have "returned (l_store l (ReceiptSlot h))" using l(1) unfolding sees_def by (metis valid_slot.simps(5))
  then have "returned (l_store l (HashSlot h))" using l(2) by (simp add: receipts_covered_def)
  then have "returned (db_slots X (s_db s) (HashSlot h))"
    using l(1) assms(5) by (simp add: sees_def)
  then show ?thesis by (simp add: db_slots_def returned_def)
qed

lemma demo_chain: "chain demo demo_s1"
proof (rule chain.block[OF _ demo_s1_eq])
  show "chain demo demo_s0"
    by (rule chain.genesis[OF demo_opened]) (simp add: demo_s0_def demo_db0_def db_slots_def)
qed (simp_all add: demo_blk_def demo_BlockHash_def demo_block_def)

theorem chain_receipt_has_tx_witness:
  "\<exists>d. db_Get demo (s_db demo_s1) (hash_bytes 8) = Ret d"
proof -
  have "GetReceipt demo demo_s1 8 = Ret (demo_receipt 1 2)"
    by (simp add: demo_s1_def demo_s0_def demo_blk_def run_defs GetReceipt_def slots.get_put)
  then show ?thesis by (rule chain_receipt_has_tx[OF demo_chain demo_kv_ok demo_trie_ok]) simp
qed

end
