(* ===== verification/RpcServer.thy ===== *)
theory RpcServer
  imports Prelude
begin

text \<open>
  The RPC server (\<^verbatim>\<open>src/service/rpc_server.go\<close>, \<^verbatim>\<open>rpc_context.go\<close>, \<^verbatim>\<open>errors.go\<close>,
  \<^verbatim>\<open>web3_account_service.go\<close>, \<^verbatim>\<open>web3_chain_service.go\<close>): a container of services and
  four endpoints with a start/stop life cycle.  What go-ethereum's \<^verbatim>\<open>rpc\<close> package answers when an
  endpoint is opened or closed is the record \<open>rpc_env\<close>.  The lock of the server is not modelled:
  each operation is one step.
\<close>

section \<open>Data\<close>

record api =
  api_Namespace :: string
  api_Version :: string
  api_Service :: string         \<comment> \<open>the type of the service object\<close>
  api_Public :: bool

text \<open>A running service: its Go type, the APIs it offers, what its \<^verbatim>\<open>Stop\<close> returns.\<close>

record rpc_service =
  svc_Kind :: string
  svc_APIs :: "api list"
  svc_Stop :: "error option"

record service_context = ctx_services :: "(string \<times> rpc_service) list"

type_synonym constructor = "service_context \<Rightarrow> rpc_service outcome"

record node_config =            \<comment> \<open>\<^verbatim>\<open>node.Config\<close>, by the fields and methods the code uses\<close>
  nc_Name :: string
  nc_IPCEndpoint :: string
  nc_HTTPEndpoint :: string
  nc_WSEndpoint :: string

record rpc_env =
  env_RegisterName :: "api \<Rightarrow> error option"
  env_StartIPC :: "string \<Rightarrow> api list \<Rightarrow> error option"
  env_StartHTTP :: "string \<Rightarrow> api list \<Rightarrow> error option"
  env_StartWS :: "string \<Rightarrow> api list \<Rightarrow> error option"
  env_CloseIPC :: "error option"
  env_CloseHTTP :: "error option"
  env_CloseWS :: "error option"

datatype channel = Nil | Open | Closed

text \<open>An endpoint: whether its listener and its handler are set.\<close>

record endpoint =
  ep_listener :: bool
  ep_handler :: bool

definition no_endpoint :: endpoint where
  "no_endpoint = \<lparr>ep_listener = False, ep_handler = False\<rparr>"

definition open_endpoint :: endpoint where
  "open_endpoint = \<lparr>ep_listener = True, ep_handler = True\<rparr>"

record rpc_server =
  rs_started :: bool
  rs_serviceFuncs :: "constructor list"
  rs_services :: "(string \<times> rpc_service) list"
  rs_rpcAPIs :: "api list option"
  rs_inprocHandler :: "api list option"
  rs_ipcEndpoint :: string
  rs_ipc :: endpoint
  rs_httpEndpoint :: string
  rs_http :: endpoint
  rs_wsEndpoint :: string
  rs_ws :: endpoint
  rs_stop :: channel

section \<open>The services\<close>

definition mk_api :: "string \<Rightarrow> string \<Rightarrow> bool \<Rightarrow> api" where
  "mk_api ns svc pub = \<lparr>api_Namespace = ns, api_Version = ''1.0'', api_Service = svc, api_Public = pub\<rparr>"

definition Web3AccountService_APIs :: "api list" where
  "Web3AccountService_APIs =
     [mk_api ''eth'' ''PublicEthereumAPI'' True, mk_api ''eth'' ''PublicBlockChainAPI'' True,
      mk_api ''eth'' ''PublicTransactionPoolAPI'' True, mk_api ''txpool'' ''PublicTxPoolAPI'' True,
      mk_api ''debug'' ''PublicDebugAPI'' True, mk_api ''debug'' ''PrivateDebugAPI'' False,
      mk_api ''eth'' ''PublicAccountAPI'' True, mk_api ''personal'' ''PrivateAccountAPI'' False]"

definition NewWeb3AccountServiceConstructor :: constructor where
  "NewWeb3AccountServiceConstructor ctx =
     Ret \<lparr>svc_Kind = ''*service.Web3AccountService'', svc_APIs = Web3AccountService_APIs, svc_Stop = None\<rparr>"

definition Web3ChainService_APIs :: "api list" where
  "Web3ChainService_APIs =
     [mk_api ''eth'' ''PublicEthereumChainAPI'' True, mk_api ''admin'' ''PrivateAdminAPI'' False,
      mk_api ''debug'' ''PublicDebugChainAPI'' True]"

definition NewWeb3ChainServiceConstructor :: constructor where
  "NewWeb3ChainServiceConstructor ctx =
     Ret \<lparr>svc_Kind = ''*service.Web3ChainService'', svc_APIs = Web3ChainService_APIs, svc_Stop = None\<rparr>"

text \<open>\<^verbatim>\<open>RpcServiceContext.Service\<close> looks a service up by its type.\<close>

definition context_Service :: "service_context \<Rightarrow> string \<Rightarrow> rpc_service outcome" where
  "context_Service ctx kind =
     (case map_of (ctx_services ctx) kind of Some s \<Rightarrow> Ret s | None \<Rightarrow> Fail ErrServiceUnknown)"

text \<open>\<^verbatim>\<open>RpcServer.apis\<close>.\<close>

definition server_apis :: "api list" where
  "server_apis = [mk_api ''admin'' ''PrivateAdminAPI'' False, mk_api ''debug'' ''PublicDebugAPI'' True]"

section \<open>Construction\<close>

definition has_suffix :: "string \<Rightarrow> string \<Rightarrow> bool" where
  "has_suffix s suf \<longleftrightarrow> length suf \<le> length s \<and> drop (length s - length suf) s = suf"

definition NewRpcServer :: "node_config \<Rightarrow> rpc_server outcome" where
  "NewRpcServer conf =
     (if list_ex (\<lambda>c. c \<in> {CHR ''/'', CHR 0x5C}) (nc_Name conf)
      then Fail (Errorf (''Config.Name must not contain '' @ [CHR 0x27, CHR ''/'', CHR 0x27] @ '' or '' @
        [CHR 0x27, CHR 0x5C, CHR 0x27]))
      else if has_suffix (nc_Name conf) ''.ipc''
      then Fail (Errorf ''Config.Name cannot end in \".ipc\"'')
      else Ret \<lparr>rs_started = False, rs_serviceFuncs = [], rs_services = [], rs_rpcAPIs = None,
        rs_inprocHandler = None, rs_ipcEndpoint = nc_IPCEndpoint conf, rs_ipc = no_endpoint,
        rs_httpEndpoint = nc_HTTPEndpoint conf, rs_http = no_endpoint,
        rs_wsEndpoint = nc_WSEndpoint conf, rs_ws = no_endpoint, rs_stop = Nil\<rparr>)"

definition Register :: "rpc_server \<Rightarrow> constructor \<Rightarrow> rpc_server \<times> error option" where
  "Register n c =
     (if rs_started n then (n, Some ErrNodeRunning)
      else (n\<lparr>rs_serviceFuncs := rs_serviceFuncs n @ [c]\<rparr>, None))"

section \<open>Endpoints\<close>

fun register_apis :: "rpc_env \<Rightarrow> api list \<Rightarrow> error option" where
  "register_apis E [] = None"
| "register_apis E (a # as) = (case env_RegisterName E a of Some e \<Rightarrow> Some e | None \<Rightarrow> register_apis E as)"

definition startInProc :: "rpc_env \<Rightarrow> rpc_server \<Rightarrow> api list \<Rightarrow> rpc_server \<times> error option" where
  "startInProc E n apis =
     (case register_apis E apis of
        Some e \<Rightarrow> (n, Some e)
      | None \<Rightarrow> (n\<lparr>rs_inprocHandler := Some apis\<rparr>, None))"

definition stopInProc :: "rpc_server \<Rightarrow> rpc_server" where
  "stopInProc n = (if rs_inprocHandler n \<noteq> None then n\<lparr>rs_inprocHandler := None\<rparr> else n)"

definition startIPC :: "rpc_env \<Rightarrow> rpc_server \<Rightarrow> api list \<Rightarrow> rpc_server \<times> error option" where
  "startIPC E n apis =
     (if rs_ipcEndpoint n = [] then (n, None)
      else case env_StartIPC E (rs_ipcEndpoint n) apis of
             Some e \<Rightarrow> (n, Some e)
           | None \<Rightarrow> (n\<lparr>rs_ipc := open_endpoint\<rparr>, None))"

text \<open>A failing \<^verbatim>\<open>Close\<close> ends \<^verbatim>\<open>stopIPC\<close> with both fields still set.\<close>

definition stopIPC :: "rpc_env \<Rightarrow> rpc_server \<Rightarrow> rpc_server" where
  "stopIPC E n =
     (if ep_listener (rs_ipc n) \<and> env_CloseIPC E \<noteq> None then n
      else n\<lparr>rs_ipc := no_endpoint\<rparr>)"

definition startHTTP :: "rpc_env \<Rightarrow> rpc_server \<Rightarrow> string \<Rightarrow> api list \<Rightarrow> rpc_server \<times> error option" where
  "startHTTP E n ep apis =
     (if ep = [] then (n, None)
      else case env_StartHTTP E ep apis of
             Some e \<Rightarrow> (n, Some e)
           | None \<Rightarrow> (n\<lparr>rs_httpEndpoint := ep, rs_http := open_endpoint\<rparr>, None))"

definition stopHTTP :: "rpc_env \<Rightarrow> rpc_server \<Rightarrow> rpc_server" where
  "stopHTTP E n = n\<lparr>rs_http := no_endpoint\<rparr>"

definition startWS :: "rpc_env \<Rightarrow> rpc_server \<Rightarrow> string \<Rightarrow> api list \<Rightarrow> rpc_server \<times> error option" where
  "startWS E n ep apis =
     (if ep = [] then (n, None)
      else case env_StartWS E ep apis of
             Some e \<Rightarrow> (n, Some e)
           | None \<Rightarrow> (n\<lparr>rs_wsEndpoint := ep, rs_ws := open_endpoint\<rparr>, None))"

definition stopWS :: "rpc_env \<Rightarrow> rpc_server \<Rightarrow> rpc_server" where
  "stopWS E n = n\<lparr>rs_ws := no_endpoint\<rparr>"

section \<open>Start\<close>

text \<open>A Go map of services is ranged in any order: the list is the order it was ranged in.\<close>

definition startRPC :: "rpc_env \<Rightarrow> rpc_server \<Rightarrow> (string \<times> rpc_service) list \<Rightarrow> rpc_server \<times> error option" where
  "startRPC E n services =
     (let apis = server_apis @ concat (map (svc_APIs \<circ> snd) services) in
      case startInProc E n apis of
        (n, Some e) \<Rightarrow> (n, Some e)
      | (n, None) \<Rightarrow>
     (case startIPC E n apis of
        (n, Some e) \<Rightarrow> (stopInProc n, Some e)
      | (n, None) \<Rightarrow>
     (case startHTTP E n (rs_httpEndpoint n) apis of
        (n, Some e) \<Rightarrow> (stopInProc (stopIPC E n), Some e)
      | (n, None) \<Rightarrow>
     (case startWS E n (rs_wsEndpoint n) apis of
        (n, Some e) \<Rightarrow> (stopInProc (stopIPC E (stopHTTP E n)), Some e)
      | (n, None) \<Rightarrow> (n\<lparr>rs_rpcAPIs := Some apis\<rparr>, None)))))"

fun construct_services :: "constructor list \<Rightarrow> (string \<times> rpc_service) list \<Rightarrow> (string \<times> rpc_service) list outcome" where
  "construct_services [] services = Ret services"
| "construct_services (c # cs) services =
     (case c \<lparr>ctx_services = services\<rparr> of
        Fail e \<Rightarrow> Fail e
      | Panic \<Rightarrow> Panic
      | Ret s \<Rightarrow>
          if map_of services (svc_Kind s) \<noteq> None then Fail (DuplicateServiceError (svc_Kind s))
          else construct_services cs (services @ [(svc_Kind s, s)]))"

text \<open>
  The loop that stops the services after a failed \<^verbatim>\<open>startRPC\<close>: its \<^verbatim>\<open>if err = service.Stop()\<close>
  assigns the very variable that holds the error of \<^verbatim>\<open>startRPC\<close>, which is returned after the loop.
\<close>

fun stop_after_failure :: "error option \<Rightarrow> (string \<times> rpc_service) list \<Rightarrow> error option" where
  "stop_after_failure err [] = err"
| "stop_after_failure err ((k, s) # rest) =
     (case svc_Stop s of Some e \<Rightarrow> Some e | None \<Rightarrow> stop_after_failure None rest)"

definition Start :: "rpc_env \<Rightarrow> rpc_server \<Rightarrow> rpc_server \<times> unit outcome" where
  "Start E n =
     (if rs_started n then (n, Fail ErrNodeRunning)
      else case construct_services (rs_serviceFuncs n) [] of
             Fail e \<Rightarrow> (n, Fail e)
           | Panic \<Rightarrow> (n, Panic)
           | Ret services \<Rightarrow>
               (case startRPC E n services of
                  (n, Some e) \<Rightarrow>
                    (case stop_after_failure (Some e) services of
                       Some e \<Rightarrow> (n, Fail e)
                     | None \<Rightarrow> (n, Ret ()))
                | (n, None) \<Rightarrow> (n\<lparr>rs_services := services, rs_started := True, rs_stop := Open\<rparr>, Ret ())))"

section \<open>Stop and the rest\<close>

definition stop_errors :: "(string \<times> rpc_service) list \<Rightarrow> (string \<times> error) list" where
  "stop_errors services =
     concat (map (\<lambda>(k, s). case svc_Stop s of None \<Rightarrow> [] | Some e \<Rightarrow> [(k, e)]) services)"

text \<open>Closing the channel of a server that was started cannot panic: \<^verbatim>\<open>Start\<close> made a new one.\<close>

definition Stop :: "rpc_env \<Rightarrow> rpc_server \<Rightarrow> rpc_server \<times> unit outcome" where
  "Stop E n =
     (if \<not> rs_started n then (n, Fail ErrNodeStopped)
      else
        let n = (stopIPC E (stopHTTP E (stopWS E n)))\<lparr>rs_rpcAPIs := None\<rparr>;
            failure = stop_errors (rs_services n);
            n = n\<lparr>rs_started := False, rs_services := []\<rparr>
        in case rs_stop n of
             Open \<Rightarrow> (n\<lparr>rs_stop := Closed\<rparr>, if failure \<noteq> [] then Fail (StopError failure) else Ret ())
           | _ \<Rightarrow> (n, Panic))"

text \<open>\<^verbatim>\<open>Wait\<close>: whether it returns in this state, or blocks.\<close>

definition Wait :: "rpc_server \<Rightarrow> bool" where
  "Wait n \<longleftrightarrow> \<not> rs_started n \<or> rs_stop n = Closed"

definition Restart :: "rpc_env \<Rightarrow> rpc_server \<Rightarrow> rpc_server \<times> unit outcome" where
  "Restart E n =
     (case Stop E n of
        (n, Fail e) \<Rightarrow> (n, Fail e)
      | (n, Panic) \<Rightarrow> (n, Panic)
      | (n, Ret _) \<Rightarrow> Start E n)"

definition Attach :: "rpc_server \<Rightarrow> api list option outcome" where
  "Attach n = (if \<not> rs_started n then Fail ErrNodeStopped else Ret (rs_inprocHandler n))"

definition RPCHandler :: "rpc_server \<Rightarrow> api list outcome" where
  "RPCHandler n = (case rs_inprocHandler n of None \<Rightarrow> Fail ErrNodeStopped | Some h \<Rightarrow> Ret h)"

definition server_Service :: "rpc_server \<Rightarrow> string \<Rightarrow> rpc_service outcome" where
  "server_Service n kind =
     (if \<not> rs_started n then Fail ErrNodeStopped
      else case map_of (rs_services n) kind of Some s \<Rightarrow> Ret s | None \<Rightarrow> Fail ErrServiceUnknown)"

section \<open>The endpoints as one interface\<close>

text \<open>
  What the life cycle needs of an endpoint: a failed start changes nothing, a successful one leaves
  the endpoint open or, when it is disabled, changes nothing, and a stop closes it.
\<close>

locale endpoint_ops =
  fixes start :: "'n \<Rightarrow> 'n \<times> error option" and stop :: "'n \<Rightarrow> 'n" and get :: "'n \<Rightarrow> endpoint"
    and closes :: "'n \<Rightarrow> bool"
  assumes start_fails: "start n = (n', Some e) \<Longrightarrow> n' = n"
    and start_opens: "start n = (n', None) \<Longrightarrow> n' = n \<or> get n' = open_endpoint"
    and stop_closes: "closes n \<Longrightarrow> get (stop n) = no_endpoint"
begin

lemma start_stop: "start n = (n', r) \<Longrightarrow> closes n' \<Longrightarrow> get (stop n') = no_endpoint"
  by (rule stop_closes)

lemma failed_start_closed: "start n = (n', Some e) \<Longrightarrow> get n = no_endpoint \<Longrightarrow> get n' = no_endpoint"
  using start_fails by blast

end

interpretation ipc: endpoint_ops "\<lambda>n. startIPC E n apis" "stopIPC E" rs_ipc "\<lambda>n. env_CloseIPC E = None"
  for E apis
  by unfold_locales (auto simp: startIPC_def stopIPC_def split: if_splits option.splits)

interpretation http: endpoint_ops "\<lambda>n. startHTTP E n ep apis" "stopHTTP E" rs_http "\<lambda>n. True"
  for E ep apis
  by unfold_locales (auto simp: startHTTP_def stopHTTP_def split: if_splits option.splits)

interpretation ws: endpoint_ops "\<lambda>n. startWS E n ep apis" "stopWS E" rs_ws "\<lambda>n. True"
  for E ep apis
  by unfold_locales (auto simp: startWS_def stopWS_def split: if_splits option.splits)

text \<open>What an operation on one endpoint leaves alone.\<close>

definition idle :: "rpc_server \<Rightarrow> bool" where
  "idle n \<longleftrightarrow> \<not> rs_started n \<and> rs_services n = [] \<and> rs_stop n \<noteq> Open"

lemma startInProc_frame: "startInProc E n apis = (n', r) \<Longrightarrow>
    \<exists>h. n' = n\<lparr>rs_inprocHandler := h\<rparr> \<and> (r = None \<longrightarrow> h = Some apis) \<and> (r \<noteq> None \<longrightarrow> h = rs_inprocHandler n)"
  by (auto simp: startInProc_def split: option.splits intro: exI[of _ "rs_inprocHandler n"])

lemma startIPC_frame: "startIPC E n apis = (n', r) \<Longrightarrow> \<exists>ep. n' = n\<lparr>rs_ipc := ep\<rparr>"
  by (auto simp: startIPC_def split: if_splits option.splits intro: exI[of _ "rs_ipc n"])

lemma startHTTP_frame: "startHTTP E n e apis = (n', r) \<Longrightarrow> e = rs_httpEndpoint n \<Longrightarrow> \<exists>ep. n' = n\<lparr>rs_http := ep\<rparr>"
  by (auto simp: startHTTP_def split: if_splits option.splits intro: exI[of _ "rs_http n"])

lemma startWS_frame: "startWS E n e apis = (n', r) \<Longrightarrow> e = rs_wsEndpoint n \<Longrightarrow> \<exists>ep. n' = n\<lparr>rs_ws := ep\<rparr>"
  by (auto simp: startWS_def split: if_splits option.splits intro: exI[of _ "rs_ws n"])

lemmas start_frames = startInProc_frame startIPC_frame startHTTP_frame startWS_frame
lemmas stop_defs = stopInProc_def stopIPC_def stopHTTP_def stopWS_def

text \<open>How far \<^verbatim>\<open>startRPC\<close> got.\<close>

lemma startRPC_cases:
  assumes "startRPC E n services = (n', r)"
  obtains (inproc) e where "startInProc E n (server_apis @ concat (map (svc_APIs \<circ> snd) services)) = (n', Some e)" "r = Some e"
  | (ipc) n1 n2 e where "startInProc E n (server_apis @ concat (map (svc_APIs \<circ> snd) services)) = (n1, None)"
      "startIPC E n1 (server_apis @ concat (map (svc_APIs \<circ> snd) services)) = (n2, Some e)"
      "n' = stopInProc n2" "r = Some e"
  | (http) n1 n2 n3 e where "startInProc E n (server_apis @ concat (map (svc_APIs \<circ> snd) services)) = (n1, None)"
      "startIPC E n1 (server_apis @ concat (map (svc_APIs \<circ> snd) services)) = (n2, None)"
      "startHTTP E n2 (rs_httpEndpoint n2) (server_apis @ concat (map (svc_APIs \<circ> snd) services)) = (n3, Some e)"
      "n' = stopInProc (stopIPC E n3)" "r = Some e"
  | (ws) n1 n2 n3 n4 e where "startInProc E n (server_apis @ concat (map (svc_APIs \<circ> snd) services)) = (n1, None)"
      "startIPC E n1 (server_apis @ concat (map (svc_APIs \<circ> snd) services)) = (n2, None)"
      "startHTTP E n2 (rs_httpEndpoint n2) (server_apis @ concat (map (svc_APIs \<circ> snd) services)) = (n3, None)"
      "startWS E n3 (rs_wsEndpoint n3) (server_apis @ concat (map (svc_APIs \<circ> snd) services)) = (n4, Some e)"
      "n' = stopInProc (stopIPC E (stopHTTP E n4))" "r = Some e"
  | (all) n1 n2 n3 n4 where "startInProc E n (server_apis @ concat (map (svc_APIs \<circ> snd) services)) = (n1, None)"
      "startIPC E n1 (server_apis @ concat (map (svc_APIs \<circ> snd) services)) = (n2, None)"
      "startHTTP E n2 (rs_httpEndpoint n2) (server_apis @ concat (map (svc_APIs \<circ> snd) services)) = (n3, None)"
      "startWS E n3 (rs_wsEndpoint n3) (server_apis @ concat (map (svc_APIs \<circ> snd) services)) = (n4, None)"
      "n' = n4\<lparr>rs_rpcAPIs := Some (server_apis @ concat (map (svc_APIs \<circ> snd) services))\<rparr>" "r = None"
  using assms by (auto simp: startRPC_def Let_def split: prod.splits option.splits)

lemma startRPC_frame:
  assumes "startRPC E n services = (n', r)"
  shows "rs_started n' = rs_started n \<and> rs_services n' = rs_services n \<and> rs_stop n' = rs_stop n
     \<and> rs_serviceFuncs n' = rs_serviceFuncs n"
  using assms
  by (rule startRPC_cases)
     ((drule startInProc_frame, (drule startIPC_frame)?, (drule startHTTP_frame, simp)?,
       (drule startWS_frame, simp)?, clarsimp simp: stop_defs)+)

lemma startRPC_ok:
  assumes "startRPC E n services = (n', None)"
  shows "rs_rpcAPIs n' = Some (server_apis @ concat (map (svc_APIs \<circ> snd) services))
     \<and> rs_inprocHandler n' = rs_rpcAPIs n'"
  using assms
proof (cases rule: startRPC_cases)
  case (all n1 n2 n3 n4)
  from startInProc_frame[OF all(1)] startIPC_frame[OF all(2)] startHTTP_frame[OF all(3)] startWS_frame[OF all(4)] all(5)
  show ?thesis by auto
qed simp_all

lemma startRPC_failed:
  assumes "startRPC E n services = (n', Some e)" "rs_inprocHandler n = None" "rs_ipc n = no_endpoint"
    "rs_http n = no_endpoint" "rs_ws n = no_endpoint"
  shows "rs_inprocHandler n' = None \<and> rs_http n' = no_endpoint \<and> rs_ws n' = no_endpoint
    \<and> (env_CloseIPC E = None \<longrightarrow> rs_ipc n' = no_endpoint)"
  using assms(1)
proof (cases rule: startRPC_cases)
  case (inproc e)
  with startInProc_frame[OF inproc(1)] assms(2-) show ?thesis by auto
next
  case (ipc n1 n2 e)
  with startInProc_frame[OF ipc(1)] ipc.start_fails[OF ipc(2)] assms(2-) show ?thesis by (auto simp: stop_defs)
next
  case (http n1 n2 n3 e)
  with startInProc_frame[OF http(1)] startIPC_frame[OF http(2)] http.start_fails[OF http(3)] assms(2-)
  show ?thesis by (auto simp: stop_defs)
next
  case (ws n1 n2 n3 n4 e)
  with startInProc_frame[OF ws(1)] startIPC_frame[OF ws(2)] startHTTP_frame[OF ws(3)] ws.start_fails[OF ws(4)] assms(2-)
  show ?thesis by (auto simp: stop_defs)
qed simp

section \<open>Properties\<close>

lemma register_none: "\<forall>a. env_RegisterName E a = None \<Longrightarrow> register_apis E as = None"
  by (induction as) simp_all

lemma stop_after_failure_None:
  "services \<noteq> [] \<Longrightarrow> \<forall>(k, s) \<in> set services. svc_Stop s = None \<Longrightarrow> stop_after_failure err services = None"
proof (induction services arbitrary: err)
  case (Cons a services)
  then show ?case by (cases services) (auto split: prod.splits)
qed simp

text \<open>
  C34. \<^verbatim>\<open>Start\<close> hides its failure: when an endpoint cannot be opened and the services that were
  constructed stop without an error, as both services of the program do, \<^verbatim>\<open>Start\<close> returns nil
  although the server is not started.
\<close>

theorem Start_hides_failure:
  assumes "\<not> rs_started n" "construct_services (rs_serviceFuncs n) [] = Ret services"
    "startRPC E n services = (n', Some e)" "services \<noteq> []" "\<forall>(k, s) \<in> set services. svc_Stop s = None"
  shows "Start E n = (n', Ret ()) \<and> \<not> rs_started n' \<and> Stop E n' = (n', Fail ErrNodeStopped)"
proof -
  have "\<not> rs_started n'" using startRPC_frame[OF assms(3)] assms(1) by simp
  moreover have "stop_after_failure (Some e) services = None" by (rule stop_after_failure_None[OF assms(4,5)])
  ultimately show ?thesis using assms(1-3) by (simp add: Start_def Stop_def)
qed

text \<open>The server of the program, on a port that is taken.\<close>

definition demo_conf :: node_config where
  "demo_conf = \<lparr>nc_Name = ''evm'', nc_IPCEndpoint = [], nc_HTTPEndpoint = ''localhost:8545'', nc_WSEndpoint = []\<rparr>"

definition demo_env :: "error option \<Rightarrow> rpc_env" where
  "demo_env e = \<lparr>env_RegisterName = (\<lambda>_. None), env_StartIPC = (\<lambda>_ _. None), env_StartHTTP = (\<lambda>_ _. e),
     env_StartWS = (\<lambda>_ _. None), env_CloseIPC = None, env_CloseHTTP = None, env_CloseWS = None\<rparr>"

definition demo_server :: rpc_server where
  "demo_server = fst (Register (fst (Register (the_Ret (NewRpcServer demo_conf))
     NewWeb3AccountServiceConstructor)) NewWeb3ChainServiceConstructor)"

lemma demo_server_eq:
  "demo_server = \<lparr>rs_started = False,
     rs_serviceFuncs = [NewWeb3AccountServiceConstructor, NewWeb3ChainServiceConstructor],
     rs_services = [], rs_rpcAPIs = None, rs_inprocHandler = None, rs_ipcEndpoint = [], rs_ipc = no_endpoint,
     rs_httpEndpoint = ''localhost:8545'', rs_http = no_endpoint, rs_wsEndpoint = [], rs_ws = no_endpoint,
     rs_stop = Nil\<rparr>"
  by (simp add: demo_server_def Register_def NewRpcServer_def demo_conf_def has_suffix_def)

theorem Start_hides_failure_witness:
  "snd (Start (demo_env (Some (LibError ''address already in use''))) demo_server) = Ret ()
   \<and> \<not> rs_started (fst (Start (demo_env (Some (LibError ''address already in use''))) demo_server))"
proof -
  let ?E = "demo_env (Some (LibError ''address already in use''))"
  obtain services where services: "construct_services (rs_serviceFuncs demo_server) [] = Ret services"
    "services \<noteq> []" "\<forall>(k, s) \<in> set services. svc_Stop s = None"
    by (simp add: demo_server_eq NewWeb3AccountServiceConstructor_def NewWeb3ChainServiceConstructor_def)
  have "snd (startRPC ?E demo_server services) = Some (LibError ''address already in use'')"
    by (simp add: startRPC_def Let_def startInProc_def startIPC_def startHTTP_def demo_server_eq demo_env_def
        register_none split: option.splits)
  then obtain n' where "startRPC ?E demo_server services = (n', Some (LibError ''address already in use''))"
    by (metis prod.collapse)
  from Start_hides_failure[OF _ services(1) this services(2,3)] show ?thesis by (simp add: demo_server_eq)
qed

text \<open>
  A failed start leaves no endpoint behind: when opening one of them fails on a server that has
  none open, all of them are closed again and the in-process handler is gone, provided the IPC
  listener closes.
\<close>

theorem failed_start_closes_all:
  assumes "startRPC E n services = (n', Some e)" "env_CloseIPC E = None" "rs_inprocHandler n = None"
    "rs_ipc n = no_endpoint" "rs_http n = no_endpoint" "rs_ws n = no_endpoint"
  shows "rs_inprocHandler n' = None \<and> rs_ipc n' = no_endpoint \<and> rs_http n' = no_endpoint \<and> rs_ws n' = no_endpoint"
  using startRPC_failed[OF assms(1,3-6)] assms(2) by simp

theorem failed_start_closes_all_witness:
  "rs_inprocHandler (fst (startRPC (demo_env (Some (LibError ''busy''))) demo_server [])) = None"
proof -
  have "snd (startRPC (demo_env (Some (LibError ''busy''))) demo_server []) = Some (LibError ''busy'')"
    by (simp add: startRPC_def Let_def startInProc_def startIPC_def startHTTP_def demo_server_eq demo_env_def
        register_none split: option.splits)
  then obtain n' where r: "startRPC (demo_env (Some (LibError ''busy''))) demo_server [] = (n', Some (LibError ''busy''))"
    by (metis prod.collapse)
  from failed_start_closes_all[OF r] r show ?thesis by (simp add: demo_env_def demo_server_eq)
qed

section \<open>The life cycle\<close>

inductive server_reachable :: "rpc_server \<Rightarrow> bool" where
  created: "NewRpcServer conf = Ret n \<Longrightarrow> server_reachable n"
| registered: "server_reachable n \<Longrightarrow> Register n c = (n', r) \<Longrightarrow> server_reachable n'"
| started: "server_reachable n \<Longrightarrow> Start E n = (n', res) \<Longrightarrow> server_reachable n'"
| stopped: "server_reachable n \<Longrightarrow> Stop E n = (n', res) \<Longrightarrow> server_reachable n'"

definition lifecycle :: "rpc_server \<Rightarrow> bool" where
  "lifecycle n \<longleftrightarrow>
     (if rs_started n
      then rs_stop n = Open \<and> rs_rpcAPIs n \<noteq> None \<and> rs_inprocHandler n = rs_rpcAPIs n
        \<and> the (rs_rpcAPIs n) = server_apis @ concat (map (svc_APIs \<circ> snd) (rs_services n))
      else rs_stop n \<noteq> Open \<and> rs_services n = [] \<and> rs_rpcAPIs n = None)"

lemma startRPC_rpcAPIs:
  assumes "startRPC E n services = (n', Some e)"
  shows "rs_rpcAPIs n' = rs_rpcAPIs n"
  using assms
  by (rule startRPC_cases)
     ((drule startInProc_frame, (drule startIPC_frame)?, (drule startHTTP_frame, simp)?,
       (drule startWS_frame, simp)?, clarsimp simp: stop_defs)+)

lemma lifecycle_Start:
  assumes "lifecycle n" "Start E n = (n', res)"
  shows "lifecycle n'"
proof (cases "rs_started n")
  case False
  show ?thesis
  proof (cases "construct_services (rs_serviceFuncs n) []")
    case (Ret services)
    obtain n1 r where 1: "startRPC E n services = (n1, r)" by fastforce
    note fr = startRPC_frame[OF 1]
    show ?thesis
    proof (cases r)
      case None
      with startRPC_ok[of E n services n1] 1 assms(2) False Ret fr show ?thesis
        by (simp add: Start_def) (auto simp: lifecycle_def)
    next
      case (Some e)
      with startRPC_rpcAPIs[of E n services n1 e] 1 fr assms False Ret show ?thesis
        by (auto simp: Start_def lifecycle_def split: option.splits)
    qed
  qed (use assms False in \<open>auto simp: Start_def\<close>)
qed (use assms in \<open>simp add: Start_def\<close>)

lemma Stop_frame:
  "rs_stop (stopIPC E (stopHTTP E (stopWS E n))) = rs_stop n"
  "rs_services (stopIPC E (stopHTTP E (stopWS E n))) = rs_services n"
  by (simp_all add: stop_defs)

lemma Stop_started:
  assumes "lifecycle n" "rs_started n"
  shows "snd (Stop E n) = (if stop_errors (rs_services n) = [] then Ret () else Fail (StopError (stop_errors (rs_services n))))"
    "lifecycle (fst (Stop E n))" "\<not> rs_started (fst (Stop E n))" "rs_stop (fst (Stop E n)) = Closed"
  using assms by (auto simp: Stop_def Let_def lifecycle_def Stop_frame)

lemma server_reachable_lifecycle: "server_reachable n \<Longrightarrow> lifecycle n"
proof (induction rule: server_reachable.induct)
  case (created conf n)
  then show ?case by (auto simp: NewRpcServer_def lifecycle_def split: if_splits)
next
  case (registered n c n' r)
  then show ?case by (auto simp: Register_def lifecycle_def split: if_splits)
next
  case (started n E n' res)
  then show ?case by (blast intro: lifecycle_Start)
next
  case (stopped n E n' res)
  then show ?case
  proof (cases "rs_started n")
    case True
    with stopped Stop_started(2)[of n E] show ?thesis by simp
  qed (auto simp: Stop_def)
qed

text \<open>
  C33. The life cycle of the server: in every state it can reach, a started server offers its own
  APIs and those of its services, \<^verbatim>\<open>Wait\<close> blocks exactly while it is started, and \<^verbatim>\<open>Stop\<close>
  never panics: it stops a started server for good, wakes the waiters and reports the services that
  failed to stop, and returns \<open>ErrNodeStopped\<close> otherwise.
\<close>

theorem server_life_cycle:
  assumes "server_reachable n"
  shows "(Wait n \<longleftrightarrow> \<not> rs_started n) \<and>
    (rs_started n \<longrightarrow>
       Attach n = Ret (Some (server_apis @ concat (map (svc_APIs \<circ> snd) (rs_services n))))
       \<and> \<not> rs_started (fst (Stop E n)) \<and> Wait (fst (Stop E n))
       \<and> snd (Stop E n) = (if stop_errors (rs_services n) = [] then Ret ()
                            else Fail (StopError (stop_errors (rs_services n))))) \<and>
    (\<not> rs_started n \<longrightarrow> Stop E n = (n, Fail ErrNodeStopped))"
proof -
  have l: "lifecycle n" using assms by (rule server_reachable_lifecycle)
  then have "Wait n \<longleftrightarrow> \<not> rs_started n" by (auto simp: Wait_def lifecycle_def)
  moreover have "rs_started n \<Longrightarrow> Attach n = Ret (Some (server_apis @ concat (map (svc_APIs \<circ> snd) (rs_services n))))"
    using l by (auto simp: Attach_def lifecycle_def)
  moreover have "\<not> rs_started n \<Longrightarrow> Stop E n = (n, Fail ErrNodeStopped)" by (simp add: Stop_def)
  ultimately show ?thesis using Stop_started[OF l, of E] by (auto simp: Wait_def)
qed

lemma demo_server_reachable: "server_reachable demo_server"
proof -
  have "NewRpcServer demo_conf = Ret (the_Ret (NewRpcServer demo_conf))"
    by (simp add: NewRpcServer_def demo_conf_def has_suffix_def)
  then show ?thesis unfolding demo_server_def
    by (intro server_reachable.registered[OF _ prod.collapse[symmetric]]) (rule server_reachable.created)
qed

theorem server_life_cycle_witness:
  "snd (Stop (demo_env None) (fst (Start (demo_env None) demo_server))) = Ret ()
   \<and> length (the (the_Ret (Attach (fst (Start (demo_env None) demo_server))))) = 13"
proof -
  let ?n = "fst (Start (demo_env None) demo_server)"
  have r: "server_reachable ?n"
    by (rule server_reachable.started[OF demo_server_reachable prod.collapse[symmetric]])
  have run: "rs_started ?n" "map snd (rs_services ?n) =
      [the_Ret (NewWeb3AccountServiceConstructor \<lparr>ctx_services = []\<rparr>), the_Ret (NewWeb3ChainServiceConstructor \<lparr>ctx_services = []\<rparr>)]"
    by (simp_all add: Start_def demo_server_eq NewWeb3AccountServiceConstructor_def
        NewWeb3ChainServiceConstructor_def startRPC_def Let_def startInProc_def startIPC_def startHTTP_def
        startWS_def demo_env_def register_none split: option.splits)
  then have "stop_errors (rs_services ?n) = []" "map (svc_APIs \<circ> snd) (rs_services ?n) = [Web3AccountService_APIs, Web3ChainService_APIs]"
    by (auto simp: stop_errors_def map_eq_Cons_conv NewWeb3AccountServiceConstructor_def NewWeb3ChainServiceConstructor_def)
  then show ?thesis
    using server_life_cycle[OF r, of "demo_env None"] run(1)
    by (simp add: server_apis_def Web3AccountService_APIs_def Web3ChainService_APIs_def)
qed

end
