(* ===== verification/Config.thy ===== *)
theory Config
  imports RpcServer
begin

text \<open>
  The configuration (\<^verbatim>\<open>src/config\<close>, \<^verbatim>\<open>src/version\<close>) and the log levels and the genesis file.
  The flags and commands (\<^verbatim>\<open>cmd/evm/commands\<close>) are in \<open>Flags\<close> and \<open>Commands\<close>.  \<open>dd\<close> is the package variable
  \<^verbatim>\<open>DefaultDataDir\<close>, which is computed from the environment once; every default path is a
  function of it.  Durations are nanoseconds.
\<close>

section \<open>Paths\<close>

text \<open>\<^verbatim>\<open>filepath.Join\<close> and \<^verbatim>\<open>filepath.Clean\<close> on Unix.\<close>

fun split_on :: "char \<Rightarrow> string \<Rightarrow> string list" where
  "split_on c [] = [[]]"
| "split_on c (x # xs) =
     (case split_on c xs of
        [] \<Rightarrow> [[]]
      | y # ys \<Rightarrow> if x = c then [] # y # ys else (x # y) # ys)"

fun join_with :: "string \<Rightarrow> string list \<Rightarrow> string" where
  "join_with sep [] = []"
| "join_with sep [x] = x"
| "join_with sep (x # xs) = x @ sep @ join_with sep xs"

fun clean_step :: "bool \<Rightarrow> string list \<Rightarrow> string \<Rightarrow> string list" where
  "clean_step rooted out c =
     (if c = [] \<or> c = ''.'' then out
      else if c = ''..'' then
        (if out \<noteq> [] \<and> last out \<noteq> ''..'' then butlast out else if rooted then out else out @ [c])
      else out @ [c])"

definition path_clean :: "string \<Rightarrow> string" where
  "path_clean p =
     (let rooted = (p \<noteq> [] \<and> hd p = CHR ''/'');
          out = foldl (clean_step rooted) [] (split_on (CHR ''/'') p)
      in if rooted then CHR ''/'' # join_with ''/'' out else if out = [] then ''.'' else join_with ''/'' out)"

definition path_join :: "string list \<Rightarrow> string" where
  "path_join ps =
     (case filter (\<lambda>p. p \<noteq> []) ps of [] \<Rightarrow> [] | qs \<Rightarrow> path_clean (join_with ''/'' qs))"

definition homeDir :: "string \<Rightarrow> string outcome \<Rightarrow> string" where
  "homeDir HOME current_user =
     (if HOME \<noteq> [] then HOME else case current_user of Ret d \<Rightarrow> d | _ \<Rightarrow> [])"

definition defaultHomeDir :: "string \<Rightarrow> string \<Rightarrow> string outcome \<Rightarrow> string" where
  "defaultHomeDir GOOS HOME current_user =
     (let home = homeDir HOME current_user in
      if home \<noteq> [] then
        (if GOOS = ''darwin'' then path_join [home, ''Library'', ''EVM'']
         else if GOOS = ''windows'' then path_join [home, ''AppData'', ''Roaming'', ''EVM'']
         else path_join [home, ''.evm''])
      else [])"

section \<open>Eth\<close>

record eth_config =
  ec_Genesis :: string
  ec_Keystore :: string
  ec_PwdFile :: string
  ec_DbFile :: string
  ec_EthAPIAddr :: string
  ec_Cache :: int

definition defaultEthDir :: "string \<Rightarrow> string" where "defaultEthDir dd = dd @ ''/eth''"
definition defaultKeystoreFile :: "string \<Rightarrow> string" where "defaultKeystoreFile dd = defaultEthDir dd @ ''/keystore''"
definition defaultGenesisFile :: "string \<Rightarrow> string" where "defaultGenesisFile dd = defaultEthDir dd @ ''/genesis.json''"
definition defaultPwdFile :: "string \<Rightarrow> string" where "defaultPwdFile dd = defaultEthDir dd @ ''/pwd.txt''"
definition defaultDbFile :: "string \<Rightarrow> string" where "defaultDbFile dd = defaultEthDir dd @ ''/chaindata''"

lemmas eth_defaults = defaultEthDir_def defaultKeystoreFile_def defaultGenesisFile_def defaultPwdFile_def defaultDbFile_def

definition DefaultEthConfig :: "string \<Rightarrow> eth_config" where
  "DefaultEthConfig dd = \<lparr>ec_Genesis = defaultGenesisFile dd, ec_Keystore = defaultKeystoreFile dd,
     ec_PwdFile = defaultPwdFile dd, ec_DbFile = defaultDbFile dd, ec_EthAPIAddr = '':8080'', ec_Cache = 128\<rparr>"

definition Eth_SetDataDir :: "string \<Rightarrow> eth_config \<Rightarrow> string \<Rightarrow> eth_config" where
  "Eth_SetDataDir dd c datadir =
     (let c = (if ec_Genesis c = defaultGenesisFile dd then c\<lparr>ec_Genesis := datadir @ ''/genesis.json''\<rparr> else c);
          c = (if ec_Keystore c = defaultKeystoreFile dd then c\<lparr>ec_Keystore := datadir @ ''/keystore''\<rparr> else c);
          c = (if ec_PwdFile c = defaultPwdFile dd then c\<lparr>ec_PwdFile := datadir @ ''/pwd.txt''\<rparr> else c)
      in if ec_DbFile c = defaultDbFile dd then c\<lparr>ec_DbFile := datadir @ ''/chaindata''\<rparr> else c)"

section \<open>Lachesis\<close>

definition Millisecond :: int where "Millisecond = 1000000"
definition Second :: int where "Second = 1000 * Millisecond"

record lachesis_config =
  lc_DataDir :: string
  lc_BindAddr :: string
  lc_ServiceAddr :: string
  lc_Heartbeat :: int
  lc_TCPTimeout :: int
  lc_CacheSize :: int
  lc_SyncLimit :: int
  lc_MaxPool :: int
  lc_Store :: bool

definition defaultNodeAddr :: string where "defaultNodeAddr = '':1337''"
definition defaultLachesisDir :: "string \<Rightarrow> string" where "defaultLachesisDir dd = dd @ ''/lachesis''"

definition DefaultLachesisConfig :: "string \<Rightarrow> lachesis_config" where
  "DefaultLachesisConfig dd = \<lparr>lc_DataDir = defaultLachesisDir dd, lc_BindAddr = defaultNodeAddr,
     lc_ServiceAddr = '':8000'', lc_Heartbeat = 500 * Millisecond, lc_TCPTimeout = 1000 * Millisecond,
     lc_CacheSize = 50000, lc_SyncLimit = 1000, lc_MaxPool = 2, lc_Store = False\<rparr>"

definition Lachesis_SetDataDir :: "string \<Rightarrow> lachesis_config \<Rightarrow> string \<Rightarrow> lachesis_config" where
  "Lachesis_SetDataDir dd c datadir =
     (if lc_DataDir c = defaultLachesisDir dd then c\<lparr>lc_DataDir := datadir\<rparr> else c)"

text \<open>The configuration of go-lachesis, by the fields the code sets.\<close>

record real_lachesis_config =
  rl_DataDir :: string
  rl_BindAddr :: string
  rl_ServiceAddr :: string
  rl_MaxPool :: int
  rl_Store :: bool
  rl_HeartbeatTimeout :: int
  rl_TCPTimeout :: int
  rl_CacheSize :: int
  rl_SyncLimit :: int

definition ToRealLachesisConfig :: "real_lachesis_config \<Rightarrow> lachesis_config \<Rightarrow> real_lachesis_config" where
  "ToRealLachesisConfig NewDefaultConfig c =
     NewDefaultConfig\<lparr>rl_DataDir := lc_DataDir c, rl_BindAddr := lc_BindAddr c,
       rl_ServiceAddr := lc_ServiceAddr c, rl_MaxPool := lc_MaxPool c, rl_Store := lc_Store c,
       rl_HeartbeatTimeout := lc_Heartbeat c, rl_TCPTimeout := lc_TCPTimeout c,
       rl_CacheSize := lc_CacheSize c, rl_SyncLimit := lc_SyncLimit c\<rparr>"

section \<open>Raft\<close>

record raft_config =
  rc_ProtocolVersion :: int
  rc_HeartbeatTimeout :: int
  rc_ElectionTimeout :: int
  rc_CommitTimeout :: int
  rc_MaxAppendEntries :: int
  rc_ShutdownOnRemove :: bool
  rc_TrailingLogs :: u64
  rc_SnapshotInterval :: int
  rc_SnapshotThreshold :: u64
  rc_LeaderLeaseTimeout :: int
  rc_StartAsLeader :: bool
  rc_LocalID :: string
  rc_RaftDir :: string
  rc_SnapshotDir :: string
  rc_NodeAddr :: string

definition defaultRaftDir :: "string \<Rightarrow> string" where "defaultRaftDir dd = dd @ ''/raft''"
definition defaultSnapshotDir :: "string \<Rightarrow> string" where "defaultSnapshotDir dd = defaultRaftDir dd @ ''/snapshots''"

definition DefaultRaftConfig :: "int \<Rightarrow> string \<Rightarrow> raft_config" where
  "DefaultRaftConfig ProtocolVersionMax dd = \<lparr>rc_ProtocolVersion = ProtocolVersionMax,
     rc_HeartbeatTimeout = 1000 * Millisecond, rc_ElectionTimeout = 1000 * Millisecond,
     rc_CommitTimeout = 50 * Millisecond, rc_MaxAppendEntries = 64, rc_ShutdownOnRemove = True,
     rc_TrailingLogs = 10240, rc_SnapshotInterval = 120 * Second, rc_SnapshotThreshold = 8192,
     rc_LeaderLeaseTimeout = 500 * Millisecond, rc_StartAsLeader = False, rc_LocalID = defaultNodeAddr,
     rc_RaftDir = defaultRaftDir dd, rc_SnapshotDir = defaultSnapshotDir dd, rc_NodeAddr = defaultNodeAddr\<rparr>"

definition Raft_SetDataDir :: "string \<Rightarrow> raft_config \<Rightarrow> string \<Rightarrow> raft_config" where
  "Raft_SetDataDir dd c datadir =
     (let c = (if rc_RaftDir c = defaultRaftDir dd then c\<lparr>rc_RaftDir := datadir\<rparr> else c)
      in if rc_SnapshotDir c = defaultSnapshotDir dd
         then c\<lparr>rc_SnapshotDir := rc_RaftDir c @ ''/snapshots''\<rparr> else c)"

section \<open>The whole configuration\<close>

record config =
  cf_DataDir :: string
  cf_LogLevel :: string
  cf_Eth :: "eth_config option"
  cf_Lachesis :: "lachesis_config option"
  cf_Raft :: "raft_config option"
  cf_ProxyAddr :: string
  cf_ClientAddr :: string
  cf_Standalone :: bool
  cf_Pidfile :: string

definition DefaultConfig :: "int \<Rightarrow> string \<Rightarrow> string \<Rightarrow> config" where
  "DefaultConfig ProtocolVersionMax TempDir dd =
     \<lparr>cf_DataDir = dd, cf_LogLevel = ''debug'', cf_Eth = Some (DefaultEthConfig dd),
      cf_Lachesis = Some (DefaultLachesisConfig dd), cf_Raft = Some (DefaultRaftConfig ProtocolVersionMax dd),
      cf_ProxyAddr = ''127.0.0.1:1338'', cf_ClientAddr = ''127.0.0.1:1339'', cf_Standalone = False,
      cf_Pidfile = path_join [TempDir, ''go-evm.pid'']\<rparr>"

definition SetDataDir :: "string \<Rightarrow> config \<Rightarrow> string \<Rightarrow> config" where
  "SetDataDir dd c datadir =
     c\<lparr>cf_DataDir := datadir,
       cf_Eth := map_option (\<lambda>e. Eth_SetDataDir dd e (datadir @ ''/eth'')) (cf_Eth c),
       cf_Lachesis := map_option (\<lambda>l. Lachesis_SetDataDir dd l (datadir @ ''/lachesis'')) (cf_Lachesis c),
       cf_Raft := map_option (\<lambda>r. Raft_SetDataDir dd r (datadir @ ''/raft'')) (cf_Raft c)\<rparr>"

definition DefaultRpcConfig :: node_config where
  "DefaultRpcConfig = \<lparr>nc_Name = [], nc_IPCEndpoint = [], nc_HTTPEndpoint = ''127.0.0.1:8545'',
     nc_WSEndpoint = ''127.0.0.1:8546''\<rparr>"

section \<open>Commands\<close>

text \<open>logrus levels, from the quietest to the most verbose, as logrus numbers them.\<close>

datatype log_level = PanicLevel | FatalLevel | ErrorLevel | WarnLevel | InfoLevel | DebugLevel

fun level_number :: "log_level \<Rightarrow> nat" where
  "level_number PanicLevel = 0"
| "level_number FatalLevel = 1"
| "level_number ErrorLevel = 2"
| "level_number WarnLevel = 3"
| "level_number InfoLevel = 4"
| "level_number DebugLevel = 5"

instantiation log_level :: linorder
begin

definition less_eq_log_level :: "log_level \<Rightarrow> log_level \<Rightarrow> bool" where
  "less_eq_log_level a b \<longleftrightarrow> level_number a \<le> level_number b"

definition less_log_level :: "log_level \<Rightarrow> log_level \<Rightarrow> bool" where
  "less_log_level a b \<longleftrightarrow> level_number a < level_number b"

instance
proof
  fix a b c :: log_level
  show "a < b \<longleftrightarrow> a \<le> b \<and> \<not> b \<le> a" "a \<le> a" "a \<le> b \<Longrightarrow> b \<le> c \<Longrightarrow> a \<le> c" "a \<le> b \<or> b \<le> a"
    by (auto simp: less_eq_log_level_def less_log_level_def)
  show "a \<le> b \<Longrightarrow> b \<le> a \<Longrightarrow> a = b"
    by (cases a; cases b; simp add: less_eq_log_level_def)
qed

end

definition logLevel :: "string \<Rightarrow> log_level" where
  "logLevel l =
     (if l = ''debug'' then DebugLevel
      else if l = ''info'' then InfoLevel
      else if l = ''warn'' then WarnLevel
      else if l = ''error'' then ErrorLevel
      else if l = ''fatal'' then FatalLevel
      else if l = ''panic'' then PanicLevel
      else DebugLevel)"

text \<open>\<^verbatim>\<open>version.init\<close>; slicing a commit id shorter than eight characters panics.\<close>

definition version_string :: "string \<Rightarrow> string outcome" where
  "version_string GitCommit =
     (let v = join_with ''.'' [''0'', ''4'', ''0''] in
      if GitCommit = [] then Ret v
      else if length GitCommit < 8 then Panic
      else Ret (v @ ''-'' @ take 8 GitCommit))"

text \<open>What the file system and the template answer to \<^verbatim>\<open>createGenesis\<close>.\<close>

record genesis_env =
  ge_Stat :: "error option"            \<comment> \<open>\<open>None\<close>: the file exists\<close>
  ge_Parse :: "error option"
  ge_DirMissing :: bool
  ge_MkdirAll :: "error option"
  ge_OpenFile :: "error option"
  ge_Execute :: "error option"

text \<open>The result says whether a file was written, and the returned error.\<close>

definition createGenesis :: "genesis_env \<Rightarrow> bool \<times> error option" where
  "createGenesis G =
     (case ge_Stat G of
        None \<Rightarrow> (False, None)
      | Some _ \<Rightarrow>
     (case ge_Parse G of
        Some e \<Rightarrow> (False, Some e)
      | None \<Rightarrow>
     (if ge_DirMissing G \<and> ge_MkdirAll G \<noteq> None then (False, ge_MkdirAll G)
      else case ge_OpenFile G of
             Some e \<Rightarrow> (False, Some e)
           | None \<Rightarrow> (ge_Execute G = None, ge_Execute G))))"

section \<open>Data directories as one interface\<close>

text \<open>
  The commands call \<^verbatim>\<open>SetDataDir\<close> twice, once before and once after the flags of the consensus are
  read; the contract of a configuration part is that the second call changes nothing.
\<close>

locale data_dir =
  fixes set_dir :: "'c \<Rightarrow> string \<Rightarrow> 'c"
  assumes set_twice: "set_dir (set_dir c d) d = set_dir c d"
begin

lemma map_option_twice:
  "map_option (\<lambda>c. set_dir c d) (map_option (\<lambda>c. set_dir c d) c0) = map_option (\<lambda>c. set_dir c d) c0"
  by (cases c0) (simp_all add: set_twice)

end

lemma Eth_SetDataDir_fields [simp]:
  "ec_Genesis (Eth_SetDataDir dd e d) = (if ec_Genesis e = defaultGenesisFile dd then d @ ''/genesis.json'' else ec_Genesis e)"
  "ec_Keystore (Eth_SetDataDir dd e d) = (if ec_Keystore e = defaultKeystoreFile dd then d @ ''/keystore'' else ec_Keystore e)"
  "ec_PwdFile (Eth_SetDataDir dd e d) = (if ec_PwdFile e = defaultPwdFile dd then d @ ''/pwd.txt'' else ec_PwdFile e)"
  "ec_DbFile (Eth_SetDataDir dd e d) = (if ec_DbFile e = defaultDbFile dd then d @ ''/chaindata'' else ec_DbFile e)"
  "ec_EthAPIAddr (Eth_SetDataDir dd e d) = ec_EthAPIAddr e"
  "ec_Cache (Eth_SetDataDir dd e d) = ec_Cache e"
  by (cases "ec_Genesis e = defaultGenesisFile dd"; cases "ec_Keystore e = defaultKeystoreFile dd";
      cases "ec_PwdFile e = defaultPwdFile dd"; cases "ec_DbFile e = defaultDbFile dd";
      simp add: Eth_SetDataDir_def)+

interpretation eth: data_dir "Eth_SetDataDir dd" for dd
  by unfold_locales (rule eth_config.equality; simp)

interpretation lachesis: data_dir "Lachesis_SetDataDir dd" for dd
  by unfold_locales (simp add: Lachesis_SetDataDir_def)

interpretation raft: data_dir "Raft_SetDataDir dd" for dd
  by unfold_locales (auto simp: Raft_SetDataDir_def Let_def defaultSnapshotDir_def)

lemma Eth_SetDataDir_default: "Eth_SetDataDir dd (DefaultEthConfig dd) (datadir @ ''/eth'') = DefaultEthConfig datadir"
  by (rule eth_config.equality; simp; simp add: DefaultEthConfig_def eth_defaults)

text \<open>
  \<^verbatim>\<open>SetDataDir\<close> is idempotent on the whole configuration, so the second call that the
  subcommands make changes nothing.
\<close>

theorem SetDataDir_idempotent:
  "SetDataDir dd (SetDataDir dd c datadir) datadir = SetDataDir dd c datadir"
  by (simp add: SetDataDir_def eth.map_option_twice lachesis.map_option_twice raft.map_option_twice del: option.map_comp)

text \<open>
  Setting the data directory of the default configuration moves every path into it; and a path
  the user chose, which is not the default one, stays.
\<close>

theorem SetDataDir_moves_defaults:
  "cf_Eth (SetDataDir dd (DefaultConfig v t dd) datadir) =
     Some (DefaultEthConfig datadir)
   \<and> map_option lc_DataDir (cf_Lachesis (SetDataDir dd (DefaultConfig v t dd) datadir)) = Some (datadir @ ''/lachesis'')
   \<and> map_option rc_RaftDir (cf_Raft (SetDataDir dd (DefaultConfig v t dd) datadir)) = Some (datadir @ ''/raft'')
   \<and> map_option rc_SnapshotDir (cf_Raft (SetDataDir dd (DefaultConfig v t dd) datadir))
       = Some (datadir @ ''/raft/snapshots'')
   \<and> ec_Genesis (Eth_SetDataDir dd e d) = (if ec_Genesis e = dd @ ''/eth/genesis.json'' then d @ ''/genesis.json'' else ec_Genesis e)
   \<and> ec_Keystore (Eth_SetDataDir dd e d) = (if ec_Keystore e = dd @ ''/eth/keystore'' then d @ ''/keystore'' else ec_Keystore e)
   \<and> ec_PwdFile (Eth_SetDataDir dd e d) = (if ec_PwdFile e = dd @ ''/eth/pwd.txt'' then d @ ''/pwd.txt'' else ec_PwdFile e)
   \<and> ec_DbFile (Eth_SetDataDir dd e d) = (if ec_DbFile e = dd @ ''/eth/chaindata'' then d @ ''/chaindata'' else ec_DbFile e)"
  by (simp add: SetDataDir_def DefaultConfig_def DefaultLachesisConfig_def DefaultRaftConfig_def
      Lachesis_SetDataDir_def Raft_SetDataDir_def Eth_SetDataDir_default defaultRaftDir_def defaultSnapshotDir_def
      eth_defaults)

end
