(* ===== verification/ServiceCore.thy ===== *)
theory ServiceCore
  imports StateSpec Config
begin

text \<open>
  The service (\<^verbatim>\<open>src/service/service.go\<close>): its record, its construction, the steps of
  \<^verbatim>\<open>Run\<close> before the HTTP API is served, and the password file.  Keystores are go-ethereum's,
  so they are a type \<open>'ks\<close> with the functions of the record \<open>backend\<close>, which extends the boundary
  record of \<open>Geth\<close>; the operating system's answers are the record \<open>os\<close>.  The handlers are in the
  theory \<open>Handlers\<close>.
\<close>

section \<open>Bytes as a string\<close>

text \<open>The conversion \<^verbatim>\<open>string(b)\<close>.\<close>

definition bytes_str :: "bytes \<Rightarrow> string" where
  "bytes_str b = map (\<lambda>w. char_of (unat w)) b"

lemma bytes_str_append [simp]: "bytes_str (a @ b) = bytes_str a @ bytes_str b"
  by (simp add: bytes_str_def)

lemma bytes_str_str_bytes [simp]: "bytes_str (str_bytes s) = s"
proof -
  have "char_of (unat (byte_of c)) = c" for c
    using of_char_less_256[of c] by (simp add: byte_of_def unat_of_nat)
  then show ?thesis by (simp add: bytes_str_def str_bytes_def comp_def)
qed

section \<open>Arguments and answers of the API\<close>

text \<open>\<^verbatim>\<open>SendTxArgs\<close>; every pointer field is an option.\<close>

record send_tx_args =
  sa_From :: address
  sa_To :: "address option"
  sa_Gas :: "u64 option"
  sa_GasPrice :: "int option"
  sa_Value :: "int option"
  sa_Nonce :: "u64 option"
  sa_Data :: "bytes option"
  sa_Input :: "bytes option"

record json_account =
  ja_Address :: string
  ja_Balance :: int
  ja_Nonce :: u64

text \<open>\<^verbatim>\<open>JsonReceipt\<close>: a nil \<^verbatim>\<open>*big.Int\<close> and a nil slice are \<open>None\<close>.\<close>

record json_receipt =
  jr_Root :: hash
  jr_TransactionHash :: hash
  jr_From :: address
  jr_To :: "address option"
  jr_Value :: "int option"
  jr_Gas :: "int option"
  jr_GasUsed :: "int option"
  jr_GasPrice :: "int option"
  jr_CumulativeGasUsed :: "int option"
  jr_ContractAddress :: address
  jr_Logs :: "log list option"
  jr_LogsBloom :: bloom
  jr_Error :: string
  jr_Failed :: bool
  jr_Status :: u64

definition zero_receipt :: json_receipt where      \<comment> \<open>\<^verbatim>\<open>JsonReceipt{}\<close>\<close>
  "zero_receipt = \<lparr>jr_Root = 0, jr_TransactionHash = 0, jr_From = 0, jr_To = None, jr_Value = None,
     jr_Gas = None, jr_GasUsed = None, jr_GasPrice = None, jr_CumulativeGasUsed = None,
     jr_ContractAddress = 0, jr_Logs = None, jr_LogsBloom = 0, jr_Error = [], jr_Failed = False, jr_Status = 0\<rparr>"

record json_block =
  jb_Hash :: string
  jb_Index :: int
  jb_Round :: int
  jb_CreatedTime :: int
  jb_StateHash :: string
  jb_FrameHash :: string
  jb_Transactions :: "json_receipt list"

text \<open>The values the handlers marshal.\<close>

datatype json =
    JsonAccount json_account
  | JsonAccountList "json_account list"
  | JsonBlock json_block
  | JsonReceipt json_receipt
  | JsonCallRes string
  | JsonTxRes string
  | JsonInfo "(string \<times> string) list"

section \<open>The boundary of the service\<close>

record eth_account =            \<comment> \<open>\<^verbatim>\<open>accounts.Account\<close>\<close>
  ea_Address :: address
  ea_URL :: string

record ('db, 'sd, 'ks) backend = "('db, 'sd) geth" +
  ks_New :: "string \<Rightarrow> 'ks"
  ks_Accounts :: "'ks \<Rightarrow> eth_account list"
  ks_Unlock :: "'ks \<Rightarrow> eth_account \<Rightarrow> string \<Rightarrow> 'ks \<times> error option"
  ks_Find :: "'ks \<Rightarrow> eth_account \<Rightarrow> eth_account outcome"
  ks_SignHash :: "'ks \<Rightarrow> eth_account \<Rightarrow> bytes \<Rightarrow> bytes outcome"
  NewTransaction :: "u64 \<Rightarrow> address \<Rightarrow> int \<Rightarrow> u64 \<Rightarrow> int \<Rightarrow> bytes \<Rightarrow> tx"
  NewContractCreation :: "u64 \<Rightarrow> int \<Rightarrow> u64 \<Rightarrow> int \<Rightarrow> bytes \<Rightarrow> tx"
  NewMessage :: "address \<Rightarrow> address option \<Rightarrow> u64 \<Rightarrow> int \<Rightarrow> u64 \<Rightarrow> int \<Rightarrow> bytes \<Rightarrow> bool \<Rightarrow> msg"
  WithSignature :: "signer \<Rightarrow> tx \<Rightarrow> bytes \<Rightarrow> tx outcome"
  signer_Hash :: "signer \<Rightarrow> tx \<Rightarrow> hash"
  Sender :: "signer \<Rightarrow> tx \<Rightarrow> address outcome"
  BlockHex :: "block \<Rightarrow> string"
  hash_Hex :: "hash \<Rightarrow> string"
  addr_Hex :: "address \<Rightarrow> string"
  hexutil_Encode :: "bytes \<Rightarrow> string"
  hexutil_Decode :: "string \<Rightarrow> bytes outcome"
  json_Decode_args :: "bytes outcome \<Rightarrow> send_tx_args outcome"   \<comment> \<open>a decoder over the body's stream\<close>
  json_Decode_alloc :: "bytes \<Rightarrow> account_map outcome"
  json_Marshal :: "json \<Rightarrow> bytes outcome"
  tmpl_Execute :: "(string \<times> string) list \<Rightarrow> bytes outcome"
  strconv_Quote :: "string \<Rightarrow> string"

text \<open>What the operating system answers.\<close>

record os =
  os_MkdirAll :: "string \<Rightarrow> error option"
  os_NotExist :: "string \<Rightarrow> bool"
  os_ReadFile :: "string \<Rightarrow> bytes outcome"
  os_Listen :: "string \<Rightarrow> error option"   \<comment> \<open>\<open>None\<close>: \<^verbatim>\<open>ListenAndServe\<close> does not return\<close>

section \<open>The record\<close>

text \<open>
  The account manager is a wrapper of the key store, so whether it was made is enough.  Sending on
  \<^verbatim>\<open>submitCh\<close> appends to the list of what was sent; \<open>sv_locked\<close> is the embedded mutex.
\<close>

record ('db, 'sd, 'ks) service =
  sv_locked :: bool
  sv_chainConfig :: chain_config
  sv_state :: "('db, 'sd) state"
  sv_submitCh :: "bytes list"
  sv_genesisFile :: string
  sv_keystoreDir :: string
  sv_apiAddr :: string
  sv_keyStore :: "'ks option"
  sv_am :: bool
  sv_pwdFile :: string
  sv_rpcServer :: rpc_server
  sv_getInfo :: "(string \<times> string) list outcome option"

definition NewService ::
  "string \<Rightarrow> string \<Rightarrow> string \<Rightarrow> string \<Rightarrow> ('db, 'sd) state \<Rightarrow> ('db, 'sd, 'ks) service outcome" where
  "NewService genesisFile keystoreDir apiAddr pwdFile st =
     (case NewRpcServer DefaultRpcConfig of
        Fail e \<Rightarrow> Panic
      | Panic \<Rightarrow> Panic
      | Ret n \<Rightarrow>
          (case Register n NewWeb3AccountServiceConstructor of
             (n, Some e) \<Rightarrow> Panic
           | (n, None) \<Rightarrow>
               (case Register n NewWeb3ChainServiceConstructor of
                  (n, Some e) \<Rightarrow> Panic
                | (n, None) \<Rightarrow> Ret \<lparr>sv_locked = False, sv_chainConfig = \<lparr>cc_ChainID = Some 666\<rparr>,
                    sv_state = st, sv_submitCh = [], sv_genesisFile = genesisFile, sv_keystoreDir = keystoreDir,
                    sv_apiAddr = apiAddr, sv_keyStore = None, sv_am = False, sv_pwdFile = pwdFile,
                    sv_rpcServer = n, sv_getInfo = None\<rparr>)))"

definition GetSubmitCh :: "('db, 'sd, 'ks) service \<Rightarrow> bytes list" where
  "GetSubmitCh m = sv_submitCh m"

definition SetInfoCallback ::
  "('db, 'sd, 'ks) service \<Rightarrow> (string \<times> string) list outcome \<Rightarrow> ('db, 'sd, 'ks) service" where
  "SetInfoCallback m f = m\<lparr>sv_getInfo := Some f\<rparr>"

section \<open>Start-up\<close>

definition makeKeyStore ::
  "('db, 'sd, 'ks, 'x) backend_scheme \<Rightarrow> os \<Rightarrow> ('db, 'sd, 'ks) service
   \<Rightarrow> ('db, 'sd, 'ks) service \<times> error option" where
  "makeKeyStore X Os m =
     (case os_MkdirAll Os (sv_keystoreDir m) of
        Some e \<Rightarrow> (m, Some e)
      | None \<Rightarrow> (m\<lparr>sv_keyStore := Some (ks_New X (sv_keystoreDir m)), sv_am := True\<rparr>, None))"

definition trim_right :: "char \<Rightarrow> string \<Rightarrow> string" where
  "trim_right c s = rev (dropWhile (\<lambda>x. x = c) (rev s))"

definition newline :: char where "newline = CHR 0x0A"
definition carriage_return :: char where "carriage_return = CHR 0x0D"

definition readPwd :: "os \<Rightarrow> ('db, 'sd, 'ks) service \<Rightarrow> string outcome" where
  "readPwd Os m =
     (case os_ReadFile Os (sv_pwdFile m) of
        Fail e \<Rightarrow> Fail e
      | Panic \<Rightarrow> Panic
      | Ret text \<Rightarrow>
          (case map (trim_right carriage_return) (split_on newline (bytes_str text)) of
             [] \<Rightarrow> Panic
           | l # ls \<Rightarrow> Ret l))"

fun unlock_all ::
  "('db, 'sd, 'ks, 'x) backend_scheme \<Rightarrow> 'ks \<Rightarrow> string \<Rightarrow> eth_account list \<Rightarrow> 'ks \<times> error option" where
  "unlock_all X ks pwd [] = (ks, None)"
| "unlock_all X ks pwd (a # as) =
     (case ks_Unlock X ks a pwd of
        (ks, Some e) \<Rightarrow> (ks, Some e)
      | (ks, None) \<Rightarrow> unlock_all X ks pwd as)"

text \<open>\<^verbatim>\<open>unlockAccounts\<close>; a nil key store is a nil dereference.\<close>

definition unlockAccounts ::
  "('db, 'sd, 'ks, 'x) backend_scheme \<Rightarrow> os \<Rightarrow> ('db, 'sd, 'ks) service
   \<Rightarrow> ('db, 'sd, 'ks) service \<times> error option outcome" where
  "unlockAccounts X Os m =
     (case sv_keyStore m of
        None \<Rightarrow> (m, Panic)
      | Some ks \<Rightarrow>
          if ks_Accounts X ks = [] then (m, Ret None)
          else case readPwd Os m of
                 Fail e \<Rightarrow> (m, Ret (Some e))
               | Panic \<Rightarrow> (m, Panic)
               | Ret pwd \<Rightarrow>
                   (case unlock_all X ks pwd (ks_Accounts X ks) of
                      (ks, err) \<Rightarrow> (m\<lparr>sv_keyStore := Some ks\<rparr>, Ret err)))"

definition createGenesisAccounts ::
  "('db, 'sd, 'ks, 'x) backend_scheme \<Rightarrow> os \<Rightarrow> ('db, 'sd, 'ks) service
   \<Rightarrow> ('db, 'sd, 'ks) service \<times> error option outcome" where
  "createGenesisAccounts X Os m =
     (if os_NotExist Os (sv_genesisFile m) then (m, Ret None)
      else case os_ReadFile Os (sv_genesisFile m) of
             Fail e \<Rightarrow> (m, Ret (Some e))
           | Panic \<Rightarrow> (m, Panic)
           | Ret contents \<Rightarrow>
               (case json_Decode_alloc X contents of
                  Fail e \<Rightarrow> (m, Ret (Some e))
                | Panic \<Rightarrow> (m, Panic)
                | Ret alloc \<Rightarrow>
                    (case CreateAccounts X (sv_state m) alloc of
                       (st, res) \<Rightarrow> (m\<lparr>sv_state := st\<rparr>, res))))"

text \<open>
  \<^verbatim>\<open>Run\<close>: \<^verbatim>\<open>checkErr\<close> ends the process; a failing RPC server or HTTP listener panics, the
  latter after the deferred \<^verbatim>\<open>Stop\<close>; otherwise the API is served for ever.
\<close>

datatype run_result = Exited error | Panicked | Serving

fun check_err ::
  "('db, 'sd, 'ks) service \<times> error option outcome
   \<Rightarrow> (('db, 'sd, 'ks) service \<Rightarrow> ('db, 'sd, 'ks) service \<times> run_result)
   \<Rightarrow> ('db, 'sd, 'ks) service \<times> run_result" where
  "check_err (m, Ret None) k = k m"
| "check_err (m, Ret (Some e)) k = (m, Exited e)"
| "check_err (m, Fail e) k = (m, Exited e)"
| "check_err (m, Panic) k = (m, Panicked)"

definition service_Run ::
  "('db, 'sd, 'ks, 'x) backend_scheme \<Rightarrow> os \<Rightarrow> rpc_env \<Rightarrow> ('db, 'sd, 'ks) service
   \<Rightarrow> ('db, 'sd, 'ks) service \<times> run_result" where
  "service_Run X Os E m =
     check_err (case makeKeyStore X Os m of (m, err) \<Rightarrow> (m, Ret err)) (\<lambda>m.
     check_err (unlockAccounts X Os m) (\<lambda>m.
     check_err (createGenesisAccounts X Os m) (\<lambda>m.
       case Start E (sv_rpcServer m) of
         (n, Ret _) \<Rightarrow>
           let m = m\<lparr>sv_rpcServer := n\<rparr> in
           (case os_Listen Os (sv_apiAddr m) of
              None \<Rightarrow> (m, Serving)
            | Some e \<Rightarrow> (m\<lparr>sv_rpcServer := fst (Stop E n)\<rparr>, Panicked))
       | (n, _) \<Rightarrow> (m\<lparr>sv_rpcServer := n\<rparr>, Panicked))))"

section \<open>The password file\<close>

lemma split_on_nonempty [simp]: "split_on c s \<noteq> []"
  by (induction s) (auto split: list.splits)

lemma split_on_append: "c \<notin> set p \<Longrightarrow> split_on c (p @ c # rest) = p # split_on c rest"
  by (induction p) (auto split: list.splits)

lemma split_on_none: "c \<notin> set p \<Longrightarrow> split_on c p = [p]"
  by (induction p) auto

lemma trim_right_replicate: "p = [] \<or> last p \<noteq> c \<Longrightarrow> trim_right c (p @ replicate n c) = p"
proof -
  assume p: "p = [] \<or> last p \<noteq> c"
  have "dropWhile (\<lambda>x. x = c) (replicate n c @ rev p) = rev p"
    using p by (induction n) (cases p rule: rev_cases; simp)+
  then show ?thesis by (simp add: trim_right_def)
qed

end
