(* ===== verification/Handlers.thy ===== *)
theory Handlers
  imports ServiceCore
begin

text \<open>
  The HTTP API (\<^verbatim>\<open>src/service/http_handlers.go\<close>, \<^verbatim>\<open>src/service/types.go\<close>, and the routing
  of \<^verbatim>\<open>src/service/service.go\<close>): one definition per handler, the mutex around them, the routes
  and the CORS wrapper.  A request is what the handlers read of it, together with what its
  body and its connection answer; a handler returns the service and what it did to the response
  writer, or \<open>None\<close> when it panicked.
\<close>

section \<open>Requests and responses\<close>

record request =
  rq_Method :: string
  rq_Origin :: string
  rq_Path :: string
  rq_Body :: "bytes outcome"
  rq_Close :: "error option"
  rq_Write :: "error option"

datatype effect =
    SetHeader string string
  | Body bytes
  | HttpError nat string

type_synonym reply = "effect list option"

definition http_error :: "error \<Rightarrow> effect list" where
  "http_error e = [HttpError 500 (error_text e)]"

definition write_body :: "request \<Rightarrow> bytes \<Rightarrow> effect list" where
  "write_body r b = Body b # (case rq_Write r of None \<Rightarrow> [] | Some e \<Rightarrow> http_error e)"

text \<open>
  The end of every JSON handler: an error of any of its steps is answered with its text and the
  status 500; the value is marshalled and written.
\<close>

definition respond ::
  "('db, 'sd, 'ks, 'x) backend_scheme \<Rightarrow> request \<Rightarrow> json outcome \<Rightarrow> reply" where
  "respond X r res =
     (case res of
        Fail e \<Rightarrow> Some (http_error e)
      | Panic \<Rightarrow> None
      | Ret j \<Rightarrow>
          (case json_Marshal X j of
             Fail e \<Rightarrow> Some (http_error e)
           | Panic \<Rightarrow> None
           | Ret js \<Rightarrow> Some (SetHeader ''Content-Type'' ''application/json'' # write_body r js)))"

text \<open>The deferred \<^verbatim>\<open>Close\<close> of the body.\<close>

definition close_body :: "request \<Rightarrow> reply \<Rightarrow> reply" where
  "close_body r rep =
     map_option (\<lambda>effs. effs @ (case rq_Close r of None \<Rightarrow> [] | Some e \<Rightarrow> http_error e)) rep"

text \<open>\<^verbatim>\<open>r.URL.Path[len(prefix):]\<close>.\<close>

definition path_param :: "string \<Rightarrow> request \<Rightarrow> string outcome" where
  "path_param prefix r =
     (if length (rq_Path r) < length prefix then Panic else Ret (drop (length prefix) (rq_Path r)))"

section \<open>Accounts\<close>

definition account_json ::
  "('db, 'sd, 'ks, 'x) backend_scheme \<Rightarrow> ('db, 'sd) state \<Rightarrow> address \<Rightarrow> json_account" where
  "account_json X st a = \<lparr>ja_Address = addr_Hex X a, ja_Balance = GetBalance X st a, ja_Nonce = GetNonce X st a\<rparr>"

definition accountHandler ::
  "('db, 'sd, 'ks, 'x) backend_scheme \<Rightarrow> request \<Rightarrow> ('db, 'sd, 'ks) service \<Rightarrow> ('db, 'sd, 'ks) service \<times> reply" where
  "accountHandler X r m =
     (m, respond X r
       (case path_param ''/account/'' r of
          Ret param \<Rightarrow> Ret (JsonAccount (account_json X (sv_state m) (HexToAddress X param)))
        | Fail e \<Rightarrow> Fail e
        | Panic \<Rightarrow> Panic))"

definition accountsHandler ::
  "('db, 'sd, 'ks, 'x) backend_scheme \<Rightarrow> request \<Rightarrow> ('db, 'sd, 'ks) service \<Rightarrow> ('db, 'sd, 'ks) service \<times> reply" where
  "accountsHandler X r m =
     (m, respond X r
       (case sv_keyStore m of
          None \<Rightarrow> Panic
        | Some ks \<Rightarrow> Ret (JsonAccountList (map (\<lambda>a. account_json X (sv_state m) (ea_Address a)) (ks_Accounts X ks)))))"

section \<open>Receipts\<close>

text \<open>
  The repository has four copies of the code that builds a \<^verbatim>\<open>JsonReceipt\<close>: two in the block
  handlers, which do not set the status, and two in the receipt handlers.
\<close>

definition failed_receipt :: "hash \<Rightarrow> address \<Rightarrow> tx_error \<Rightarrow> json_receipt" where
  "failed_receipt txHash from txFailed =
     (let t = te_Tx txFailed in
      zero_receipt\<lparr>jr_TransactionHash := txHash, jr_From := from, jr_To := tx_To t, jr_Value := Some (tx_Value t),
        jr_Gas := Some (uint (tx_Gas t)), jr_GasPrice := Some (tx_GasPrice t), jr_Error := te_Error txFailed,
        jr_Failed := True\<rparr>)"

definition transaction_receipt ::
  "('db, 'sd, 'ks, 'x) backend_scheme \<Rightarrow> ('db, 'sd) state \<Rightarrow> hash \<Rightarrow> json_receipt outcome" where
  "transaction_receipt X st txHash =
     (case GetTransaction X st txHash of
        Panic \<Rightarrow> Panic
      | Fail _ \<Rightarrow>
          (case GetFailedTx X st txHash of
             Fail e \<Rightarrow> Fail e
           | Panic \<Rightarrow> Panic
           | Ret txFailed \<Rightarrow>
               (case Sender X (EIP155Signer 1) (te_Tx txFailed) of
                  Fail e \<Rightarrow> Fail e
                | Panic \<Rightarrow> Panic
                | Ret from \<Rightarrow> Ret (failed_receipt txHash from txFailed)))
      | Ret t \<Rightarrow>
          (case Sender X (EIP155Signer 1) t of
             Fail e \<Rightarrow> Fail e
           | Panic \<Rightarrow> Panic
           | Ret from \<Rightarrow>
               (case GetReceipt X st txHash of
                  Fail e \<Rightarrow> Fail e
                | Panic \<Rightarrow> Panic
                | Ret receipt \<Rightarrow>
                    Ret \<lparr>jr_Root = BytesToHash X (PostState receipt), jr_TransactionHash = txHash,
                      jr_From = from, jr_To = tx_To t, jr_Value = Some (tx_Value t),
                      jr_Gas = Some (uint (tx_Gas t)), jr_GasUsed = Some (uint (GasUsed receipt)),
                      jr_GasPrice = Some (tx_GasPrice t),
                      jr_CumulativeGasUsed = Some (uint (CumulativeGasUsed receipt)),
                      jr_ContractAddress = ContractAddress receipt, jr_Logs = Some (log_list receipt),
                      jr_LogsBloom = Bloom receipt, jr_Error = [], jr_Failed = False,
                      jr_Status = Status receipt\<rparr>)))"

definition transactionReceiptHandler ::
  "('db, 'sd, 'ks, 'x) backend_scheme \<Rightarrow> request \<Rightarrow> ('db, 'sd, 'ks) service \<Rightarrow> ('db, 'sd, 'ks) service \<times> reply" where
  "transactionReceiptHandler X r m =
     (m, respond X r
       (case path_param ''/transaction/'' r of
          Fail e \<Rightarrow> Fail e
        | Panic \<Rightarrow> Panic
        | Ret param \<Rightarrow>
            (case transaction_receipt X (sv_state m) (HexToHash X param) of
               Fail e \<Rightarrow> Fail e
             | Panic \<Rightarrow> Panic
             | Ret j \<Rightarrow> Ret (JsonReceipt j))))"

definition tx_receipt_json ::
  "('db, 'sd, 'ks, 'x) backend_scheme \<Rightarrow> ('db, 'sd) state \<Rightarrow> hash \<Rightarrow> json_receipt outcome" where
  "tx_receipt_json X st txHash =
     (let sender = Sender X (EIP155Signer 1) in
      case GetTransaction X st txHash of
        Panic \<Rightarrow> Panic
      | Fail _ \<Rightarrow>
          (case GetFailedTx X st txHash of
             Fail e \<Rightarrow> Fail e
           | Panic \<Rightarrow> Panic
           | Ret txFailed \<Rightarrow>
               let t = te_Tx txFailed in
               (case sender t of
                  Fail e \<Rightarrow> Fail e
                | Panic \<Rightarrow> Panic
                | Ret from \<Rightarrow>
                    Ret (zero_receipt\<lparr>jr_TransactionHash := txHash, jr_From := from, jr_To := tx_To t,
                      jr_Value := Some (tx_Value t), jr_Gas := Some (uint (tx_Gas t)),
                      jr_GasPrice := Some (tx_GasPrice t), jr_Error := te_Error txFailed, jr_Failed := True\<rparr>)))
      | Ret t \<Rightarrow>
          (case sender t of
             Fail e \<Rightarrow> Fail e
           | Panic \<Rightarrow> Panic
           | Ret from \<Rightarrow>
               (case GetReceipt X st txHash of
                  Fail e \<Rightarrow> Fail e
                | Panic \<Rightarrow> Panic
                | Ret receipt \<Rightarrow>
                    let j = zero_receipt\<lparr>jr_Root := BytesToHash X (PostState receipt), jr_TransactionHash := txHash,
                      jr_From := from, jr_To := tx_To t, jr_Value := Some (tx_Value t),
                      jr_Gas := Some (uint (tx_Gas t)), jr_GasPrice := Some (tx_GasPrice t),
                      jr_GasUsed := Some (uint (GasUsed receipt)),
                      jr_CumulativeGasUsed := Some (uint (CumulativeGasUsed receipt)),
                      jr_ContractAddress := ContractAddress receipt, jr_Logs := Logs receipt,
                      jr_LogsBloom := Bloom receipt, jr_Failed := False, jr_Status := Status receipt\<rparr>
                    in Ret (if Logs receipt = None then j\<lparr>jr_Logs := Some []\<rparr> else j))))"

definition txReceiptHandler ::
  "('db, 'sd, 'ks, 'x) backend_scheme \<Rightarrow> request \<Rightarrow> ('db, 'sd, 'ks) service \<Rightarrow> ('db, 'sd, 'ks) service \<times> reply" where
  "txReceiptHandler X r m =
     (m, respond X r
       (case path_param ''/tx/'' r of
          Fail e \<Rightarrow> Fail e
        | Panic \<Rightarrow> Panic
        | Ret param \<Rightarrow>
            (case tx_receipt_json X (sv_state m) (HexToHash X param) of
               Fail e \<Rightarrow> Fail e
             | Panic \<Rightarrow> Panic
             | Ret j \<Rightarrow> Ret (JsonReceipt j))))"

section \<open>Blocks\<close>

text \<open>One round of the loop of \<^verbatim>\<open>blockByHashHandler\<close>.\<close>

definition blockByHash_receipt ::
  "('db, 'sd, 'ks, 'x) backend_scheme \<Rightarrow> ('db, 'sd) state \<Rightarrow> bytes \<Rightarrow> json_receipt outcome" where
  "blockByHash_receipt X st txBytes =
     (case rlp_Decode_tx X txBytes of
        Fail e \<Rightarrow> Fail e
      | Panic \<Rightarrow> Panic
      | Ret t0 \<Rightarrow>
     (let txHash = tx_Hash X t0 in
      case GetTransaction X st txHash of
        Panic \<Rightarrow> Panic
      | Fail _ \<Rightarrow>
          (case GetFailedTx X st txHash of
             Fail e \<Rightarrow> Fail e
           | Panic \<Rightarrow> Panic
           | Ret txFailed \<Rightarrow>
               (case Sender X (EIP155Signer 1) (te_Tx txFailed) of
                  Fail e \<Rightarrow> Fail e
                | Panic \<Rightarrow> Panic
                | Ret from \<Rightarrow> Ret (failed_receipt txHash from txFailed)))
      | Ret t \<Rightarrow>
          (case Sender X (EIP155Signer 1) t of
             Fail e \<Rightarrow> Fail e
           | Panic \<Rightarrow> Panic
           | Ret from \<Rightarrow>
               (case GetReceipt X st txHash of
                  Fail e \<Rightarrow> Fail e
                | Panic \<Rightarrow> Panic
                | Ret receipt \<Rightarrow>
                    Ret \<lparr>jr_Root = BytesToHash X (PostState receipt), jr_TransactionHash = txHash,
                      jr_From = from, jr_To = tx_To t, jr_Value = Some (tx_Value t),
                      jr_Gas = Some (uint (tx_Gas t)), jr_GasUsed = Some (uint (GasUsed receipt)),
                      jr_GasPrice = Some (tx_GasPrice t),
                      jr_CumulativeGasUsed = Some (uint (CumulativeGasUsed receipt)),
                      jr_ContractAddress = ContractAddress receipt, jr_Logs = Some (log_list receipt),
                      jr_LogsBloom = Bloom receipt, jr_Error = [], jr_Failed = False, jr_Status = 0\<rparr>))))"

text \<open>The loop; the first error ends the request.\<close>

fun block_receipts :: "(bytes \<Rightarrow> json_receipt outcome) \<Rightarrow> json_receipt list \<Rightarrow> bytes list \<Rightarrow> json_receipt list outcome" where
  "block_receipts f acc [] = Ret acc"
| "block_receipts f acc (b # bs) =
     (case f b of
        Fail e \<Rightarrow> Fail e
      | Panic \<Rightarrow> Panic
      | Ret j \<Rightarrow> block_receipts f (acc @ [j]) bs)"

definition block_json :: "('db, 'sd, 'ks, 'x) backend_scheme \<Rightarrow> block \<Rightarrow> json_receipt list \<Rightarrow> json_block" where
  "block_json X blk rs = \<lparr>jb_Hash = BlockHex X blk, jb_Index = blk_Index blk, jb_Round = blk_RoundReceived blk,
     jb_CreatedTime = blk_CreatedTime blk, jb_StateHash = [], jb_FrameHash = [], jb_Transactions = rs\<rparr>"

definition blockByHashHandler ::
  "('db, 'sd, 'ks, 'x) backend_scheme \<Rightarrow> request \<Rightarrow> ('db, 'sd, 'ks) service \<Rightarrow> ('db, 'sd, 'ks) service \<times> reply" where
  "blockByHashHandler X r m =
     (m, respond X r
       (case path_param ''/block/'' r of
          Fail e \<Rightarrow> Fail e
        | Panic \<Rightarrow> Panic
        | Ret param \<Rightarrow>
            (case GetBlock X (sv_state m) (HexToHash X param) of
               Fail e \<Rightarrow> Fail e
             | Panic \<Rightarrow> Panic
             | Ret blk \<Rightarrow>
                 (case block_receipts (blockByHash_receipt X (sv_state m)) [] (blk_Transactions blk) of
                    Fail e \<Rightarrow> Fail e
                  | Panic \<Rightarrow> Panic
                  | Ret rs \<Rightarrow> Ret (JsonBlock (block_json X blk rs))))))"

text \<open>
  \<^verbatim>\<open>strconv.ParseInt(s, 10, 64)\<close>: an optional sign, then at least one digit and only digits; a
  magnitude that does not fit 64 bits stops the scan.
\<close>

datatype num_error = ErrSyntax | ErrRange

fun ParseUint_loop :: "nat \<Rightarrow> string \<Rightarrow> num_error + nat" where
  "ParseUint_loop acc [] = Inr acc"
| "ParseUint_loop acc (c # cs) =
     (let d = of_char c in
      if d < 48 \<or> 57 < d then Inl ErrSyntax
      else let acc = 10 * acc + (d - 48) in
           if 2 ^ 64 \<le> acc then Inl ErrRange else ParseUint_loop acc cs)"

definition ParseUint :: "string \<Rightarrow> num_error + nat" where
  "ParseUint s = (if s = [] then Inl ErrSyntax else ParseUint_loop 0 s)"

definition ParseInt :: "string \<Rightarrow> num_error + int" where
  "ParseInt s =
     (if s = [] then Inl ErrSyntax
      else
        let neg = (hd s = CHR ''-'');
            digits = (if hd s = CHR ''+'' \<or> hd s = CHR ''-'' then tl s else s)
        in case ParseUint digits of
             Inl e \<Rightarrow> Inl e
           | Inr un \<Rightarrow>
               if \<not> neg \<and> 2 ^ 63 \<le> un then Inl ErrRange
               else if neg \<and> 2 ^ 63 < un then Inl ErrRange
               else Inr (if neg then - int un else int un))"

fun num_error_text :: "num_error \<Rightarrow> string" where
  "num_error_text ErrSyntax = ''invalid syntax''"
| "num_error_text ErrRange = ''value out of range''"

text \<open>One round of the loop of \<^verbatim>\<open>blockByIdHandler\<close>.\<close>

definition blockById_receipt ::
  "('db, 'sd, 'ks, 'x) backend_scheme \<Rightarrow> ('db, 'sd) state \<Rightarrow> bytes \<Rightarrow> json_receipt outcome" where
  "blockById_receipt X st txBytes =
     (let sender = Sender X (EIP155Signer 1) in
      case rlp_Decode_tx X txBytes of
        Fail e \<Rightarrow> Fail e
      | Panic \<Rightarrow> Panic
      | Ret t0 \<Rightarrow>
     (let txHash = tx_Hash X t0 in
      case GetTransaction X st txHash of
        Panic \<Rightarrow> Panic
      | Fail _ \<Rightarrow>
          (case GetFailedTx X st txHash of
             Fail e \<Rightarrow> Fail e
           | Panic \<Rightarrow> Panic
           | Ret txFailed \<Rightarrow>
               let t = te_Tx txFailed in
               (case sender t of
                  Fail e \<Rightarrow> Fail e
                | Panic \<Rightarrow> Panic
                | Ret from \<Rightarrow>
                    Ret (zero_receipt\<lparr>jr_TransactionHash := txHash, jr_From := from, jr_To := tx_To t,
                      jr_Value := Some (tx_Value t), jr_Gas := Some (uint (tx_Gas t)),
                      jr_GasPrice := Some (tx_GasPrice t), jr_Error := te_Error txFailed, jr_Failed := True\<rparr>)))
      | Ret t \<Rightarrow>
          (case sender t of
             Fail e \<Rightarrow> Fail e
           | Panic \<Rightarrow> Panic
           | Ret from \<Rightarrow>
               (case GetReceipt X st txHash of
                  Fail e \<Rightarrow> Fail e
                | Panic \<Rightarrow> Panic
                | Ret receipt \<Rightarrow>
                    let j = zero_receipt\<lparr>jr_Root := BytesToHash X (PostState receipt), jr_TransactionHash := txHash,
                      jr_From := from, jr_To := tx_To t, jr_Value := Some (tx_Value t),
                      jr_Gas := Some (uint (tx_Gas t)), jr_GasPrice := Some (tx_GasPrice t),
                      jr_GasUsed := Some (uint (GasUsed receipt)),
                      jr_CumulativeGasUsed := Some (uint (CumulativeGasUsed receipt)),
                      jr_ContractAddress := ContractAddress receipt, jr_Logs := Logs receipt,
                      jr_LogsBloom := Bloom receipt, jr_Failed := False\<rparr>
                    in Ret (if Logs receipt = None then j\<lparr>jr_Logs := Some []\<rparr> else j)))))"

definition blockByIdHandler ::
  "('db, 'sd, 'ks, 'x) backend_scheme \<Rightarrow> request \<Rightarrow> ('db, 'sd, 'ks) service \<Rightarrow> ('db, 'sd, 'ks) service \<times> reply" where
  "blockByIdHandler X r m =
     (m, respond X r
       (case path_param ''/blockById/'' r of
          Fail e \<Rightarrow> Fail e
        | Panic \<Rightarrow> Panic
        | Ret param \<Rightarrow>
     (case ParseInt param of
        Inl e \<Rightarrow> Fail (LibError (''strconv.ParseInt: parsing '' @ strconv_Quote X param @ '': '' @ num_error_text e))
      | Inr i \<Rightarrow>
          (case GetBlockById X (sv_state m) i of
             Fail e \<Rightarrow> Fail e
           | Panic \<Rightarrow> Panic
           | Ret blk \<Rightarrow>
               (case block_receipts (blockById_receipt X (sv_state m)) [] (blk_Transactions blk) of
                  Fail e \<Rightarrow> Fail e
                | Panic \<Rightarrow> Panic
                | Ret rs \<Rightarrow> Ret (JsonBlock (block_json X blk rs)))))))"

section \<open>Preparing messages and transactions\<close>

definition defaultGas :: u64 where "defaultGas = 90000"
definition defaultGasPrice :: int where "defaultGasPrice = 1000000000"   \<comment> \<open>one \<^verbatim>\<open>params.GWei\<close>\<close>

definition prepareSendTxArgs :: "send_tx_args \<Rightarrow> send_tx_args" where
  "prepareSendTxArgs args =
     (let args = (if sa_Gas args = None then args\<lparr>sa_Gas := Some defaultGas\<rparr> else args);
          args = (if sa_GasPrice args = None then args\<lparr>sa_GasPrice := Some 0\<rparr> else args)
      in if sa_Value args = None then args\<lparr>sa_Value := Some 0\<rparr> else args)"

text \<open>Reading through a nil pointer panics.\<close>

definition deref :: "'a option \<Rightarrow> 'a outcome" where
  "deref p = (case p of Some v \<Rightarrow> Ret v | None \<Rightarrow> Panic)"

definition prepareCallMessage ::
  "('db, 'sd, 'ks, 'x) backend_scheme \<Rightarrow> send_tx_args \<Rightarrow> msg outcome" where
  "prepareCallMessage X args =
     (let args = prepareSendTxArgs args in
      case (deref (sa_Gas args), deref (sa_GasPrice args), deref (sa_Value args), deref (sa_Data args)) of
        (Ret gas, Ret gasPrice, Ret v, Ret dat) \<Rightarrow>
          let gas = (if gas = 0 then max_uint64 div 2 else gas);
              gasPrice = (if sgn gasPrice = 0 then defaultGasPrice else gasPrice)
          in Ret (NewMessage X (sa_From args) (sa_To args) 0 v gas gasPrice dat False)
      | _ \<Rightarrow> Panic)"

text \<open>\<^verbatim>\<open>prepareTransaction\<close>; calling \<^verbatim>\<open>Find\<close> of a nil key store is a nil dereference.\<close>

definition prepareTransaction ::
  "('db, 'sd, 'ks, 'x) backend_scheme \<Rightarrow> send_tx_args \<Rightarrow> ('db, 'sd) state \<Rightarrow> 'ks option \<Rightarrow> tx outcome" where
  "prepareTransaction X args st keyStore =
     (let args = prepareSendTxArgs args;
          nonce = (case sa_Nonce args of Some n \<Rightarrow> n | None \<Rightarrow> GetPoolNonce X st (sa_From args));
          signer = EIP155Signer 1
      in case (deref (sa_Value args), deref (sa_Gas args), deref (sa_GasPrice args), deref (sa_Data args)) of
           (Ret v, Ret gas, Ret gasPrice, Ret dat) \<Rightarrow>
             let t = (case sa_To args of
                        None \<Rightarrow> NewContractCreation X nonce v gas gasPrice dat
                      | Some to \<Rightarrow> NewTransaction X nonce to v gas gasPrice dat)
             in (case keyStore of
                   None \<Rightarrow> Panic
                 | Some ks \<Rightarrow>
                     (case ks_Find X ks \<lparr>ea_Address = sa_From args, ea_URL = []\<rparr> of
                        Fail e \<Rightarrow> Fail e
                      | Panic \<Rightarrow> Panic
                      | Ret account \<Rightarrow>
                          (case ks_SignHash X ks account (hash_bytes (signer_Hash X signer t)) of
                             Fail e \<Rightarrow> Fail e
                           | Panic \<Rightarrow> Panic
                           | Ret signature \<Rightarrow> WithSignature X signer t signature)))
         | _ \<Rightarrow> Panic)"

section \<open>Calls and submissions\<close>

definition callHandler ::
  "('db, 'sd, 'ks, 'x) backend_scheme \<Rightarrow> request \<Rightarrow> ('db, 'sd, 'ks) service \<Rightarrow> ('db, 'sd, 'ks) service \<times> reply" where
  "callHandler X r m =
     (m, case json_Decode_args X (rq_Body r) of
           Fail e \<Rightarrow> Some (http_error e)
         | Panic \<Rightarrow> None
         | Ret txArgs \<Rightarrow> close_body r (respond X r
             (case prepareCallMessage X txArgs of
                Fail e \<Rightarrow> Fail e
              | Panic \<Rightarrow> Panic
              | Ret callMessage \<Rightarrow>
                  (case Call X (sv_state m) callMessage of
                     Fail e \<Rightarrow> Fail e
                   | Panic \<Rightarrow> Panic
                   | Ret dat \<Rightarrow> Ret (JsonCallRes (hexutil_Encode X dat))))))"

definition submit :: "('db, 'sd, 'ks) service \<Rightarrow> bytes \<Rightarrow> ('db, 'sd, 'ks) service" where
  "submit m b = m\<lparr>sv_submitCh := sv_submitCh m @ [b]\<rparr>"

definition transactionHandler ::
  "('db, 'sd, 'ks, 'x) backend_scheme \<Rightarrow> request \<Rightarrow> ('db, 'sd, 'ks) service \<Rightarrow> ('db, 'sd, 'ks) service \<times> reply" where
  "transactionHandler X r m =
     (case json_Decode_args X (rq_Body r) of
        Fail e \<Rightarrow> (m, Some (http_error e))
      | Panic \<Rightarrow> (m, None)
      | Ret txArgs \<Rightarrow>
          (case prepareTransaction X txArgs (sv_state m) (sv_keyStore m) of
             Fail e \<Rightarrow> (m, close_body r (respond X r (Fail e)))
           | Panic \<Rightarrow> (m, None)
           | Ret t \<Rightarrow>
               (case rlp_Encode_tx X t of
                  Fail e \<Rightarrow> (m, close_body r (respond X r (Fail e)))
                | Panic \<Rightarrow> (m, None)
                | Ret dat \<Rightarrow>
                    (submit m dat, close_body r (respond X r (Ret (JsonTxRes (hash_Hex X (tx_Hash X t)))))))))"

text \<open>
  \<^verbatim>\<open>rawTransactionHandler\<close> submits the bytes before it decodes them, and writes nothing when
  they do not decode.
\<close>

definition rawTransactionHandler ::
  "('db, 'sd, 'ks, 'x) backend_scheme \<Rightarrow> request \<Rightarrow> ('db, 'sd, 'ks) service \<Rightarrow> ('db, 'sd, 'ks) service \<times> reply" where
  "rawTransactionHandler X r m =
     (case rq_Body r of
        Fail e \<Rightarrow> (m, close_body r (Some (http_error e)))
      | Panic \<Rightarrow> (m, None)
      | Ret body \<Rightarrow>
          (case hexutil_Decode X (bytes_str body) of
             Fail e \<Rightarrow> (m, close_body r (Some (http_error e)))
           | Panic \<Rightarrow> (m, None)
           | Ret rawTxBytes \<Rightarrow>
               (submit m rawTxBytes, close_body r
                 (case rlp_Decode_tx X rawTxBytes of
                    Fail e \<Rightarrow> Some []
                  | Panic \<Rightarrow> None
                  | Ret t \<Rightarrow> respond X r (Ret (JsonTxRes (hash_Hex X (tx_Hash X t))))))))"

section \<open>Info\<close>

text \<open>Calling a nil \<^verbatim>\<open>getInfo\<close> panics.\<close>

definition infoHandler ::
  "('db, 'sd, 'ks, 'x) backend_scheme \<Rightarrow> request \<Rightarrow> ('db, 'sd, 'ks) service \<Rightarrow> ('db, 'sd, 'ks) service \<times> reply" where
  "infoHandler X r m =
     (m, respond X r
       (case sv_getInfo m of
          None \<Rightarrow> Panic
        | Some (Fail e) \<Rightarrow> Fail e
        | Some Panic \<Rightarrow> Panic
        | Some (Ret stats) \<Rightarrow> Ret (JsonInfo stats)))"

text \<open>The HTML page: the constant template parses, and is executed on the response writer.\<close>

definition htmlInfoHandler ::
  "('db, 'sd, 'ks, 'x) backend_scheme \<Rightarrow> request \<Rightarrow> ('db, 'sd, 'ks) service \<Rightarrow> ('db, 'sd, 'ks) service \<times> reply" where
  "htmlInfoHandler X r m =
     (m, case sv_getInfo m of
           None \<Rightarrow> None
         | Some (Fail e) \<Rightarrow> Some (http_error e)
         | Some Panic \<Rightarrow> None
         | Some (Ret stats) \<Rightarrow>
             (case tmpl_Execute X stats of
                Fail e \<Rightarrow> Some (http_error e)
              | Panic \<Rightarrow> None
              | Ret html \<Rightarrow> Some (write_body r html)))"

section \<open>The mutex, the routes and the CORS wrapper\<close>

text \<open>
  \<^verbatim>\<open>makeHandler\<close> holds the mutex of the service around the handler, without a deferred
  unlock.  \<^verbatim>\<open>net/http\<close> recovers the panic of a handler and drops the connection; the mutex
  stays locked, and \<^verbatim>\<open>Lock\<close> on a locked mutex waits for ever.
\<close>

datatype http_result = Answered "effect list" | Aborted | Blocked | NotRouted

definition makeHandler ::
  "(request \<Rightarrow> ('db, 'sd, 'ks) service \<Rightarrow> ('db, 'sd, 'ks) service \<times> reply)
   \<Rightarrow> request \<Rightarrow> ('db, 'sd, 'ks) service \<Rightarrow> ('db, 'sd, 'ks) service \<times> http_result" where
  "makeHandler fn r m =
     (if sv_locked m then (m, Blocked)
      else case fn r (m\<lparr>sv_locked := True\<rparr>) of
             (m, Some effs) \<Rightarrow> (m\<lparr>sv_locked := False\<rparr>, Answered effs)
           | (m, None) \<Rightarrow> (m, Aborted))"

datatype handler =
    AccountH | AccountsH | BlockByHashH | BlockByIdH | CallH | TransactionH | RawTransactionH
  | TxReceiptH | TransactionReceiptH | InfoH | HtmlInfoH

primrec run_handler ::
  "('db, 'sd, 'ks, 'x) backend_scheme \<Rightarrow> handler \<Rightarrow> request \<Rightarrow> ('db, 'sd, 'ks) service
   \<Rightarrow> ('db, 'sd, 'ks) service \<times> reply" where
  "run_handler X AccountH = accountHandler X"
| "run_handler X AccountsH = accountsHandler X"
| "run_handler X BlockByHashH = blockByHashHandler X"
| "run_handler X BlockByIdH = blockByIdHandler X"
| "run_handler X CallH = callHandler X"
| "run_handler X TransactionH = transactionHandler X"
| "run_handler X RawTransactionH = rawTransactionHandler X"
| "run_handler X TxReceiptH = txReceiptHandler X"
| "run_handler X TransactionReceiptH = transactionReceiptHandler X"
| "run_handler X InfoH = infoHandler X"
| "run_handler X HtmlInfoH = htmlInfoHandler X"

text \<open>The route table of \<^verbatim>\<open>serveAPI\<close>, in the order of registration.\<close>

definition routes :: "(string \<times> string \<times> handler) list" where
  "routes =
     [(''/account/{address}'', ''GET'', AccountH), (''/accounts'', ''GET'', AccountsH),
      (''/block/{hash}'', ''GET'', BlockByHashH), (''/blockById/{id}'', ''GET'', BlockByIdH),
      (''/call'', ''POST'', CallH), (''/tx'', ''POST'', TransactionH), (''/transactions'', ''POST'', TransactionH),
      (''/rawtx'', ''POST'', RawTransactionH), (''/sendRawTransaction'', ''POST'', RawTransactionH),
      (''/tx/{tx_hash}'', ''GET'', TxReceiptH), (''/transaction/{tx_hash}'', ''GET'', TransactionReceiptH),
      (''/info'', ''GET'', InfoH), (''/html/info'', ''GET'', HtmlInfoH)]"

text \<open>The router of gorilla: the first route whose pattern and method match.\<close>

definition route :: "(string \<Rightarrow> string \<Rightarrow> bool) \<Rightarrow> request \<Rightarrow> handler option" where
  "route match r =
     (case filter (\<lambda>(pat, meth, h). match pat (rq_Path r) \<and> meth = rq_Method r) routes of
        [] \<Rightarrow> None
      | (_, _, h) # _ \<Rightarrow> Some h)"

definition cors_headers :: "request \<Rightarrow> effect list" where
  "cors_headers r =
     (if rq_Origin r = [] then []
      else [SetHeader ''Access-Control-Allow-Origin'' (rq_Origin r),
            SetHeader ''Access-Control-Allow-Methods'' ''POST, GET, OPTIONS, PUT, DELETE'',
            SetHeader ''Access-Control-Allow-Headers''
              ''Accept, Content-Type, Content-Length, Accept-Encoding, X-CSRF-Token, Authorization''])"

definition ServeHTTP ::
  "('db, 'sd, 'ks, 'x) backend_scheme \<Rightarrow> (string \<Rightarrow> string \<Rightarrow> bool) \<Rightarrow> request \<Rightarrow> ('db, 'sd, 'ks) service
   \<Rightarrow> ('db, 'sd, 'ks) service \<times> http_result" where
  "ServeHTTP X match r m =
     (if rq_Method r = ''OPTIONS'' then (m, Answered (cors_headers r))
      else case route match r of
             None \<Rightarrow> (m, NotRouted)
           | Some h \<Rightarrow>
               (case makeHandler (run_handler X h) r m of
                  (m, Answered effs) \<Rightarrow> (m, Answered (cors_headers r @ effs))
                | (m, res) \<Rightarrow> (m, res)))"

fun serve_requests ::
  "('db, 'sd, 'ks, 'x) backend_scheme \<Rightarrow> (string \<Rightarrow> string \<Rightarrow> bool) \<Rightarrow> request list \<Rightarrow> ('db, 'sd, 'ks) service
   \<Rightarrow> ('db, 'sd, 'ks) service \<times> http_result list" where
  "serve_requests X match [] m = (m, [])"
| "serve_requests X match (r # rs) m =
     (case ServeHTTP X match r m of
        (m, res) \<Rightarrow> (case serve_requests X match rs m of (m, ress) \<Rightarrow> (m, res # ress)))"

end
