(* ===== verification/DemoService.thy ===== *)
theory DemoService
  imports ServiceCore Demo
begin

text \<open>
  The concrete instance \<open>demo\<close> of the libraries, extended to the boundary of the service: a key
  store with one account, signatures that set the three values the demo codec knows, and JSON
  codecs for the inputs the witnesses use.
\<close>

definition demo_account :: eth_account where
  "demo_account = \<lparr>ea_Address = 9, ea_URL = ''keystore://9''\<rparr>"

definition demo_args :: send_tx_args where
  "demo_args = \<lparr>sa_From = 9, sa_To = Some 5, sa_Gas = Some 21000, sa_GasPrice = Some 1, sa_Value = Some 3,
     sa_Nonce = None, sa_Data = Some [], sa_Input = None\<rparr>"

definition demo_NewTransaction :: "u64 \<Rightarrow> address option \<Rightarrow> int \<Rightarrow> u64 \<Rightarrow> int \<Rightarrow> bytes \<Rightarrow> tx" where
  "demo_NewTransaction n to v g p d = \<lparr>tx_Nonce = n, tx_GasPrice = p, tx_Gas = g, tx_To = to, tx_Value = v,
     tx_Data = d, tx_V = 0, tx_R = 0, tx_S = 0\<rparr>"

definition demo_NewMessage ::
  "address \<Rightarrow> address option \<Rightarrow> u64 \<Rightarrow> int \<Rightarrow> u64 \<Rightarrow> int \<Rightarrow> bytes \<Rightarrow> bool \<Rightarrow> msg" where
  "demo_NewMessage from to n v g p d c = \<lparr>msg_From = from, msg_To = to, msg_Nonce = n, msg_Value = v,
     msg_Gas = g, msg_GasPrice = p, msg_Data = d, msg_CheckNonce = c\<rparr>"

text \<open>The body \<open>[0]\<close> is the example of the documentation, which has no data; \<open>[1]\<close> has data.\<close>

fun demo_Decode_args :: "bytes outcome \<Rightarrow> send_tx_args outcome" where
  "demo_Decode_args (Ret b) =
     (if b = [0] then Ret (demo_args\<lparr>sa_Data := None\<rparr>)
      else if b = [1] then Ret demo_args else Fail (LibError ''json''))"
| "demo_Decode_args (Fail e) = Fail e"
| "demo_Decode_args Panic = Panic"

definition demo_backend :: "(demo_db, demo_sd, eth_account list) backend" where
  "demo_backend = geth.extend (geth.truncate demo) \<lparr>
     ks_New = (\<lambda>_. [demo_account]),
     ks_Accounts = (\<lambda>ks. ks),
     ks_Unlock = (\<lambda>ks a pwd. (ks, if pwd = ''pw'' then None else Some (LibError ''could not decrypt key''))),
     ks_Find = (\<lambda>ks a. case filter (\<lambda>b. ea_Address b = ea_Address a) ks of
       [] \<Rightarrow> Fail (LibError ''no key for given address or file'') | b # _ \<Rightarrow> Ret b),
     ks_SignHash = (\<lambda>ks a h. Ret []),
     NewTransaction = (\<lambda>n to. demo_NewTransaction n (Some to)),
     NewContractCreation = (\<lambda>n. demo_NewTransaction n None),
     NewMessage = demo_NewMessage,
     WithSignature = (\<lambda>s t sig. Ret (t\<lparr>tx_V := 37, tx_R := 9, tx_S := 7 + uint (tx_Nonce t)\<rparr>)),
     signer_Hash = (\<lambda>_ _. 0),
     Sender = (\<lambda>s t. if s = EIP155Signer 1 then Ret (word_of_int (tx_R t)) else Fail (LibError ''invalid chain id for signer'')),
     BlockHex = (\<lambda>_. ''0x''), hash_Hex = (\<lambda>_. ''0x''), addr_Hex = (\<lambda>_. ''0x''),
     hexutil_Encode = (\<lambda>b. ''0x'' @ bytes_str b),
     hexutil_Decode = (\<lambda>s. if take 2 s = ''0x'' then Ret (str_bytes (drop 2 s)) else Fail (LibError ''missing 0x prefix'')),
     json_Decode_args = demo_Decode_args,
     json_Decode_alloc = (\<lambda>_. Ret []),
     json_Marshal = (\<lambda>_. Ret [123, 125]),
     tmpl_Execute = (\<lambda>_. Ret []),
     strconv_Quote = (\<lambda>s. CHR 0x22 # s @ [CHR 0x22])\<rparr>"

text \<open>The fields of the boundary of the state are those of \<open>demo\<close>.\<close>

lemma demo_backend_geth [simp]:
  "db_Get demo_backend = db_Get demo"
  "db_Put demo_backend = db_Put demo"
  "batch_Put demo_backend = batch_Put demo"
  "batch_Write demo_backend = batch_Write demo"
  "sd_New demo_backend = sd_New demo"
  "sd_Reset demo_backend = sd_Reset demo"
  "sd_Copy demo_backend = sd_Copy demo"
  "sd_Prepare demo_backend = sd_Prepare demo"
  "sd_IntermediateRoot demo_backend = sd_IntermediateRoot demo"
  "sd_GetLogs demo_backend = sd_GetLogs demo"
  "sd_Commit demo_backend = sd_Commit demo"
  "trie_Commit demo_backend = trie_Commit demo"
  "sd_Exist demo_backend = sd_Exist demo"
  "sd_GetBalance demo_backend = sd_GetBalance demo"
  "sd_GetNonce demo_backend = sd_GetNonce demo"
  "sd_AddBalance demo_backend = sd_AddBalance demo"
  "sd_SetCode demo_backend = sd_SetCode demo"
  "sd_SetState demo_backend = sd_SetState demo"
  "ApplyMessage demo_backend = ApplyMessage demo"
  "gp_AddGas demo_backend = gp_AddGas demo"
  "AsMessage demo_backend = AsMessage demo"
  "tx_Hash demo_backend = tx_Hash demo"
  "NewReceipt demo_backend = NewReceipt demo"
  "CreateBloom demo_backend = CreateBloom demo"
  "CreateAddress demo_backend = CreateAddress demo"
  "rlp_Decode_tx demo_backend = rlp_Decode_tx demo"
  "rlp_DecodeBytes_tx demo_backend = rlp_DecodeBytes_tx demo"
  "rlp_Encode_tx demo_backend = rlp_Encode_tx demo"
  "rlp_Encode_receipt demo_backend = rlp_Encode_receipt demo"
  "rlp_DecodeBytes_receipt demo_backend = rlp_DecodeBytes_receipt demo"
  "json_Encode_txerror demo_backend = json_Encode_txerror demo"
  "json_Decode_txerror demo_backend = json_Decode_txerror demo"
  "BlockHash demo_backend = BlockHash demo"
  "ProtoMarshal demo_backend = ProtoMarshal demo"
  "ProtoUnmarshal demo_backend = ProtoUnmarshal demo"
  "BytesToHash demo_backend = BytesToHash demo"
  "HexToHash demo_backend = HexToHash demo"
  "HexToAddress demo_backend = HexToAddress demo"
  "Hex2Bytes demo_backend = Hex2Bytes demo"
  "MustParseBig256 demo_backend = MustParseBig256 demo"
  by (simp_all add: demo_backend_def demo_def geth.defs)

lemma demo_backend_sel [simp]:
  "ks_New demo_backend = (\<lambda>_. [demo_account])"
  "ks_Accounts demo_backend = (\<lambda>ks. ks)"
  "ks_Unlock demo_backend = (\<lambda>ks a pwd. (ks, if pwd = ''pw'' then None else Some (LibError ''could not decrypt key'')))"
  "ks_Find demo_backend = (\<lambda>ks a. case filter (\<lambda>b. ea_Address b = ea_Address a) ks of [] \<Rightarrow> Fail (LibError ''no key for given address or file'') | b # _ \<Rightarrow> Ret b)"
  "ks_SignHash demo_backend = (\<lambda>ks a h. Ret [])"
  "NewTransaction demo_backend = (\<lambda>n to. demo_NewTransaction n (Some to))"
  "NewContractCreation demo_backend = (\<lambda>n. demo_NewTransaction n None)"
  "NewMessage demo_backend = demo_NewMessage"
  "WithSignature demo_backend = (\<lambda>s t sig. Ret (t\<lparr>tx_V := 37, tx_R := 9, tx_S := 7 + uint (tx_Nonce t)\<rparr>))"
  "signer_Hash demo_backend = (\<lambda>_ _. 0)"
  "Sender demo_backend = (\<lambda>s t. if s = EIP155Signer 1 then Ret (word_of_int (tx_R t)) else Fail (LibError ''invalid chain id for signer''))"
  "BlockHex demo_backend = (\<lambda>_. ''0x'')"
  "hash_Hex demo_backend = (\<lambda>_. ''0x'')"
  "addr_Hex demo_backend = (\<lambda>_. ''0x'')"
  "hexutil_Encode demo_backend = (\<lambda>b. ''0x'' @ bytes_str b)"
  "hexutil_Decode demo_backend = (\<lambda>s. if take 2 s = ''0x'' then Ret (str_bytes (drop 2 s)) else Fail (LibError ''missing 0x prefix''))"
  "json_Decode_args demo_backend = demo_Decode_args"
  "json_Decode_alloc demo_backend = (\<lambda>_. Ret [])"
  "json_Marshal demo_backend = (\<lambda>_. Ret [123, 125])"
  "tmpl_Execute demo_backend = (\<lambda>_. Ret [])"
  "strconv_Quote demo_backend = (\<lambda>s. CHR 0x22 # s @ [CHR 0x22])"
  by (simp_all add: demo_backend_def geth.defs)

lemma demo_backend_contracts:
  shows demo_backend_kv_ok: "kv_ok demo_backend"
    and demo_backend_trie_ok: "trie_ok demo_backend (\<lambda>_. False) demo_stored"
    and demo_backend_receipt_ok: "receipt_ok demo_backend"
    and demo_backend_codec_ok: "codec_ok demo_backend"
    and demo_backend_nil_signer: "nil_signer_panics demo_backend"
    and demo_backend_copy_ok: "copy_ok demo_backend"
    and demo_backend_hash_ok: "hash_ok demo_backend"
    and demo_backend_balance_ok: "balance_ok demo_backend"
  using demo_kv_ok demo_trie_ok demo_receipt_ok demo_codec_ok demo_nil_signer demo_copy_ok demo_hash_ok demo_balance_ok
  by (simp_all add: kv_ok_def trie_ok_def same_accounts_def receipt_ok_def codec_ok_def nil_signer_panics_def
      copy_ok_def hash_ok_def balance_ok_def)

end
