(* ===== verification/ServiceSpec.thy ===== *)
theory ServiceSpec
  imports DemoService
begin

text \<open>
  The start of the service: what \<^verbatim>\<open>NewService\<close> makes, what has happened when \<^verbatim>\<open>Run\<close> serves
  the HTTP API, and the password file.
\<close>

section \<open>Construction\<close>

lemma NewServiceD:
  assumes "NewService g k a p st = Ret m"
  shows "sv_apiAddr m = a" "\<not> rs_started (sv_rpcServer m)" "sv_state m = st" "sv_getInfo m = None" "\<not> sv_locked m"
    "rs_serviceFuncs (sv_rpcServer m) = [NewWeb3AccountServiceConstructor, NewWeb3ChainServiceConstructor]"
  using assms
  by (auto simp: NewService_def NewRpcServer_def DefaultRpcConfig_def has_suffix_def Register_def)

lemma program_services:
  "construct_services [NewWeb3AccountServiceConstructor, NewWeb3ChainServiceConstructor] [] =
     Ret [(''*service.Web3AccountService'', the_Ret (NewWeb3AccountServiceConstructor \<lparr>ctx_services = []\<rparr>)),
          (''*service.Web3ChainService'', the_Ret (NewWeb3ChainServiceConstructor \<lparr>ctx_services = []\<rparr>))]"
  by (simp add: NewWeb3AccountServiceConstructor_def NewWeb3ChainServiceConstructor_def)

lemma makeKeyStore_frame [frame]:
  "makeKeyStore X Os m = (m', r) \<Longrightarrow> sv_rpcServer m' = sv_rpcServer m \<and> sv_apiAddr m' = sv_apiAddr m
     \<and> sv_state m' = sv_state m \<and> sv_genesisFile m' = sv_genesisFile m"
  by (auto simp: makeKeyStore_def split: option.splits)

lemma unlockAccounts_frame [frame]:
  "unlockAccounts X Os m = (m', r) \<Longrightarrow> sv_rpcServer m' = sv_rpcServer m \<and> sv_apiAddr m' = sv_apiAddr m
     \<and> sv_state m' = sv_state m \<and> sv_genesisFile m' = sv_genesisFile m \<and> sv_am m' = sv_am m"
  by (auto simp: unlockAccounts_def split: option.splits outcome.splits prod.splits if_splits)

lemma createGenesisAccounts_frame [frame]:
  "createGenesisAccounts X Os m = (m', r) \<Longrightarrow> sv_rpcServer m' = sv_rpcServer m \<and> sv_apiAddr m' = sv_apiAddr m
     \<and> sv_keyStore m' = sv_keyStore m \<and> sv_am m' = sv_am m"
  by (auto simp: createGenesisAccounts_def split: option.splits outcome.splits prod.splits if_splits)

lemma check_err_Serving:
  "check_err c k = (m', Serving) \<longleftrightarrow> (\<exists>m1. c = (m1, Ret None) \<and> k m1 = (m', Serving))"
  by (cases c; cases "snd c"; cases "the_Ret (snd c)"; auto)

section \<open>The password file\<close>

text \<open>
  The password is the first line of the password file, without the carriage returns that end
  it: whatever line ending the file has, and whatever follows the first line.
\<close>

theorem readPwd_first_line:
  assumes "os_ReadFile Os (sv_pwdFile m) = Ret (str_bytes (pwd @ replicate n carriage_return @ tail))"
    "newline \<notin> set pwd" "pwd = [] \<or> last pwd \<noteq> carriage_return" "tail = [] \<or> hd tail = newline"
  shows "readPwd Os m = Ret pwd"
proof -
  have nl: "newline \<notin> set (pwd @ replicate n carriage_return)"
    using assms(2) by (auto simp: newline_def carriage_return_def)
  have "\<exists>ls. split_on newline ((pwd @ replicate n carriage_return) @ tail) = (pwd @ replicate n carriage_return) # ls"
  proof (cases tail)
    case Nil
    with split_on_none[OF nl] show ?thesis by simp
  next
    case (Cons x rest)
    with assms(4) split_on_append[OF nl] show ?thesis by simp
  qed
  then obtain ls where "split_on newline (pwd @ replicate n carriage_return @ tail) = (pwd @ replicate n carriage_return) # ls"
    by auto
  then show ?thesis by (simp add: readPwd_def assms(1) trim_right_replicate[OF assms(3)])
qed

definition demo_os :: os where
  "demo_os = \<lparr>os_MkdirAll = (\<lambda>_. None), os_NotExist = (\<lambda>_. True),
     os_ReadFile = (\<lambda>f. if f = ''pwd.txt'' then Ret (str_bytes (''pw'' @ [carriage_return, newline])) else Fail (LibError f)),
     os_Listen = (\<lambda>_. None)\<rparr>"

definition demo_service :: "(demo_db, demo_sd, eth_account list) service" where
  "demo_service = the_Ret (NewService ''genesis.json'' ''keystore'' '':8080'' ''pwd.txt'' demo_s0)"

lemma demo_service_eq:
  "demo_service = \<lparr>sv_locked = False, sv_chainConfig = \<lparr>cc_ChainID = Some 666\<rparr>, sv_state = demo_s0,
     sv_submitCh = [], sv_genesisFile = ''genesis.json'', sv_keystoreDir = ''keystore'', sv_apiAddr = '':8080'',
     sv_keyStore = None, sv_am = False, sv_pwdFile = ''pwd.txt'',
     sv_rpcServer = \<lparr>rs_started = False,
       rs_serviceFuncs = [NewWeb3AccountServiceConstructor, NewWeb3ChainServiceConstructor],
       rs_services = [], rs_rpcAPIs = None, rs_inprocHandler = None, rs_ipcEndpoint = [], rs_ipc = no_endpoint,
       rs_httpEndpoint = ''127.0.0.1:8545'', rs_http = no_endpoint,
       rs_wsEndpoint = ''127.0.0.1:8546'', rs_ws = no_endpoint, rs_stop = Nil\<rparr>,
     sv_getInfo = None\<rparr>"
  by (simp add: demo_service_def NewService_def NewRpcServer_def DefaultRpcConfig_def has_suffix_def Register_def)

lemma demo_NewService:
  "NewService ''genesis.json'' ''keystore'' '':8080'' ''pwd.txt'' demo_s0 = Ret demo_service"
  by (simp add: demo_service_eq NewService_def NewRpcServer_def DefaultRpcConfig_def has_suffix_def Register_def)

lemma readPwd_first_line_demo:
  "readPwd demo_os (demo_service\<lparr>sv_keyStore := ks, sv_am := b\<rparr>) = Ret ''pw''"
  by (simp add: readPwd_def demo_os_def demo_service_eq newline_def carriage_return_def trim_right_def)
     (simp flip: str_bytes_append add: newline_def)?

theorem readPwd_first_line_witness: "readPwd demo_os demo_service = Ret ''pw''"
  by (rule readPwd_first_line[where n = 1 and tail = "[newline]"])
     (simp_all add: demo_os_def demo_service_eq newline_def carriage_return_def)

section \<open>Run\<close>

lemma service_Run_Serving:
  "service_Run X Os E m = (m', Serving) \<longleftrightarrow>
     (\<exists>m1 m2 m3. makeKeyStore X Os m = (m1, None) \<and> unlockAccounts X Os m1 = (m2, Ret None)
        \<and> createGenesisAccounts X Os m2 = (m3, Ret None) \<and> returned (snd (Start E (sv_rpcServer m3)))
        \<and> os_Listen Os (sv_apiAddr m3) = None \<and> m' = m3\<lparr>sv_rpcServer := fst (Start E (sv_rpcServer m3))\<rparr>)"
proof -
  have 1: "(case makeKeyStore X Os m of (m, err) \<Rightarrow> (m, Ret err)) = (m1, Ret None) \<longleftrightarrow> makeKeyStore X Os m = (m1, None)"
    for m1 :: "('a, 'b, 'c) service" by (auto split: prod.splits)
  have 2: "(case Start E (sv_rpcServer m3) of
         (n, Ret _) \<Rightarrow> let m = m3\<lparr>sv_rpcServer := n\<rparr> in
           (case os_Listen Os (sv_apiAddr m) of None \<Rightarrow> (m, Serving)
            | Some e \<Rightarrow> (m\<lparr>sv_rpcServer := fst (Stop E n)\<rparr>, Panicked))
       | (n, _) \<Rightarrow> (m3\<lparr>sv_rpcServer := n\<rparr>, Panicked)) = (m', Serving) \<longleftrightarrow>
       returned (snd (Start E (sv_rpcServer m3))) \<and> os_Listen Os (sv_apiAddr m3) = None
        \<and> m' = m3\<lparr>sv_rpcServer := fst (Start E (sv_rpcServer m3))\<rparr>" for m3 :: "('a, 'b, 'c) service"
    by (auto simp: Let_def split: prod.splits outcome.splits option.splits)
  show ?thesis by (simp only: service_Run_def check_err_Serving 1 2) blast
qed

lemma Start_program_services:
  assumes "\<not> rs_started n" "rs_serviceFuncs n = [NewWeb3AccountServiceConstructor, NewWeb3ChainServiceConstructor]"
    "services = the_Ret (construct_services (rs_serviceFuncs n) [])"
  shows "returned (snd (Start E n)) \<and> (rs_started (fst (Start E n)) \<longleftrightarrow> snd (startRPC E n services) = None)"
proof -
  have s: "construct_services (rs_serviceFuncs n) [] = Ret services" by (simp only: assms(2,3) program_services the_Ret.simps)
  have stop: "stop_after_failure (Some e) services = None" for e
    by (rule stop_after_failure_None)
       (simp_all only: assms(2,3) program_services the_Ret.simps,
        simp_all add: NewWeb3AccountServiceConstructor_def NewWeb3ChainServiceConstructor_def)
  obtain n' r where 1: "startRPC E n services = (n', r)" by fastforce
  with startRPC_frame[OF 1] assms(1) s stop show ?thesis by (cases r) (simp_all add: Start_def)
qed

text \<open>
  Once the key store, the accounts and the genesis file are dealt with, the service always
  goes on to serve its HTTP API; the JSON-RPC server runs beside it exactly if all its endpoints
  could be opened, and no error is reported otherwise.
\<close>

theorem Run_serves_without_rpc:
  assumes "NewService g k a p st = Ret m" "makeKeyStore X Os m = (m1, None)"
    "unlockAccounts X Os m1 = (m2, Ret None)" "createGenesisAccounts X Os m2 = (m3, Ret None)"
    "os_Listen Os a = None" "services = the_Ret (construct_services (rs_serviceFuncs (sv_rpcServer m)) [])"
  shows "snd (service_Run X Os E m) = Serving
    \<and> (rs_started (sv_rpcServer (fst (service_Run X Os E m))) \<longleftrightarrow>
         snd (startRPC E (sv_rpcServer m) services) = None)"
proof -
  note m = NewServiceD(1,2,6)[OF assms(1)]
  have m3: "sv_rpcServer m3 = sv_rpcServer m" "sv_apiAddr m3 = a"
    using makeKeyStore_frame[OF assms(2)] unlockAccounts_frame[OF assms(3)] createGenesisAccounts_frame[OF assms(4)] m
    by simp_all
  note st = Start_program_services[OF m(2,3) assms(6)]
  have "service_Run X Os E m = (m3\<lparr>sv_rpcServer := fst (Start E (sv_rpcServer m3))\<rparr>, Serving)"
    unfolding service_Run_Serving using assms(2-5) m3 st by auto
  with st m3 show ?thesis by simp
qed

lemma demo_os_sel:
  "os_MkdirAll demo_os = (\<lambda>_. None)" "os_NotExist demo_os = (\<lambda>_. True)" "os_Listen demo_os = (\<lambda>_. None)"
  by (simp_all add: demo_os_def)

lemma demo_steps:
  "makeKeyStore demo_backend demo_os demo_service =
     (demo_service\<lparr>sv_keyStore := Some [demo_account], sv_am := True\<rparr>, None)"
  "unlockAccounts demo_backend demo_os (demo_service\<lparr>sv_keyStore := Some [demo_account], sv_am := True\<rparr>) =
     (demo_service\<lparr>sv_keyStore := Some [demo_account], sv_am := True\<rparr>, Ret None)"
  "createGenesisAccounts demo_backend demo_os (demo_service\<lparr>sv_keyStore := Some [demo_account], sv_am := True\<rparr>) =
     (demo_service\<lparr>sv_keyStore := Some [demo_account], sv_am := True\<rparr>, Ret None)"
  by (simp_all add: makeKeyStore_def unlockAccounts_def readPwd_first_line_demo createGenesisAccounts_def demo_os_sel
      demo_service_eq[THEN arg_cong[where f = sv_keystoreDir]])

theorem Run_serves_without_rpc_witness:
  "snd (service_Run demo_backend demo_os (demo_env (Some (LibError ''busy''))) demo_service) = Serving
   \<and> \<not> rs_started (sv_rpcServer (fst (service_Run demo_backend demo_os (demo_env (Some (LibError ''busy''))) demo_service)))"
proof -
  have "os_Listen demo_os '':8080'' = None" by (simp add: demo_os_def)
  from Run_serves_without_rpc[OF demo_NewService demo_steps this refl, of "demo_env (Some (LibError ''busy''))"] show ?thesis
    by (simp add: demo_service_eq startRPC_def Let_def startInProc_def startIPC_def startHTTP_def demo_env_def
        register_none split: option.splits)
qed

text \<open>A successful \<open>unlock_all\<close>, without the recursion: the key stores between the calls.\<close>

lemma unlock_all_None:
  "unlock_all X ks pwd accs = (ks', None) \<Longrightarrow>
   \<exists>kss. length kss = Suc (length accs) \<and> kss ! 0 = ks \<and> kss ! length accs = ks'
     \<and> (\<forall>i < length accs. ks_Unlock X (kss ! i) (accs ! i) pwd = (kss ! Suc i, None))"
proof (induction accs arbitrary: ks)
  case (Cons a accs)
  then obtain ks1 where 1: "ks_Unlock X ks a pwd = (ks1, None)" and "unlock_all X ks1 pwd accs = (ks', None)"
    by (auto split: prod.splits option.splits)
  with Cons.IH obtain kss where kss: "length kss = Suc (length accs)" "kss ! 0 = ks1" "kss ! length accs = ks'"
    "\<forall>i < length accs. ks_Unlock X (kss ! i) (accs ! i) pwd = (kss ! Suc i, None)" by blast
  with 1 show ?case by (intro exI[of _ "ks # kss"]) (auto simp: All_less_Suc2 nth_Cons split: nat.splits)
qed (auto intro: exI[of _ "[ks']"])

lemma readPwd_Ret:
  assumes "readPwd Os m = Ret pwd"
  obtains contents where "os_ReadFile Os (sv_pwdFile m) = Ret contents"
    "pwd = trim_right carriage_return (takeWhile (\<lambda>c. c \<noteq> newline) (bytes_str contents))"
proof -
  have "hd (split_on newline cs) = takeWhile (\<lambda>c. c \<noteq> newline) cs" for cs
    by (induction cs) (auto split: list.splits)
  with assms that show thesis
    by (auto simp: readPwd_def hd_map split: outcome.splits list.splits) (metis list.sel(1))
qed

text \<open>
  C35. When the service serves, it was set up completely: the key store directory exists; the
  password is the first line of the password file, and \<^verbatim>\<open>Unlock\<close> was called with it for every account of the
  key store, one after the other, and never returned an error; and the genesis file, if there is one, was read and
  decoded, its accounts were created and the \<^verbatim>\<open>Commit\<close> that follows succeeded.
\<close>

theorem Run_serving_is_set_up:
  assumes "service_Run X Os E m = (m', Serving)"
  shows "os_MkdirAll Os (sv_keystoreDir m) = None \<and> sv_am m'
    \<and> (let ks = ks_New X (sv_keystoreDir m); accs = ks_Accounts X ks in
         if accs = [] then sv_keyStore m' = Some ks
         else \<exists>contents kss. os_ReadFile Os (sv_pwdFile m) = Ret contents
                \<and> length kss = Suc (length accs) \<and> kss ! 0 = ks \<and> sv_keyStore m' = Some (kss ! length accs)
                \<and> (\<forall>i < length accs. ks_Unlock X (kss ! i) (accs ! i)
                     (trim_right carriage_return (takeWhile (\<lambda>c. c \<noteq> newline) (bytes_str contents)))
                     = (kss ! Suc i, None)))
    \<and> (if os_NotExist Os (sv_genesisFile m) then sv_state m' = sv_state m
       else \<exists>contents alloc st root. os_ReadFile Os (sv_genesisFile m) = Ret contents
              \<and> json_Decode_alloc X contents = Ret alloc
              \<and> create_accounts X (sv_state m) alloc = (st, Ret ())
              \<and> Commit X st = (sv_state m', Ret (root, None)))"
proof -
  from assms obtain m1 m2 m3 where 1: "makeKeyStore X Os m = (m1, None)"
    and 2: "unlockAccounts X Os m1 = (m2, Ret None)" and 3: "createGenesisAccounts X Os m2 = (m3, Ret None)"
    and m': "m' = m3\<lparr>sv_rpcServer := fst (Start E (sv_rpcServer m3))\<rparr>"
    unfolding service_Run_Serving by blast
  from 1 have m1: "m1 = m\<lparr>sv_keyStore := Some (ks_New X (sv_keystoreDir m)), sv_am := True\<rparr>"
    and dir: "os_MkdirAll Os (sv_keystoreDir m) = None"
    by (auto simp: makeKeyStore_def split: option.splits)
  let ?accs = "ks_Accounts X (ks_New X (sv_keystoreDir m))"
  have e: "sv_keyStore m' = sv_keyStore m2" "sv_state m' = sv_state m3" "sv_state m2 = sv_state m"
    "sv_genesisFile m2 = sv_genesisFile m" and am: "sv_am m'"
    using unlockAccounts_frame[OF 2] createGenesisAccounts_frame[OF 3] m1 m' by simp_all
  have ks: "if ?accs = [] then sv_keyStore m2 = Some (ks_New X (sv_keystoreDir m))
     else \<exists>pwd ks'. readPwd Os m = Ret pwd \<and> unlock_all X (ks_New X (sv_keystoreDir m)) pwd ?accs = (ks', None)
            \<and> sv_keyStore m2 = Some ks'"
    using 2 m1 by (cases "readPwd Os m") (auto simp: unlockAccounts_def readPwd_def split: prod.splits if_splits)
  have gen: "if os_NotExist Os (sv_genesisFile m2) then sv_state m3 = sv_state m2
       else \<exists>contents alloc st root. os_ReadFile Os (sv_genesisFile m2) = Ret contents
              \<and> json_Decode_alloc X contents = Ret alloc
              \<and> create_accounts X (sv_state m2) alloc = (st, Ret ()) \<and> Commit X st = (sv_state m3, Ret (root, None))"
    using 3 by (auto simp: createGenesisAccounts_def CreateAccounts_def split: outcome.splits prod.splits if_splits)
  have keys: "if ?accs = [] then sv_keyStore m' = Some (ks_New X (sv_keystoreDir m))
     else \<exists>contents kss. os_ReadFile Os (sv_pwdFile m) = Ret contents
            \<and> length kss = Suc (length ?accs) \<and> kss ! 0 = ks_New X (sv_keystoreDir m)
            \<and> sv_keyStore m' = Some (kss ! length ?accs)
            \<and> (\<forall>i < length ?accs. ks_Unlock X (kss ! i) (?accs ! i)
                 (trim_right carriage_return (takeWhile (\<lambda>c. c \<noteq> newline) (bytes_str contents)))
                 = (kss ! Suc i, None))"
  proof (cases "?accs = []")
    case False
    with ks obtain pwd ks' where k: "readPwd Os m = Ret pwd" "sv_keyStore m2 = Some ks'"
      and "unlock_all X (ks_New X (sv_keystoreDir m)) pwd ?accs = (ks', None)" by auto
    from unlock_all_None[OF this(3)] k False e(1) show ?thesis by (elim readPwd_Ret) auto
  qed (use ks e(1) in simp)
  show ?thesis
    unfolding Let_def by (intro conjI dir am keys gen[unfolded e(3,4), folded e(2)])
qed

theorem Run_serving_is_set_up_witness:
  "\<exists>m'. service_Run demo_backend demo_os (demo_env None) demo_service = (m', Serving)
     \<and> sv_keyStore m' = Some [demo_account] \<and> sv_state m' = demo_s0"
proof -
  have "returned (snd (Start (demo_env None) (sv_rpcServer demo_service)))"
    using Start_program_services[OF _ _ refl, of "sv_rpcServer demo_service" "demo_env None"] by (simp add: demo_service_eq)
  then obtain m' where m': "service_Run demo_backend demo_os (demo_env None) demo_service = (m', Serving)"
    unfolding service_Run_Serving using demo_steps by (force simp: demo_os_def)
  from Run_serving_is_set_up[OF this] m' show ?thesis by (auto simp: demo_service_eq demo_os_def split: prod.splits if_splits)
qed

end
