(* ===== verification/HandlerSpec.thy ===== *)
theory HandlerSpec
  imports Handlers ServiceSpec
begin

text \<open>
  Properties of the HTTP API.  The contract of a handler is a locale: a handler may append at most
  one transaction to what was submitted, and a reader leaves the service alone; every handler of the
  program is an interpretation, and the properties of the server follow from the contract.
\<close>

section \<open>The contract of a handler\<close>

definition submitted :: "bytes list \<Rightarrow> ('db, 'sd, 'ks) service \<Rightarrow> ('db, 'sd, 'ks) service" where
  "submitted bs m = m\<lparr>sv_submitCh := sv_submitCh m @ bs\<rparr>"

lemma submitted_Nil [simp]: "submitted [] m = m"
  by (simp add: submitted_def)

lemma submitted_locked [simp]: "sv_locked (submitted bs m) = sv_locked m"
  by (simp add: submitted_def)

lemma submit_submitted: "submit m b = submitted [b] m"
  by (simp add: submit_def submitted_def)

locale submitter =
  fixes h :: "request \<Rightarrow> ('db, 'sd, 'ks) service \<Rightarrow> ('db, 'sd, 'ks) service \<times> reply"
  assumes submits: "\<exists>bs. length bs \<le> 1 \<and> fst (h r m) = submitted bs m"
begin

lemma guarded:
  "\<exists>bs b. length bs \<le> 1 \<and> fst (makeHandler h r m) = (submitted bs m)\<lparr>sv_locked := b\<rparr>
     \<and> (b \<longleftrightarrow> snd (makeHandler h r m) \<in> {Aborted, Blocked})"
proof (cases "sv_locked m")
  case True
  then show ?thesis by (intro exI[of _ "[]"] exI[of _ True]) (simp add: makeHandler_def)
next
  case False
  obtain bs where bs: "length bs \<le> 1" "fst (h r (m\<lparr>sv_locked := True\<rparr>)) = submitted bs (m\<lparr>sv_locked := True\<rparr>)"
    using submits by blast
  then show ?thesis
    using False
    by (intro exI[of _ bs] exI[of _ "snd (h r (m\<lparr>sv_locked := True\<rparr>)) = None"])
       (auto simp: makeHandler_def submitted_def split: prod.splits option.splits)
qed

lemma not_routed: "snd (makeHandler h r m) \<noteq> NotRouted"
  by (auto simp: makeHandler_def split: prod.splits option.splits)

end

locale reader =
  fixes h :: "request \<Rightarrow> ('db, 'sd, 'ks) service \<Rightarrow> ('db, 'sd, 'ks) service \<times> reply"
  assumes reads: "fst (h r m) = m"
begin

lemma guarded_reader: "fst (makeHandler h r m) = m\<lparr>sv_locked := snd (makeHandler h r m) \<in> {Aborted, Blocked}\<rparr>"
proof -
  have "h r (m\<lparr>sv_locked := True\<rparr>) = (m\<lparr>sv_locked := True\<rparr>, snd (h r (m\<lparr>sv_locked := True\<rparr>)))"
    by (metis prod.collapse reads)
  then show ?thesis
    by (cases "snd (h r (m\<lparr>sv_locked := True\<rparr>))") (auto simp: makeHandler_def split: prod.splits)
qed

end

sublocale reader \<subseteq> submitter
  by unfold_locales (metis reads submitted_Nil list.size(3) zero_le)

interpretation account_h: reader "accountHandler X" for X :: "('db, 'sd, 'ks, 'x) backend_scheme"
  by unfold_locales (simp add: accountHandler_def)
interpretation accounts_h: reader "accountsHandler X" for X :: "('db, 'sd, 'ks, 'x) backend_scheme"
  by unfold_locales (simp add: accountsHandler_def)
interpretation block_h: reader "blockByHashHandler X" for X :: "('db, 'sd, 'ks, 'x) backend_scheme"
  by unfold_locales (simp add: blockByHashHandler_def)
interpretation block_id_h: reader "blockByIdHandler X" for X :: "('db, 'sd, 'ks, 'x) backend_scheme"
  by unfold_locales (simp add: blockByIdHandler_def)
interpretation call_h: reader "callHandler X" for X :: "('db, 'sd, 'ks, 'x) backend_scheme"
  by unfold_locales (simp add: callHandler_def)
interpretation tx_receipt_h: reader "txReceiptHandler X" for X :: "('db, 'sd, 'ks, 'x) backend_scheme"
  by unfold_locales (simp add: txReceiptHandler_def)
interpretation transaction_receipt_h: reader "transactionReceiptHandler X" for X :: "('db, 'sd, 'ks, 'x) backend_scheme"
  by unfold_locales (simp add: transactionReceiptHandler_def)
interpretation info_h: reader "infoHandler X" for X :: "('db, 'sd, 'ks, 'x) backend_scheme"
  by unfold_locales (simp add: infoHandler_def)
interpretation html_info_h: reader "htmlInfoHandler X" for X :: "('db, 'sd, 'ks, 'x) backend_scheme"
  by unfold_locales (simp add: htmlInfoHandler_def)

lemma transactionHandler_submits:
  "fst (transactionHandler X r m) = submitted
     (case json_Decode_args X (rq_Body r) of
        Ret a \<Rightarrow> (case prepareTransaction X a (sv_state m) (sv_keyStore m) of
                  Ret t \<Rightarrow> (case rlp_Encode_tx X t of Ret b \<Rightarrow> [b] | _ \<Rightarrow> [])
                | _ \<Rightarrow> [])
      | _ \<Rightarrow> []) m"
  by (simp add: transactionHandler_def submit_submitted split: outcome.splits)

lemma rawTransactionHandler_submits:
  "fst (rawTransactionHandler X r m) = submitted
     (case rq_Body r of
        Ret body \<Rightarrow> (case hexutil_Decode X (bytes_str body) of Ret b \<Rightarrow> [b] | _ \<Rightarrow> [])
      | _ \<Rightarrow> []) m"
  by (simp add: rawTransactionHandler_def submit_submitted split: outcome.splits)

interpretation transaction_h: submitter "transactionHandler X" for X :: "('db, 'sd, 'ks, 'x) backend_scheme"
  by unfold_locales (subst transactionHandler_submits, rule exI, rule conjI[OF _ refl], simp split: outcome.splits)
interpretation raw_h: submitter "rawTransactionHandler X" for X :: "('db, 'sd, 'ks, 'x) backend_scheme"
  by unfold_locales (subst rawTransactionHandler_submits, rule exI, rule conjI[OF _ refl], simp split: outcome.splits)

lemmas guarded_handlers = account_h.guarded accounts_h.guarded block_h.guarded block_id_h.guarded call_h.guarded
  transaction_h.guarded raw_h.guarded tx_receipt_h.guarded transaction_receipt_h.guarded info_h.guarded html_info_h.guarded

lemma run_handler_guarded:
  "\<exists>bs b. length bs \<le> 1 \<and> fst (makeHandler (run_handler X h) r m) = (submitted bs m)\<lparr>sv_locked := b\<rparr>
     \<and> (b \<longleftrightarrow> snd (makeHandler (run_handler X h) r m) \<in> {Aborted, Blocked})"
  by (cases h) (simp_all only: run_handler.simps guarded_handlers)

lemma run_handler_reader:
  assumes "h \<noteq> TransactionH" "h \<noteq> RawTransactionH"
  shows "fst (makeHandler (run_handler X h) r m) =
    m\<lparr>sv_locked := snd (makeHandler (run_handler X h) r m) \<in> {Aborted, Blocked}\<rparr>"
  using assms
  by (cases h) (simp_all only: run_handler.simps account_h.guarded_reader accounts_h.guarded_reader block_h.guarded_reader
      block_id_h.guarded_reader call_h.guarded_reader tx_receipt_h.guarded_reader
      transaction_receipt_h.guarded_reader info_h.guarded_reader html_info_h.guarded_reader simp_thms)

section \<open>What a request can do to the service\<close>

lemma route_Some:
  assumes "route match r = Some h"
  shows "\<exists>pat. (pat, rq_Method r, h) \<in> set routes \<and> match pat (rq_Path r)"
proof -
  let ?ms = "filter (\<lambda>(pat, meth, h). match pat (rq_Path r) \<and> meth = rq_Method r) routes"
  obtain pat meth rest where "?ms = (pat, meth, h) # rest"
    using assms by (auto simp: route_def split: list.splits)
  then have "(pat, meth, h) \<in> set ?ms" by simp
  then show ?thesis by auto
qed

lemma route_method: "route match r = Some h \<Longrightarrow> h \<in> {TransactionH, RawTransactionH} \<Longrightarrow> rq_Method r = ''POST''"
  by (drule route_Some) (auto simp: routes_def)

lemma ServeHTTP_routed:
  assumes "rq_Method r \<noteq> ''OPTIONS''" "route match r = Some h"
  shows "fst (ServeHTTP X match r m) = fst (makeHandler (run_handler X h) r m)"
    "snd (ServeHTTP X match r m) = (case snd (makeHandler (run_handler X h) r m) of
       Answered effs \<Rightarrow> Answered (cors_headers r @ effs) | res \<Rightarrow> res)"
  using assms by (simp_all add: ServeHTTP_def split: prod.splits http_result.splits)

lemma ServeHTTP_unrouted:
  assumes "rq_Method r = ''OPTIONS'' \<or> route match r = None"
  shows "ServeHTTP X match r m = (m, if rq_Method r = ''OPTIONS'' then Answered (cors_headers r) else NotRouted)"
  using assms by (auto simp: ServeHTTP_def)

text \<open>
  C25. A request changes nothing of the service but its mutex and the submit channel: it submits at
  most one transaction, only a POST to one of the four submission routes submits any, and the
  mutex is held after the request exactly if the handler panicked or never got it.
\<close>

theorem ServeHTTP_frame:
  assumes "\<not> sv_locked m"
  shows "\<exists>bs. fst (ServeHTTP X match r m) = (submitted bs m)\<lparr>sv_locked := snd (ServeHTTP X match r m) = Aborted\<rparr>
    \<and> length bs \<le> 1
    \<and> (bs \<noteq> [] \<longrightarrow> rq_Method r = ''POST'' \<and> route match r \<in> {Some TransactionH, Some RawTransactionH})"
proof (cases "rq_Method r = ''OPTIONS'' \<or> route match r = None")
  case True
  then show ?thesis
    using assms by (intro exI[of _ "[]"]) (simp add: ServeHTTP_unrouted)
next
  case False
  then obtain h where h: "rq_Method r \<noteq> ''OPTIONS''" "route match r = Some h" by auto
  let ?g = "makeHandler (run_handler X h) r m"
  have nb: "snd ?g \<noteq> Blocked" using assms by (auto simp: makeHandler_def split: prod.splits option.splits)
  then have ab: "snd ?g \<in> {Aborted, Blocked} \<longleftrightarrow> snd (ServeHTTP X match r m) = Aborted"
    by (auto simp: ServeHTTP_routed(2)[OF h] split: http_result.splits)
  show ?thesis
  proof (cases "h \<in> {TransactionH, RawTransactionH}")
    case True
    from run_handler_guarded[of X h r m] obtain bs where
      "length bs \<le> 1" "fst ?g = (submitted bs m)\<lparr>sv_locked := snd ?g \<in> {Aborted, Blocked}\<rparr>" by auto
    then show ?thesis
      using h True route_method[OF h(2) True] unfolding ServeHTTP_routed(1)[OF h] ab by auto
  next
    case False
    then have "fst ?g = m\<lparr>sv_locked := snd ?g \<in> {Aborted, Blocked}\<rparr>" by (intro run_handler_reader) auto
    then show ?thesis unfolding ServeHTTP_routed(1)[OF h] ab by (intro exI[of _ "[]"]) simp
  qed
qed

section \<open>A panic blocks the API\<close>

lemma ServeHTTP_locked:
  assumes "sv_locked m"
  shows "ServeHTTP X match r m = (m, if rq_Method r = ''OPTIONS'' then Answered (cors_headers r)
      else if route match r = None then NotRouted else Blocked)"
  using assms by (auto simp: ServeHTTP_def makeHandler_def split: option.splits)

lemma serve_requests_locked:
  "sv_locked m \<Longrightarrow> serve_requests X match rs m = (m, map (\<lambda>r. if rq_Method r = ''OPTIONS'' then Answered (cors_headers r)
      else if route match r = None then NotRouted else Blocked) rs)"
  by (induction rs) (simp_all add: ServeHTTP_locked)

lemma Aborted_locked: "snd (ServeHTTP X match r m) = Aborted \<Longrightarrow> sv_locked (fst (ServeHTTP X match r m))"
proof -
  assume ab: "snd (ServeHTTP X match r m) = Aborted"
  then obtain h where h: "rq_Method r \<noteq> ''OPTIONS''" "route match r = Some h"
    by (auto simp: ServeHTTP_def split: if_splits option.splits)
  from ab have "snd (makeHandler (run_handler X h) r m) = Aborted"
    by (auto simp: ServeHTTP_routed(2)[OF h] split: http_result.splits)
  with run_handler_guarded[of X h r m] show ?thesis unfolding ServeHTTP_routed(1)[OF h] by auto
qed

text \<open>
  C24. One panic ends the HTTP API: after a request whose handler panicked, every later request to any of
  the routes waits for ever, and the service never changes again.
\<close>

theorem panic_blocks_api:
  assumes "snd (ServeHTTP X match r m) = Aborted"
  shows "serve_requests X match rs (fst (ServeHTTP X match r m)) =
    (fst (ServeHTTP X match r m),
     map (\<lambda>r. if rq_Method r = ''OPTIONS'' then Answered (cors_headers r)
              else if route match r = None then NotRouted else Blocked) rs)"
  by (rule serve_requests_locked[OF Aborted_locked[OF assms]])

section \<open>Which requests panic\<close>

text \<open>
  The libraries, the database and the network do not panic, \<^verbatim>\<open>core.ApplyMessage\<close> excepted;
  \<^verbatim>\<open>NewMessage\<close> keeps the recipient; and a router matches a path only if it starts with the literal part
  of the pattern.
\<close>

definition calm :: "('db, 'sd, 'ks, 'x) backend_scheme \<Rightarrow> ('db, 'sd) state \<Rightarrow> bool" where
  "calm X st \<longleftrightarrow>
     (\<forall>b. b \<noteq> Panic \<longrightarrow> json_Decode_args X b \<noteq> Panic) \<and> (\<forall>j. json_Marshal X j \<noteq> Panic) \<and>
     (\<forall>ks a. ks_Find X ks a \<noteq> Panic) \<and> (\<forall>ks a h. ks_SignHash X ks a h \<noteq> Panic) \<and>
     (\<forall>s t sig. WithSignature X s t sig \<noteq> Panic) \<and> (\<forall>s t. Sender X s t \<noteq> Panic) \<and>
     (\<forall>t. rlp_Encode_tx X t \<noteq> Panic) \<and> (\<forall>b. rlp_Decode_tx X b \<noteq> Panic) \<and>
     (\<forall>s. hexutil_Decode X s \<noteq> Panic) \<and> (\<forall>st. tmpl_Execute X st \<noteq> Panic) \<and>
     (\<forall>k. db_Get X (s_db st) k \<noteq> Panic) \<and> (\<forall>b. ProtoUnmarshal X b \<noteq> Panic) \<and>
     (\<forall>b. rlp_DecodeBytes_tx X b \<noteq> Panic) \<and> (\<forall>b. rlp_DecodeBytes_receipt X b \<noteq> Panic) \<and>
     (\<forall>b. json_Decode_txerror X b \<noteq> Panic) \<and>
     (\<forall>from to n v g p d c. msg_To (NewMessage X from to n v g p d c) = to)"

lemma calmD:
  assumes "calm X st"
  shows "b \<noteq> Panic \<Longrightarrow> json_Decode_args X b \<noteq> Panic" "json_Marshal X j \<noteq> Panic" "ks_Find X ks a \<noteq> Panic"
    "ks_SignHash X ks a h \<noteq> Panic" "WithSignature X s t sig \<noteq> Panic" "Sender X s t \<noteq> Panic"
    "rlp_Encode_tx X t \<noteq> Panic" "rlp_Decode_tx X b' \<noteq> Panic" "hexutil_Decode X str \<noteq> Panic"
    "tmpl_Execute X stats \<noteq> Panic"
    "msg_To (NewMessage X from to n v gs p d c) = to"
  using assms unfolding calm_def by (blast | metis snd_conv)+

lemma calm_reads:
  assumes "calm X st"
  shows "GetTransaction X st h \<noteq> Panic" "GetFailedTx X st h \<noteq> Panic" "GetReceipt X st h \<noteq> Panic"
    "GetBlock X st h \<noteq> Panic" "GetBlockById X st i \<noteq> Panic"
  using assms unfolding calm_def GetTransaction_def GetFailedTx_def GetReceipt_def GetBlock_def GetBlockById_def
    get_block_def txerror_Unmarshal_def by (simp_all split: outcome.splits)

lemma respond_None: "calm X st \<Longrightarrow> respond X r res = None \<longleftrightarrow> res = Panic"
  by (auto simp: respond_def calmD split: outcome.splits)

lemma close_body_None [simp]: "close_body r rep = None \<longleftrightarrow> rep = None"
  by (simp add: close_body_def)

lemma receipts_calm:
  assumes "calm X st"
  shows "transaction_receipt X st h \<noteq> Panic" "tx_receipt_json X st h \<noteq> Panic"
    "blockByHash_receipt X st b \<noteq> Panic" "blockById_receipt X st b \<noteq> Panic"
  by (simp_all add: transaction_receipt_def tx_receipt_json_def blockByHash_receipt_def blockById_receipt_def Let_def
      calmD[OF assms] calm_reads[OF assms] split: outcome.splits)

lemma block_receipts_calm: "(\<And>b. f b \<noteq> Panic) \<Longrightarrow> block_receipts f acc bs \<noteq> Panic"
  by (induction f acc bs rule: block_receipts.induct) (auto split: outcome.splits)

lemma readers_calm:
  assumes "calm X (sv_state m)"
  shows "snd (accountHandler X r m) = None \<longleftrightarrow> length (rq_Path r) < 9"
    "snd (accountsHandler X r m) = None \<longleftrightarrow> sv_keyStore m = None"
    "snd (txReceiptHandler X r m) = None \<longleftrightarrow> length (rq_Path r) < 4"
    "snd (transactionReceiptHandler X r m) = None \<longleftrightarrow> length (rq_Path r) < 13"
    "snd (blockByHashHandler X r m) = None \<longleftrightarrow> length (rq_Path r) < 7"
    "snd (blockByIdHandler X r m) = None \<longleftrightarrow> length (rq_Path r) < 11"
    "sv_getInfo m \<noteq> Some Panic \<Longrightarrow> snd (infoHandler X r m) = None \<longleftrightarrow> sv_getInfo m = None"
    "sv_getInfo m \<noteq> Some Panic \<Longrightarrow> snd (htmlInfoHandler X r m) = None \<longleftrightarrow> sv_getInfo m = None"
  by (auto simp: accountHandler_def accountsHandler_def txReceiptHandler_def transactionReceiptHandler_def
      blockByHashHandler_def blockByIdHandler_def infoHandler_def htmlInfoHandler_def respond_None[OF assms] path_param_def
      receipts_calm[OF assms] block_receipts_calm calm_reads[OF assms] calmD[OF assms] split: outcome.splits option.splits sum.splits)

lemma prepared_fields:
  "sa_Gas (prepareSendTxArgs args) = Some (case sa_Gas args of None \<Rightarrow> defaultGas | Some g \<Rightarrow> g)"
  "sa_GasPrice (prepareSendTxArgs args) = Some (case sa_GasPrice args of None \<Rightarrow> 0 | Some p \<Rightarrow> p)"
  "sa_Value (prepareSendTxArgs args) = Some (case sa_Value args of None \<Rightarrow> 0 | Some v \<Rightarrow> v)"
  "sa_Data (prepareSendTxArgs args) = sa_Data args" "sa_To (prepareSendTxArgs args) = sa_To args"
  "sa_From (prepareSendTxArgs args) = sa_From args" "sa_Nonce (prepareSendTxArgs args) = sa_Nonce args"
  by (auto simp: prepareSendTxArgs_def Let_def split: option.splits)

lemma prepareCallMessage_eq:
  "prepareCallMessage X args =
     (case sa_Data args of
        None \<Rightarrow> Panic
      | Some dat \<Rightarrow>
          let gas = (case sa_Gas args of None \<Rightarrow> defaultGas | Some g \<Rightarrow> if g = 0 then max_uint64 div 2 else g);
              price = (case sa_GasPrice args of None \<Rightarrow> 0 | Some p \<Rightarrow> p)
          in Ret (NewMessage X (sa_From args) (sa_To args) 0 (case sa_Value args of None \<Rightarrow> 0 | Some v \<Rightarrow> v)
               gas (if price = 0 then defaultGasPrice else price) dat False))"
  by (auto simp: prepareCallMessage_def prepared_fields deref_def Let_def defaultGas_def sgn_0_0 split: option.splits)

definition prepared_tx ::
  "('db, 'sd, 'ks, 'x) backend_scheme \<Rightarrow> send_tx_args \<Rightarrow> ('db, 'sd) state \<Rightarrow> bytes \<Rightarrow> tx" where
  "prepared_tx X args st dat =
     (let nonce = (case sa_Nonce args of Some n \<Rightarrow> n | None \<Rightarrow> GetPoolNonce X st (sa_From args));
          v = (case sa_Value args of None \<Rightarrow> 0 | Some v \<Rightarrow> v);
          gas = (case sa_Gas args of None \<Rightarrow> defaultGas | Some g \<Rightarrow> g);
          price = (case sa_GasPrice args of None \<Rightarrow> 0 | Some p \<Rightarrow> p)
      in case sa_To args of
           None \<Rightarrow> NewContractCreation X nonce v gas price dat
         | Some to \<Rightarrow> NewTransaction X nonce to v gas price dat)"

lemma prepareTransaction_eq:
  "prepareTransaction X args st keyStore =
     (case (sa_Data args, keyStore) of
        (Some dat, Some ks) \<Rightarrow>
          (case ks_Find X ks \<lparr>ea_Address = sa_From args, ea_URL = []\<rparr> of
             Fail e \<Rightarrow> Fail e
           | Panic \<Rightarrow> Panic
           | Ret account \<Rightarrow>
               (case ks_SignHash X ks account (hash_bytes (signer_Hash X (EIP155Signer 1) (prepared_tx X args st dat))) of
                  Fail e \<Rightarrow> Fail e
                | Panic \<Rightarrow> Panic
                | Ret sig \<Rightarrow> WithSignature X (EIP155Signer 1) (prepared_tx X args st dat) sig))
      | _ \<Rightarrow> Panic)"
  by (cases "sa_Data args"; cases keyStore; cases "sa_To args"; cases "sa_Nonce args";
      simp add: prepareTransaction_def prepared_fields deref_def Let_def prepared_tx_def cong: outcome.case_cong)

text \<open>
  Executing the message of a call, on a copy of the write-ahead accounts with a full gas pool, panics.  Its
  context has no \<^verbatim>\<open>Time\<close> and no \<^verbatim>\<open>Difficulty\<close>.
\<close>

definition call_execution_panics ::
  "('db, 'sd, 'ks, 'x) backend_scheme \<Rightarrow> ('db, 'sd) state \<Rightarrow> send_tx_args \<Rightarrow> bool" where
  "call_execution_panics X st args \<longleftrightarrow>
     (\<exists>c. prepareCallMessage X args = Ret c \<and>
        snd (snd (ApplyMessage X (message_context 0 c) (sd_Copy X (w_ethState (s_was st)))
          (s_chainConfig st) (s_vmConfig st) c (Some (gp_AddGas X 0 gasLimit)))) = Panic)"

lemma Call_Panic:
  "Call X st c = Panic \<longleftrightarrow> msg_To c = None
     \<or> snd (snd (ApplyMessage X (message_context 0 c) (sd_Copy X (w_ethState (s_was st)))
          (s_chainConfig st) (s_vmConfig st) c (Some (gp_AddGas X 0 gasLimit)))) = Panic"
  by (auto simp: Call_def Let_def split: prod.splits outcome.splits)

lemma prepared_message:
  assumes "calm X st"
  shows "prepareCallMessage X args = Panic \<longleftrightarrow> sa_Data args = None" "prepareCallMessage X args \<noteq> Fail e"
    "prepareCallMessage X args = Ret c \<Longrightarrow> msg_To c = sa_To args"
  by (auto simp: prepareCallMessage_eq Let_def calmD[OF assms] split: option.splits)

lemma Call_Panic_iff:
  assumes "calm X st" "prepareCallMessage X args = Ret c"
  shows "Call X st c = Panic \<longleftrightarrow> sa_To args = None \<or> call_execution_panics X st args"
  using prepared_message(3)[OF assms] assms(2) by (simp add: Call_Panic call_execution_panics_def)

lemma submitters_calm:
  assumes "calm X (sv_state m)" "rq_Body r \<noteq> Panic"
  shows "sv_keyStore m \<noteq> None \<Longrightarrow> snd (transactionHandler X r m) = None \<longleftrightarrow>
      (\<exists>args. json_Decode_args X (rq_Body r) = Ret args \<and> sa_Data args = None)"
    "snd (rawTransactionHandler X r m) \<noteq> None"
    "snd (callHandler X r m) = None \<longleftrightarrow>
      (\<exists>args. json_Decode_args X (rq_Body r) = Ret args
         \<and> (sa_Data args = None \<or> sa_To args = None \<or> call_execution_panics X (sv_state m) args))"
proof -
  note c = calmD[OF assms(1)] respond_None[OF assms(1)]
  note c1 = calmD(1)[OF assms]
  show "sv_keyStore m \<noteq> None \<Longrightarrow> snd (transactionHandler X r m) = None \<longleftrightarrow>
      (\<exists>args. json_Decode_args X (rq_Body r) = Ret args \<and> sa_Data args = None)"
    using c1 by (auto simp: transactionHandler_def prepareTransaction_eq c split: outcome.splits option.splits)
  show "snd (rawTransactionHandler X r m) \<noteq> None"
    using assms(2) by (auto simp: rawTransactionHandler_def c simp del: not_None_eq split: outcome.splits)
  show "snd (callHandler X r m) = None \<longleftrightarrow>
      (\<exists>args. json_Decode_args X (rq_Body r) = Ret args
         \<and> (sa_Data args = None \<or> sa_To args = None \<or> call_execution_panics X (sv_state m) args))"
  proof (cases "json_Decode_args X (rq_Body r)")
    case (Ret args)
    show ?thesis
    proof (cases "prepareCallMessage X args")
      case msg: (Ret d)
      have "snd (callHandler X r m) = None \<longleftrightarrow> Call X (sv_state m) d = Panic"
        using Ret msg by (auto simp: callHandler_def c split: outcome.splits)
      moreover have "sa_Data args \<noteq> None" using prepared_message(1)[OF assms(1), of args] msg by simp
      ultimately show ?thesis using Ret Call_Panic_iff[OF assms(1) msg] by auto
    qed (use Ret prepared_message(1,2)[OF assms(1), of args] in \<open>auto simp: callHandler_def c\<close>)
  qed (use c1 in \<open>auto simp: callHandler_def\<close>)
qed

definition mux_ok :: "(string \<Rightarrow> string \<Rightarrow> bool) \<Rightarrow> bool" where
  "mux_ok match \<longleftrightarrow>
     (\<forall>pat path. match pat path \<longrightarrow> length (takeWhile (\<lambda>c. c \<noteq> CHR ''{'') pat) \<le> length path)"

text \<open>
  C26. Exactly these requests panic, and thereby block the API: a transaction without data (the
  example of the documentation is one), a call without data or without a recipient, a call whose execution
  panics (of a contract that reads the time of the block, which the context does not have; the second witness is one),
  and a request for the consensus information when nothing set the callback.
\<close>

theorem request_aborts_iff:
  assumes "calm X (sv_state m)" "mux_ok match" "\<not> sv_locked m" "sv_keyStore m \<noteq> None" "sv_getInfo m \<noteq> Some Panic"
    "rq_Body r \<noteq> Panic"
  shows "snd (ServeHTTP X match r m) = Aborted \<longleftrightarrow>
    (case route match r of
       Some TransactionH \<Rightarrow> \<exists>args. json_Decode_args X (rq_Body r) = Ret args \<and> sa_Data args = None
     | Some CallH \<Rightarrow> \<exists>args. json_Decode_args X (rq_Body r) = Ret args
         \<and> (sa_Data args = None \<or> sa_To args = None \<or> call_execution_panics X (sv_state m) args)
     | Some InfoH \<Rightarrow> sv_getInfo m = None
     | Some HtmlInfoH \<Rightarrow> sv_getInfo m = None
     | _ \<Rightarrow> False)"
proof (cases "route match r")
  case None
  then show ?thesis by (simp add: ServeHTTP_unrouted)
next
  case (Some h)
  obtain pat where pat: "(pat, rq_Method r, h) \<in> set routes" "match pat (rq_Path r)" using route_Some[OF Some] by blast
  then have meth: "rq_Method r \<noteq> ''OPTIONS''" by (auto simp: routes_def)
  have len: "length (takeWhile (\<lambda>c. c \<noteq> CHR ''{'') pat) \<le> length (rq_Path r)"
    using assms(2) pat(2) by (simp add: mux_ok_def)
  let ?m = "m\<lparr>sv_locked := True\<rparr>"
  have "snd (ServeHTTP X match r m) = Aborted \<longleftrightarrow> snd (run_handler X h r ?m) = None"
    using assms(3) by (auto simp: ServeHTTP_routed(2)[OF meth Some] makeHandler_def split: prod.splits option.splits)
  also have "\<dots> \<longleftrightarrow> (case h of
       TransactionH \<Rightarrow> \<exists>args. json_Decode_args X (rq_Body r) = Ret args \<and> sa_Data args = None
     | CallH \<Rightarrow> \<exists>args. json_Decode_args X (rq_Body r) = Ret args
         \<and> (sa_Data args = None \<or> sa_To args = None \<or> call_execution_panics X (sv_state m) args)
     | InfoH \<Rightarrow> sv_getInfo m = None
     | HtmlInfoH \<Rightarrow> sv_getInfo m = None
     | _ \<Rightarrow> False)"
    using pat(1) len assms(4,5) readers_calm[of X ?m] submitters_calm[of X ?m] assms(1,6)
    by (cases h) (simp_all add: routes_def del: not_None_eq)
  finally show ?thesis using Some by simp
qed

section \<open>Witnesses\<close>

text \<open>A router as gorilla's, for patterns with at most one variable, which is at the end.\<close>

definition demo_mux :: "string \<Rightarrow> string \<Rightarrow> bool" where
  "demo_mux pat path \<longleftrightarrow>
     (let lit = takeWhile (\<lambda>c. c \<noteq> CHR ''{'') pat in
      if lit = pat then path = pat
      else take (length lit) path = lit \<and> length lit < length path \<and> CHR ''/'' \<notin> set (drop (length lit) path))"

definition demo_request :: "string \<Rightarrow> string \<Rightarrow> bytes \<Rightarrow> request" where
  "demo_request meth path body = \<lparr>rq_Method = meth, rq_Origin = [], rq_Path = path, rq_Body = Ret body,
     rq_Close = None, rq_Write = None\<rparr>"

lemma demo_request_sel [simp]:
  "rq_Method (demo_request meth path b) = meth" "rq_Origin (demo_request meth path b) = []"
  "rq_Path (demo_request meth path b) = path" "rq_Body (demo_request meth path b) = Ret b"
  "rq_Close (demo_request meth path b) = None" "rq_Write (demo_request meth path b) = None"
  by (simp_all add: demo_request_def)

definition demo_served :: "(demo_db, demo_sd, eth_account list) service" where
  "demo_served = demo_service\<lparr>sv_keyStore := Some [demo_account], sv_am := True\<rparr>"

lemma demo_served_sel [simp]:
  "sv_locked demo_served = False" "sv_keyStore demo_served = Some [demo_account]" "sv_state demo_served = demo_s0"
  "sv_getInfo demo_served = None" "sv_submitCh demo_served = []"
  by (simp_all add: demo_served_def demo_service_eq)

lemma demo_mux_ok: "mux_ok demo_mux"
  by (auto simp: mux_ok_def demo_mux_def Let_def intro: length_takeWhile_le split: if_splits)

lemma demo_decode_calm:
  "demo_decode_tx b \<noteq> Panic" "demo_decode_receipt b \<noteq> Panic" "demo_decode_error b \<noteq> Panic" "demo_decode_block b \<noteq> Panic"
  "demo_encode_tx t \<noteq> Panic" "b' \<noteq> Panic \<Longrightarrow> demo_Decode_args b' \<noteq> Panic"
proof -
  show "demo_decode_tx b \<noteq> Panic" by (induction b rule: demo_decode_tx.induct) simp_all
  show "demo_decode_receipt b \<noteq> Panic" by (induction b rule: demo_decode_receipt.induct) simp_all
  show "demo_decode_error b \<noteq> Panic" by (induction b rule: demo_decode_error.induct) simp_all
  show "demo_decode_block b \<noteq> Panic" by (induction b rule: demo_decode_block.induct) simp_all
  show "demo_encode_tx t \<noteq> Panic" by (simp add: demo_encode_tx_def Let_def)
  show "b' \<noteq> Panic \<Longrightarrow> demo_Decode_args b' \<noteq> Panic" by (cases b') simp_all
qed

lemma demo_calm: "calm demo_backend demo_s0"
  by (simp add: calm_def demo_decode_calm demo_s0_def demo_db0_def demo_NewMessage_def split: list.splits)

lemma demo_post_tx_routed: "route demo_mux (demo_request ''POST'' ''/tx'' b) = Some TransactionH"
  by (simp add: route_def routes_def demo_mux_def demo_request_def Let_def)

abbreviation demo_post :: "bytes \<Rightarrow> request" where
  "demo_post b \<equiv> demo_request ''POST'' ''/tx'' b"

text \<open>The demo with the contract that reads the time, and a call of it.\<close>

abbreviation "demo_clock_backend \<equiv> demo_backend\<lparr>ApplyMessage := demo_clock_ApplyMessage\<rparr>"

lemma demo_clock_calm: "calm demo_clock_backend demo_s0"
  using demo_calm by (simp add: calm_def)

abbreviation demo_call :: "bytes \<Rightarrow> request" where
  "demo_call b \<equiv> demo_request ''POST'' ''/call'' b"

lemma demo_post_call_routed: "route demo_mux (demo_request ''POST'' ''/call'' b) = Some CallH"
  by (simp add: route_def routes_def demo_mux_def demo_request_def Let_def)

lemma demo_clock_call: "call_execution_panics demo_clock_backend demo_s0 demo_args"
  "\<not> call_execution_panics demo_backend demo_s0 demo_args"
  by (simp_all add: call_execution_panics_def prepareCallMessage_eq demo_args_def Let_def demo_NewMessage_def
      demo_clock_ApplyMessage_def demo_ApplyMessage_def)

theorem request_aborts_iff_witness:
  "snd (ServeHTTP demo_backend demo_mux (demo_post [0]) demo_served) = Aborted
   \<and> snd (ServeHTTP demo_backend demo_mux (demo_call [1]) demo_served) \<noteq> Aborted
   \<and> snd (ServeHTTP demo_clock_backend demo_mux (demo_call [1]) demo_served) = Aborted"
  using request_aborts_iff[of demo_backend demo_served demo_mux "demo_post [0]"] demo_calm demo_mux_ok
    request_aborts_iff[of demo_backend demo_served demo_mux "demo_call [1]"]
    request_aborts_iff[of demo_clock_backend demo_served demo_mux "demo_call [1]"] demo_clock_calm
  by (simp add: demo_post_tx_routed demo_post_call_routed demo_clock_call, simp add: demo_args_def)

lemma demo_aborts: "snd (ServeHTTP demo_backend demo_mux (demo_post [0]) demo_served) = Aborted"
  by (simp add: ServeHTTP_def demo_post_tx_routed makeHandler_def transactionHandler_def
      prepareTransaction_eq demo_args_def)

theorem panic_blocks_api_witness:
  "serve_requests demo_backend demo_mux [demo_request ''GET'' ''/accounts'' []]
     (fst (ServeHTTP demo_backend demo_mux (demo_post [0]) demo_served))
   = (fst (ServeHTTP demo_backend demo_mux (demo_post [0]) demo_served), [Blocked])"
proof -
  have "route demo_mux (demo_request ''GET'' ''/accounts'' []) = Some AccountsH"
    by (simp add: route_def routes_def demo_mux_def demo_request_def Let_def)
  then show ?thesis unfolding panic_blocks_api[OF demo_aborts] by simp
qed

theorem ServeHTTP_frame_witness:
  "\<exists>bs. fst (ServeHTTP demo_backend demo_mux (demo_post [1]) demo_served) =
      (submitted bs demo_served)\<lparr>sv_locked :=
        snd (ServeHTTP demo_backend demo_mux (demo_post [1]) demo_served) = Aborted\<rparr> \<and> length bs \<le> 1"
  using ServeHTTP_frame[of demo_served demo_backend demo_mux "demo_post [1]"] by auto

section \<open>Submissions\<close>

text \<open>
  The constructors of go-ethereum store their arguments, and a signature changes only the three
  signature values.
\<close>

definition new_tx_ok :: "('db, 'sd, 'ks, 'x) backend_scheme \<Rightarrow> bool" where
  "new_tx_ok X \<longleftrightarrow>
     (\<forall>n to v g p d. let t = NewTransaction X n to v g p d in
        tx_Nonce t = n \<and> tx_To t = Some to \<and> tx_Value t = v \<and> tx_Gas t = g \<and> tx_GasPrice t = p \<and> tx_Data t = d) \<and>
     (\<forall>n v g p d. let t = NewContractCreation X n v g p d in
        tx_Nonce t = n \<and> tx_To t = None \<and> tx_Value t = v \<and> tx_Gas t = g \<and> tx_GasPrice t = p \<and> tx_Data t = d) \<and>
     (\<forall>s t sig t'. WithSignature X s t sig = Ret t' \<longrightarrow>
        t' = t\<lparr>tx_V := tx_V t', tx_R := tx_R t', tx_S := tx_S t'\<rparr>)"

lemma prepared_tx_fields:
  assumes "new_tx_ok X"
  shows "tx_To (prepared_tx X args st dat) = sa_To args"
    "tx_Nonce (prepared_tx X args st dat) = (case sa_Nonce args of Some n \<Rightarrow> n | None \<Rightarrow> GetPoolNonce X st (sa_From args))"
    "tx_Value (prepared_tx X args st dat) = (case sa_Value args of Some v \<Rightarrow> v | None \<Rightarrow> 0)"
    "tx_Gas (prepared_tx X args st dat) = (case sa_Gas args of Some g \<Rightarrow> g | None \<Rightarrow> 90000)"
    "tx_GasPrice (prepared_tx X args st dat) = (case sa_GasPrice args of Some p \<Rightarrow> p | None \<Rightarrow> 0)"
    "tx_Data (prepared_tx X args st dat) = dat"
  using assms
  by (simp_all add: new_tx_ok_def prepared_tx_def Let_def defaultGas_def split: option.split)

lemma signed_fields:
  assumes "new_tx_ok X" "WithSignature X s t sig = Ret t'"
  shows "tx_To t' = tx_To t" "tx_Nonce t' = tx_Nonce t" "tx_Value t' = tx_Value t" "tx_Gas t' = tx_Gas t"
    "tx_GasPrice t' = tx_GasPrice t" "tx_Data t' = tx_Data t"
proof -
  have "t' = t\<lparr>tx_V := tx_V t', tx_R := tx_R t', tx_S := tx_S t'\<rparr>" using assms unfolding new_tx_ok_def by blast
  then show "tx_To t' = tx_To t" "tx_Nonce t' = tx_Nonce t" "tx_Value t' = tx_Value t" "tx_Gas t' = tx_Gas t"
    "tx_GasPrice t' = tx_GasPrice t" "tx_Data t' = tx_Data t"
    by (metis tx.select_convs tx.surjective tx.update_convs)+
qed

text \<open>
  C27. What \<^verbatim>\<open>POST /tx\<close> submits: when it submits anything, that is the encoding of a transaction
  signed by the key store for the sender, with the recipient, the value and the data of the
  request, the nonce of the request or else of the transaction pool, the gas of the request or
  else 90000, and the price of the request or else zero; the consensus decodes exactly this
  transaction, and its hash is the answer.
\<close>

theorem transactionHandler_submission:
  assumes "codec_ok X" "new_tx_ok X" "sv_submitCh (fst (transactionHandler X r m)) \<noteq> sv_submitCh m"
  shows "\<exists>args ks account t0 sig b t. json_Decode_args X (rq_Body r) = Ret args \<and> sv_keyStore m = Some ks
    \<and> ks_Find X ks \<lparr>ea_Address = sa_From args, ea_URL = []\<rparr> = Ret account
    \<and> ks_SignHash X ks account (hash_bytes (signer_Hash X (EIP155Signer 1) t0)) = Ret sig
    \<and> WithSignature X (EIP155Signer 1) t0 sig = Ret t
    \<and> sv_submitCh (fst (transactionHandler X r m)) = sv_submitCh m @ [b] \<and> rlp_Decode_tx X b = Ret t
    \<and> tx_To t = sa_To args \<and> Some (tx_Data t) = sa_Data args
    \<and> tx_Nonce t = (case sa_Nonce args of Some n \<Rightarrow> n | None \<Rightarrow> GetPoolNonce X (sv_state m) (sa_From args))
    \<and> tx_Value t = (case sa_Value args of Some v \<Rightarrow> v | None \<Rightarrow> 0)
    \<and> tx_Gas t = (case sa_Gas args of Some g \<Rightarrow> g | None \<Rightarrow> 90000)
    \<and> tx_GasPrice t = (case sa_GasPrice args of Some p \<Rightarrow> p | None \<Rightarrow> 0)
    \<and> snd (transactionHandler X r m) = close_body r (respond X r (Ret (JsonTxRes (hash_Hex X (tx_Hash X t)))))"
proof -
  from assms(3) obtain args t b where 1: "json_Decode_args X (rq_Body r) = Ret args"
    and 2: "prepareTransaction X args (sv_state m) (sv_keyStore m) = Ret t" and 3: "rlp_Encode_tx X t = Ret b"
    by (auto simp: transactionHandler_def split: outcome.splits)
  from 2 obtain dat ks account sig where 4: "sa_Data args = Some dat" "sv_keyStore m = Some ks"
    "ks_Find X ks \<lparr>ea_Address = sa_From args, ea_URL = []\<rparr> = Ret account"
    "ks_SignHash X ks account (hash_bytes (signer_Hash X (EIP155Signer 1) (prepared_tx X args (sv_state m) dat))) = Ret sig"
    "WithSignature X (EIP155Signer 1) (prepared_tx X args (sv_state m) dat) sig = Ret t"
    by (auto simp: prepareTransaction_eq split: outcome.splits option.splits)
  have "rlp_Decode_tx X b = Ret t" using assms(1) 3 by (simp add: codec_ok_def)
  moreover have "sv_submitCh (fst (transactionHandler X r m)) = sv_submitCh m @ [b]"
    "snd (transactionHandler X r m) = close_body r (respond X r (Ret (JsonTxRes (hash_Hex X (tx_Hash X t)))))"
    using 1 2 3 by (simp_all add: transactionHandler_def submit_def)
  ultimately show ?thesis
    using 1 4 signed_fields[OF assms(2) 4(5)] prepared_tx_fields[OF assms(2), of args "sv_state m" dat]
    by (intro exI[of _ args] exI[of _ ks] exI[of _ account] exI[of _ "prepared_tx X args (sv_state m) dat"]
        exI[of _ sig] exI[of _ b] exI[of _ t]) simp
qed

lemma demo_new_tx_ok: "new_tx_ok demo_backend"
  by (auto simp: new_tx_ok_def demo_NewTransaction_def Let_def)

lemma demo_submits: "sv_submitCh (fst (transactionHandler demo_backend (demo_post [1]) demo_served)) = [[193, 0]]"
  by (simp add: transactionHandler_def prepareTransaction_eq demo_args_def demo_account_def submit_def prepared_tx_def
      Let_def demo_NewTransaction_def GetPoolNonce_def demo_s0_def demo_sd0_def demo_encode_tx_def demo_tx_def)

theorem transactionHandler_submission_witness:
  "\<exists>t. rlp_Decode_tx demo_backend [193, 0] = Ret t \<and> tx_To t = Some 5 \<and> tx_Nonce t = 0 \<and> tx_Value t = 3"
  using transactionHandler_submission[OF demo_backend_codec_ok demo_new_tx_ok, of "demo_post [1]" demo_served] demo_submits
  by (auto simp: demo_args_def GetPoolNonce_def demo_s0_def demo_sd0_def)

text \<open>
  \<^verbatim>\<open>POST /rawtx\<close> submits whatever is the hexadecimal form of some bytes: the bytes are
  submitted even if they are not a transaction, and then the client gets an empty answer with
  the status of success instead of an error.
\<close>

theorem rawTransactionHandler_submission:
  assumes "rq_Body r = Ret body" "hexutil_Decode X (bytes_str body) = Ret b" "rq_Close r = None"
  shows "fst (rawTransactionHandler X r m) = submitted [b] m
    \<and> (\<forall>e. rlp_Decode_tx X b = Fail e \<longrightarrow> snd (rawTransactionHandler X r m) = Some [])
    \<and> (\<forall>t. rlp_Decode_tx X b = Ret t \<longrightarrow>
         snd (rawTransactionHandler X r m) = respond X r (Ret (JsonTxRes (hash_Hex X (tx_Hash X t)))))"
  using assms
  by (auto simp: rawTransactionHandler_def submit_submitted close_body_def option.map_ident split: outcome.splits)

theorem rawTransactionHandler_submission_witness:
  "rawTransactionHandler demo_backend (demo_request ''POST'' ''/rawtx'' (str_bytes ''0xg'')) demo_served =
     (submitted [str_bytes ''g''] demo_served, Some [])"
proof -
  have "hexutil_Decode demo_backend (bytes_str (str_bytes ''0xg'')) = Ret (str_bytes ''g'')"
    by (simp only: bytes_str_str_bytes) simp
  from rawTransactionHandler_submission[OF _ this, of "demo_request ''POST'' ''/rawtx'' (str_bytes ''0xg'')" demo_served]
  show ?thesis by (intro prod_eqI) (simp_all add: str_bytes_def)
qed

section \<open>Receipts\<close>

lemma tx_receipt_json_eq: "tx_receipt_json X st h = transaction_receipt X st h"
  by (simp add: tx_receipt_json_def transaction_receipt_def failed_receipt_def zero_receipt_def log_list_def Let_def
      split: outcome.split option.split)

lemma write_body_path [simp]: "write_body (r\<lparr>rq_Path := p\<rparr>) = write_body r"
  by (rule ext) (simp add: write_body_def)

lemma respond_path [simp]: "respond X (r\<lparr>rq_Path := p\<rparr>) = respond X r"
  by (rule ext) (simp add: respond_def cong: outcome.case_cong)

text \<open>
  The two receipt endpoints agree: \<^verbatim>\<open>GET /tx/h\<close> and \<^verbatim>\<open>GET /transaction/h\<close> give the
  same answer for every \<open>h\<close> and every state.
\<close>

theorem receipt_handlers_agree:
  "txReceiptHandler X (r\<lparr>rq_Path := ''/tx/'' @ p\<rparr>) m = transactionReceiptHandler X (r\<lparr>rq_Path := ''/transaction/'' @ p\<rparr>) m"
  by (simp add: txReceiptHandler_def transactionReceiptHandler_def path_param_def tx_receipt_json_eq)

end
