(* ===== verification/BlockSpec.thy ===== *)
theory BlockSpec
  imports HandlerSpec
begin

text \<open>
  The block endpoints and the receipts over the application state: parsing of block indexes, the
  agreement of the two endpoints on a block that was processed, and what the receipt endpoints
  show of a refused transaction.
\<close>

section \<open>Parsing block indexes\<close>

definition digits_from :: "nat \<Rightarrow> string \<Rightarrow> nat" where
  "digits_from acc s = foldl (\<lambda>a c. 10 * a + (of_char c - 48)) acc s"

lemma digits_from_simps [simp]:
  "digits_from acc [] = acc" "digits_from acc (c # s) = digits_from (10 * acc + (of_char c - 48)) s"
  by (simp_all add: digits_from_def)

lemma digits_from_ge: "acc \<le> digits_from acc s"
proof (induction s arbitrary: acc)
  case (Cons c s)
  have "acc \<le> 10 * acc + (of_char c - 48)" by simp
  also have "\<dots> \<le> digits_from (10 * acc + (of_char c - 48)) s" by (rule Cons.IH)
  finally show ?case by simp
qed simp

lemma ParseUint_loop_digits:
  assumes "\<forall>c \<in> set s. 48 \<le> (of_char c :: nat) \<and> (of_char c :: nat) \<le> 57" "acc < 2 ^ 64"
  shows "ParseUint_loop acc s = (if digits_from acc s < 2 ^ 64 then Inr (digits_from acc s) else Inl ErrRange)"
  using assms
proof (induction s arbitrary: acc)
  case (Cons c s)
  let ?acc = "10 * acc + (of_char c - 48)"
  show ?case
  proof (cases "2 ^ 64 \<le> ?acc")
    case True
    with digits_from_ge[of ?acc s] Cons.prems show ?thesis by (simp add: Let_def)
  next
    case False
    with Cons.IH[of ?acc] Cons.prems show ?thesis by (simp add: Let_def)
  qed
qed simp

lemma dec_digits_chars: "c \<in> set (dec_digits n) \<Longrightarrow> 48 \<le> (of_char c :: nat) \<and> (of_char c :: nat) \<le> 57"
proof (induction n rule: dec_digits.induct)
  case (1 n)
  show ?case
  proof (cases "n < 10")
    case True
    with "1.prems" show ?thesis by (simp add: dec_digits.simps[of n] of_char_digit_char)
  next
    case False
    with "1.prems" have "c \<in> set (dec_digits (n div 10)) \<or> c = digit_char (n mod 10)"
      by (auto simp: dec_digits.simps[of n])
    with "1.IH"[OF False] show ?thesis by (auto simp: of_char_digit_char)
  qed
qed

lemma ParseUint_dec_digits: "ParseUint (dec_digits n) = (if n < 2 ^ 64 then Inr n else Inl ErrRange)"
proof -
  have "digits_from 0 (dec_digits n) = n"
    using dec_value_digits[of n] by (simp add: digits_from_def dec_value_def)
  then show ?thesis
    using ParseUint_loop_digits[of "dec_digits n" 0] dec_digits_chars[of _ n] by (simp add: ParseUint_def)
qed

lemma hd_dec_digits: "hd (dec_digits n) \<noteq> CHR ''-''" "hd (dec_digits n) \<noteq> CHR ''+''"
proof -
  have "48 \<le> (of_char (hd (dec_digits n)) :: nat)" using dec_digits_chars[of "hd (dec_digits n)" n] by simp
  then show "hd (dec_digits n) \<noteq> CHR ''-''" "hd (dec_digits n) \<noteq> CHR ''+''" by auto
qed

lemma ParseInt_sprintf_d:
  "ParseInt (sprintf_d i) = (if - (2 ^ 63) \<le> i \<and> i < 2 ^ 63 then Inr i else Inl ErrRange)"
proof (cases "i < 0")
  case True
  then show ?thesis by (simp add: sprintf_d_def ParseInt_def ParseUint_dec_digits nat_less_iff) linarith
next
  case False
  then show ?thesis
    by (auto simp: sprintf_d_def ParseInt_def ParseUint_dec_digits hd_dec_digits Let_def nat_less_iff le_nat_iff)
qed

lemma ParseInt_range: "ParseInt s = Inr i \<Longrightarrow> - (2 ^ 63) \<le> i \<and> i < 2 ^ 63"
  by (auto simp: ParseInt_def Let_def split: if_splits sum.splits)

text \<open>
  Round trip of block indexes: \<^verbatim>\<open>strconv.ParseInt\<close> reads back what is printed with
  \<^verbatim>\<open>%d\<close> exactly for the numbers of 64 bits, reports every other number as out of range, and
  never returns a number out of range.
\<close>

theorem ParseInt_roundtrip:
  "ParseInt (sprintf_d i) = (if - (2 ^ 63) \<le> i \<and> i < 2 ^ 63 then Inr i else Inl ErrRange)
   \<and> (case ParseInt s of Inr j \<Rightarrow> - (2 ^ 63) \<le> j \<and> j < 2 ^ 63 | Inl e \<Rightarrow> True)"
  using ParseInt_sprintf_d[of i] ParseInt_range[of s] by (auto split: sum.split)

lemma apply_transaction_refused:
  assumes "apply_transaction X s b i h = (s', Fail e)" "rlp_Decode_tx X b = Ret t" "AsMessage X (s_signer s) t = Ret m"
  shows "s_db s' = put_failed_tx X (s_db s) t e"
  using assms by (auto simp: apply_transaction_def Let_def split: outcome.splits prod.splits option.splits)

text \<open>
  C37. What the receipt endpoints show of a transaction that a block refused: if the database has no
  transaction of this hash, a failed receipt with the sender, the fields of the transaction and the text
  of the error; and a transaction that the database has keeps the receipt it had, so that sending
  an executed transaction again does not turn its receipt into a failure.
\<close>

theorem receipt_after_refusal:
  assumes "apply_transaction X s b i bh = (s', Fail e)" "rlp_Decode_tx X b = Ret t" "AsMessage X (s_signer s) t = Ret m"
    "kv_ok X" "codec_ok X" "txerror_Marshal X \<lparr>te_Tx = t, te_Error = error_text e\<rparr> = Ret d"
    "snd (db_Put X (s_db s) (errorKey (tx_Hash X t)) d) = None" "Sender X (EIP155Signer 1) t = Ret from"
  shows "(case GetTransaction X s (tx_Hash X t) of
      Fail _ \<Rightarrow> transaction_receipt X s' (tx_Hash X t) =
        Ret (failed_receipt (tx_Hash X t) from \<lparr>te_Tx = t, te_Error = error_text e\<rparr>)
    | _ \<Rightarrow> transaction_receipt X s' (tx_Hash X t) = transaction_receipt X s (tx_Hash X t))"
proof -
  let ?h = "tx_Hash X t" and ?te = "\<lparr>te_Tx = t, te_Error = error_text e\<rparr>"
  obtain db' where put: "db_Put X (s_db s) (errorKey ?h) d = (db', None)" using assms(7) by (metis prod.collapse)
  have db: "s_db s' = db'" using apply_transaction_refused[OF assms(1-3)] put assms(6) by (simp add: put_failed_tx_def)
  have key: "errorKey ?h = slot_key (ErrorSlot ?h)" by simp
  have same: "db_Get X db' (slot_key sl) = db_Get X (s_db s) (slot_key sl)" if "sl = HashSlot ?h \<or> sl = ReceiptSlot ?h" for sl
    using slots.get_put_other[OF assms(4) put[unfolded key], of sl] that by auto
  have tx: "GetTransaction X s' ?h = GetTransaction X s ?h" and rc: "GetReceipt X s' ?h = GetReceipt X s ?h"
    using same[of "HashSlot ?h"] same[of "ReceiptSlot ?h"] by (simp_all add: GetTransaction_def GetReceipt_def db)
  have "GetFailedTx X s' ?h = txerror_Unmarshal X d"
    using slots.get_put[OF assms(4) put[unfolded key]] by (simp add: GetFailedTx_def db)
  also have "\<dots> = Ret ?te"
    using codec_ok_txerror[OF assms(5)] assms(6) by (simp add: txerror_Marshal_def txerror_Unmarshal_def)
  finally have "GetFailedTx X s' ?h = Ret ?te" .
  then show ?thesis using assms(8) by (simp add: transaction_receipt_def tx rc split: outcome.split)
qed

theorem receipt_after_refusal_witness:
  "transaction_receipt demo_backend (fst (apply_transaction demo_backend demo_s0 [193, 5] 1 0)) 12
     = Ret (failed_receipt 12 9 \<lparr>te_Tx = demo_tx 5, te_Error = ''nonce too low''\<rparr>)"
proof -
  have r: "apply_transaction demo_backend demo_s0 [193, 5] 1 0
      = (fst (apply_transaction demo_backend demo_s0 [193, 5] 1 0), Fail (LibError ''nonce too low''))"
    by (rule prod_eqI) (simp_all add: demo_s0_def run_defs)
  have "AsMessage demo_backend (s_signer demo_s0) (demo_tx 5) = Ret (demo_message (demo_tx 5))"
    by (simp add: demo_s0_def)
  moreover have "txerror_Marshal demo_backend \<lparr>te_Tx = demo_tx 5, te_Error = error_text (LibError ''nonce too low'')\<rparr> = Ret [5]"
    by (simp add: txerror_Marshal_def demo_encode_error_def demo_error_def demo_tx_def Let_def)
  moreover have "tx_Hash demo_backend (demo_tx 5) = 12" "Sender demo_backend (EIP155Signer 1) (demo_tx 5) = Ret 9"
    by (simp_all add: demo_tx_def)
  moreover have "GetTransaction demo_backend demo_s0 12 = Fail (LibError ''leveldb: not found'')"
    by (simp add: GetTransaction_def demo_s0_def demo_db0_def)
  ultimately show ?thesis
    using receipt_after_refusal[OF r _ _ demo_backend_kv_ok demo_backend_codec_ok, of "demo_tx 5"] by simp
qed

section \<open>The two block endpoints\<close>

lemma block_receipts_cong: "(\<And>b. f b = g b) \<Longrightarrow> block_receipts f acc bs = block_receipts g acc bs"
  by (metis ext)

lemma blockById_receipt_eq: "blockById_receipt X st b = blockByHash_receipt X st b"
  by (simp add: blockById_receipt_def blockByHash_receipt_def failed_receipt_def zero_receipt_def log_list_def Let_def
      split: outcome.split option.split)

text \<open>
  C36. A block that was processed is served under both of its names: once \<^verbatim>\<open>ProcessBlock\<close> has
  accepted it, \<^verbatim>\<open>GET /blockById/i\<close> with its printed index and \<^verbatim>\<open>GET /block/h\<close> with its hash
  give the same answer.
\<close>

theorem block_handlers_agree:
  assumes "ProcessBlock X now s blk = (sv_state m, Ret (root, None))"
    "kv_ok X" "trie_ok X node stored" "codec_ok X"
    "fst (BlockHash X blk) = hash_bytes h" "snd (ProtoMarshal X (stamp_block now blk)) = None"
    "valid_slot (BlockSlot (blk_Index blk))" "\<not> node (hash_bytes h)"
    "\<forall>t \<in> set (w_transactions (s_was s)). tx_Hash X t \<noteq> h"
    "\<forall>b \<in> set (blk_Transactions blk). \<forall>t. rlp_Decode_tx X b = Ret t \<longrightarrow> tx_Hash X t \<noteq> h"
    "HexToHash X q = h" "- (2 ^ 63) \<le> blk_Index blk" "blk_Index blk < 2 ^ 63"
  shows "blockByIdHandler X (r\<lparr>rq_Path := ''/blockById/'' @ sprintf_d (blk_Index blk)\<rparr>) m =
    blockByHashHandler X (r\<lparr>rq_Path := ''/block/'' @ q\<rparr>) m"
proof -
  have "GetBlockById X (sv_state m) (blk_Index blk) = GetBlock X (sv_state m) h"
    using ProcessBlock_stores_block[OF assms(1-10)] by simp
  moreover have "ParseInt (sprintf_d (blk_Index blk)) = Inr (blk_Index blk)"
    using assms(12,13) by (simp add: ParseInt_sprintf_d)
  moreover have "blockById_receipt X (sv_state m) = blockByHash_receipt X (sv_state m)"
    by (rule ext) (rule blockById_receipt_eq)
  ultimately show ?thesis
    by (simp add: blockByIdHandler_def blockByHashHandler_def path_param_def assms(11) cong: outcome.case_cong)
qed

theorem block_handlers_agree_witness:
  "\<exists>m. ProcessBlock demo_backend 0 demo_s0 demo_blk = (sv_state m, Ret (3, None)) \<and>
     blockByIdHandler demo_backend (demo_request ''GET'' ''/blockById/1'' []) m =
     blockByHashHandler demo_backend (demo_request ''GET'' (''/block/'' @ replicate 1001 (CHR ''0'')) []) m"
proof -
  let ?m = "demo_served\<lparr>sv_state := fst (ProcessBlock demo_backend 0 demo_s0 demo_blk)\<rparr>"
  have b: "stamp_block 0 demo_blk = demo_blk" "blk_Index demo_blk = 1"
    "fst (BlockHash demo_backend demo_blk) = hash_bytes 1001" "snd (ProtoMarshal demo_backend demo_blk) = None"
    "blk_Transactions demo_blk = [[193, 0], [193, 5], [193, 1]]"
    by (simp_all add: demo_blk_def stamp_block_def demo_BlockHash_def demo_encode_block_def Let_def demo_block_def)
  have "snd (ProcessBlock demo_backend 0 demo_s0 demo_blk) = Ret (3, None)"
    by (simp add: demo_s0_def demo_blk_def run_defs)
  then have p: "ProcessBlock demo_backend 0 demo_s0 demo_blk = (sv_state ?m, Ret (3, None))"
    by (simp add: prod_eq_iff)
  have one: "digit_char 1 = CHR ''1''" using char_of_char[of "CHR ''1''", where 'a = nat] by (simp add: digit_char_def)
  have req: "demo_request ''GET'' ''/blockById/1'' [] =
      demo_request ''GET'' [] []\<lparr>rq_Path := ''/blockById/'' @ sprintf_d (blk_Index demo_blk)\<rparr>"
    "demo_request ''GET'' (''/block/'' @ replicate 1001 (CHR ''0'')) [] =
      demo_request ''GET'' [] []\<lparr>rq_Path := ''/block/'' @ replicate 1001 (CHR ''0'')\<rparr>"
    by (simp_all add: b(2) sprintf_d_def dec_digits.simps one[simplified] one demo_request_def)
  have "blockByIdHandler demo_backend (demo_request ''GET'' ''/blockById/1'' []) ?m =
     blockByHashHandler demo_backend (demo_request ''GET'' (''/block/'' @ replicate 1001 (CHR ''0'')) []) ?m"
    unfolding req
    by (rule block_handlers_agree[OF p demo_backend_kv_ok demo_backend_trie_ok demo_backend_codec_ok b(3)])
       (simp_all add: b b(4)[simplified] demo_s0_def demo_tx_def)
  with p show ?thesis by blast
qed

end
