(* ===== verification/AddrLock.thy ===== *)
theory AddrLock
  imports Prelude
begin

text \<open>
  The per-address locks of the RPC interface (\<^verbatim>\<open>src/service/addrlock.go\<close>): a map from addresses
  to mutexes, filled on demand under the lock \<^verbatim>\<open>mu\<close>.  A mutex is a reference; the heap of mutexes
  holds, for each, the thread that has locked it.
\<close>

section \<open>The locker\<close>

type_synonym mutex = nat
type_synonym thread = nat

record addr_locker =
  al_locks :: "address \<rightharpoonup> mutex"       \<comment> \<open>a nil map reads as empty\<close>
  al_heap :: "thread option list"       \<comment> \<open>the mutexes allocated so far, with their holders\<close>

definition NewAddrLocker :: addr_locker where
  "NewAddrLocker = \<lparr>al_locks = Map.empty, al_heap = []\<rparr>"

text \<open>\<^verbatim>\<open>lock\<close>: the mutex of an address, allocated at its first use.\<close>

definition lock_of :: "addr_locker \<Rightarrow> address \<Rightarrow> addr_locker \<times> mutex" where
  "lock_of l address =
     (case al_locks l address of
        Some m \<Rightarrow> (l, m)
      | None \<Rightarrow> (l\<lparr>al_locks := (al_locks l)(address \<mapsto> length (al_heap l)),
                   al_heap := al_heap l @ [None]\<rparr>, length (al_heap l)))"

text \<open>
  \<^verbatim>\<open>LockAddr\<close> by a thread blocks (\<open>None\<close>) while the mutex is held, by whomever: a Go mutex is
  not reentrant.  \<^verbatim>\<open>UnlockAddr\<close> of an unlocked mutex is a fatal error.
\<close>

definition LockAddr :: "addr_locker \<Rightarrow> thread \<Rightarrow> address \<Rightarrow> addr_locker option" where
  "LockAddr l t address =
     (case lock_of l address of (l, m) \<Rightarrow>
        case al_heap l ! m of
          Some _ \<Rightarrow> None
        | None \<Rightarrow> Some (l\<lparr>al_heap := (al_heap l)[m := Some t]\<rparr>))"

definition UnlockAddr :: "addr_locker \<Rightarrow> address \<Rightarrow> addr_locker outcome" where
  "UnlockAddr l address =
     (case lock_of l address of (l, m) \<Rightarrow>
        case al_heap l ! m of
          None \<Rightarrow> Panic
        | Some _ \<Rightarrow> Ret (l\<lparr>al_heap := (al_heap l)[m := None]\<rparr>))"

definition holder :: "addr_locker \<Rightarrow> address \<Rightarrow> thread option" where
  "holder l address = (case al_locks l address of None \<Rightarrow> None | Some m \<Rightarrow> al_heap l ! m)"

section \<open>The invariant: every address has a mutex of its own\<close>

definition locker_ok :: "addr_locker \<Rightarrow> bool" where
  "locker_ok l \<longleftrightarrow> (\<forall>a m. al_locks l a = Some m \<longrightarrow> m < length (al_heap l)) \<and>
     (\<forall>a b m. al_locks l a = Some m \<and> al_locks l b = Some m \<longrightarrow> a = b)"

lemma NewAddrLocker_ok: "locker_ok NewAddrLocker"
  by (simp add: locker_ok_def NewAddrLocker_def)

lemma lock_of_ok:
  assumes "locker_ok l" "lock_of l a = (l', m)"
  shows "locker_ok l'" "al_locks l' a = Some m" "m < length (al_heap l')" "holder l' b = holder l b"
proof -
  have bound: "al_locks l c = Some k \<Longrightarrow> k < length (al_heap l)" for c k
    using assms(1) by (auto simp: locker_ok_def)
  show "locker_ok l'"
    using assms bound by (fastforce simp: lock_of_def locker_ok_def split: option.splits if_splits)
  show "al_locks l' a = Some m" "m < length (al_heap l')"
    using assms(2) bound by (auto simp: lock_of_def split: option.splits)
  show "holder l' b = holder l b"
  proof (cases "al_locks l b")
    case None
    then show ?thesis using assms(2) by (auto simp: lock_of_def holder_def split: option.splits if_splits)
  next
    case (Some k)
    with bound[OF this] show ?thesis
      using assms(2) by (auto simp: lock_of_def holder_def nth_append split: option.splits if_splits)
  qed
qed

text \<open>A mutex of one address is not the mutex of another.\<close>

lemma holder_update:
  assumes "locker_ok l" "al_locks l a = Some m"
  shows "holder (l\<lparr>al_heap := (al_heap l)[m := h]\<rparr>) b = (if b = a then h else holder l b)"
  using assms by (auto simp: holder_def locker_ok_def nth_list_update split: option.splits)

lemma locker_ok_heap [simp]: "locker_ok (l\<lparr>al_heap := (al_heap l)[m := h]\<rparr>) \<longleftrightarrow> locker_ok l"
  by (simp add: locker_ok_def)

lemma LockAddr_iff:
  assumes "locker_ok l"
  shows "(\<exists>l'. LockAddr l t a = Some l') \<longleftrightarrow> holder l a = None"
proof -
  obtain l1 m where lk: "lock_of l a = (l1, m)" by fastforce
  note ok = lock_of_ok[OF assms lk]
  have "holder l1 a = al_heap l1 ! m" using ok(2) by (simp add: holder_def)
  with ok(4)[of a] lk show ?thesis by (auto simp: LockAddr_def split: option.splits)
qed

lemma LockAddr_Some:
  assumes "locker_ok l" "LockAddr l t a = Some l'"
  shows "locker_ok l'" "holder l a = None" "holder l' b = (if b = a then Some t else holder l b)"
proof -
  obtain l1 m where lk: "lock_of l a = (l1, m)" by fastforce
  note ok = lock_of_ok[OF assms(1) lk]
  from assms(2) lk have l': "l' = l1\<lparr>al_heap := (al_heap l1)[m := Some t]\<rparr>"
    by (auto simp: LockAddr_def split: option.splits)
  show "locker_ok l'" using ok(1) l' by simp
  show "holder l a = None" using LockAddr_iff[OF assms(1), of t a] assms(2) by blast
  show "holder l' b = (if b = a then Some t else holder l b)"
    using holder_update[OF ok(1,2)] ok(4) l' by simp
qed

lemma UnlockAddr_Ret:
  assumes "locker_ok l" "UnlockAddr l a = Ret l'"
  shows "locker_ok l'" "holder l a \<noteq> None" "holder l' b = (if b = a then None else holder l b)"
proof -
  obtain l1 m where lk: "lock_of l a = (l1, m)" by fastforce
  note ok = lock_of_ok[OF assms(1) lk]
  from assms(2) lk have l': "l' = l1\<lparr>al_heap := (al_heap l1)[m := None]\<rparr>" "al_heap l1 ! m \<noteq> None"
    by (auto simp: UnlockAddr_def split: option.splits)
  show "locker_ok l'" using ok(1) l' by simp
  show "holder l a \<noteq> None" using ok(2) ok(4)[of a] l'(2) by (simp add: holder_def split: option.splits)
  show "holder l' b = (if b = a then None else holder l b)"
    using holder_update[OF ok(1,2)] ok(4) l'(1) by simp
qed

section \<open>Threads\<close>

text \<open>
  The lock discipline as an interface: whoever provides it promises that a lock is granted only when
  it is free, and that locks and unlocks of one key leave the other keys alone.
\<close>

locale keyed_lock =
  fixes acquire :: "'l \<Rightarrow> thread \<Rightarrow> 'k \<Rightarrow> 'l option" and release :: "'l \<Rightarrow> 'k \<Rightarrow> 'l outcome"
    and owner :: "'l \<Rightarrow> 'k \<Rightarrow> thread option" and ok :: "'l \<Rightarrow> bool"
  assumes acquire_Some: "ok l \<Longrightarrow> acquire l t k = Some l' \<Longrightarrow>
      ok l' \<and> owner l k = None \<and> (\<forall>j. owner l' j = (if j = k then Some t else owner l j))"
    and release_Ret: "ok l \<Longrightarrow> release l k = Ret l' \<Longrightarrow>
      ok l' \<and> (\<forall>j. owner l' j = (if j = k then None else owner l j))"

text \<open>Threads that lock an address, run their critical section and unlock it, in any interleaving.\<close>

inductive lock_step :: "('l \<Rightarrow> thread \<Rightarrow> 'k \<Rightarrow> 'l option) \<Rightarrow> ('l \<Rightarrow> 'k \<Rightarrow> 'l outcome) \<Rightarrow>
    'l \<times> (thread \<rightharpoonup> 'k) \<Rightarrow> 'l \<times> (thread \<rightharpoonup> 'k) \<Rightarrow> bool" for acquire release where
  enter: "inside t = None \<Longrightarrow> acquire l t k = Some l' \<Longrightarrow>
     lock_step acquire release (l, inside) (l', inside(t \<mapsto> k))"
| leave: "inside t = Some k \<Longrightarrow> release l k = Ret l' \<Longrightarrow>
     lock_step acquire release (l, inside) (l', inside(t := None))"

inductive_cases lock_stepE: "lock_step acquire release c c'"

context keyed_lock
begin

definition sound :: "'l \<times> (thread \<rightharpoonup> 'k) \<Rightarrow> bool" where
  "sound c \<longleftrightarrow> ok (fst c) \<and> (\<forall>t k. snd c t = Some k \<longrightarrow> owner (fst c) k = Some t)"

lemma step_sound:
  assumes "lock_step acquire release c c'" "sound c"
  shows "sound c'"
  using assms(1)
proof cases
  case (enter inside t l k l')
  with assms(2) have "ok l" by (simp add: sound_def)
  from acquire_Some[OF this enter(4)] assms(2) enter show ?thesis by (auto simp: sound_def)
next
  case (leave inside t k l l')
  with assms(2) have "ok l" by (simp add: sound_def)
  have "k' \<noteq> k" if "s \<noteq> t" "inside s = Some k'" for s k'
  proof
    assume "k' = k"
    have own: "inside t1 = Some k1 \<Longrightarrow> owner l k1 = Some t1" for t1 k1
      using assms(2) leave(1) by (simp add: sound_def)
    from own[OF leave(3)] own[OF that(2)] \<open>k' = k\<close> that(1) show False by simp
  qed
  with release_Ret[OF \<open>ok l\<close> leave(4)] assms(2) leave show ?thesis by (auto simp: sound_def)
qed

lemma steps_sound: "(lock_step acquire release)\<^sup>*\<^sup>* c c' \<Longrightarrow> sound c \<Longrightarrow> sound c'"
  by (induction rule: rtranclp_induct) (blast intro: step_sound)+

lemma exclusive: "sound c \<Longrightarrow> snd c t = Some k \<Longrightarrow> snd c s = Some k \<Longrightarrow> s = t"
proof -
  assume c: "sound c" "snd c t = Some k" "snd c s = Some k"
  then have "owner (fst c) k = Some t" "owner (fst c) k = Some s" unfolding sound_def by blast+
  then show "s = t" by simp
qed

end

interpretation addr: keyed_lock LockAddr UnlockAddr holder locker_ok
proof (unfold_locales, goal_cases)
  case (1 l t k l')
  then show ?case using LockAddr_Some[OF 1] by simp
next
  case (2 l k l')
  then show ?case using UnlockAddr_Ret[OF 2] by simp
qed

text \<open>
  C28. Mutual exclusion per address: from a new locker, however threads interleave
  \<^verbatim>\<open>LockAddr\<close> and \<^verbatim>\<open>UnlockAddr\<close>, two different threads are never inside the critical
  section of the same address at once.
\<close>

theorem addr_mutual_exclusion:
  assumes "(lock_step LockAddr UnlockAddr)\<^sup>*\<^sup>* (NewAddrLocker, Map.empty) (l, inside)"
    "inside t = Some a" "inside s = Some a"
  shows "s = t"
proof -
  have "addr.sound (NewAddrLocker, Map.empty)" by (simp add: addr.sound_def NewAddrLocker_ok)
  then have "addr.sound (l, inside)" by (rule addr.steps_sound[OF assms(1)])
  with assms(2,3) show ?thesis by (auto dest: addr.exclusive)
qed

theorem addr_mutual_exclusion_witness:
  "\<exists>l. (lock_step LockAddr UnlockAddr)\<^sup>*\<^sup>* (NewAddrLocker, Map.empty) (l, [1 \<mapsto> 7, 2 \<mapsto> 8])
     \<and> (\<forall>s. [1 \<mapsto> 7, 2 \<mapsto> 8 :: address] s = Some 7 \<longrightarrow> s = (1 :: thread))"
proof -
  obtain l1 where l1: "LockAddr NewAddrLocker 1 7 = Some l1"
    by (simp add: LockAddr_def lock_of_def NewAddrLocker_def)
  then obtain l2 where l2: "LockAddr l1 2 8 = Some l2"
    by (auto simp: LockAddr_def lock_of_def NewAddrLocker_def)
  have "lock_step LockAddr UnlockAddr (NewAddrLocker, Map.empty) (l1, [1 \<mapsto> 7])"
    by (rule lock_step.enter) (use l1 in simp_all)
  moreover have "lock_step LockAddr UnlockAddr (l1, [1 \<mapsto> 7]) (l2, [1 \<mapsto> 7, 2 \<mapsto> 8])"
    by (rule lock_step.enter) (simp_all add: l2)
  ultimately have run: "(lock_step LockAddr UnlockAddr)\<^sup>*\<^sup>* (NewAddrLocker, Map.empty) (l2, [1 \<mapsto> 7, 2 \<mapsto> 8])"
    by (rule converse_rtranclp_into_rtranclp[OF _ r_into_rtranclp])
  then show ?thesis using addr_mutual_exclusion[OF run, of 1 7] by auto
qed

text \<open>
  The locks of different addresses are independent: \<^verbatim>\<open>LockAddr\<close> succeeds exactly when nobody
  holds the lock of that address, whatever is held of the others, and then changes nothing for them.
\<close>

theorem LockAddr_independent:
  assumes "locker_ok l"
  shows "(LockAddr l t a \<noteq> None \<longleftrightarrow> holder l a = None) \<and>
    (\<forall>l'. LockAddr l t a = Some l' \<longrightarrow> holder l' a = Some t \<and> (\<forall>b. b \<noteq> a \<longrightarrow> holder l' b = holder l b))"
  using LockAddr_iff[OF assms, of t a] LockAddr_Some[OF assms] by auto

theorem LockAddr_independent_witness:
  "\<exists>l. LockAddr NewAddrLocker 1 7 = Some l \<and> holder l 7 = Some 1 \<and> holder l 8 = None"
  using LockAddr_independent[OF NewAddrLocker_ok, of 1 7] by (auto simp: holder_def NewAddrLocker_def)

end
