(* ===== verification/Web3Account.thy ===== *)
theory Web3Account
  imports Handlers AddrLock
begin

text \<open>
  The account part of the JSON-RPC API (\<^verbatim>\<open>src/service/web3_account_api.go\<close>): accounts and
  wallets, signing, and the submission of transactions.  Wallets are go-ethereum's, a type \<open>'w\<close>
  with the functions of the record \<open>web3\<close>, which extends the boundary of the service.  The
  backends of the account manager are the one key store of the service, so the manager's functions
  take the key store.  A method returns the service it leaves and its result; \<open>Panic\<close> is a panic of
  the method, which the RPC server recovers.
\<close>

section \<open>The boundary\<close>

type_synonym private_key = bytes
type_synonym public_key = bytes

record ('db, 'sd, 'ks, 'w) web3 = "('db, 'sd, 'ks) backend" +
  am_Wallets :: "'ks \<Rightarrow> 'w list"
  am_Wallet :: "'ks \<Rightarrow> string \<Rightarrow> 'w outcome"
  am_Find :: "'ks \<Rightarrow> eth_account \<Rightarrow> 'w outcome"
  wallet_Accounts :: "'ks \<Rightarrow> 'w \<Rightarrow> eth_account list"
  wallet_Status :: "'ks \<Rightarrow> 'w \<Rightarrow> string \<times> error option"
  wallet_URL :: "'w \<Rightarrow> string"
  wallet_Open :: "'ks \<Rightarrow> 'w \<Rightarrow> string \<Rightarrow> 'ks \<times> error option"
  wallet_Derive :: "'ks \<Rightarrow> 'w \<Rightarrow> 32 word list \<Rightarrow> bool \<Rightarrow> 'ks \<times> eth_account outcome"
  wallet_SignTx :: "'ks \<Rightarrow> 'w \<Rightarrow> eth_account \<Rightarrow> tx \<Rightarrow> int option \<Rightarrow> tx outcome"
  wallet_SignTxWithPassphrase :: "'ks \<Rightarrow> 'w \<Rightarrow> eth_account \<Rightarrow> string \<Rightarrow> tx \<Rightarrow> int option \<Rightarrow> tx outcome"
  wallet_SignHash :: "'ks \<Rightarrow> 'w \<Rightarrow> eth_account \<Rightarrow> bytes \<Rightarrow> bytes outcome"
  wallet_SignHashWithPassphrase :: "'ks \<Rightarrow> 'w \<Rightarrow> eth_account \<Rightarrow> string \<Rightarrow> bytes \<Rightarrow> bytes outcome"
  ParseDerivationPath :: "string \<Rightarrow> 32 word list outcome"
  ks_NewAccount :: "'ks \<Rightarrow> string \<Rightarrow> 'ks \<times> eth_account outcome"
  ks_ImportECDSA :: "'ks \<Rightarrow> private_key \<Rightarrow> string \<Rightarrow> 'ks \<times> eth_account outcome"
  ks_TimedUnlock :: "'ks \<Rightarrow> eth_account \<Rightarrow> string \<Rightarrow> 64 word \<Rightarrow> 'ks \<times> error option"
  ks_Lock :: "'ks \<Rightarrow> address \<Rightarrow> 'ks \<times> error option"
  HexToECDSA :: "string \<Rightarrow> private_key outcome"
  Keccak256 :: "bytes \<Rightarrow> bytes"
  SigToPub :: "bytes \<Rightarrow> bytes \<Rightarrow> public_key outcome"
  PubkeyToAddress :: "public_key \<Rightarrow> address"
  MakeSigner :: "chain_config \<Rightarrow> int \<Rightarrow> signer"
  MarshalJSON_tx :: "tx \<Rightarrow> bytes outcome"
  tx_Protected :: "tx \<Rightarrow> bool"
  tx_ChainId :: "tx \<Rightarrow> int"
  op_String :: "8 word \<Rightarrow> string"
  PaddedBigBytes :: "int \<Rightarrow> nat \<Rightarrow> bytes"

text \<open>\<^verbatim>\<open>accounts.Account{Address: addr}\<close>, and the key store behind the account manager.\<close>

definition account_of :: "address \<Rightarrow> eth_account" where
  "account_of a = \<lparr>ea_Address = a, ea_URL = []\<rparr>"

definition fetchKeystore :: "('db, 'sd, 'ks) service \<Rightarrow> 'ks outcome" where
  "fetchKeystore m = (if sv_am m then deref (sv_keyStore m) else Panic)"

section \<open>Accounts and wallets\<close>

definition ListAccounts ::
  "('db, 'sd, 'ks, 'w, 'x) web3_scheme \<Rightarrow> ('db, 'sd, 'ks) service \<Rightarrow> address list outcome" where
  "ListAccounts X m =
     (case fetchKeystore m of
        Ret ks \<Rightarrow> Ret (concat (map (\<lambda>w. map ea_Address (wallet_Accounts X ks w)) (am_Wallets X ks)))
      | Fail e \<Rightarrow> Fail e
      | Panic \<Rightarrow> Panic)"

definition Accounts ::
  "('db, 'sd, 'ks, 'w, 'x) web3_scheme \<Rightarrow> ('db, 'sd, 'ks) service \<Rightarrow> address list outcome" where
  "Accounts X m =
     (case fetchKeystore m of
        Ret ks \<Rightarrow> Ret (foldl (\<lambda>addresses w. foldl (\<lambda>as a. as @ [ea_Address a]) addresses (wallet_Accounts X ks w)) []
          (am_Wallets X ks))
      | Fail e \<Rightarrow> Fail e
      | Panic \<Rightarrow> Panic)"

record raw_wallet =
  rw_URL :: string
  rw_Status :: string
  rw_Failure :: string
  rw_Accounts :: "eth_account list"

definition ListWallets ::
  "('db, 'sd, 'ks, 'w, 'x) web3_scheme \<Rightarrow> ('db, 'sd, 'ks) service \<Rightarrow> raw_wallet list outcome" where
  "ListWallets X m =
     (case fetchKeystore m of
        Ret ks \<Rightarrow> Ret (map (\<lambda>w.
          let (status, failure) = wallet_Status X ks w;
              raw = \<lparr>rw_URL = wallet_URL X w, rw_Status = status, rw_Failure = [], rw_Accounts = wallet_Accounts X ks w\<rparr>
          in case failure of None \<Rightarrow> raw | Some e \<Rightarrow> raw\<lparr>rw_Failure := error_text e\<rparr>) (am_Wallets X ks))
      | Fail e \<Rightarrow> Fail e
      | Panic \<Rightarrow> Panic)"

definition OpenWallet ::
  "('db, 'sd, 'ks, 'w, 'x) web3_scheme \<Rightarrow> ('db, 'sd, 'ks) service \<Rightarrow> string \<Rightarrow> string option
   \<Rightarrow> ('db, 'sd, 'ks) service \<times> unit outcome" where
  "OpenWallet X m url passphrase =
     (case fetchKeystore m of
        Fail e \<Rightarrow> (m, Fail e)
      | Panic \<Rightarrow> (m, Panic)
      | Ret ks \<Rightarrow>
          (case am_Wallet X ks url of
             Fail e \<Rightarrow> (m, Fail e)
           | Panic \<Rightarrow> (m, Panic)
           | Ret w \<Rightarrow>
               let pass = (case passphrase of None \<Rightarrow> [] | Some p \<Rightarrow> p)
               in case wallet_Open X ks w pass of
                    (ks, None) \<Rightarrow> (m\<lparr>sv_keyStore := Some ks\<rparr>, Ret ())
                  | (ks, Some e) \<Rightarrow> (m\<lparr>sv_keyStore := Some ks\<rparr>, Fail e)))"

definition DeriveAccount ::
  "('db, 'sd, 'ks, 'w, 'x) web3_scheme \<Rightarrow> ('db, 'sd, 'ks) service \<Rightarrow> string \<Rightarrow> string \<Rightarrow> bool option
   \<Rightarrow> ('db, 'sd, 'ks) service \<times> eth_account outcome" where
  "DeriveAccount X m url path pin =
     (case fetchKeystore m of
        Fail e \<Rightarrow> (m, Fail e)
      | Panic \<Rightarrow> (m, Panic)
      | Ret ks \<Rightarrow>
          (case am_Wallet X ks url of
             Fail e \<Rightarrow> (m, Fail e)
           | Panic \<Rightarrow> (m, Panic)
           | Ret w \<Rightarrow>
               (case ParseDerivationPath X path of
                  Fail e \<Rightarrow> (m, Fail e)
                | Panic \<Rightarrow> (m, Panic)
                | Ret derivPath \<Rightarrow>
                    (case wallet_Derive X ks w derivPath (case pin of None \<Rightarrow> False | Some b \<Rightarrow> b) of
                       (ks, res) \<Rightarrow> (m\<lparr>sv_keyStore := Some ks\<rparr>, res)))))"

definition NewAccount ::
  "('db, 'sd, 'ks, 'w, 'x) web3_scheme \<Rightarrow> ('db, 'sd, 'ks) service \<Rightarrow> string
   \<Rightarrow> ('db, 'sd, 'ks) service \<times> address outcome" where
  "NewAccount X m password =
     (case fetchKeystore m of
        Fail e \<Rightarrow> (m, Fail e)
      | Panic \<Rightarrow> (m, Panic)
      | Ret ks \<Rightarrow>
          (case ks_NewAccount X ks password of
             (ks, Ret acc) \<Rightarrow> (m\<lparr>sv_keyStore := Some ks\<rparr>, Ret (ea_Address acc))
           | (ks, Fail e) \<Rightarrow> (m\<lparr>sv_keyStore := Some ks\<rparr>, Fail e)
           | (ks, Panic) \<Rightarrow> (m\<lparr>sv_keyStore := Some ks\<rparr>, Panic)))"

definition ImportRawKey ::
  "('db, 'sd, 'ks, 'w, 'x) web3_scheme \<Rightarrow> ('db, 'sd, 'ks) service \<Rightarrow> string \<Rightarrow> string
   \<Rightarrow> ('db, 'sd, 'ks) service \<times> address outcome" where
  "ImportRawKey X m privkey password =
     (case HexToECDSA X privkey of
        Fail e \<Rightarrow> (m, Fail e)
      | Panic \<Rightarrow> (m, Panic)
      | Ret key \<Rightarrow>
     (case fetchKeystore m of
        Fail e \<Rightarrow> (m, Fail e)
      | Panic \<Rightarrow> (m, Panic)
      | Ret ks \<Rightarrow>
          (case ks_ImportECDSA X ks key password of
             (ks, Ret acc) \<Rightarrow> (m\<lparr>sv_keyStore := Some ks\<rparr>, Ret (ea_Address acc))
           | (ks, Fail e) \<Rightarrow> (m\<lparr>sv_keyStore := Some ks\<rparr>, Fail e)
           | (ks, Panic) \<Rightarrow> (m\<lparr>sv_keyStore := Some ks\<rparr>, Panic))))"

text \<open>
  Durations are signed 64-bit nanoseconds; the multiplication wraps.  \<open>max_unlock\<close> is the
  constant \<^verbatim>\<open>max\<close> of \<^verbatim>\<open>UnlockAccount\<close>, the largest number of seconds in a duration.
\<close>

definition nanoseconds :: "64 word" where "nanoseconds = 1000000000"
definition max_unlock :: u64 where "max_unlock = word_of_int ((2 ^ 63 - 1) div 1000000000)"

definition unlock_duration :: "u64 option \<Rightarrow> 64 word outcome" where
  "unlock_duration duration =
     (case duration of
        None \<Rightarrow> Ret (300 * nanoseconds)
      | Some n \<Rightarrow>
          if n > max_unlock then Fail (Errorf ''unlock duration too large'') else Ret (n * nanoseconds))"

definition UnlockAccount ::
  "('db, 'sd, 'ks, 'w, 'x) web3_scheme \<Rightarrow> ('db, 'sd, 'ks) service \<Rightarrow> address \<Rightarrow> string \<Rightarrow> u64 option
   \<Rightarrow> ('db, 'sd, 'ks) service \<times> bool outcome" where
  "UnlockAccount X m addr password duration =
     (case unlock_duration duration of
        Fail e \<Rightarrow> (m, Fail e)
      | Panic \<Rightarrow> (m, Panic)
      | Ret d \<Rightarrow>
     (case fetchKeystore m of
        Fail e \<Rightarrow> (m, Fail e)
      | Panic \<Rightarrow> (m, Panic)
      | Ret ks \<Rightarrow>
          (case ks_TimedUnlock X ks (account_of addr) password d of
             (ks, None) \<Rightarrow> (m\<lparr>sv_keyStore := Some ks\<rparr>, Ret True)
           | (ks, Some e) \<Rightarrow> (m\<lparr>sv_keyStore := Some ks\<rparr>, Fail e))))"

definition LockAccount ::
  "('db, 'sd, 'ks, 'w, 'x) web3_scheme \<Rightarrow> ('db, 'sd, 'ks) service \<Rightarrow> address
   \<Rightarrow> ('db, 'sd, 'ks) service \<times> bool outcome" where
  "LockAccount X m addr =
     (case fetchKeystore m of
        Fail e \<Rightarrow> (m, Fail e)
      | Panic \<Rightarrow> (m, Panic)
      | Ret ks \<Rightarrow> (case ks_Lock X ks addr of (ks, err) \<Rightarrow> (m\<lparr>sv_keyStore := Some ks\<rparr>, Ret (err = None))))"

section \<open>Transactions\<close>

text \<open>
  \<^verbatim>\<open>setDefaults\<close>.  The defaults of the gas price and of the nonce are written through the very
  pointer that was found to be nil.
\<close>

definition setDefaults :: "send_tx_args \<Rightarrow> send_tx_args outcome" where
  "setDefaults args =
     (let args = (if sa_Gas args = None then args\<lparr>sa_Gas := Some 90000\<rparr> else args) in
      if sa_GasPrice args = None then Panic
      else
        let args = (if sa_Value args = None then args\<lparr>sa_Value := Some 0\<rparr> else args) in
        if sa_Nonce args = None then Panic
        else if sa_Data args \<noteq> None \<and> sa_Input args \<noteq> None \<and> sa_Data args \<noteq> sa_Input args
        then Fail (Errorf ''both \"data\" and \"input\" are set and not equal. Please use \"input\" to pass transaction call data'')
        else if sa_To args = None \<and>
          (case sa_Data args of Some d \<Rightarrow> d | None \<Rightarrow> (case sa_Input args of Some i \<Rightarrow> i | None \<Rightarrow> [])) = []
        then Fail (Errorf ''contract creation without any data provided'')
        else Ret args)"

text \<open>A nil amount or price is zero to the constructors of go-ethereum.\<close>

definition toTransaction ::
  "('db, 'sd, 'ks, 'x) backend_scheme \<Rightarrow> send_tx_args \<Rightarrow> tx outcome" where
  "toTransaction X args =
     (let input = (case sa_Data args of Some d \<Rightarrow> d | None \<Rightarrow> (case sa_Input args of Some i \<Rightarrow> i | None \<Rightarrow> []));
          v = (case sa_Value args of Some v \<Rightarrow> v | None \<Rightarrow> 0);
          price = (case sa_GasPrice args of Some p \<Rightarrow> p | None \<Rightarrow> 0)
      in case (deref (sa_Nonce args), deref (sa_Gas args)) of
           (Ret nonce, Ret gas) \<Rightarrow>
             Ret (case sa_To args of
                    None \<Rightarrow> NewContractCreation X nonce v gas price input
                  | Some to \<Rightarrow> NewTransaction X nonce to v gas price input)
         | _ \<Rightarrow> Panic)"

text \<open>\<^verbatim>\<open>submitTransaction\<close> sends the JSON form of the transaction.\<close>

definition submitTransaction ::
  "('db, 'sd, 'ks, 'w, 'x) web3_scheme \<Rightarrow> ('db, 'sd, 'ks) service \<Rightarrow> tx
   \<Rightarrow> ('db, 'sd, 'ks) service \<times> hash outcome" where
  "submitTransaction X m t =
     (let signer = MakeSigner X (sv_chainConfig m) (GetBlockIndex (sv_state m));
          sender = (if tx_To t = None then Sender X signer t else Ret 0)
      in case sender of
           Fail e \<Rightarrow> (m, Fail e)
         | Panic \<Rightarrow> (m, Panic)
         | Ret _ \<Rightarrow>
             (case MarshalJSON_tx X t of
                Fail e \<Rightarrow> (m, Fail e)
              | Panic \<Rightarrow> (m, Panic)
              | Ret raw \<Rightarrow> (submit m raw, Ret (tx_Hash X t))))"

text \<open>\<^verbatim>\<open>SignTransactionResult\<close>: the encoding and the transaction.\<close>

type_synonym sign_transaction_result = "bytes \<times> tx"

definition check_specified :: "send_tx_args \<Rightarrow> error option" where
  "check_specified args =
     (if sa_Gas args = None then Some (Errorf ''gas not specified'')
      else if sa_GasPrice args = None then Some (Errorf ''gasPrice not specified'')
      else if sa_Nonce args = None then Some (Errorf ''nonce not specified'')
      else None)"

definition private_signTransaction ::
  "('db, 'sd, 'ks, 'w, 'x) web3_scheme \<Rightarrow> ('db, 'sd, 'ks) service \<Rightarrow> send_tx_args \<Rightarrow> string \<Rightarrow> tx outcome" where
  "private_signTransaction X m args passwd =
     (case fetchKeystore m of
        Fail e \<Rightarrow> Fail e
      | Panic \<Rightarrow> Panic
      | Ret ks \<Rightarrow>
          (case am_Find X ks (account_of (sa_From args)) of
             Fail e \<Rightarrow> Fail e
           | Panic \<Rightarrow> Panic
           | Ret w \<Rightarrow>
               (case setDefaults args of
                  Fail e \<Rightarrow> Fail e
                | Panic \<Rightarrow> Panic
                | Ret args \<Rightarrow>
                    (case toTransaction X args of
                       Fail e \<Rightarrow> Fail e
                     | Panic \<Rightarrow> Panic
                     | Ret t \<Rightarrow> wallet_SignTxWithPassphrase X ks w (account_of (sa_From args)) passwd t
                         (cc_ChainID (sv_chainConfig m))))))"

text \<open>
  The nonce lock around signing and submitting: \<open>None\<close> is a thread that waits for the lock;
  the deferred \<^verbatim>\<open>UnlockAddr\<close> also runs when the body panics.
\<close>

definition with_nonce_lock ::
  "addr_locker \<Rightarrow> thread \<Rightarrow> send_tx_args \<Rightarrow> ('db, 'sd, 'ks) service \<times> hash outcome
   \<Rightarrow> (('db, 'sd, 'ks) service \<times> addr_locker \<times> hash outcome) option" where
  "with_nonce_lock l t args body =
     (if sa_Nonce args \<noteq> None then Some (fst body, l, snd body)
      else case LockAddr l t (sa_From args) of
             None \<Rightarrow> None
           | Some l1 \<Rightarrow>
               Some (case UnlockAddr l1 (sa_From args) of
                       Ret l2 \<Rightarrow> (fst body, l2, snd body)
                     | _ \<Rightarrow> (fst body, l1, Panic)))"

definition private_SendTransaction ::
  "('db, 'sd, 'ks, 'w, 'x) web3_scheme \<Rightarrow> addr_locker \<Rightarrow> thread \<Rightarrow> ('db, 'sd, 'ks) service \<Rightarrow> send_tx_args \<Rightarrow> string
   \<Rightarrow> (('db, 'sd, 'ks) service \<times> addr_locker \<times> hash outcome) option" where
  "private_SendTransaction X l t m args passwd =
     with_nonce_lock l t args
       (case private_signTransaction X m args passwd of
          Fail e \<Rightarrow> (m, Fail e)
        | Panic \<Rightarrow> (m, Panic)
        | Ret signedTx \<Rightarrow> submitTransaction X m signedTx)"

definition SignAndSendTransaction ::
  "('db, 'sd, 'ks, 'w, 'x) web3_scheme \<Rightarrow> addr_locker \<Rightarrow> thread \<Rightarrow> ('db, 'sd, 'ks) service \<Rightarrow> send_tx_args \<Rightarrow> string
   \<Rightarrow> (('db, 'sd, 'ks) service \<times> addr_locker \<times> hash outcome) option" where
  "SignAndSendTransaction = private_SendTransaction"

definition private_SignTransaction ::
  "('db, 'sd, 'ks, 'w, 'x) web3_scheme \<Rightarrow> ('db, 'sd, 'ks) service \<Rightarrow> send_tx_args \<Rightarrow> string
   \<Rightarrow> sign_transaction_result outcome" where
  "private_SignTransaction X m args passwd =
     (case check_specified args of
        Some e \<Rightarrow> Fail e
      | None \<Rightarrow>
          (case private_signTransaction X m args passwd of
             Fail e \<Rightarrow> Fail e
           | Panic \<Rightarrow> Panic
           | Ret signedTx \<Rightarrow>
               (case rlp_Encode_tx X signedTx of
                  Fail e \<Rightarrow> Fail e
                | Panic \<Rightarrow> Panic
                | Ret b \<Rightarrow> Ret (b, signedTx))))"

text \<open>The public variants, which need an unlocked account instead of its password.\<close>

definition public_sign ::
  "('db, 'sd, 'ks, 'w, 'x) web3_scheme \<Rightarrow> ('db, 'sd, 'ks) service \<Rightarrow> address \<Rightarrow> tx \<Rightarrow> tx outcome" where
  "public_sign X m addr t =
     (case fetchKeystore m of
        Fail e \<Rightarrow> Fail e
      | Panic \<Rightarrow> Panic
      | Ret ks \<Rightarrow>
          (case am_Find X ks (account_of addr) of
             Fail e \<Rightarrow> Fail e
           | Panic \<Rightarrow> Panic
           | Ret w \<Rightarrow> wallet_SignTx X ks w (account_of addr) t (cc_ChainID (sv_chainConfig m))))"

definition public_SendTransaction ::
  "('db, 'sd, 'ks, 'w, 'x) web3_scheme \<Rightarrow> addr_locker \<Rightarrow> thread \<Rightarrow> ('db, 'sd, 'ks) service \<Rightarrow> send_tx_args
   \<Rightarrow> (('db, 'sd, 'ks) service \<times> addr_locker \<times> hash outcome) option" where
  "public_SendTransaction X l t m args =
     (case fetchKeystore m of
        Fail e \<Rightarrow> Some (m, l, Fail e)
      | Panic \<Rightarrow> Some (m, l, Panic)
      | Ret ks \<Rightarrow>
          (case am_Find X ks (account_of (sa_From args)) of
             Fail e \<Rightarrow> Some (m, l, Fail e)
           | Panic \<Rightarrow> Some (m, l, Panic)
           | Ret w \<Rightarrow> with_nonce_lock l t args
               (case setDefaults args of
                  Fail e \<Rightarrow> (m, Fail e)
                | Panic \<Rightarrow> (m, Panic)
                | Ret args \<Rightarrow>
                    (case toTransaction X args of
                       Fail e \<Rightarrow> (m, Fail e)
                     | Panic \<Rightarrow> (m, Panic)
                     | Ret t \<Rightarrow>
                         (case wallet_SignTx X ks w (account_of (sa_From args)) t (cc_ChainID (sv_chainConfig m)) of
                            Fail e \<Rightarrow> (m, Fail e)
                          | Panic \<Rightarrow> (m, Panic)
                          | Ret signedTx \<Rightarrow> submitTransaction X m signedTx)))))"

definition SendRawTransaction ::
  "('db, 'sd, 'ks, 'w, 'x) web3_scheme \<Rightarrow> ('db, 'sd, 'ks) service \<Rightarrow> bytes
   \<Rightarrow> ('db, 'sd, 'ks) service \<times> hash outcome" where
  "SendRawTransaction X m encodedTx =
     (case rlp_DecodeBytes_tx X encodedTx of
        Fail e \<Rightarrow> (m, Fail e)
      | Panic \<Rightarrow> (m, Panic)
      | Ret t \<Rightarrow> submitTransaction X m t)"

definition public_SignTransaction ::
  "('db, 'sd, 'ks, 'w, 'x) web3_scheme \<Rightarrow> ('db, 'sd, 'ks) service \<Rightarrow> send_tx_args
   \<Rightarrow> sign_transaction_result outcome" where
  "public_SignTransaction X m args =
     (case check_specified args of
        Some e \<Rightarrow> Fail e
      | None \<Rightarrow>
          (case setDefaults args of
             Fail e \<Rightarrow> Fail e
           | Panic \<Rightarrow> Panic
           | Ret args \<Rightarrow>
               (case toTransaction X args of
                  Fail e \<Rightarrow> Fail e
                | Panic \<Rightarrow> Panic
                | Ret t \<Rightarrow>
                    (case public_sign X m (sa_From args) t of
                       Fail e \<Rightarrow> Fail e
                     | Panic \<Rightarrow> Panic
                     | Ret signedTx \<Rightarrow>
                         (case rlp_Encode_tx X signedTx of
                            Fail e \<Rightarrow> Fail e
                          | Panic \<Rightarrow> Panic
                          | Ret b \<Rightarrow> Ret (b, signedTx))))))"

section \<open>Signatures over messages\<close>

definition signHash :: "('db, 'sd, 'ks, 'w, 'x) web3_scheme \<Rightarrow> bytes \<Rightarrow> bytes" where
  "signHash X dat = Keccak256 X
     (str_bytes (CHR 0x19 # ''Ethereum Signed Message:'' @ CHR 0x0A # sprintf_d (int (length dat))) @ dat)"

text \<open>\<^verbatim>\<open>signature[64] += 27\<close> on a byte, and its inverse; an index out of range panics.\<close>

definition add_V :: "8 word \<Rightarrow> bytes \<Rightarrow> bytes outcome" where
  "add_V k sig = (if 64 < length sig then Ret (sig[64 := sig ! 64 + k]) else Panic)"

definition private_Sign ::
  "('db, 'sd, 'ks, 'w, 'x) web3_scheme \<Rightarrow> ('db, 'sd, 'ks) service \<Rightarrow> bytes \<Rightarrow> address \<Rightarrow> string \<Rightarrow> bytes outcome" where
  "private_Sign X m dat addr passwd =
     (case fetchKeystore m of
        Fail e \<Rightarrow> Fail e
      | Panic \<Rightarrow> Panic
      | Ret ks \<Rightarrow>
          (case am_Find X ks (account_of addr) of
             Fail e \<Rightarrow> Fail e
           | Panic \<Rightarrow> Panic
           | Ret w \<Rightarrow>
               (case wallet_SignHashWithPassphrase X ks w (account_of addr) passwd (signHash X dat) of
                  Fail e \<Rightarrow> Fail e
                | Panic \<Rightarrow> Panic
                | Ret sig \<Rightarrow> add_V 27 sig)))"

definition public_Sign ::
  "('db, 'sd, 'ks, 'w, 'x) web3_scheme \<Rightarrow> ('db, 'sd, 'ks) service \<Rightarrow> address \<Rightarrow> bytes \<Rightarrow> bytes outcome" where
  "public_Sign X m addr dat =
     (case fetchKeystore m of
        Fail e \<Rightarrow> Fail e
      | Panic \<Rightarrow> Panic
      | Ret ks \<Rightarrow>
          (case am_Find X ks (account_of addr) of
             Fail e \<Rightarrow> Fail e
           | Panic \<Rightarrow> Panic
           | Ret w \<Rightarrow>
               (case wallet_SignHash X ks w (account_of addr) (signHash X dat) of
                  Fail e \<Rightarrow> Fail e
                | Panic \<Rightarrow> Panic
                | Ret sig \<Rightarrow> add_V 27 sig)))"

definition EcRecover :: "('db, 'sd, 'ks, 'w, 'x) web3_scheme \<Rightarrow> bytes \<Rightarrow> bytes \<Rightarrow> address outcome" where
  "EcRecover X dat sig =
     (if length sig \<noteq> 65 then Fail (Errorf ''signature must be 65 bytes long'')
      else if sig ! 64 \<noteq> 27 \<and> sig ! 64 \<noteq> 28
      then Fail (Errorf ''invalid Ethereum signature (V is not 27 or 28)'')
      else case SigToPub X (signHash X dat) (sig[64 := sig ! 64 - 27]) of
             Fail e \<Rightarrow> Fail e
           | Panic \<Rightarrow> Panic
           | Ret rpk \<Rightarrow> Ret (PubkeyToAddress X rpk))"

end
