(* ===== verification/Web3Format.thy ===== *)
theory Web3Format
  imports Web3Account
begin

text \<open>
  The reading part of \<^verbatim>\<open>src/service/web3_account_api.go\<close> that is implemented: the RPC form of
  transactions, blocks and EVM traces, the head of the chain and balances.  The methods whose bodies
  are commented out and return a constant are in \<open>Web3Api\<close>.
\<close>

section \<open>Hexadecimal printing\<close>

definition hex_digit :: "nat \<Rightarrow> char" where
  "hex_digit n = char_of (if n < 10 then 48 + n else 87 + n)"

definition hex_byte :: "8 word \<Rightarrow> string" where
  "hex_byte b = [hex_digit (unat b div 16), hex_digit (unat b mod 16)]"

text \<open>\<^verbatim>\<open>%x\<close> of a byte slice.\<close>

definition sprintf_x :: "bytes \<Rightarrow> string" where
  "sprintf_x bs = concat (map hex_byte bs)"

section \<open>EVM traces\<close>

record struct_log =              \<comment> \<open>\<^verbatim>\<open>vm.StructLog\<close>, the fields that are read\<close>
  sl_Pc :: u64
  sl_Op :: "8 word"
  sl_Gas :: u64
  sl_GasCost :: u64
  sl_Depth :: int
  sl_Err :: "error option"
  sl_Stack :: "int list option"
  sl_Memory :: "bytes option"
  sl_Storage :: "(hash \<times> hash) list option"

record struct_log_res =          \<comment> \<open>\<^verbatim>\<open>StructLogRes\<close>\<close>
  sr_Pc :: u64
  sr_Op :: string
  sr_Gas :: u64
  sr_GasCost :: u64
  sr_Depth :: int
  sr_Error :: "error option"
  sr_Stack :: "string list option"
  sr_Memory :: "string list option"
  sr_Storage :: "(string \<times> string) list option"

text \<open>The loop \<^verbatim>\<open>for i := 0; i+32 <= len(mem); i += 32\<close>.\<close>

function memory_words :: "bytes \<Rightarrow> nat \<Rightarrow> string list" where
  "memory_words mem i =
     (if i + 32 \<le> length mem then sprintf_x (take 32 (drop i mem)) # memory_words mem (i + 32) else [])"
  by pat_completeness auto
termination
  by (relation "measure (\<lambda>(mem, i). length mem - i)") auto

declare memory_words.simps [simp del]

definition FormatLogs :: "('db, 'sd, 'ks, 'w, 'x) web3_scheme \<Rightarrow> struct_log list \<Rightarrow> struct_log_res list" where
  "FormatLogs X logs =
     map (\<lambda>trace. \<lparr>sr_Pc = sl_Pc trace, sr_Op = op_String X (sl_Op trace), sr_Gas = sl_Gas trace,
       sr_GasCost = sl_GasCost trace, sr_Depth = sl_Depth trace, sr_Error = sl_Err trace,
       sr_Stack = map_option (map (\<lambda>v. sprintf_x (PaddedBigBytes X v 32))) (sl_Stack trace),
       sr_Memory = map_option (\<lambda>mem. memory_words mem 0) (sl_Memory trace),
       sr_Storage = map_option (map (\<lambda>(i, v). (sprintf_x (hash_bytes i), sprintf_x (hash_bytes v)))) (sl_Storage trace)\<rparr>)
     logs"

section \<open>Transactions\<close>

record rpc_transaction =
  rt_BlockHash :: hash
  rt_BlockNumber :: "int option"
  rt_From :: address
  rt_Gas :: u64
  rt_GasPrice :: int
  rt_Hash :: hash
  rt_Input :: bytes
  rt_Nonce :: u64
  rt_To :: "address option"
  rt_TransactionIndex :: u64
  rt_Value :: int
  rt_V :: int
  rt_R :: int
  rt_S :: int

text \<open>An error of \<^verbatim>\<open>Sender\<close> is dropped and leaves the zero address.\<close>

definition newRPCTransaction ::
  "('db, 'sd, 'ks, 'w, 'x) web3_scheme \<Rightarrow> tx \<Rightarrow> hash \<Rightarrow> u64 \<Rightarrow> u64 \<Rightarrow> rpc_transaction outcome" where
  "newRPCTransaction X t blockHash blockNumber index =
     (let signer = (if tx_Protected X t then EIP155Signer (tx_ChainId X t) else FrontierSigner)
      in case Sender X signer t of
           Panic \<Rightarrow> Panic
         | res \<Rightarrow>
             let from = (case res of Ret a \<Rightarrow> a | _ \<Rightarrow> 0);
                 result = \<lparr>rt_BlockHash = 0, rt_BlockNumber = None, rt_From = from, rt_Gas = tx_Gas t,
                   rt_GasPrice = tx_GasPrice t, rt_Hash = tx_Hash X t, rt_Input = tx_Data t, rt_Nonce = tx_Nonce t,
                   rt_To = tx_To t, rt_TransactionIndex = 0, rt_Value = tx_Value t, rt_V = tx_V t, rt_R = tx_R t,
                   rt_S = tx_S t\<rparr>
             in Ret (if blockHash \<noteq> 0
                     then result\<lparr>rt_BlockHash := blockHash, rt_BlockNumber := Some (uint blockNumber),
                       rt_TransactionIndex := index\<rparr>
                     else result))"

definition newRPCPendingTransaction ::
  "('db, 'sd, 'ks, 'w, 'x) web3_scheme \<Rightarrow> tx \<Rightarrow> rpc_transaction outcome" where
  "newRPCPendingTransaction X t = newRPCTransaction X t 0 0 0"

section \<open>Blocks\<close>

record header =                  \<comment> \<open>\<^verbatim>\<open>types.Header\<close>\<close>
  hd_Number :: int
  hd_ParentHash :: hash
  hd_Nonce :: u64
  hd_MixDigest :: hash
  hd_UncleHash :: hash
  hd_Bloom :: bloom
  hd_Root :: hash
  hd_Coinbase :: address
  hd_Difficulty :: int
  hd_Extra :: bytes
  hd_GasLimit :: u64
  hd_GasUsed :: u64
  hd_Time :: int
  hd_TxHash :: hash
  hd_ReceiptHash :: hash

record eth_block =               \<comment> \<open>\<^verbatim>\<open>types.Block\<close>, by its accessors\<close>
  eb_Header :: header
  eb_Hash :: hash
  eb_Size :: u64
  eb_Transactions :: "tx list"
  eb_Uncles :: "hash list"       \<comment> \<open>the hashes of the uncle headers\<close>

definition newRPCTransactionFromBlockIndex ::
  "('db, 'sd, 'ks, 'w, 'x) web3_scheme \<Rightarrow> eth_block \<Rightarrow> nat \<Rightarrow> rpc_transaction option outcome" where
  "newRPCTransactionFromBlockIndex X b index =
     (let txs = eb_Transactions b in
      if length txs \<le> index then Ret None
      else case newRPCTransaction X (txs ! index) (eb_Hash b) (big_Uint64 (hd_Number (eb_Header b))) (of_nat index) of
             Ret r \<Rightarrow> Ret (Some r)
           | Fail e \<Rightarrow> Fail e
           | Panic \<Rightarrow> Panic)"

text \<open>An encoding error is dropped.\<close>

definition newRPCRawTransactionFromBlockIndex ::
  "('db, 'sd, 'ks, 'w, 'x) web3_scheme \<Rightarrow> eth_block \<Rightarrow> nat \<Rightarrow> bytes outcome" where
  "newRPCRawTransactionFromBlockIndex X b index =
     (let txs = eb_Transactions b in
      if length txs \<le> index then Ret []
      else case rlp_Encode_tx X (txs ! index) of Ret blob \<Rightarrow> Ret blob | Fail _ \<Rightarrow> Ret [] | Panic \<Rightarrow> Panic)"

fun index_of_hash :: "('db, 'sd, 'ks, 'w, 'x) web3_scheme \<Rightarrow> hash \<Rightarrow> nat \<Rightarrow> tx list \<Rightarrow> nat option" where
  "index_of_hash X h idx [] = None"
| "index_of_hash X h idx (t # ts) = (if tx_Hash X t = h then Some idx else index_of_hash X h (idx + 1) ts)"

definition newRPCTransactionFromBlockHash ::
  "('db, 'sd, 'ks, 'w, 'x) web3_scheme \<Rightarrow> eth_block \<Rightarrow> hash \<Rightarrow> rpc_transaction option outcome" where
  "newRPCTransactionFromBlockHash X b h =
     (case index_of_hash X h 0 (eb_Transactions b) of
        Some idx \<Rightarrow> newRPCTransactionFromBlockIndex X b idx
      | None \<Rightarrow> Ret None)"

datatype rpc_tx_entry = HashEntry hash | TxEntry "rpc_transaction option"

record rpc_block =               \<comment> \<open>the map \<^verbatim>\<open>RPCMarshalBlock\<close> fills\<close>
  rb_Header :: header
  rb_hash :: hash
  rb_size :: u64
  rb_transactions :: "rpc_tx_entry list option"
  rb_uncles :: "hash list"

definition formatTx ::
  "('db, 'sd, 'ks, 'w, 'x) web3_scheme \<Rightarrow> eth_block \<Rightarrow> bool \<Rightarrow> tx \<Rightarrow> rpc_tx_entry outcome" where
  "formatTx X b fullTx t =
     (if fullTx
      then case newRPCTransactionFromBlockHash X b (tx_Hash X t) of
             Ret r \<Rightarrow> Ret (TxEntry r) | Fail e \<Rightarrow> Fail e | Panic \<Rightarrow> Panic
      else Ret (HashEntry (tx_Hash X t)))"

fun format_txs :: "(tx \<Rightarrow> rpc_tx_entry outcome) \<Rightarrow> tx list \<Rightarrow> rpc_tx_entry list outcome" where
  "format_txs f [] = Ret []"
| "format_txs f (t # ts) =
     (case f t of
        Fail e \<Rightarrow> Fail e
      | Panic \<Rightarrow> Panic
      | Ret r \<Rightarrow> (case format_txs f ts of Ret rs \<Rightarrow> Ret (r # rs) | Fail e \<Rightarrow> Fail e | Panic \<Rightarrow> Panic))"

definition RPCMarshalBlock ::
  "('db, 'sd, 'ks, 'w, 'x) web3_scheme \<Rightarrow> eth_block \<Rightarrow> bool \<Rightarrow> bool \<Rightarrow> rpc_block outcome" where
  "RPCMarshalBlock X b inclTx fullTx =
     (let fields = \<lparr>rb_Header = eb_Header b, rb_hash = eb_Hash b, rb_size = eb_Size b, rb_transactions = None,
        rb_uncles = eb_Uncles b\<rparr>
      in if \<not> inclTx then Ret fields
         else case format_txs (formatTx X b fullTx) (eb_Transactions b) of
                Fail e \<Rightarrow> Fail e
              | Panic \<Rightarrow> Panic
              | Ret rs \<Rightarrow> Ret (fields\<lparr>rb_transactions := Some rs\<rparr>))"

section \<open>The chain\<close>

definition BlockNumber :: "('db, 'sd, 'ks) service \<Rightarrow> u64" where
  "BlockNumber m = word_of_int (GetBlockIndex (sv_state m))"

definition rpc_GetBalance ::
  "('db, 'sd, 'ks, 'x) backend_scheme \<Rightarrow> ('db, 'sd, 'ks) service \<Rightarrow> address \<Rightarrow> int \<Rightarrow> int outcome" where
  "rpc_GetBalance X m addr blockNr = Ret (GetBalance X (sv_state m) addr)"

end
