(* ===== verification/Web3Chain.thy ===== *)
theory Web3Chain
  imports Web3Format DemoService
begin

text \<open>
  The chain part of the JSON-RPC API (\<^verbatim>\<open>src/service/web3_chain_api.go\<close>): the one routine whose
  body is not commented out, \<^verbatim>\<open>storageRangeAt\<close>, which reads one page of a contract's storage.  The
  trie is go-ethereum's: \<open>st_Entries start\<close> is what \<^verbatim>\<open>trie.NewIterator(st.NodeIterator(start))\<close>
  runs through, in order, and an iterator is the list of the entries it has not yet given;
  \<^verbatim>\<open>Next\<close> says whether one is left and takes it.
\<close>

section \<open>A page of storage\<close>

record storage_entry =           \<comment> \<open>\<^verbatim>\<open>storageEntry\<close>\<close>
  se_Key :: "hash option"
  se_Value :: hash

type_synonym storage_map = "hash \<rightharpoonup> storage_entry"

record storage_range_result =    \<comment> \<open>\<^verbatim>\<open>StorageRangeResult\<close>\<close>
  sr_storage :: storage_map
  sr_NextKey :: "hash option"

record storage_trie =
  st_Entries :: "bytes \<Rightarrow> (bytes \<times> bytes) list"
  st_GetKey :: "bytes \<Rightarrow> bytes option"
  rlp_Split :: "bytes \<Rightarrow> bytes outcome"      \<comment> \<open>the content; \<open>Fail\<close> for no RLP value\<close>

definition storage_entry_of ::
  "('db, 'sd, 'x) geth_scheme \<Rightarrow> storage_trie \<Rightarrow> bytes \<Rightarrow> bytes \<Rightarrow> storage_entry" where
  "storage_entry_of X T key content =
     \<lparr>se_Key = map_option (BytesToHash X) (st_GetKey T key), se_Value = BytesToHash X content\<rparr>"

text \<open>
  The loop \<^verbatim>\<open>for i := 0; i < maxResult && it.Next(); i++\<close>: the result filled so far, and the
  iterator where the loop leaves it.
\<close>

fun range_loop ::
  "('db, 'sd, 'x) geth_scheme \<Rightarrow> storage_trie \<Rightarrow> int \<Rightarrow> int \<Rightarrow> (bytes \<times> bytes) list \<Rightarrow> storage_map
   \<Rightarrow> (storage_map \<times> (bytes \<times> bytes) list) outcome" where
  "range_loop X T maxResult i [] storage = Ret (storage, [])"
| "range_loop X T maxResult i ((key, value) # it) storage =
     (if i < maxResult
      then case rlp_Split T value of
             Fail e \<Rightarrow> Fail e
           | Panic \<Rightarrow> Panic
           | Ret content \<Rightarrow>
               range_loop X T maxResult (i + 1) it (storage(BytesToHash X key \<mapsto> storage_entry_of X T key content))
      else Ret (storage, (key, value) # it))"

definition storageRangeAt ::
  "('db, 'sd, 'x) geth_scheme \<Rightarrow> storage_trie \<Rightarrow> bytes \<Rightarrow> int \<Rightarrow> storage_range_result outcome" where
  "storageRangeAt X T start maxResult =
     (case range_loop X T maxResult 0 (st_Entries T start) Map.empty of
        Fail e \<Rightarrow> Fail e
      | Panic \<Rightarrow> Panic
      | Ret (storage, it) \<Rightarrow>
          Ret \<lparr>sr_storage = storage,
               sr_NextKey = (case it of [] \<Rightarrow> None | (key, value) # _ \<Rightarrow> Some (BytesToHash X key))\<rparr>)"

section \<open>Pages\<close>

text \<open>What the entries of a list add to a map, if every value is an RLP value.\<close>

fun add_entries ::
  "('db, 'sd, 'x) geth_scheme \<Rightarrow> storage_trie \<Rightarrow> (bytes \<times> bytes) list \<Rightarrow> storage_map \<Rightarrow> storage_map outcome" where
  "add_entries X T [] storage = Ret storage"
| "add_entries X T ((key, value) # es) storage =
     (case rlp_Split T value of
        Fail e \<Rightarrow> Fail e
      | Panic \<Rightarrow> Panic
      | Ret content \<Rightarrow> add_entries X T es (storage(BytesToHash X key \<mapsto> storage_entry_of X T key content)))"

lemma range_loop_eq:
  "range_loop X T maxResult i es storage =
     (case add_entries X T (take (nat (maxResult - i)) es) storage of
        Ret s \<Rightarrow> Ret (s, drop (nat (maxResult - i)) es)
      | Fail e \<Rightarrow> Fail e
      | Panic \<Rightarrow> Panic)"
proof (induction X T maxResult i es storage rule: range_loop.induct)
  case (2 X T maxResult i key v it storage)
  show ?case
  proof (cases "i < maxResult")
    case True
    then have "nat (maxResult - i) = Suc (nat (maxResult - (i + 1)))" by simp
    with 2 True show ?thesis by (auto split: outcome.split simp del: fun_upd_apply)
  qed simp
qed simp

lemma add_entries_append:
  "add_entries X T (es @ fs) s =
     (case add_entries X T es s of Ret s' \<Rightarrow> add_entries X T fs s' | Fail e \<Rightarrow> Fail e | Panic \<Rightarrow> Panic)"
proof (induction es arbitrary: s)
  case (Cons e es)
  then show ?case by (cases e; cases "rlp_Split T (snd e)") (simp_all del: fun_upd_apply)
qed simp

lemma add_entries_start:
  "add_entries X T es s = (case add_entries X T es Map.empty of Ret s' \<Rightarrow> Ret (s ++ s') | Fail e \<Rightarrow> Fail e | Panic \<Rightarrow> Panic)"
proof (induction es rule: rev_induct)
  case (snoc e es)
  then show ?case by (cases e) (auto simp: add_entries_append split: outcome.split simp del: fun_upd_apply)
qed simp

lemma add_entries_dom:
  assumes "add_entries X T es Map.empty = Ret s"
  shows "dom s = BytesToHash X ` fst ` set es"
proof -
  have "add_entries X T es s0 = Ret s \<Longrightarrow> dom s = dom s0 \<union> BytesToHash X ` fst ` set es" for s0
  proof (induction es arbitrary: s0)
    case (Cons e es)
    then show ?case by (cases e; cases "rlp_Split T (snd e)") force+
  qed simp
  from this[OF assms] show ?thesis by simp
qed

lemma storageRangeAt_eq:
  "storageRangeAt X T start n =
     (case add_entries X T (take (nat n) (st_Entries T start)) Map.empty of
        Ret s \<Rightarrow> Ret \<lparr>sr_storage = s, sr_NextKey =
          (case drop (nat n) (st_Entries T start) of [] \<Rightarrow> None | e # _ \<Rightarrow> Some (BytesToHash X (fst e)))\<rparr>
      | Fail e \<Rightarrow> Fail e
      | Panic \<Rightarrow> Panic)"
  by (auto simp: storageRangeAt_def range_loop_eq split: outcome.split list.split)

text \<open>
  The contract of the iterator: an iterator started at the key of an entry gives that entry and
  those after it.
\<close>

definition iterator_ok :: "('db, 'sd, 'x) geth_scheme \<Rightarrow> storage_trie \<Rightarrow> bool" where
  "iterator_ok X T \<longleftrightarrow> (\<forall>start es key value fs. st_Entries T start = es @ (key, value) # fs \<longrightarrow>
     st_Entries T (hash_bytes (BytesToHash X key)) = (key, value) # fs)"

text \<open>
  Pages of a contract's storage compose: a page of \<open>m\<close> entries that ends with a next key,
  followed by a page of \<open>n\<close> entries from that key, is the page of \<open>m + n\<close> entries; and a page without
  a next key is the whole rest of the storage.
\<close>

theorem storageRangeAt_pages:
  assumes "iterator_ok X T" "0 \<le> m" "0 \<le> n" "storageRangeAt X T start m = Ret r"
  shows "(\<forall>key. sr_NextKey r = Some key \<longrightarrow>
            storageRangeAt X T start (m + n) =
              (case storageRangeAt X T (hash_bytes key) n of
                 Ret r' \<Rightarrow> Ret (r'\<lparr>sr_storage := sr_storage r ++ sr_storage r'\<rparr>)
               | Fail e \<Rightarrow> Fail e
               | Panic \<Rightarrow> Panic)) \<and>
         (sr_NextKey r = None \<longrightarrow> dom (sr_storage r) = BytesToHash X ` fst ` set (st_Entries T start))"
proof (intro conjI allI impI)
  let ?es = "st_Entries T start"
  obtain s where s: "add_entries X T (take (nat m) ?es) Map.empty = Ret s" "sr_storage r = s"
    "sr_NextKey r = (case drop (nat m) ?es of [] \<Rightarrow> None | e # _ \<Rightarrow> Some (BytesToHash X (fst e)))"
    using assms(4) by (auto simp: storageRangeAt_eq split: outcome.splits)
  {
    fix key assume "sr_NextKey r = Some key"
    then obtain k v fs where d: "drop (nat m) ?es = (k, v) # fs" "key = BytesToHash X k"
      using s(3) by (auto split: list.splits)
    have "?es = take (nat m) ?es @ (k, v) # fs" using d(1) by (metis append_take_drop_id)
    then have rest: "st_Entries T (hash_bytes key) = drop (nat m) ?es"
      using assms(1) d unfolding iterator_ok_def by metis
    have split: "nat (m + n) = nat m + nat n" using assms(2,3) by simp
    have "take (nat (m + n)) ?es = take (nat m) ?es @ take (nat n) (drop (nat m) ?es)"
      "drop (nat (m + n)) ?es = drop (nat n) (drop (nat m) ?es)"
      by (simp_all add: split take_add add.commute)
    then show "storageRangeAt X T start (m + n) =
              (case storageRangeAt X T (hash_bytes key) n of
                 Ret r' \<Rightarrow> Ret (r'\<lparr>sr_storage := sr_storage r ++ sr_storage r'\<rparr>)
               | Fail e \<Rightarrow> Fail e
               | Panic \<Rightarrow> Panic)"
      using s(1,2) add_entries_start[of X T "take (nat n) (drop (nat m) ?es)" s]
      by (simp add: storageRangeAt_eq rest add_entries_append split: outcome.split)
  }
  assume "sr_NextKey r = None"
  then have "take (nat m) ?es = ?es" using s(3) by (simp split: list.splits)
  with s(1,2) show "dom (sr_storage r) = BytesToHash X ` fst ` set ?es" by (simp add: add_entries_dom)
qed

definition demo_trie :: storage_trie where
  "demo_trie = \<lparr>st_Entries = (\<lambda>start.
       if start = [] then [(hash_bytes 5, hash_bytes 70), (hash_bytes 9, hash_bytes 80)]
       else if start = hash_bytes 5 then [(hash_bytes 5, hash_bytes 70), (hash_bytes 9, hash_bytes 80)]
       else if start = hash_bytes 9 then [(hash_bytes 9, hash_bytes 80)] else []),
     st_GetKey = (\<lambda>key. None), rlp_Split = Ret\<rparr>"

lemma hash_bytes_not_Nil [simp]: "hash_bytes h \<noteq> []"
  by (metis length_hash_bytes list.size(3) zero_neq_numeral)

lemma demo_trie_iterator_ok: "iterator_ok demo demo_trie"
  unfolding iterator_ok_def demo_trie_def
  by (auto simp: Cons_eq_append_conv split: if_splits)

theorem storageRangeAt_pages_witness:
  "storageRangeAt demo demo_trie [] 1 =
     Ret \<lparr>sr_storage = [5 \<mapsto> \<lparr>se_Key = None, se_Value = 70\<rparr>], sr_NextKey = Some 9\<rparr>
   \<and> storageRangeAt demo demo_trie [] (1 + 1) =
     Ret \<lparr>sr_storage = [5 \<mapsto> \<lparr>se_Key = None, se_Value = 70\<rparr>, 9 \<mapsto> \<lparr>se_Key = None, se_Value = 80\<rparr>],
       sr_NextKey = None\<rparr>"
proof -
  have page: "storageRangeAt demo demo_trie [] 1 =
     Ret \<lparr>sr_storage = [5 \<mapsto> \<lparr>se_Key = None, se_Value = 70\<rparr>], sr_NextKey = Some 9\<rparr>"
    "storageRangeAt demo demo_trie (hash_bytes 9) 1 =
     Ret \<lparr>sr_storage = [9 \<mapsto> \<lparr>se_Key = None, se_Value = 80\<rparr>], sr_NextKey = None\<rparr>"
    by (simp_all add: storageRangeAt_def demo_trie_def storage_entry_of_def)
  show ?thesis
    using storageRangeAt_pages[OF demo_trie_iterator_ok _ _ page(1), of 1] page by (simp add: fun_upd_twist)
qed

end
