(* ===== verification/DemoWeb3.thy ===== *)
theory DemoWeb3
  imports Web3Format DemoService
begin

text \<open>
  The concrete instance of the libraries extended to the JSON-RPC API: one wallet, that of the
  account 9, whose signatures of messages recover to 9, and transactions whose JSON text is
  \<open>{}\<close>.
\<close>

definition demo_SignHash :: "eth_account \<Rightarrow> bytes outcome" where
  "demo_SignHash acc =
     (if ea_Address acc = 9 then Ret (replicate 64 0 @ [1]) else Fail (LibError ''unknown account''))"

definition demo_web3 :: "(demo_db, demo_sd, eth_account list, address) web3" where
  "demo_web3 = backend.extend (backend.truncate demo_backend) \<lparr>
     am_Wallets = map ea_Address,
     am_Wallet = (\<lambda>ks url. Fail (LibError ''unknown wallet'')),
     am_Find = (\<lambda>ks acc. if ea_Address acc \<in> ea_Address ` set ks then Ret (ea_Address acc)
       else Fail (LibError ''unknown account'')),
     wallet_Accounts = (\<lambda>ks w. filter (\<lambda>a. ea_Address a = w) ks),
     wallet_Status = (\<lambda>_ _. (''Locked'', None)),
     wallet_URL = (\<lambda>_. ''keystore://9''),
     wallet_Open = (\<lambda>ks _ _. (ks, None)),
     wallet_Derive = (\<lambda>ks _ _ _. (ks, Fail (LibError ''not supported''))),
     wallet_SignTx = (\<lambda>_ _ acc t _. Ret (t\<lparr>tx_R := uint (ea_Address acc)\<rparr>)),
     wallet_SignTxWithPassphrase = (\<lambda>_ _ acc _ t _. Ret (t\<lparr>tx_R := uint (ea_Address acc)\<rparr>)),
     wallet_SignHash = (\<lambda>_ _ acc _. demo_SignHash acc),
     wallet_SignHashWithPassphrase = (\<lambda>_ _ acc _ _. demo_SignHash acc),
     ParseDerivationPath = (\<lambda>_. Ret []),
     ks_NewAccount = (\<lambda>ks _. (ks, Ret demo_account)),
     ks_ImportECDSA = (\<lambda>ks _ _. (ks, Ret demo_account)),
     ks_TimedUnlock = (\<lambda>ks _ _ _. (ks, None)),
     ks_Lock = (\<lambda>ks _. (ks, None)),
     HexToECDSA = (\<lambda>_. Fail (LibError ''invalid hex'')),
     Keccak256 = (\<lambda>b. b),
     SigToPub = (\<lambda>_ sig. Ret sig),
     PubkeyToAddress = (\<lambda>_. 9),
     MakeSigner = (\<lambda>_ _. EIP155Signer 1),
     MarshalJSON_tx = (\<lambda>_. Ret [123, 125]),
     tx_Protected = (\<lambda>t. True),
     tx_ChainId = (\<lambda>t. 1),
     op_String = (\<lambda>_. ''STOP''),
     PaddedBigBytes = (\<lambda>i n. replicate n 0)\<rparr>"

lemma demo_web3_backend [simp]:
  "backend.truncate demo_web3 = demo_backend"
  "geth.truncate demo_web3 = geth.truncate demo_backend"
  "rlp_Decode_tx demo_web3 = demo_decode_tx"
  "tx_Hash demo_web3 = tx_Hash demo"
  "Sender demo_web3 = (\<lambda>s t. if s = EIP155Signer 1 then Ret (word_of_int (tx_R t))
     else Fail (LibError ''invalid chain id for signer''))"
  "NewTransaction demo_web3 = (\<lambda>n to. demo_NewTransaction n (Some to))"
  by (simp_all add: demo_web3_def demo_backend_def demo_def backend.defs geth.defs)

lemma demo_web3_sel [simp]:
  "am_Wallets demo_web3 = map ea_Address"
  "am_Find demo_web3 = (\<lambda>ks acc. if ea_Address acc \<in> ea_Address ` set ks then Ret (ea_Address acc)
       else Fail (LibError ''unknown account''))"
  "wallet_Accounts demo_web3 = (\<lambda>ks w. filter (\<lambda>a. ea_Address a = w) ks)"
  "wallet_SignTx demo_web3 = (\<lambda>_ _ acc t _. Ret (t\<lparr>tx_R := uint (ea_Address acc)\<rparr>))"
  "wallet_SignTxWithPassphrase demo_web3 = (\<lambda>_ _ acc _ t _. Ret (t\<lparr>tx_R := uint (ea_Address acc)\<rparr>))"
  "wallet_SignHash demo_web3 = (\<lambda>_ _ acc _. demo_SignHash acc)"
  "wallet_SignHashWithPassphrase demo_web3 = (\<lambda>_ _ acc _ _. demo_SignHash acc)"
  "Keccak256 demo_web3 = (\<lambda>b. b)"
  "SigToPub demo_web3 = (\<lambda>_ sig. Ret sig)"
  "PubkeyToAddress demo_web3 = (\<lambda>_. 9)"
  "MakeSigner demo_web3 = (\<lambda>_ _. EIP155Signer 1)"
  "MarshalJSON_tx demo_web3 = (\<lambda>_. Ret [123, 125])"
  "tx_Protected demo_web3 = (\<lambda>t. True)"
  "tx_ChainId demo_web3 = (\<lambda>t. 1)"
  by (simp_all add: demo_web3_def backend.defs)

end
