(* ===== verification/Web3Spec.thy ===== *)
theory Web3Spec
  imports Web3Chain DemoWeb3 HandlerSpec
begin

text \<open>
  Properties of the account part of the JSON-RPC API: signatures over messages, the time an account
  stays unlocked, defaults, the fate of submitted transactions, the nonce lock, and the RPC form of
  blocks and traces.
\<close>

section \<open>Signatures\<close>

text \<open>
  The contract of wallets and of secp256k1 recovery: a signature by the account of an address has 65
  bytes, the last one the recovery id 0 or 1, and recovers to a key of that address.
\<close>

definition recovers :: "('db, 'sd, 'ks, 'w, 'x) web3_scheme \<Rightarrow> bytes \<Rightarrow> bytes \<Rightarrow> address \<Rightarrow> bool" where
  "recovers X h sig a \<longleftrightarrow> length sig = 65 \<and> (sig ! 64 = 0 \<or> sig ! 64 = 1) \<and>
     (\<exists>pk. SigToPub X h sig = Ret pk \<and> PubkeyToAddress X pk = a)"

definition wallets_ok :: "('db, 'sd, 'ks, 'w, 'x) web3_scheme \<Rightarrow> bool" where
  "wallets_ok X \<longleftrightarrow>
     (\<forall>ks w acc h sig. wallet_SignHash X ks w acc h = Ret sig \<longrightarrow> recovers X h sig (ea_Address acc)) \<and>
     (\<forall>ks w acc pw h sig. wallet_SignHashWithPassphrase X ks w acc pw h = Ret sig
        \<longrightarrow> recovers X h sig (ea_Address acc))"

lemma account_of_Address [simp]: "ea_Address (account_of a) = a"
  by (simp add: account_of_def)

lemma EcRecover_add_V:
  assumes "recovers X (signHash X dat) sig a" "add_V 27 sig = Ret sig'"
  shows "EcRecover X dat sig' = Ret a"
proof -
  have sig': "sig' = sig[64 := sig ! 64 + 27]" and len: "length sig = 65"
    using assms by (auto simp: add_V_def recovers_def)
  then have "sig'[64 := sig' ! 64 - 27] = sig" by simp
  with assms(1) sig' len show ?thesis by (auto simp: EcRecover_def recovers_def)
qed

lemma private_Sign_Ret:
  assumes "private_Sign X m dat addr passwd = Ret sig"
  obtains ks w raw where "wallet_SignHashWithPassphrase X ks w (account_of addr) passwd (signHash X dat) = Ret raw"
    "add_V 27 raw = Ret sig"
  using assms by (auto simp: private_Sign_def split: outcome.splits)

lemma public_Sign_Ret:
  assumes "public_Sign X m addr dat = Ret sig"
  obtains ks w raw where "wallet_SignHash X ks w (account_of addr) (signHash X dat) = Ret raw"
    "add_V 27 raw = Ret sig"
  using assms by (auto simp: public_Sign_def split: outcome.splits)

text \<open>
  C39. Signing and recovering are inverse: what \<^verbatim>\<open>personal_sign\<close> or \<^verbatim>\<open>eth_sign\<close> returns for an
  address and a message, \<^verbatim>\<open>personal_ecRecover\<close> maps with the message back to that address.
\<close>

theorem Sign_EcRecover:
  assumes "wallets_ok X" "private_Sign X m dat addr passwd = Ret sig \<or> public_Sign X m addr dat = Ret sig"
  shows "EcRecover X dat sig = Ret addr"
  using assms(2)
proof
  assume "private_Sign X m dat addr passwd = Ret sig"
  then show ?thesis
    by (rule private_Sign_Ret) (metis EcRecover_add_V account_of_Address assms(1) wallets_ok_def)
next
  assume "public_Sign X m addr dat = Ret sig"
  then show ?thesis
    by (rule public_Sign_Ret) (metis EcRecover_add_V account_of_Address assms(1) wallets_ok_def)
qed

lemma demo_served_fields [simp]:
  "fetchKeystore demo_served = Ret [demo_account]" "sv_chainConfig demo_served = \<lparr>cc_ChainID = Some 666\<rparr>"
  by (simp_all add: fetchKeystore_def demo_served_def demo_service_eq deref_def)

lemma demo_wallets_ok: "wallets_ok demo_web3"
proof -
  have "(replicate 64 (0 :: 8 word) @ [1]) ! 64 = 1" by (subst nth_append) simp
  then have "recovers demo_web3 h sig (ea_Address acc)" if "demo_SignHash acc = Ret sig" for acc h sig
    using that by (auto simp: recovers_def demo_SignHash_def split: if_splits)
  then show ?thesis by (simp add: wallets_ok_def)
qed

lemma demo_signs:
  "public_Sign demo_web3 demo_served 9 dat = Ret (replicate 64 0 @ [28])"
  by (simp add: public_Sign_def account_of_def demo_account_def demo_SignHash_def add_V_def nth_append list_update_append)

theorem Sign_EcRecover_witness:
  "EcRecover demo_web3 [104, 105] (replicate 64 0 @ [28]) = Ret 9"
  by (rule Sign_EcRecover[OF demo_wallets_ok disjI2[OF demo_signs]])

section \<open>Unlocking\<close>

lemma uint_max_unlock: "uint max_unlock = 9223372036"
  by (simp add: max_unlock_def)

lemma unlock_duration_Some:
  "unlock_duration (Some n) =
     (if uint n \<le> 9223372036 then Ret (n * nanoseconds) else Fail (Errorf ''unlock duration too large''))"
  by (simp add: unlock_duration_def word_less_def uint_max_unlock not_less)

lemma sint_nanoseconds:
  fixes n :: u64
  assumes "uint n \<le> 9223372036"
  shows "sint (n * nanoseconds) = uint n * 1000000000"
proof -
  have "uint n * 1000000000 < 9223372036854775808" "0 \<le> uint n * 1000000000" using assms by simp_all
  then have "signed_take_bit 63 (uint n * 1000000000) = uint n * 1000000000"
    by (intro signed_take_bit_int_eq_self order_trans[of "- (2 ^ 63)" 0 "uint n * 1000000000"]) simp_all
  moreover have "n * nanoseconds = word_of_int (uint n * 1000000000)" by (simp add: nanoseconds_def)
  ultimately show ?thesis by (simp only: signed_of_int) simp
qed

text \<open>
  C40. The time an account is unlocked never overflows.  Whatever duration a client asks for, up to
  9223372036 seconds the key store is asked to unlock the account at that address, with that password, for
  exactly that many seconds (five minutes when the client names none), in nanoseconds as a signed 64-bit number,
  and the answer is the key store's; any longer time is refused and the key store is not touched.
\<close>

theorem UnlockAccount_duration:
  assumes "fetchKeystore m = Ret ks" "secs = (case duration of None \<Rightarrow> 300 | Some n \<Rightarrow> uint n)"
  shows "if 9223372036 < secs
    then UnlockAccount X m addr password duration = (m, Fail (Errorf ''unlock duration too large''))
    else sint (word_of_int (secs * 1000000000) :: 64 word) = secs * 1000000000 \<and>
      UnlockAccount X m addr password duration =
        (case ks_TimedUnlock X ks \<lparr>ea_Address = addr, ea_URL = []\<rparr> password (word_of_int (secs * 1000000000)) of
           (ks', err) \<Rightarrow> (m\<lparr>sv_keyStore := Some ks'\<rparr>, case err of None \<Rightarrow> Ret True | Some e \<Rightarrow> Fail e))"
proof (cases duration)
  case None
  have "unlock_duration None = Ret (word_of_int (300 * 1000000000))" by (simp add: unlock_duration_def nanoseconds_def)
  with None show ?thesis
    by (simp add: assms UnlockAccount_def account_of_def split: prod.splits option.splits)
next
  case (Some n)
  have "n * nanoseconds = word_of_int (uint n * 1000000000)" by (simp add: nanoseconds_def)
  moreover from this sint_nanoseconds[of n]
  have "uint n \<le> 9223372036 \<Longrightarrow> sint (word_of_int (uint n * 1000000000) :: 64 word) = uint n * 1000000000"
    by (simp only:)
  ultimately show ?thesis
    using Some unlock_duration_Some[of n]
    by (simp add: assms UnlockAccount_def account_of_def not_less split: prod.splits option.splits)
qed

text \<open>A key store that writes down what it is asked: the account at the address of the duration.\<close>

theorem UnlockAccount_duration_witness:
  "(let X = demo_web3\<lparr>ks_TimedUnlock := (\<lambda>ks acc pwd d. (ks @ [\<lparr>ea_Address = word_of_int (sint d), ea_URL = pwd\<rparr>], None))\<rparr>
    in UnlockAccount X demo_served 9 ''pw'' (Some 9223372036) =
         (demo_served\<lparr>sv_keyStore := Some [demo_account, \<lparr>ea_Address = 9223372036000000000, ea_URL = ''pw''\<rparr>]\<rparr>, Ret True)
       \<and> UnlockAccount X demo_served 9 ''pw'' None =
         (demo_served\<lparr>sv_keyStore := Some [demo_account, \<lparr>ea_Address = 300000000000, ea_URL = ''pw''\<rparr>]\<rparr>, Ret True)
       \<and> UnlockAccount X demo_served 9 ''pw'' (Some 9223372037) =
         (demo_served, Fail (Errorf ''unlock duration too large'')))"
proof -
  let ?X = "demo_web3\<lparr>ks_TimedUnlock := (\<lambda>ks acc pwd d. (ks @ [\<lparr>ea_Address = word_of_int (sint d), ea_URL = pwd\<rparr>], None))\<rparr>"
  have ks: "fetchKeystore demo_served = Ret [demo_account]" by (simp add: fetchKeystore_def demo_served_def deref_def)
  have "uint (9223372037 :: u64) = 9223372037" "uint (9223372036 :: u64) = 9223372036" by simp_all
  then show ?thesis
    using UnlockAccount_duration[OF ks refl, of "Some 9223372037" ?X 9 "''pw''"]
      UnlockAccount_duration[OF ks refl, of "Some 9223372036" ?X 9 "''pw''"]
      UnlockAccount_duration[OF ks refl, of None ?X 9 "''pw''"]
    by (simp add: Let_def)
qed

section \<open>Defaults\<close>

definition with_defaults :: "send_tx_args \<Rightarrow> send_tx_args" where
  "with_defaults args = args\<lparr>sa_Gas := Some (case sa_Gas args of None \<Rightarrow> 90000 | Some g \<Rightarrow> g),
     sa_Value := Some (case sa_Value args of None \<Rightarrow> 0 | Some v \<Rightarrow> v)\<rparr>"

lemma with_defaults_sel [simp]:
  "sa_From (with_defaults args) = sa_From args" "sa_To (with_defaults args) = sa_To args"
  "sa_GasPrice (with_defaults args) = sa_GasPrice args" "sa_Nonce (with_defaults args) = sa_Nonce args"
  "sa_Data (with_defaults args) = sa_Data args" "sa_Input (with_defaults args) = sa_Input args"
  "sa_Gas (with_defaults args) = Some (case sa_Gas args of None \<Rightarrow> 90000 | Some g \<Rightarrow> g)"
  "sa_Value (with_defaults args) = Some (case sa_Value args of None \<Rightarrow> 0 | Some v \<Rightarrow> v)"
  "with_defaults (with_defaults args) = with_defaults args"
  by (simp_all add: with_defaults_def)

lemma setDefaults_eq:
  "setDefaults args =
     (if sa_GasPrice args = None \<or> sa_Nonce args = None then Panic
      else if sa_Data args \<noteq> None \<and> sa_Input args \<noteq> None \<and> sa_Data args \<noteq> sa_Input args
      then Fail (Errorf ''both \"data\" and \"input\" are set and not equal. Please use \"input\" to pass transaction call data'')
      else if sa_To args = None \<and>
        (case sa_Data args of Some d \<Rightarrow> d | None \<Rightarrow> (case sa_Input args of Some i \<Rightarrow> i | None \<Rightarrow> [])) = []
      then Fail (Errorf ''contract creation without any data provided'')
      else Ret (with_defaults args))"
proof -
  let ?a = "if sa_Gas args = None then args\<lparr>sa_Gas := Some 90000\<rparr> else args"
  have a: "(if sa_Value ?a = None then ?a\<lparr>sa_Value := Some 0\<rparr> else ?a) = with_defaults args"
    by (cases args; cases "sa_Gas args"; cases "sa_Value args") (simp_all add: with_defaults_def)
  have price: "sa_GasPrice ?a = sa_GasPrice args" by simp
  show ?thesis
    unfolding setDefaults_def Let_def a price with_defaults_sel
    by (cases "sa_GasPrice args = None"; cases "sa_Nonce args = None") (simp_all only: if_True if_False simp_thms)
qed

lemma setDefaults_Ret:
  assumes "setDefaults args = Ret a"
  shows "a = with_defaults args" "sa_GasPrice args \<noteq> None" "sa_Nonce args \<noteq> None" "setDefaults a = Ret a"
    "\<exists>t. toTransaction X a = Ret t"
proof -
  show a: "a = with_defaults args" and p: "sa_GasPrice args \<noteq> None" and n: "sa_Nonce args \<noteq> None"
    using assms by (simp_all add: setDefaults_eq split: if_splits)
  show "setDefaults a = Ret a"
    using assms unfolding a setDefaults_eq[of "with_defaults args"] setDefaults_eq[of args] with_defaults_sel .
  show "\<exists>t. toTransaction X a = Ret t" using n by (auto simp: a toTransaction_def Let_def deref_def)
qed

text \<open>
  \<^verbatim>\<open>setDefaults\<close> panics exactly when the gas price or the nonce is missing, the very fields
  it means to fill in; otherwise what it accepts has every field the transaction needs, keeps what
  the caller set, is not changed by a second call, and makes a transaction.
\<close>

theorem setDefaults_result:
  "(setDefaults args = Panic \<longleftrightarrow> sa_GasPrice args = None \<or> sa_Nonce args = None) \<and>
   (\<forall>a. setDefaults args = Ret a \<longrightarrow>
      a = args\<lparr>sa_Gas := Some (case sa_Gas args of None \<Rightarrow> 90000 | Some g \<Rightarrow> g),
               sa_Value := Some (case sa_Value args of None \<Rightarrow> 0 | Some v \<Rightarrow> v)\<rparr> \<and>
      setDefaults a = Ret a \<and> (\<exists>t. toTransaction X a = Ret t))"
proof -
  have "setDefaults args = Panic \<longleftrightarrow> sa_GasPrice args = None \<or> sa_Nonce args = None"
    by (simp add: setDefaults_eq)
  then show ?thesis using setDefaults_Ret unfolding with_defaults_def by blast
qed

theorem setDefaults_result_witness:
  "setDefaults demo_args = Panic
   \<and> (\<exists>t. toTransaction demo_web3 (demo_args\<lparr>sa_Nonce := Some 4\<rparr>) = Ret t)"
proof -
  let ?a = "demo_args\<lparr>sa_Nonce := Some 4\<rparr>"
  have "setDefaults demo_args = Panic"
    by (rule iffD2[OF setDefaults_result[THEN conjunct1]]) (simp add: demo_args_def)
  moreover have "setDefaults ?a = Ret ?a"
    by (simp add: setDefaults_eq demo_args_def with_defaults_def)
  then have "\<exists>t. toTransaction demo_web3 ?a = Ret t" using setDefaults_result by blast
  ultimately show ?thesis by blast
qed

section \<open>Submitting\<close>

text \<open>
  The contract of the two encodings: the JSON text of a transaction is an object and starts with a
  brace, the RLP encoding of a transaction is a list and starts with a byte from \<^verbatim>\<open>0xc0\<close> on, and
  the RLP decoder reports anything else as an error.
\<close>

definition json_not_rlp :: "('db, 'sd, 'ks, 'w, 'x) web3_scheme \<Rightarrow> bool" where
  "json_not_rlp X \<longleftrightarrow>
     (\<forall>t raw. MarshalJSON_tx X t = Ret raw \<longrightarrow> (\<exists>rest. raw = 123 # rest)) \<and>
     (\<forall>b t. rlp_Decode_tx X b = Ret t \<longrightarrow> (\<exists>c rest. b = c # rest \<and> 192 \<le> c)) \<and>
     (\<forall>b. rlp_Decode_tx X b \<noteq> Panic)"

lemma json_does_not_decode:
  assumes "json_not_rlp X" "MarshalJSON_tx X t = Ret raw"
  obtains e where "rlp_Decode_tx X raw = Fail e"
proof -
  obtain rest where raw: "raw = 123 # rest" using assms unfolding json_not_rlp_def by blast
  have "rlp_Decode_tx X raw \<noteq> Ret t'" for t'
  proof
    assume "rlp_Decode_tx X raw = Ret t'"
    then obtain c r where "raw = c # r" "192 \<le> c" using assms(1) unfolding json_not_rlp_def by blast
    with raw show False by simp
  qed
  moreover have "rlp_Decode_tx X raw \<noteq> Panic" using assms(1) by (simp add: json_not_rlp_def)
  ultimately show ?thesis using that by (cases "rlp_Decode_tx X raw") auto
qed

lemma submitTransaction_Ret:
  assumes "submitTransaction X m t = (m', Ret h)"
  obtains raw where "MarshalJSON_tx X t = Ret raw" "m' = submit m raw" "h = tx_Hash X t"
  using assms by (auto simp: submitTransaction_def Let_def split: outcome.splits)

lemma submitTransaction_not_Ret:
  assumes "submitTransaction X m t = (m', r)" "\<nexists>h. r = Ret h"
  shows "m' = m"
  using assms by (auto simp: submitTransaction_def Let_def split: outcome.splits)

text \<open>
  C23. A transaction submitted over JSON-RPC is never executed: the call answers its hash and sends
  bytes on the submit channel that neither of the two transaction routines decodes, so a block with
  them executes exactly what the block without them executes.
\<close>

theorem rpc_submission_never_applies:
  assumes "json_not_rlp X" "submitTransaction X m t = (m', Ret h)"
  shows "\<exists>raw. sv_submitCh m' = sv_submitCh m @ [raw] \<and> h = tx_Hash X t \<and>
    (\<forall>s i bh. \<exists>e. apply_transaction X s raw i bh = (s, Fail e) \<and> ApplyTransaction X s raw i bh = (s, Fail e)) \<and>
    (\<forall>s i bh bs. apply_block_transactions X s i bh (raw # bs) = apply_block_transactions X s (i + 1) bh bs)"
proof -
  obtain raw where raw: "MarshalJSON_tx X t = Ret raw" "m' = submit m raw" "h = tx_Hash X t"
    using assms(2) by (rule submitTransaction_Ret)
  obtain e where e: "rlp_Decode_tx X raw = Fail e" by (rule json_does_not_decode[OF assms(1) raw(1)])
  then have "apply_transaction X s raw i bh = (s, Fail e)" "ApplyTransaction X s raw i bh = (s, Fail e)" for s i bh
    by (simp_all add: apply_transaction_def ApplyTransaction_def)
  with raw show ?thesis by (auto simp: submit_def)
qed

lemma demo_decode_tx_cases: "demo_decode_tx b = Ret t \<Longrightarrow> \<exists>n. b = [193, n]" "demo_decode_tx b \<noteq> Panic"
  by (cases b rule: demo_decode_tx.cases; simp split: if_splits)+

lemma demo_json_not_rlp: "json_not_rlp demo_web3"
  using demo_decode_tx_cases by (fastforce simp: json_not_rlp_def)

theorem rpc_submission_never_applies_witness:
  "\<exists>m' raw. submitTransaction demo_web3 demo_served (demo_tx 4) = (m', Ret 11) \<and> sv_submitCh m' = [raw]
     \<and> (\<exists>e. apply_transaction demo_web3 demo_s0 raw 0 0 = (demo_s0, Fail e))"
proof -
  have run: "submitTransaction demo_web3 demo_served (demo_tx 4) = (submit demo_served [123, 125], Ret 11)"
    by (simp add: submitTransaction_def demo_tx_def demo_def)
  then obtain raw where "sv_submitCh (submit demo_served [123, 125]) = sv_submitCh demo_served @ [raw]"
    "\<exists>e. apply_transaction demo_web3 demo_s0 raw 0 0 = (demo_s0, Fail e)"
    using rpc_submission_never_applies[OF demo_json_not_rlp run] by blast
  with run show ?thesis by auto
qed

section \<open>The nonce lock\<close>

lemma UnlockAddr_held:
  assumes "locker_ok l" "holder l a \<noteq> None"
  shows "\<exists>l'. UnlockAddr l a = Ret l'"
proof -
  obtain l1 k where lk: "lock_of l a = (l1, k)" by fastforce
  note ok = lock_of_ok[OF assms(1) lk]
  have "holder l1 a = al_heap l1 ! k" using ok(2) by (simp add: holder_def)
  with ok(4)[of a] assms(2) lk show ?thesis by (auto simp: UnlockAddr_def split: option.splits)
qed

text \<open>Taking and releasing the lock around a body gives the body's result and the lock back.\<close>

lemma with_nonce_lock_spec:
  assumes "locker_ok l"
  shows "with_nonce_lock l t args body = None \<longleftrightarrow> sa_Nonce args = None \<and> holder l (sa_From args) \<noteq> None"
    and "with_nonce_lock l t args body = Some (m', l', r) \<Longrightarrow>
      m' = fst body \<and> r = snd body \<and> locker_ok l' \<and> holder l' = holder l"
proof -
  show "with_nonce_lock l t args body = None \<longleftrightarrow> sa_Nonce args = None \<and> holder l (sa_From args) \<noteq> None"
  proof -
    have "LockAddr l t (sa_From args) = None \<longleftrightarrow> holder l (sa_From args) \<noteq> None"
      using LockAddr_iff[OF assms, of t "sa_From args"] by (cases "LockAddr l t (sa_From args)") auto
    then show ?thesis by (cases "LockAddr l t (sa_From args)") (simp_all add: with_nonce_lock_def del: not_None_eq)
  qed
  assume run: "with_nonce_lock l t args body = Some (m', l', r)"
  show "m' = fst body \<and> r = snd body \<and> locker_ok l' \<and> holder l' = holder l"
  proof (cases "sa_Nonce args = None")
    case False
    with run assms show ?thesis by (auto simp: with_nonce_lock_def)
  next
    case True
    with run obtain l1 where l1: "LockAddr l t (sa_From args) = Some l1"
      by (auto simp: with_nonce_lock_def split: option.splits)
    note locked = LockAddr_Some[OF assms l1]
    have "holder l1 (sa_From args) \<noteq> None" by (simp add: locked(3))
    then obtain l2 where l2: "UnlockAddr l1 (sa_From args) = Ret l2" using UnlockAddr_held[OF locked(1)] by blast
    have "holder l2 b = holder l b" for b
      using UnlockAddr_Ret(3)[OF locked(1) l2] locked(2,3) by simp
    then have "holder l2 = holder l" by (rule ext)
    with run True l1 l2 UnlockAddr_Ret(1)[OF locked(1) l2] show ?thesis by (auto simp: with_nonce_lock_def)
  qed
qed

lemma private_signTransaction_without_nonce:
  "sa_Nonce args = None \<Longrightarrow> private_signTransaction X m args passwd \<noteq> Ret t"
  by (auto simp: private_signTransaction_def setDefaults_eq split: outcome.splits)

lemma send_body_without_nonce:
  assumes "sa_Nonce args = None"
    "body = (case private_signTransaction X m args passwd of
      Fail e \<Rightarrow> (m, Fail e) | Panic \<Rightarrow> (m, Panic) | Ret s \<Rightarrow> submitTransaction X m s)"
  shows "fst body = m \<and> snd body \<noteq> Ret h"
  using private_signTransaction_without_nonce[OF assms(1), of X m passwd] assms(2)
  by (cases "private_signTransaction X m args passwd") auto

text \<open>
  C29. \<^verbatim>\<open>personal_sendTransaction\<close> takes the nonce lock of the sender only when the nonce is
  missing, waits exactly while another thread has it, and gives it back on every path, a panic
  included.  But with a missing nonce it never submits anything: \<^verbatim>\<open>setDefaults\<close> panics on the field
  the lock was taken to fill in.
\<close>

theorem SendTransaction_nonce_lock:
  assumes "locker_ok l"
  shows "(private_SendTransaction X l t m args passwd = None \<longleftrightarrow>
            sa_Nonce args = None \<and> holder l (sa_From args) \<noteq> None) \<and>
    (\<forall>m' l' r. private_SendTransaction X l t m args passwd = Some (m', l', r) \<longrightarrow>
       locker_ok l' \<and> holder l' = holder l \<and>
       (sa_Nonce args = None \<longrightarrow> m' = m \<and> (\<forall>h. r \<noteq> Ret h)))"
proof (intro conjI allI impI)
  let ?body = "case private_signTransaction X m args passwd of
      Fail e \<Rightarrow> (m, Fail e) | Panic \<Rightarrow> (m, Panic) | Ret s \<Rightarrow> submitTransaction X m s"
  note lock = with_nonce_lock_spec[OF assms, of t args ?body, folded private_SendTransaction_def]
  show "private_SendTransaction X l t m args passwd = None \<longleftrightarrow>
      sa_Nonce args = None \<and> holder l (sa_From args) \<noteq> None"
    by (rule lock(1))
  fix m' l' r assume "private_SendTransaction X l t m args passwd = Some (m', l', r)"
  note res = lock(2)[OF this]
  from res show "locker_ok l'" "holder l' = holder l" by simp_all
  assume "sa_Nonce args = None"
  from send_body_without_nonce[OF this refl, of X m passwd] res show "m' = m" "r \<noteq> Ret h" for h by simp_all
qed

theorem SendTransaction_nonce_lock_witness:
  "\<exists>l r. private_SendTransaction demo_web3 NewAddrLocker 1 demo_served demo_args ''pw'' = Some (demo_served, l, r)
     \<and> holder l 9 = None \<and> (\<forall>h. r \<noteq> Ret h)"
proof -
  note lock = SendTransaction_nonce_lock[OF NewAddrLocker_ok, of demo_web3 1 demo_served demo_args "''pw''"]
  have free: "holder NewAddrLocker a = None" for a by (simp add: holder_def NewAddrLocker_def)
  then obtain m' l r where run:
    "private_SendTransaction demo_web3 NewAddrLocker 1 demo_served demo_args ''pw'' = Some (m', l, r)"
    using lock by (cases "private_SendTransaction demo_web3 NewAddrLocker 1 demo_served demo_args ''pw''") auto
  then have "holder l = holder NewAddrLocker" "m' = demo_served" "\<forall>h. r \<noteq> Ret h"
    using lock by (auto simp: demo_args_def)
  with run free show ?thesis by auto
qed

section \<open>Traces\<close>

lemma length_sprintf_x [simp]: "length (sprintf_x bs) = 2 * length bs"
  by (induction bs) (simp_all add: sprintf_x_def hex_byte_def)

lemma sprintf_x_append: "sprintf_x (as @ bs) = sprintf_x as @ sprintf_x bs"
  by (simp add: sprintf_x_def)

lemma memory_words_end: "length mem < i + 32 \<Longrightarrow> memory_words mem i = []"
  and memory_words_step: "i + 32 \<le> length mem \<Longrightarrow>
    memory_words mem i = sprintf_x (take 32 (drop i mem)) # memory_words mem (i + 32)"
  by (subst memory_words.simps; simp)+

lemma memory_words_spec:
  "i \<le> length mem \<Longrightarrow> length (memory_words mem i) = (length mem - i) div 32 \<and>
     concat (memory_words mem i) = sprintf_x (take (32 * ((length mem - i) div 32)) (drop i mem)) \<and>
     (\<forall>w \<in> set (memory_words mem i). length w = 64)"
proof (induction mem i rule: memory_words.induct)
  case (1 mem i)
  show ?case
  proof (cases "i + 32 \<le> length mem")
    case True
    define n where "n = (length mem - (i + 32)) div 32"
    have n: "(length mem - i) div 32 = Suc n"
      using True by (simp add: n_def)
    have "take (32 * Suc n) (drop i mem) = take 32 (drop i mem) @ take (32 * n) (drop (i + 32) mem)"
      by (simp add: take_add add.commute)
    with 1(1)[OF True] True n show ?thesis
      by (simp add: memory_words_step sprintf_x_append n_def[symmetric])
  next
    case False
    with 1(2) show ?thesis by (simp add: memory_words_end sprintf_x_def)
  qed
qed

text \<open>
  The loop over the memory of a trace entry ends after one round per full word, for memory of
  any length: \<^verbatim>\<open>FormatLogs\<close> prints \<open>length mem div 32\<close> words of 64 digits that are together the
  hexadecimal form of the memory up to its last full word, and nothing of an incomplete word; and it
  prints one result per entry, with memory exactly where the entry has it.
\<close>

theorem FormatLogs_memory:
  "length (FormatLogs X logs) = length logs \<and>
   (\<forall>k < length logs. sr_Memory (FormatLogs X logs ! k) =
      (case sl_Memory (logs ! k) of None \<Rightarrow> None | Some mem \<Rightarrow> Some (memory_words mem 0))) \<and>
   length (memory_words mem 0) = length mem div 32 \<and>
   concat (memory_words mem 0) = sprintf_x (take (32 * (length mem div 32)) mem) \<and>
   (\<forall>w \<in> set (memory_words mem 0). length w = 64)"
  using memory_words_spec[of 0 mem] by (auto simp: FormatLogs_def split: option.split)

theorem FormatLogs_memory_witness:
  "memory_words (replicate 33 (255 :: 8 word)) 0 = [concat (replicate 32 ''ff'')]"
proof -
  let ?ws = "memory_words (replicate 33 (255 :: 8 word)) 0"
  have "length ?ws = 1" "concat ?ws = sprintf_x (replicate 32 255)"
    using FormatLogs_memory[of demo_web3 "[]" "replicate 33 255"] by simp_all
  moreover have "sprintf_x (replicate 32 255) = concat (replicate 32 ''ff'')"
    using char_of_char[of "CHR ''f''", where 'a = nat] by (simp add: sprintf_x_def hex_byte_def hex_digit_def)
  ultimately show ?thesis by (cases ?ws) auto
qed

section \<open>Blocks\<close>

lemma newRPCTransaction_Ret:
  assumes "\<forall>s. Sender X s t \<noteq> Panic"
  shows "\<exists>r. newRPCTransaction X t bh n i = Ret r \<and> rt_Hash r = tx_Hash X t \<and> rt_Input r = tx_Data t
    \<and> rt_To r = tx_To t \<and> rt_Value r = tx_Value t \<and> rt_Nonce r = tx_Nonce t
    \<and> (bh \<noteq> 0 \<longrightarrow> rt_BlockHash r = bh \<and> rt_BlockNumber r = Some (uint n) \<and> rt_TransactionIndex r = i)"
proof -
  let ?s = "if tx_Protected X t then EIP155Signer (tx_ChainId X t) else FrontierSigner"
  show ?thesis using assms by (cases "Sender X ?s t") (auto simp: newRPCTransaction_def Let_def)
qed

lemma index_of_hash_nth:
  "distinct (map (tx_Hash X) ts) \<Longrightarrow> i < length ts \<Longrightarrow> index_of_hash X (tx_Hash X (ts ! i)) k ts = Some (k + i)"
proof (induction ts arbitrary: i k)
  case (Cons t ts)
  show ?case
  proof (cases i)
    case (Suc j)
    with Cons have "tx_Hash X t \<noteq> tx_Hash X (ts ! j)" by (metis Suc_less_eq distinct.simps(2) image_eqI length_Cons list.map(2) list.set_map nth_mem)
    with Cons Suc show ?thesis by simp
  qed simp
qed simp

lemma format_txs_Ret:
  "\<forall>t \<in> set ts. \<exists>r. f t = Ret r \<Longrightarrow> \<exists>rs. format_txs f ts = Ret rs \<and> list_all2 (\<lambda>t r. f t = Ret r) ts rs"
  by (induction ts) fastforce+

text \<open>
  \<^verbatim>\<open>RPCMarshalBlock\<close> with full transactions lists every transaction of the block once, in
  order, each with its own hash, data and index and with the hash and number of the block, when the
  hashes of the transactions differ; without them it lists the hashes in order.
\<close>

theorem RPCMarshalBlock_transactions:
  assumes "distinct (map (tx_Hash X) (eb_Transactions b))" "\<forall>t s. Sender X s t \<noteq> Panic" "eb_Hash b \<noteq> 0"
    "length (eb_Transactions b) < 2 ^ 64"
  shows "(\<exists>blk rs. RPCMarshalBlock X b True True = Ret blk \<and> rb_transactions blk = Some rs \<and>
       length rs = length (eb_Transactions b) \<and>
       (\<forall>i < length rs. \<exists>r. rs ! i = TxEntry (Some r) \<and> rt_Hash r = tx_Hash X (eb_Transactions b ! i) \<and>
          rt_Input r = tx_Data (eb_Transactions b ! i) \<and> rt_BlockHash r = eb_Hash b \<and>
          rt_BlockNumber r = Some (uint (big_Uint64 (hd_Number (eb_Header b)))) \<and>
          unat (rt_TransactionIndex r) = i)) \<and>
     (\<exists>blk. RPCMarshalBlock X b True False = Ret blk \<and>
       rb_transactions blk = Some (map (\<lambda>t. HashEntry (tx_Hash X t)) (eb_Transactions b)))"
proof
  let ?ts = "eb_Transactions b"
  have one: "\<exists>r. formatTx X b True (?ts ! i) = Ret (TxEntry (Some r)) \<and> rt_Hash r = tx_Hash X (?ts ! i) \<and>
      rt_Input r = tx_Data (?ts ! i) \<and> rt_BlockHash r = eb_Hash b \<and>
      rt_BlockNumber r = Some (uint (big_Uint64 (hd_Number (eb_Header b)))) \<and> unat (rt_TransactionIndex r) = i"
    if i: "i < length ?ts" for i
  proof -
    obtain r where r: "newRPCTransaction X (?ts ! i) (eb_Hash b) (big_Uint64 (hd_Number (eb_Header b))) (of_nat i) = Ret r"
      "rt_Hash r = tx_Hash X (?ts ! i)" "rt_Input r = tx_Data (?ts ! i)" "rt_BlockHash r = eb_Hash b"
      "rt_BlockNumber r = Some (uint (big_Uint64 (hd_Number (eb_Header b))))" "rt_TransactionIndex r = of_nat i"
      using newRPCTransaction_Ret[of X "?ts ! i" "eb_Hash b"] assms(2,3) by blast
    moreover have "unat (of_nat i :: u64) = i" using i assms(4) by (simp add: unat_of_nat)
    ultimately show ?thesis
      using i index_of_hash_nth[OF assms(1) i, of 0]
      by (simp add: formatTx_def newRPCTransactionFromBlockHash_def newRPCTransactionFromBlockIndex_def)
  qed
  then have "\<forall>t \<in> set ?ts. \<exists>r. formatTx X b True t = Ret r" by (metis in_set_conv_nth)
  then obtain rs where rs: "format_txs (formatTx X b True) ?ts = Ret rs"
    "list_all2 (\<lambda>t r. formatTx X b True t = Ret r) ?ts rs" using format_txs_Ret by blast
  then have len: "length rs = length ?ts" by (simp add: list_all2_lengthD)
  have "\<exists>r. rs ! i = TxEntry (Some r) \<and> rt_Hash r = tx_Hash X (?ts ! i) \<and> rt_Input r = tx_Data (?ts ! i) \<and>
      rt_BlockHash r = eb_Hash b \<and> rt_BlockNumber r = Some (uint (big_Uint64 (hd_Number (eb_Header b)))) \<and>
      unat (rt_TransactionIndex r) = i" if "i < length rs" for i
    using one[of i] list_all2_nthD2[OF rs(2) that] that len by auto
  with rs len show "\<exists>blk rs. RPCMarshalBlock X b True True = Ret blk \<and> rb_transactions blk = Some rs \<and>
       length rs = length ?ts \<and>
       (\<forall>i < length rs. \<exists>r. rs ! i = TxEntry (Some r) \<and> rt_Hash r = tx_Hash X (?ts ! i) \<and>
          rt_Input r = tx_Data (?ts ! i) \<and> rt_BlockHash r = eb_Hash b \<and>
          rt_BlockNumber r = Some (uint (big_Uint64 (hd_Number (eb_Header b)))) \<and>
          unat (rt_TransactionIndex r) = i)"
    by (simp add: RPCMarshalBlock_def)
next
  have "format_txs (formatTx X b False) ts = Ret (map (\<lambda>t. HashEntry (tx_Hash X t)) ts)" for ts
    by (induction ts) (simp_all add: formatTx_def)
  then show "\<exists>blk. RPCMarshalBlock X b True False = Ret blk \<and>
       rb_transactions blk = Some (map (\<lambda>t. HashEntry (tx_Hash X t)) (eb_Transactions b))"
    by (simp add: RPCMarshalBlock_def)
qed

definition demo_header :: header where
  "demo_header = \<lparr>hd_Number = 3, hd_ParentHash = 0, hd_Nonce = 0, hd_MixDigest = 0, hd_UncleHash = 0, hd_Bloom = 0,
     hd_Root = 0, hd_Coinbase = 0, hd_Difficulty = 0, hd_Extra = [], hd_GasLimit = 0, hd_GasUsed = 0, hd_Time = 0,
     hd_TxHash = 0, hd_ReceiptHash = 0\<rparr>"

definition demo_eth_block :: eth_block where
  "demo_eth_block = \<lparr>eb_Header = demo_header, eb_Hash = 77, eb_Size = 2, eb_Transactions = [demo_tx 1, demo_tx 2],
     eb_Uncles = []\<rparr>"

theorem RPCMarshalBlock_transactions_witness:
  "\<exists>blk r1 r2. RPCMarshalBlock demo_web3 demo_eth_block True True = Ret blk \<and>
     rb_transactions blk = Some [TxEntry (Some r1), TxEntry (Some r2)] \<and> rt_Hash r1 = 8 \<and> rt_Hash r2 = 9 \<and>
     rt_BlockNumber r2 = Some 3"
proof -
  have hash: "tx_Hash demo_web3 (demo_tx 1) = 8" "tx_Hash demo_web3 (demo_tx 2) = 9"
    by (simp_all add: demo_tx_def demo_def)
  have blk: "eb_Transactions demo_eth_block = [demo_tx 1, demo_tx 2]" "eb_Hash demo_eth_block = 77"
    "uint (big_Uint64 (hd_Number (eb_Header demo_eth_block))) = 3"
    by (simp_all add: demo_eth_block_def demo_header_def big_Uint64_def)
  have "distinct (map (tx_Hash demo_web3) (eb_Transactions demo_eth_block))"
    "\<forall>t s. Sender demo_web3 s t \<noteq> Panic" "eb_Hash demo_eth_block \<noteq> 0"
    "length (eb_Transactions demo_eth_block) < 2 ^ 64"
    using hash by (simp_all add: blk)
  from RPCMarshalBlock_transactions[OF this, THEN conjunct1, unfolded blk]
  obtain b rs where rs: "RPCMarshalBlock demo_web3 demo_eth_block True True = Ret b"
    "rb_transactions b = Some rs" "length rs = length [demo_tx 1, demo_tx 2]"
    "\<forall>i < length rs. \<exists>r. rs ! i = TxEntry (Some r) \<and> rt_Hash r = tx_Hash demo_web3 ([demo_tx 1, demo_tx 2] ! i) \<and>
      rt_BlockNumber r = Some 3" by blast
  from rs(3) obtain e1 e2 where e: "rs = [e1, e2]" by (auto simp: length_Suc_conv)
  from rs(4)[rule_format, of 0] rs(4)[rule_format, of 1] hash rs(1,2) show ?thesis by (auto simp: e)
qed

end
