(* ===== verification/Web3Api.thy ===== *)
theory Web3Api
  imports Web3Chain
begin

text \<open>
  The JSON-RPC interface as a whole: the methods of the services that \<^verbatim>\<open>Web3AccountService\<close> and
  \<^verbatim>\<open>Web3ChainService\<close> register (\<^verbatim>\<open>src/service/web3_account_api.go\<close>,
  \<^verbatim>\<open>src/service/web3_chain_api.go\<close>), each call as a constructor, and one function that serves a
  call.  Many methods have their go-ethereum body commented out and return a constant; they are
  written out here, one definition for one method, so that the interface is complete.
\<close>

section \<open>Methods that return a constant\<close>

text \<open>\<^verbatim>\<open>PublicEthereumAPI\<close>.\<close>

definition eth_GasPrice :: "int option outcome" where "eth_GasPrice = Fail ErrNotImplemented"
definition eth_ProtocolVersion :: u64 where "eth_ProtocolVersion = 3"
definition eth_Syncing :: "bool outcome" where "eth_Syncing = Fail ErrNotImplemented"

text \<open>\<^verbatim>\<open>PublicTxPoolAPI\<close>: nil maps.\<close>

definition txpool_Content :: "(string \<rightharpoonup> string \<rightharpoonup> string \<rightharpoonup> rpc_transaction) option" where
  "txpool_Content = None"
definition txpool_Status :: "(string \<rightharpoonup> u64) option" where "txpool_Status = None"
definition txpool_Inspect :: "(string \<rightharpoonup> string \<rightharpoonup> string \<rightharpoonup> string) option" where
  "txpool_Inspect = None"

text \<open>\<^verbatim>\<open>PublicBlockChainAPI\<close>; a block number is an \<open>int\<close>, the negative ones are names.\<close>

record call_args =               \<comment> \<open>\<^verbatim>\<open>CallArgs\<close>\<close>
  ca_From :: address
  ca_To :: "address option"
  ca_Gas :: u64
  ca_GasPrice :: int
  ca_Value :: int
  ca_Data :: bytes

definition GetBlockByNumber :: "int \<Rightarrow> bool \<Rightarrow> rpc_block option outcome" where
  "GetBlockByNumber blockNr fullTx = Fail ErrNotImplemented"
definition GetBlockByHash :: "hash \<Rightarrow> bool \<Rightarrow> rpc_block option outcome" where
  "GetBlockByHash blockHash fullTx = Fail ErrNotImplemented"
definition GetUncleByBlockNumberAndIndex :: "int \<Rightarrow> u64 \<Rightarrow> rpc_block option outcome" where
  "GetUncleByBlockNumberAndIndex blockNr index = Fail ErrNotImplemented"
definition GetUncleByBlockHashAndIndex :: "hash \<Rightarrow> u64 \<Rightarrow> rpc_block option outcome" where
  "GetUncleByBlockHashAndIndex blockHash index = Fail ErrNotImplemented"
definition GetUncleCountByBlockNumber :: "int \<Rightarrow> u64 option" where
  "GetUncleCountByBlockNumber blockNr = None"
definition GetUncleCountByBlockHash :: "hash \<Rightarrow> u64 option" where
  "GetUncleCountByBlockHash blockHash = None"
definition GetCode :: "address \<Rightarrow> int \<Rightarrow> bytes outcome" where
  "GetCode addr blockNr = Fail ErrNotImplemented"
definition GetStorageAt :: "address \<Rightarrow> string \<Rightarrow> int \<Rightarrow> bytes outcome" where
  "GetStorageAt addr key blockNr = Fail ErrNotImplemented"
definition doCall :: "call_args \<Rightarrow> int \<Rightarrow> vm_config \<Rightarrow> int \<Rightarrow> (bytes \<times> u64 \<times> bool) outcome" where
  "doCall args blockNr vmCfg timeout = Fail ErrNotImplemented"
definition rpc_Call :: "call_args \<Rightarrow> int \<Rightarrow> bytes outcome" where
  "rpc_Call args blockNr =
     (case doCall args blockNr \<lparr>vm_Tracer = False\<rparr> (5 * Second) of
        Ret (result, _, _) \<Rightarrow> Ret result | Fail e \<Rightarrow> Fail e | Panic \<Rightarrow> Panic)"
definition EstimateGas :: "call_args \<Rightarrow> u64 outcome" where
  "EstimateGas args = Fail ErrNotImplemented"
definition rpcOutputBlock :: "eth_block \<Rightarrow> bool \<Rightarrow> bool \<Rightarrow> rpc_block outcome" where
  "rpcOutputBlock b inclTx fullTx = Fail ErrNotImplemented"

text \<open>\<^verbatim>\<open>PublicTransactionPoolAPI\<close>.\<close>

definition GetBlockTransactionCountByNumber :: "int \<Rightarrow> u64 option" where
  "GetBlockTransactionCountByNumber blockNr = None"
definition GetBlockTransactionCountByHash :: "hash \<Rightarrow> u64 option" where
  "GetBlockTransactionCountByHash blockHash = None"
definition GetTransactionByBlockNumberAndIndex :: "int \<Rightarrow> u64 \<Rightarrow> rpc_transaction option" where
  "GetTransactionByBlockNumberAndIndex blockNr index = None"
definition GetTransactionByBlockHashAndIndex :: "hash \<Rightarrow> u64 \<Rightarrow> rpc_transaction option" where
  "GetTransactionByBlockHashAndIndex blockHash index = None"
definition GetRawTransactionByBlockNumberAndIndex :: "int \<Rightarrow> u64 \<Rightarrow> bytes option" where
  "GetRawTransactionByBlockNumberAndIndex blockNr index = None"
definition GetRawTransactionByBlockHashAndIndex :: "hash \<Rightarrow> u64 \<Rightarrow> bytes option" where
  "GetRawTransactionByBlockHashAndIndex blockHash index = None"
definition GetTransactionCount :: "address \<Rightarrow> int \<Rightarrow> u64 option outcome" where
  "GetTransactionCount addr blockNr = Fail ErrNotImplemented"
definition GetTransactionByHash :: "hash \<Rightarrow> rpc_transaction option" where
  "GetTransactionByHash h = None"
definition GetRawTransactionByHash :: "hash \<Rightarrow> bytes outcome" where
  "GetRawTransactionByHash h = Fail ErrNotImplemented"
definition GetTransactionReceipt :: "hash \<Rightarrow> unit outcome" where
  "GetTransactionReceipt h = Fail ErrNotImplemented"
definition PendingTransactions :: "rpc_transaction list outcome" where
  "PendingTransactions = Fail ErrNotImplemented"
definition Resend :: "send_tx_args \<Rightarrow> int option \<Rightarrow> u64 option \<Rightarrow> hash outcome" where
  "Resend sendArgs price limit = Fail ErrNotImplemented"

text \<open>\<^verbatim>\<open>PublicDebugAPI\<close> and \<^verbatim>\<open>PrivateDebugAPI\<close>; \<^verbatim>\<open>SetHead\<close> has no result.\<close>

definition GetBlockRlp :: "u64 \<Rightarrow> string outcome" where "GetBlockRlp number = Fail ErrNotImplemented"
definition PrintBlock :: "u64 \<Rightarrow> string outcome" where "PrintBlock number = Fail ErrNotImplemented"
definition SeedHash :: "u64 \<Rightarrow> string outcome" where "SeedHash number = Fail ErrNotImplemented"
definition ChaindbProperty :: "string \<Rightarrow> string outcome" where
  "ChaindbProperty property = Fail ErrNotImplemented"
definition ChaindbCompact :: "error option" where "ChaindbCompact = Some ErrNotImplemented"
definition SetHead :: "u64 \<Rightarrow> unit" where "SetHead number = ()"

text \<open>\<^verbatim>\<open>PublicNetAPI\<close>, which no service registers: \<open>peers\<close> is the count of the p2p server.\<close>

definition net_Listening :: bool where "net_Listening = True"
definition net_PeerCount :: "int \<Rightarrow> u64" where "net_PeerCount peers = word_of_int peers"
definition net_Version :: "u64 \<Rightarrow> string" where "net_Version networkVersion = sprintf_d (uint networkVersion)"

text \<open>The chain API; \<^verbatim>\<open>PrivateDebugChainAPI\<close> is not registered.\<close>

definition Etherbase :: "address outcome" where "Etherbase = Fail ErrNotImplemented"
definition Coinbase :: "address outcome" where "Coinbase = Fail ErrNotImplemented"
definition Hashrate :: u64 where "Hashrate = 0"
definition ChainId :: u64 where "ChainId = 0"
definition ExportChain :: "string \<Rightarrow> bool outcome" where "ExportChain file = Fail ErrNotImplemented"
definition hasAllBlocks :: "eth_block list \<Rightarrow> bool" where "hasAllBlocks bs = False"
definition ImportChain :: "string \<Rightarrow> bool outcome" where "ImportChain file = Fail ErrNotImplemented"
definition DumpBlock :: "int \<Rightarrow> unit outcome" where "DumpBlock blockNr = Fail ErrNotImplemented"
definition Preimage :: "hash \<Rightarrow> bytes outcome" where "Preimage h = Fail ErrNotImplemented"
definition GetBadBlocks :: "unit list outcome" where "GetBadBlocks = Fail ErrNotImplemented"
definition StorageRangeAt :: "hash \<Rightarrow> int \<Rightarrow> address \<Rightarrow> bytes \<Rightarrow> int \<Rightarrow> storage_range_result outcome" where
  "StorageRangeAt blockHash txIndex contractAddress keyStart maxResult = Fail ErrNotImplemented"
definition GetModifiedAccountsByNumber :: "u64 \<Rightarrow> u64 option \<Rightarrow> address list outcome" where
  "GetModifiedAccountsByNumber startNum endNum = Fail ErrNotImplemented"
definition GetModifiedAccountsByHash :: "hash \<Rightarrow> hash option \<Rightarrow> address list outcome" where
  "GetModifiedAccountsByHash startHash endHash = Fail ErrNotImplemented"
definition getModifiedAccounts :: "eth_block \<Rightarrow> eth_block \<Rightarrow> address list outcome" where
  "getModifiedAccounts startBlock endBlock = Fail ErrNotImplemented"

section \<open>Calls\<close>

text \<open>
  One datatype for each registered API, with a constructor for each of its exported methods; the
  reflection of go-ethereum's RPC server serves no others.  A client names a method by the namespace
  of its API and its Go name with a small first letter.
\<close>

datatype ethereum_call = GasPriceC | ProtocolVersionC | SyncingC

datatype block_chain_call =
    BlockNumberC | GetBalanceC address int
  | GetBlockByNumberC int bool | GetBlockByHashC hash bool
  | GetUncleByBlockNumberAndIndexC int u64 | GetUncleByBlockHashAndIndexC hash u64
  | GetUncleCountByBlockNumberC int | GetUncleCountByBlockHashC hash
  | GetCodeC address int | GetStorageAtC address string int
  | CallC call_args int | EstimateGasC call_args

datatype transaction_pool_call =
    GetBlockTransactionCountByNumberC int | GetBlockTransactionCountByHashC hash
  | GetTransactionByBlockNumberAndIndexC int u64 | GetTransactionByBlockHashAndIndexC hash u64
  | GetRawTransactionByBlockNumberAndIndexC int u64 | GetRawTransactionByBlockHashAndIndexC hash u64
  | GetTransactionCountC address int | GetTransactionByHashC hash
  | GetRawTransactionByHashC hash | GetTransactionReceiptC hash
  | SendTransactionC send_tx_args | SendRawTransactionC bytes
  | SignC address bytes | SignTransactionC send_tx_args
  | PendingTransactionsC | ResendC send_tx_args "int option" "u64 option"

datatype tx_pool_call = ContentC | StatusC | InspectC

datatype public_debug_call = GetBlockRlpC u64 | PrintBlockC u64 | SeedHashC u64

datatype private_debug_call = ChaindbPropertyC string | ChaindbCompactC | SetHeadC u64

datatype private_account_call =
    ListAccountsC | ListWalletsC | OpenWalletC string "string option"
  | DeriveAccountC string string "bool option" | NewAccountC string
  | ImportRawKeyC string string | UnlockAccountC address string "u64 option" | LockAccountC address
  | PersonalSendTransactionC send_tx_args string | PersonalSignTransactionC send_tx_args string
  | PersonalSignC bytes address string | EcRecoverC bytes bytes
  | SignAndSendTransactionC send_tx_args string

datatype ethereum_chain_call = EtherbaseC | CoinbaseC | HashrateC | ChainIdC

datatype admin_call = ExportChainC string | ImportChainC string

datatype rpc_call =
    Ethereum ethereum_call
  | BlockChain block_chain_call
  | TransactionPool transaction_pool_call
  | TxPool tx_pool_call
  | PublicDebug public_debug_call
  | PrivateDebug private_debug_call
  | PublicAccounts                           \<comment> \<open>the method \<^verbatim>\<open>Accounts\<close>\<close>
  | PrivateAccount private_account_call
  | EthereumChain ethereum_chain_call
  | Admin admin_call
  | DumpBlockC int                           \<comment> \<open>the method of \<^verbatim>\<open>PublicDebugChainAPI\<close>\<close>

text \<open>The values that are sent back; \<open>VNull\<close> is a nil pointer, map or slice, or no result.\<close>

datatype rpc_value =
    VNull
  | VBool bool
  | VUint u64
  | VBig int
  | VString string
  | VAddress address
  | VAddresses "address list"
  | VHash hash
  | VBytes bytes
  | VTransaction rpc_transaction
  | VTransactions "rpc_transaction list"
  | VBlock rpc_block
  | VAccount eth_account
  | VWallets "raw_wallet list"
  | VSigned sign_transaction_result

section \<open>Serving\<close>

definition nullable :: "('a \<Rightarrow> rpc_value) \<Rightarrow> 'a option \<Rightarrow> rpc_value" where
  "nullable f v = (case v of None \<Rightarrow> VNull | Some x \<Rightarrow> f x)"

definition map_outcome :: "('a \<Rightarrow> 'b) \<Rightarrow> 'a outcome \<Rightarrow> 'b outcome" where
  "map_outcome f r = (case r of Ret v \<Rightarrow> Ret (f v) | Fail e \<Rightarrow> Fail e | Panic \<Rightarrow> Panic)"

text \<open>
  The answers of the methods that only read; a reading method leaves the service and the nonce lock
  as they are.
\<close>

primrec ethereum_answer :: "ethereum_call \<Rightarrow> rpc_value outcome" where
  "ethereum_answer GasPriceC = map_outcome (nullable VBig) eth_GasPrice"
| "ethereum_answer ProtocolVersionC = Ret (VUint eth_ProtocolVersion)"
| "ethereum_answer SyncingC = map_outcome VBool eth_Syncing"

primrec block_chain_answer ::
  "('db, 'sd, 'ks, 'w, 'x) web3_scheme \<Rightarrow> ('db, 'sd, 'ks) service \<Rightarrow> block_chain_call \<Rightarrow> rpc_value outcome" where
  "block_chain_answer X m BlockNumberC = Ret (VUint (BlockNumber m))"
| "block_chain_answer X m (GetBalanceC a nr) = map_outcome VBig (rpc_GetBalance X m a nr)"
| "block_chain_answer X m (GetBlockByNumberC nr full) = map_outcome (nullable VBlock) (GetBlockByNumber nr full)"
| "block_chain_answer X m (GetBlockByHashC h full) = map_outcome (nullable VBlock) (GetBlockByHash h full)"
| "block_chain_answer X m (GetUncleByBlockNumberAndIndexC nr i) =
     map_outcome (nullable VBlock) (GetUncleByBlockNumberAndIndex nr i)"
| "block_chain_answer X m (GetUncleByBlockHashAndIndexC h i) =
     map_outcome (nullable VBlock) (GetUncleByBlockHashAndIndex h i)"
| "block_chain_answer X m (GetUncleCountByBlockNumberC nr) = Ret (nullable VUint (GetUncleCountByBlockNumber nr))"
| "block_chain_answer X m (GetUncleCountByBlockHashC h) = Ret (nullable VUint (GetUncleCountByBlockHash h))"
| "block_chain_answer X m (GetCodeC a nr) = map_outcome VBytes (GetCode a nr)"
| "block_chain_answer X m (GetStorageAtC a key nr) = map_outcome VBytes (GetStorageAt a key nr)"
| "block_chain_answer X m (CallC args nr) = map_outcome VBytes (rpc_Call args nr)"
| "block_chain_answer X m (EstimateGasC args) = map_outcome VUint (EstimateGas args)"

primrec tx_pool_answer :: "tx_pool_call \<Rightarrow> rpc_value outcome" where
  "tx_pool_answer ContentC = Ret (nullable (\<lambda>_. VNull) txpool_Content)"
| "tx_pool_answer StatusC = Ret (nullable (\<lambda>_. VNull) txpool_Status)"
| "tx_pool_answer InspectC = Ret (nullable (\<lambda>_. VNull) txpool_Inspect)"

primrec public_debug_answer :: "public_debug_call \<Rightarrow> rpc_value outcome" where
  "public_debug_answer (GetBlockRlpC n) = map_outcome VString (GetBlockRlp n)"
| "public_debug_answer (PrintBlockC n) = map_outcome VString (PrintBlock n)"
| "public_debug_answer (SeedHashC n) = map_outcome VString (SeedHash n)"

primrec private_debug_answer :: "private_debug_call \<Rightarrow> rpc_value outcome" where
  "private_debug_answer (ChaindbPropertyC p) = map_outcome VString (ChaindbProperty p)"
| "private_debug_answer ChaindbCompactC = (case ChaindbCompact of None \<Rightarrow> Ret VNull | Some e \<Rightarrow> Fail e)"
| "private_debug_answer (SetHeadC n) = map_outcome (\<lambda>_. VNull) (Ret (SetHead n))"

primrec ethereum_chain_answer :: "ethereum_chain_call \<Rightarrow> rpc_value outcome" where
  "ethereum_chain_answer EtherbaseC = map_outcome VAddress Etherbase"
| "ethereum_chain_answer CoinbaseC = map_outcome VAddress Coinbase"
| "ethereum_chain_answer HashrateC = Ret (VUint Hashrate)"
| "ethereum_chain_answer ChainIdC = Ret (VUint ChainId)"

primrec admin_answer :: "admin_call \<Rightarrow> rpc_value outcome" where
  "admin_answer (ExportChainC file) = map_outcome VBool (ExportChain file)"
| "admin_answer (ImportChainC file) = map_outcome VBool (ImportChain file)"

text \<open>
  The answers of the two APIs that also write: the service and the nonce lock that a method leaves,
  with its result; \<open>None\<close> is a call that waits for the nonce lock.
\<close>

type_synonym ('db, 'sd, 'ks) rpc_answer = "(('db, 'sd, 'ks) service \<times> addr_locker \<times> rpc_value outcome) option"

definition reads ::
  "('db, 'sd, 'ks) service \<Rightarrow> addr_locker \<Rightarrow> rpc_value outcome \<Rightarrow> ('db, 'sd, 'ks) rpc_answer" where
  "reads m l r = Some (m, l, r)"

definition leaves ::
  "addr_locker \<Rightarrow> ('a \<Rightarrow> rpc_value) \<Rightarrow> ('db, 'sd, 'ks) service \<times> 'a outcome \<Rightarrow> ('db, 'sd, 'ks) rpc_answer" where
  "leaves l f r = Some (fst r, l, map_outcome f (snd r))"

definition sends ::
  "('a \<Rightarrow> rpc_value) \<Rightarrow> (('db, 'sd, 'ks) service \<times> addr_locker \<times> 'a outcome) option \<Rightarrow> ('db, 'sd, 'ks) rpc_answer" where
  "sends f r = map_option (\<lambda>(m, l, res). (m, l, map_outcome f res)) r"

primrec transaction_pool_serve ::
  "('db, 'sd, 'ks, 'w, 'x) web3_scheme \<Rightarrow> addr_locker \<Rightarrow> thread \<Rightarrow> ('db, 'sd, 'ks) service
   \<Rightarrow> transaction_pool_call \<Rightarrow> ('db, 'sd, 'ks) rpc_answer" where
  "transaction_pool_serve X l t m (GetBlockTransactionCountByNumberC nr) =
     reads m l (Ret (nullable VUint (GetBlockTransactionCountByNumber nr)))"
| "transaction_pool_serve X l t m (GetBlockTransactionCountByHashC h) =
     reads m l (Ret (nullable VUint (GetBlockTransactionCountByHash h)))"
| "transaction_pool_serve X l t m (GetTransactionByBlockNumberAndIndexC nr i) =
     reads m l (Ret (nullable VTransaction (GetTransactionByBlockNumberAndIndex nr i)))"
| "transaction_pool_serve X l t m (GetTransactionByBlockHashAndIndexC h i) =
     reads m l (Ret (nullable VTransaction (GetTransactionByBlockHashAndIndex h i)))"
| "transaction_pool_serve X l t m (GetRawTransactionByBlockNumberAndIndexC nr i) =
     reads m l (Ret (nullable VBytes (GetRawTransactionByBlockNumberAndIndex nr i)))"
| "transaction_pool_serve X l t m (GetRawTransactionByBlockHashAndIndexC h i) =
     reads m l (Ret (nullable VBytes (GetRawTransactionByBlockHashAndIndex h i)))"
| "transaction_pool_serve X l t m (GetTransactionCountC a nr) =
     reads m l (map_outcome (nullable VUint) (GetTransactionCount a nr))"
| "transaction_pool_serve X l t m (GetTransactionByHashC h) =
     reads m l (Ret (nullable VTransaction (GetTransactionByHash h)))"
| "transaction_pool_serve X l t m (GetRawTransactionByHashC h) =
     reads m l (map_outcome VBytes (GetRawTransactionByHash h))"
| "transaction_pool_serve X l t m (GetTransactionReceiptC h) =
     reads m l (map_outcome (\<lambda>_. VNull) (GetTransactionReceipt h))"
| "transaction_pool_serve X l t m (SendTransactionC args) = sends VHash (public_SendTransaction X l t m args)"
| "transaction_pool_serve X l t m (SendRawTransactionC b) = leaves l VHash (SendRawTransaction X m b)"
| "transaction_pool_serve X l t m (SignC a dat) = reads m l (map_outcome VBytes (public_Sign X m a dat))"
| "transaction_pool_serve X l t m (SignTransactionC args) =
     reads m l (map_outcome VSigned (public_SignTransaction X m args))"
| "transaction_pool_serve X l t m PendingTransactionsC = reads m l (map_outcome VTransactions PendingTransactions)"
| "transaction_pool_serve X l t m (ResendC args price limit) =
     reads m l (map_outcome VHash (Resend args price limit))"

primrec private_account_serve ::
  "('db, 'sd, 'ks, 'w, 'x) web3_scheme \<Rightarrow> addr_locker \<Rightarrow> thread \<Rightarrow> ('db, 'sd, 'ks) service
   \<Rightarrow> private_account_call \<Rightarrow> ('db, 'sd, 'ks) rpc_answer" where
  "private_account_serve X l t m ListAccountsC = reads m l (map_outcome VAddresses (ListAccounts X m))"
| "private_account_serve X l t m ListWalletsC = reads m l (map_outcome VWallets (ListWallets X m))"
| "private_account_serve X l t m (OpenWalletC url pwd) = leaves l (\<lambda>_. VNull) (OpenWallet X m url pwd)"
| "private_account_serve X l t m (DeriveAccountC url path pin) = leaves l VAccount (DeriveAccount X m url path pin)"
| "private_account_serve X l t m (NewAccountC pwd) = leaves l VAddress (NewAccount X m pwd)"
| "private_account_serve X l t m (ImportRawKeyC key pwd) = leaves l VAddress (ImportRawKey X m key pwd)"
| "private_account_serve X l t m (UnlockAccountC a pwd d) = leaves l VBool (UnlockAccount X m a pwd d)"
| "private_account_serve X l t m (LockAccountC a) = leaves l VBool (LockAccount X m a)"
| "private_account_serve X l t m (PersonalSendTransactionC args pwd) =
     sends VHash (private_SendTransaction X l t m args pwd)"
| "private_account_serve X l t m (PersonalSignTransactionC args pwd) =
     reads m l (map_outcome VSigned (private_SignTransaction X m args pwd))"
| "private_account_serve X l t m (PersonalSignC dat a pwd) =
     reads m l (map_outcome VBytes (private_Sign X m dat a pwd))"
| "private_account_serve X l t m (EcRecoverC dat sig) = reads m l (map_outcome VAddress (EcRecover X dat sig))"
| "private_account_serve X l t m (SignAndSendTransactionC args pwd) =
     sends VHash (SignAndSendTransaction X l t m args pwd)"

text \<open>Serving a call by the thread \<open>t\<close>.\<close>

primrec rpc_serve ::
  "('db, 'sd, 'ks, 'w, 'x) web3_scheme \<Rightarrow> addr_locker \<Rightarrow> thread \<Rightarrow> ('db, 'sd, 'ks) service \<Rightarrow> rpc_call
   \<Rightarrow> ('db, 'sd, 'ks) rpc_answer" where
  "rpc_serve X l t m (Ethereum c) = reads m l (ethereum_answer c)"
| "rpc_serve X l t m (BlockChain c) = reads m l (block_chain_answer X m c)"
| "rpc_serve X l t m (TransactionPool c) = transaction_pool_serve X l t m c"
| "rpc_serve X l t m (TxPool c) = reads m l (tx_pool_answer c)"
| "rpc_serve X l t m (PublicDebug c) = reads m l (public_debug_answer c)"
| "rpc_serve X l t m (PrivateDebug c) = reads m l (private_debug_answer c)"
| "rpc_serve X l t m PublicAccounts = reads m l (map_outcome VAddresses (Accounts X m))"
| "rpc_serve X l t m (PrivateAccount c) = private_account_serve X l t m c"
| "rpc_serve X l t m (EthereumChain c) = reads m l (ethereum_chain_answer c)"
| "rpc_serve X l t m (Admin c) = reads m l (admin_answer c)"
| "rpc_serve X l t m (DumpBlockC nr) = reads m l (map_outcome (\<lambda>_. VNull) (DumpBlock nr))"

text \<open>The entry of \<^verbatim>\<open>APIs\<close> whose service a call is for.\<close>

primrec rpc_api :: "rpc_call \<Rightarrow> api" where
  "rpc_api (Ethereum c) = mk_api ''eth'' ''PublicEthereumAPI'' True"
| "rpc_api (BlockChain c) = mk_api ''eth'' ''PublicBlockChainAPI'' True"
| "rpc_api (TransactionPool c) = mk_api ''eth'' ''PublicTransactionPoolAPI'' True"
| "rpc_api (TxPool c) = mk_api ''txpool'' ''PublicTxPoolAPI'' True"
| "rpc_api (PublicDebug c) = mk_api ''debug'' ''PublicDebugAPI'' True"
| "rpc_api (PrivateDebug c) = mk_api ''debug'' ''PrivateDebugAPI'' False"
| "rpc_api PublicAccounts = mk_api ''eth'' ''PublicAccountAPI'' True"
| "rpc_api (PrivateAccount c) = mk_api ''personal'' ''PrivateAccountAPI'' False"
| "rpc_api (EthereumChain c) = mk_api ''eth'' ''PublicEthereumChainAPI'' True"
| "rpc_api (Admin c) = mk_api ''admin'' ''PrivateAdminAPI'' False"
| "rpc_api (DumpBlockC nr) = mk_api ''debug'' ''PublicDebugChainAPI'' True"

end
