(* ===== verification/Consensus.thy ===== *)
theory Consensus
  imports StateSpec Config
begin

text \<open>
  The consensus systems (\<^verbatim>\<open>src/consensus\<close>): Solo, Raft and its state machine, and the in-memory
  Lachesis proxy.  A loop that receives from the submit channel is a fold over the transactions it
  receives; what an external node answers (leadership, the result of a Raft \<^verbatim>\<open>Apply\<close>, the results
  of the constructors) is an argument.  Only Solo, Raft and the Lachesis proxy of
  \<^verbatim>\<open>src/consensus\<close> execute transactions with \<^verbatim>\<open>ApplyTransaction\<close>; the engines of
  \<^verbatim>\<open>src/engine\<close> use \<^verbatim>\<open>ProcessBlock\<close>.
\<close>

section \<open>The interface of the application state\<close>

text \<open>
  What the consensus systems call: apply a transaction, commit.  Applying leaves the committed view
  alone, so nothing of a block is visible before its commit.
\<close>

locale app_state =
  fixes apply_tx :: "'s \<Rightarrow> bytes \<Rightarrow> int \<Rightarrow> hash \<Rightarrow> 's \<times> unit outcome"
    and committed :: "'s \<Rightarrow> 'v"
  assumes apply_keeps: "apply_tx s b i h = (s', r) \<Longrightarrow> committed s' = committed s"

text \<open>The loop \<^verbatim>\<open>for x, tx := range txs { if err := apply(tx, x); err != nil { return err } }\<close>.\<close>

fun apply_until_error :: "('s \<Rightarrow> bytes \<Rightarrow> int \<Rightarrow> 's \<times> unit outcome) \<Rightarrow> 's \<Rightarrow> int \<Rightarrow> bytes list \<Rightarrow> 's \<times> unit outcome" where
  "apply_until_error f s x [] = (s, Ret ())"
| "apply_until_error f s x (t # ts) =
     (case f s t x of
        (s, Fail e) \<Rightarrow> (s, Fail e)
      | (s, Panic) \<Rightarrow> (s, Panic)
      | (s, Ret _) \<Rightarrow> apply_until_error f s (x + 1) ts)"

context app_state
begin

lemma loop_keeps:
  "apply_until_error (\<lambda>s b i. apply_tx s b i h) s x ts = (s', r) \<Longrightarrow> committed s' = committed s"
proof (induction ts arbitrary: s x)
  case (Cons t ts)
  obtain s1 r1 where 1: "apply_tx s t x h = (s1, r1)" by fastforce
  from apply_keeps[OF 1] Cons 1 show ?case by (cases r1) auto
qed simp

end

definition committed_view :: "('db, 'sd) state \<Rightarrow> 'db \<times> 'sd \<times> 'sd txpool \<times> int" where
  "committed_view s = (s_db s, s_ethState s, s_txPool s, s_blockIndex s)"

interpretation app: app_state "ApplyTransaction X" committed_view for X :: "('db, 'sd, 'x) geth_scheme"
  by unfold_locales
     (auto simp: ApplyTransaction_def committed_view_def split: outcome.splits prod.splits)

text \<open>
  \<^verbatim>\<open>Init\<close> hands the state and the service to a consensus system, which keeps the pointers; here
  they are arguments of the definitions that use them, and Solo, which has no other parts, keeps the
  state.
\<close>

section \<open>Solo\<close>

record ('db, 'sd) solo =
  solo_txIndex :: int
  solo_state :: "('db, 'sd) state"

definition Solo_Init :: "('db, 'sd) solo \<Rightarrow> ('db, 'sd) state \<Rightarrow> ('db, 'sd) solo \<times> error option" where
  "Solo_Init s st = (s\<lparr>solo_state := st\<rparr>, None)"

text \<open>One round of the loop of \<^verbatim>\<open>Solo.Run\<close>: both errors are only logged.\<close>

definition solo_step ::
  "('db, 'sd, 'x) geth_scheme \<Rightarrow> ('db, 'sd) solo \<Rightarrow> bytes \<Rightarrow> ('db, 'sd) solo \<times> unit outcome" where
  "solo_step X s t =
     (let blockHash = BytesToHash X (str_bytes (''block '' @ sprintf_d (solo_txIndex s)))
      in case ApplyTransaction X (solo_state s) t (solo_txIndex s) blockHash of
           (st, Panic) \<Rightarrow> (s\<lparr>solo_state := st\<rparr>, Panic)
         | (st, _) \<Rightarrow>
             (case Commit X st of
                (st, Panic) \<Rightarrow> (s\<lparr>solo_state := st\<rparr>, Panic)
              | (st, _) \<Rightarrow> (s\<lparr>solo_txIndex := solo_txIndex s + 1, solo_state := st\<rparr>, Ret ())))"

fun Solo_Run ::
  "('db, 'sd, 'x) geth_scheme \<Rightarrow> ('db, 'sd) solo \<Rightarrow> bytes list \<Rightarrow> ('db, 'sd) solo \<times> unit outcome" where
  "Solo_Run X s [] = (s, Ret ())"
| "Solo_Run X s (t # ts) =
     (case solo_step X s t of
        (s, Ret _) \<Rightarrow> Solo_Run X s ts
      | (s, r) \<Rightarrow> (s, r))"

definition Solo_Info :: "('db, 'sd) solo \<Rightarrow> (string \<times> string) list outcome" where
  "Solo_Info s = Ret [(''type'', ''solo''), (''tx_index'', sprintf_d (solo_txIndex s))]"

section \<open>Raft\<close>

text \<open>\<^verbatim>\<open>FSM.Apply\<close> returns nil (\<open>None\<close>) when the transaction or the commit fails.\<close>

definition FSM_Apply ::
  "('db, 'sd, 'x) geth_scheme \<Rightarrow> ('db, 'sd) state \<Rightarrow> u64 \<Rightarrow> bytes
   \<Rightarrow> ('db, 'sd) state \<times> bytes option outcome" where
  "FSM_Apply X st index data =
     (case ApplyTransaction X st data (sint index) 0 of
        (st, Fail _) \<Rightarrow> (st, Ret None)
      | (st, Panic) \<Rightarrow> (st, Panic)
      | (st, Ret _) \<Rightarrow>
          (case Commit X st of
             (st, Panic) \<Rightarrow> (st, Panic)
           | (st, Fail e) \<Rightarrow> (st, Fail e)
           | (st, Ret (h, Some e)) \<Rightarrow> (st, Ret None)
           | (st, Ret (h, None)) \<Rightarrow> (st, Ret (Some (hash_bytes h)))))"

definition FSM_Snapshot :: "unit outcome" where
  "FSM_Snapshot = Fail (Errorf ''snapshot function not implemented'')"

definition FSM_Restore :: "error option" where
  "FSM_Restore = Some (Errorf ''restore function not implemented'')"

record raft =
  raft_conf :: raft_config
  raft_node :: bool          \<comment> \<open>\<^verbatim>\<open>raftNode\<close> is set\<close>
  raft_txIndex :: int

definition NewRaft :: "raft_config \<Rightarrow> raft" where
  "NewRaft conf = \<lparr>raft_conf = conf, raft_node = False, raft_txIndex = 0\<rparr>"

text \<open>
  The constructors of the Raft library that \<^verbatim>\<open>Raft.Init\<close> calls, by their errors: the transport for
  an address, the snapshot store in a directory, the node with an id, the peers in a file; and the
  statistics of a node.
\<close>

record raft_library =
  rl_NewTCPTransport :: "string \<Rightarrow> error option"
  rl_NewFileSnapshotStore :: "string \<Rightarrow> error option"
  rl_NewRaft :: "string \<Rightarrow> error option"
  rl_ReadConfigJSON :: "string \<Rightarrow> error option"
  rl_Stats :: "(string \<times> string) list"

definition wrap_error :: "string \<Rightarrow> error \<Rightarrow> error" where
  "wrap_error pre e = Errorf (pre @ error_text e)"

definition Raft_Init :: "raft_library \<Rightarrow> raft \<Rightarrow> raft \<times> error option" where
  "Raft_Init L r =
     (case rl_NewTCPTransport L (rc_NodeAddr (raft_conf r)) of
        Some e \<Rightarrow> (r, Some e)
      | None \<Rightarrow>
     (case rl_NewFileSnapshotStore L (rc_SnapshotDir (raft_conf r)) of
        Some e \<Rightarrow> (r, Some (wrap_error ''file snapshot store: '' e))
      | None \<Rightarrow>
     (case rl_NewRaft L (rc_LocalID (raft_conf r)) of
        Some e \<Rightarrow> (r, Some (wrap_error ''new raft: '' e))
      | None \<Rightarrow>
     (case rl_ReadConfigJSON L (rc_RaftDir (raft_conf r) @ ''/peers.json'') of
        Some e \<Rightarrow> (r, Some (wrap_error ''unable to create cluster configuration from peers.json: '' e))
      | None \<Rightarrow> (r\<lparr>raft_node := True\<rparr>, None)))))"

text \<open>
  The loop of \<^verbatim>\<open>Raft.Run\<close>: it receives a transaction, with whether the node is the leader then and
  the error of \<^verbatim>\<open>raftNode.Apply\<close>, or the interrupt.  A \<^verbatim>\<open>break\<close> leaves the \<^verbatim>\<open>select\<close>
  only, and without a node the first transaction is a nil dereference.  The events of the list are
  the rounds of the loop; the result is \<open>None\<close> while it runs.
\<close>

datatype raft_event = Submitted bytes bool "error option" | Interrupt

fun Raft_Run :: "raft \<Rightarrow> raft_event list \<Rightarrow> raft \<times> unit outcome option" where
  "Raft_Run r [] = (r, None)"
| "Raft_Run r (Submitted t leader err # evs) =
     (if \<not> raft_node r then (r, Some Panic)
      else if \<not> leader then Raft_Run r evs
      else case err of
             Some e \<Rightarrow> Raft_Run r evs
           | None \<Rightarrow> Raft_Run (r\<lparr>raft_txIndex := raft_txIndex r + 1\<rparr>) evs)"
| "Raft_Run r (Interrupt # evs) = (r, Some (Ret ()))"

text \<open>The statistics are the library's; \<open>stats\<close> has each key once.\<close>

definition Raft_Info :: "raft \<Rightarrow> (string \<times> string) list \<Rightarrow> (string \<times> string) list outcome" where
  "Raft_Info r stats =
     (if raft_node r then Ret ((''type'', ''raft'') # filter (\<lambda>(k, v). k \<noteq> ''type'') stats) else Panic)"

text \<open>
  The entries of the log that are committed: the library calls \<^verbatim>\<open>FSM.Apply\<close> for each, in order, on
  every node, and hands the results to the callers of \<^verbatim>\<open>Apply\<close>.
\<close>

fun FSM_log ::
  "('db, 'sd, 'x) geth_scheme \<Rightarrow> ('db, 'sd) state \<Rightarrow> (u64 \<times> bytes) list \<Rightarrow> ('db, 'sd) state \<times> bytes option list outcome" where
  "FSM_log X st [] = (st, Ret [])"
| "FSM_log X st ((index, data) # log) =
     (case FSM_Apply X st index data of
        (st, Fail e) \<Rightarrow> (st, Fail e)
      | (st, Panic) \<Rightarrow> (st, Panic)
      | (st, Ret r) \<Rightarrow>
          (case FSM_log X st log of
             (st, Ret rs) \<Rightarrow> (st, Ret (r # rs))
           | (st, res) \<Rightarrow> (st, res)))"

section \<open>In-memory Lachesis\<close>

definition proxy_CommitBlock ::
  "('db, 'sd, 'x) geth_scheme \<Rightarrow> ('db, 'sd) state \<Rightarrow> block \<Rightarrow> ('db, 'sd) state \<times> bytes outcome" where
  "proxy_CommitBlock X st blk =
     (let blockHash = BytesToHash X (blk_Hash blk)
      in case apply_until_error (\<lambda>s b i. ApplyTransaction X s b i blockHash) st 0 (blk_Transactions blk) of
           (st, Fail e) \<Rightarrow> (st, Fail e)
         | (st, Panic) \<Rightarrow> (st, Panic)
         | (st, Ret _) \<Rightarrow>
             (case Commit X st of
                (st, Panic) \<Rightarrow> (st, Panic)
              | (st, Fail e) \<Rightarrow> (st, Fail e)
              | (st, Ret (_, Some e)) \<Rightarrow> (st, Fail e)
              | (st, Ret (h, None)) \<Rightarrow> (st, Ret (hash_bytes h))))"

definition proxy_GetSnapshot :: "int \<Rightarrow> bytes outcome" where
  "proxy_GetSnapshot blockIndex = Ret []"

definition proxy_Restore :: "bytes \<Rightarrow> error option" where
  "proxy_Restore snapshot = None"

text \<open>
  The blocks the network agrees on, which the node commits in order; what go-lachesis does with the
  error of a block is its own, and it goes on.
\<close>

fun proxy_blocks ::
  "('db, 'sd, 'x) geth_scheme \<Rightarrow> ('db, 'sd) state \<Rightarrow> block list \<Rightarrow> ('db, 'sd) state \<times> unit outcome" where
  "proxy_blocks X st [] = (st, Ret ())"
| "proxy_blocks X st (blk # blks) =
     (case proxy_CommitBlock X st blk of
        (st, Panic) \<Rightarrow> (st, Panic)
      | (st, _) \<Rightarrow> proxy_blocks X st blks)"

text \<open>
  \<^verbatim>\<open>InmemLachesis\<close>: its configuration, a pointer, and the node with the configuration it was made
  with.  \<open>node_Init\<close> and \<open>node_Run\<close> are the library's; its \<^verbatim>\<open>Run\<close> has no result.
\<close>

record lachesis =
  la_config :: "lachesis_config option"
  la_node :: "real_lachesis_config option"

definition NewInmemLachesis :: "lachesis_config option \<Rightarrow> lachesis" where
  "NewInmemLachesis conf = \<lparr>la_config = conf, la_node = None\<rparr>"

definition Lachesis_Init ::
  "real_lachesis_config \<Rightarrow> (real_lachesis_config \<Rightarrow> error option) \<Rightarrow> lachesis \<Rightarrow> lachesis \<times> unit outcome" where
  "Lachesis_Init NewLachesisConfig node_Init b =
     (case la_config b of
        None \<Rightarrow> (b, Panic)
      | Some conf \<Rightarrow>
          let realConfig = ToRealLachesisConfig NewLachesisConfig conf in
          (case node_Init realConfig of
             Some e \<Rightarrow> (b, Fail e)
           | None \<Rightarrow> (b\<lparr>la_node := Some realConfig\<rparr>, Ret ())))"

definition Lachesis_Run :: "(real_lachesis_config \<Rightarrow> unit) \<Rightarrow> lachesis \<Rightarrow> unit outcome" where
  "Lachesis_Run node_Run b = (case la_node b of None \<Rightarrow> Panic | Some conf \<Rightarrow> Ret (node_Run conf))"

definition Lachesis_Info :: "lachesis \<Rightarrow> (string \<times> string) list \<Rightarrow> (string \<times> string) list outcome" where
  "Lachesis_Info b stats =
     (if la_node b = None then Panic
      else Ret ((''type'', ''lachesis'') # filter (\<lambda>(k, v). k \<noteq> ''type'') stats))"

section \<open>Properties\<close>

lemma ApplyTransaction_undecodable:
  "rlp_Decode_tx X b = Fail e \<Longrightarrow> ApplyTransaction X s b i h = (s, Fail e)"
  by (simp add: ApplyTransaction_def)

lemma ApplyTransaction_decodable:
  assumes "nil_signer_panics X" "config_inv s" "rlp_Decode_tx X b = Ret t"
  shows "ApplyTransaction X s b i h = (s, Panic)"
  using assms by (simp add: config_inv_def was_config_def ApplyTransaction_def was_ApplyTransaction_def
      nil_signer_panics_def)

lemma solo_step_cases:
  assumes "nil_signer_panics X" "libs_total X" "config_inv (solo_state s)"
  shows "case rlp_Decode_tx X t of
      Ret _ \<Rightarrow> solo_step X s t = (s, Panic)
    | _ \<Rightarrow> \<exists>st. solo_step X s t = (s\<lparr>solo_txIndex := solo_txIndex s + 1, solo_state := st\<rparr>, Ret ()) \<and> config_inv st"
proof (cases "rlp_Decode_tx X t")
  case (Ret t')
  with ApplyTransaction_decodable[OF assms(1,3) Ret] show ?thesis by (simp add: solo_step_def Let_def)
next
  case (Fail e)
  obtain st h err where c: "Commit X (solo_state s) = (st, Ret (h, err))"
    using Commit_Ret[OF assms(2)] by blast
  moreover have "config_inv st" by (rule config.commit[OF assms(3) c])
  ultimately show ?thesis
    using Fail ApplyTransaction_undecodable[OF Fail] by (auto simp: solo_step_def Let_def intro!: exI[of _ st])
qed (use libs_totalD(1)[OF assms(2)] in simp)

lemma Solo_Run_result:
  assumes "nil_signer_panics X" "libs_total X" "config_inv (solo_state s)"
  shows "if \<exists>t \<in> set ts. returned (rlp_Decode_tx X t) then snd (Solo_Run X s ts) = Panic
    else snd (Solo_Run X s ts) = Ret () \<and> solo_txIndex (fst (Solo_Run X s ts)) = solo_txIndex s + int (length ts)"
  using assms(3)
proof (induction ts arbitrary: s)
  case (Cons t ts)
  note step = solo_step_cases[OF assms(1,2) Cons.prems, of t]
  show ?case
  proof (cases "rlp_Decode_tx X t")
    case (Fail e)
    with step obtain st where
      "solo_step X s t = (s\<lparr>solo_txIndex := solo_txIndex s + 1, solo_state := st\<rparr>, Ret ())" "config_inv st" by auto
    with Cons.IH[of "s\<lparr>solo_txIndex := solo_txIndex s + 1, solo_state := st\<rparr>"] Fail show ?thesis
      by (simp split: if_splits)
  qed (use step libs_totalD(1)[OF assms(2)] in simp_all)
qed simp

lemma FSM_Apply_cases:
  assumes "nil_signer_panics X" "libs_total X" "config_inv st"
  shows "FSM_Apply X st i b = (st, if returned (rlp_Decode_tx X b) then Panic else Ret None)"
proof (cases "rlp_Decode_tx X b")
  case (Ret t)
  with ApplyTransaction_decodable[OF assms(1,3) Ret] show ?thesis by (simp add: FSM_Apply_def)
next
  case (Fail e)
  with ApplyTransaction_undecodable[OF Fail] show ?thesis by (simp add: FSM_Apply_def)
qed (use libs_totalD(1)[OF assms(2)] in simp)

lemma FSM_log_result:
  assumes "nil_signer_panics X" "libs_total X" "config_inv st"
  shows "FSM_log X st log = (st, if \<exists>(i, b) \<in> set log. returned (rlp_Decode_tx X b) then Panic
    else Ret (map (\<lambda>_. None) log))"
  by (induction log) (auto simp: FSM_Apply_cases[OF assms])

lemma proxy_CommitBlock_first:
  assumes "nil_signer_panics X" "config_inv st" "blk_Transactions blk = b # bs"
  shows "rlp_Decode_tx X b = Ret t \<Longrightarrow> proxy_CommitBlock X st blk = (st, Panic)"
    and "rlp_Decode_tx X b = Fail e \<Longrightarrow> proxy_CommitBlock X st blk = (st, Fail e)"
  using ApplyTransaction_decodable[OF assms(1,2), of b t] ApplyTransaction_undecodable[of X b e] assms(3)
  by (simp_all add: proxy_CommitBlock_def Let_def)

definition starts_with_transaction :: "('db, 'sd, 'x) geth_scheme \<Rightarrow> block \<Rightarrow> bool" where
  "starts_with_transaction X blk =
     (case blk_Transactions blk of [] \<Rightarrow> False | b # _ \<Rightarrow> returned (rlp_Decode_tx X b))"

lemma proxy_CommitBlock_cases:
  assumes "nil_signer_panics X" "libs_total X" "config_inv st"
  shows "if starts_with_transaction X blk then proxy_CommitBlock X st blk = (st, Panic)
    else \<exists>st' r. proxy_CommitBlock X st blk = (st', r) \<and> r \<noteq> Panic \<and> config_inv st'"
proof (cases "blk_Transactions blk")
  case Nil
  obtain st' h err where c: "Commit X st = (st', Ret (h, err))" using Commit_Ret[OF assms(2)] by blast
  moreover have "config_inv st'" by (rule config.commit[OF assms(3) c])
  ultimately show ?thesis using Nil
    by (cases err) (simp_all add: starts_with_transaction_def proxy_CommitBlock_def)
next
  case (Cons b bs)
  note first = proxy_CommitBlock_first[OF assms(1,3) Cons]
  show ?thesis
    by (cases "rlp_Decode_tx X b")
       (use first assms(3) libs_totalD(1)[OF assms(2)] Cons in \<open>simp_all add: starts_with_transaction_def\<close>)
qed

lemma proxy_blocks_result:
  assumes "nil_signer_panics X" "libs_total X" "config_inv st"
  shows "snd (proxy_blocks X st blks) = (if \<exists>blk \<in> set blks. starts_with_transaction X blk then Panic else Ret ())"
  using assms(3)
proof (induction blks arbitrary: st)
  case (Cons blk blks)
  note step = proxy_CommitBlock_cases[OF assms(1,2) Cons.prems, of blk]
  show ?case
  proof (cases "starts_with_transaction X blk")
    case False
    with step obtain st' r where "proxy_CommitBlock X st blk = (st', r)" "r \<noteq> Panic" "config_inv st'" by auto
    with Cons.IH[of st'] False show ?thesis by (cases r) simp_all
  qed (use step in simp)
qed simp

text \<open>
  C12. No consensus system of \<^verbatim>\<open>src/consensus\<close> can execute a transaction.  Solo panics exactly when
  it receives one that decodes; a Raft node panics exactly when a committed log entry decodes, and
  otherwise answers nil for every entry and leaves the state alone; the in-memory Lachesis proxy
  panics exactly when it is given a block whose first transaction decodes, and a block whose first
  transaction does not decode is refused without any change.
\<close>

theorem consensus_execution:
  assumes "nil_signer_panics X" "libs_total X" "reachable X st"
  shows "(solo_state s = st \<longrightarrow>
      (snd (Solo_Run X s ts) = Panic \<longleftrightarrow> (\<exists>t \<in> set ts. returned (rlp_Decode_tx X t)))) \<and>
    (snd (FSM_log X st log) = Panic \<longleftrightarrow> (\<exists>(i, b) \<in> set log. returned (rlp_Decode_tx X b))) \<and>
    (snd (FSM_log X st log) \<noteq> Panic \<longrightarrow> FSM_log X st log = (st, Ret (map (\<lambda>_. None) log))) \<and>
    (snd (proxy_blocks X st blks) = Panic \<longleftrightarrow> (\<exists>blk \<in> set blks. starts_with_transaction X blk)) \<and>
    (\<forall>b bs e. blk_Transactions blk = b # bs \<and> rlp_Decode_tx X b = Fail e \<longrightarrow> proxy_CommitBlock X st blk = (st, Fail e))"
proof (intro conjI)
  note conf = config.invariant[OF assms(3)]
  show "solo_state s = st \<longrightarrow> (snd (Solo_Run X s ts) = Panic \<longleftrightarrow> (\<exists>t \<in> set ts. returned (rlp_Decode_tx X t)))"
    using Solo_Run_result[OF assms(1,2), of s ts] conf by (auto split: if_splits)
  show "snd (FSM_log X st log) = Panic \<longleftrightarrow> (\<exists>(i, b) \<in> set log. returned (rlp_Decode_tx X b))"
    "snd (FSM_log X st log) \<noteq> Panic \<longrightarrow> FSM_log X st log = (st, Ret (map (\<lambda>_. None) log))"
    unfolding FSM_log_result[OF assms(1,2) conf] by simp_all
  show "snd (proxy_blocks X st blks) = Panic \<longleftrightarrow> (\<exists>blk \<in> set blks. starts_with_transaction X blk)"
    unfolding proxy_blocks_result[OF assms(1,2) conf] by simp
qed (use proxy_CommitBlock_first[OF assms(1) config.invariant[OF assms(3)]] in blast)+

theorem consensus_execution_witness:
  "snd (Solo_Run demo \<lparr>solo_txIndex = 0, solo_state = demo_s0\<rparr> [[1, 2, 3], [193, 0]]) = Panic
   \<and> snd (FSM_log demo demo_s0 [(1, [1, 2]), (2, [193, 0])]) = Panic
   \<and> snd (proxy_blocks demo demo_s0 [demo_blk]) = Panic"
proof -
  have blk: "blk_Transactions demo_blk = [193, 0] # [[193, 5], [193, 1]]"
    by (simp add: demo_blk_def demo_block_def)
  have dec: "rlp_Decode_tx demo [193, 0] = Ret (demo_tx 0)" "returned (rlp_Decode_tx demo [193, 0])" by simp_all
  note exec = consensus_execution[OF demo_nil_signer demo_libs_total demo_reachable,
      of "\<lparr>solo_txIndex = 0, solo_state = demo_s0\<rparr>" "[[1, 2, 3], [193, 0]]" "[(1, [1, 2]), (2, [193, 0])]" "[demo_blk]" demo_blk]
  have "\<exists>t \<in> set [[1, 2, 3], [193, 0]]. returned (rlp_Decode_tx demo t)"
    "\<exists>(i, b) \<in> set [(1, [1, 2]), (2 :: u64, [193, 0])]. returned (rlp_Decode_tx demo b)" using dec(2) by auto
  moreover have "\<exists>blk \<in> set [demo_blk]. starts_with_transaction demo blk"
    by (simp add: starts_with_transaction_def blk)
  ultimately show ?thesis using exec by simp
qed

text \<open>The transactions a list of byte strings decodes to.\<close>

definition decodes :: "('db, 'sd, 'x) geth_scheme \<Rightarrow> bytes list \<Rightarrow> tx list" where
  "decodes X bs = map (\<lambda>b. the_Ret (rlp_Decode_tx X b)) bs"

lemma ApplyTransaction_pending:
  assumes "ApplyTransaction X s b i h = (s', r)"
  shows "case r of
      Ret _ \<Rightarrow> w_transactions (s_was s') = w_transactions (s_was s) @ decodes X [b]
    | _ \<Rightarrow> w_transactions (s_was s') = w_transactions (s_was s)"
proof (cases "rlp_Decode_tx X b")
  case (Ret t)
  obtain w r' where w: "was_ApplyTransaction X (s_was s) t i h = (w, r')" by fastforce
  with assms Ret have "s' = s\<lparr>s_was := w\<rparr>" "r = r'" by (auto simp: ApplyTransaction_def)
  with was_ApplyTransaction_cases[OF w] Ret show ?thesis
    by (cases r') (auto simp: applied_def same_but_evm_def decodes_def)
qed (use assms in \<open>auto simp: ApplyTransaction_def\<close>)

lemma loop_pending:
  assumes "apply_until_error (\<lambda>s b i. ApplyTransaction X s b i h) s x bs = (s', r)"
  shows "\<exists>done rest. bs = done @ rest \<and> (r = Ret () \<longrightarrow> rest = []) \<and> (\<not> returned r \<longrightarrow> rest \<noteq> [])
    \<and> w_transactions (s_was s') = w_transactions (s_was s) @ decodes X done"
  using assms
proof (induction bs arbitrary: s x)
  case (Cons b bs)
  obtain s1 r1 where 1: "ApplyTransaction X s b x h = (s1, r1)" by fastforce
  note pend = ApplyTransaction_pending[OF 1]
  show ?case
  proof (cases r1)
    case (Ret u)
    with Cons.prems 1 have "apply_until_error (\<lambda>s b i. ApplyTransaction X s b i h) s1 (x + 1) bs = (s', r)" by simp
    from Cons.IH[OF this] obtain dn rest where "bs = dn @ rest" "r = Ret () \<longrightarrow> rest = []"
      "\<not> returned r \<longrightarrow> rest \<noteq> []" "w_transactions (s_was s') = w_transactions (s_was s1) @ decodes X dn" by blast
    with pend Ret show ?thesis by (intro exI[of _ "b # dn"] exI[of _ rest]) (simp add: decodes_def)
  next
    case (Fail e)
    with Cons.prems 1 pend have "s' = s1" "r = Fail e" "w_transactions (s_was s1) = w_transactions (s_was s)" by auto
    then show ?thesis by (intro exI[of _ "[]"] exI[of _ "b # bs"]) (simp add: decodes_def)
  next
    case Panic
    with Cons.prems 1 pend have "s' = s1" "r = Panic" "w_transactions (s_was s1) = w_transactions (s_was s)" by auto
    then show ?thesis by (intro exI[of _ "[]"] exI[of _ "b # bs"]) (simp add: decodes_def)
  qed
qed (auto simp: decodes_def)

text \<open>
  A block that the in-memory Lachesis proxy rejects because of one of its transactions commits
  nothing: database, committed StateDB, pool and block index are as before; but the transactions
  before the rejected one stay pending, so the next commit takes them.
\<close>

theorem proxy_CommitBlock_rejected:
  assumes "apply_until_error (\<lambda>s b i. ApplyTransaction X s b i (BytesToHash X (blk_Hash blk))) st 0
      (blk_Transactions blk) = (st', Fail e)"
  shows "proxy_CommitBlock X st blk = (st', Fail e) \<and> committed_view st' = committed_view st
    \<and> (\<exists>done b rest. blk_Transactions blk = done @ b # rest
         \<and> w_transactions (s_was st') = w_transactions (s_was st) @ decodes X done)"
proof (intro conjI)
  show "proxy_CommitBlock X st blk = (st', Fail e)" using assms by (simp add: proxy_CommitBlock_def)
  show "committed_view st' = committed_view st" using assms by (rule app.loop_keeps)
  show "\<exists>done b rest. blk_Transactions blk = done @ b # rest
      \<and> w_transactions (s_was st') = w_transactions (s_was st) @ decodes X done"
    using loop_pending[OF assms] by (auto simp: neq_Nil_conv)
qed

text \<open>A state whose write-ahead state has the signer, as \<^verbatim>\<open>NewWriteAheadState\<close> makes it.\<close>

definition demo_signed :: "(demo_db, demo_sd) state" where
  "demo_signed = demo_s0\<lparr>s_was := adopt demo_s0\<rparr>"

theorem proxy_CommitBlock_rejected_witness:
  "\<exists>st'. proxy_CommitBlock demo demo_signed demo_blk = (st', Fail (LibError ''nonce too low''))
     \<and> committed_view st' = committed_view demo_signed"
proof -
  let ?r = "apply_until_error (\<lambda>s b i. ApplyTransaction demo s b i (BytesToHash demo (blk_Hash demo_blk)))
      demo_signed 0 (blk_Transactions demo_blk)"
  have "?r = (fst ?r, Fail (LibError ''nonce too low''))"
    by (rule prod_eqI) (simp_all add: demo_signed_def adopt_def demo_s0_def demo_blk_def ApplyTransaction_def
        was_ApplyTransaction_def run_defs)
  from proxy_CommitBlock_rejected[OF this] show ?thesis by blast
qed

text \<open>
  Raft's transaction index counts exactly the transactions that were received before the
  interrupt while the node was the leader and that the Raft node applied; the others are dropped.
\<close>

theorem Raft_Run_counts:
  assumes "Raft_Init L (NewRaft conf) = (r, None)"
  shows "raft_txIndex (fst (Raft_Run r evs)) =
    int (length (filter (\<lambda>ev. \<exists>t. ev = Submitted t True None) (takeWhile (\<lambda>ev. ev \<noteq> Interrupt) evs)))
    \<and> snd (Raft_Run r evs) = (if Interrupt \<in> set evs then Some (Ret ()) else None)"
proof -
  have "raft_node r \<Longrightarrow> raft_txIndex (fst (Raft_Run r evs)) = raft_txIndex r +
    int (length (filter (\<lambda>ev. \<exists>t. ev = Submitted t True None) (takeWhile (\<lambda>ev. ev \<noteq> Interrupt) evs)))
    \<and> snd (Raft_Run r evs) = (if Interrupt \<in> set evs then Some (Ret ()) else None)" for r
    by (induction r evs rule: Raft_Run.induct) (auto split: option.splits)
  moreover have "raft_node r" "raft_txIndex r = 0"
    using assms by (auto simp: Raft_Init_def NewRaft_def split: option.splits)
  ultimately show ?thesis by simp
qed

end
