(* ===== verification/Engine.thy ===== *)
theory Engine
  imports HandlerSpec Web3Api Consensus
begin

text \<open>
  The engines (\<^verbatim>\<open>src/engine\<close>), which put a state, a service and a consensus system together.  The
  state is shared by pointer, so it is the state of the service record.  The constructors take what
  the operating system and the other libraries answer.  An engine with an external consensus runs as
  a step relation: the start of the service, HTTP requests, JSON-RPC calls, the forwarding of one
  submission to the consensus, which may fail, the commit of one block, in any order.
\<close>

section \<open>Construction\<close>

record 'db node_env =
  env_Getrlimit :: "u64 outcome"
  env_NewLDBDatabase :: "string \<Rightarrow> int \<Rightarrow> int \<Rightarrow> 'db outcome"

text \<open>The first half of all three constructors: the state, then the service over it.\<close>

definition build_service ::
  "('db, 'sd, 'x) geth_scheme \<Rightarrow> 'db node_env \<Rightarrow> config \<Rightarrow> ('db, 'sd, 'ks) service outcome" where
  "build_service X D cfg =
     (case cf_Eth cfg of
        None \<Rightarrow> Panic
      | Some eth \<Rightarrow>
          (case NewState X (env_Getrlimit D) (env_NewLDBDatabase D) (ec_DbFile eth) (ec_Cache eth) of
             Fail e \<Rightarrow> Fail e
           | Panic \<Rightarrow> Panic
           | Ret st \<Rightarrow> NewService (ec_Genesis eth) (ec_Keystore eth) (ec_EthAPIAddr eth) (ec_PwdFile eth) st))"

text \<open>
  \<^verbatim>\<open>consensus.Consensus\<close> (\<^verbatim>\<open>src/consensus/consensus.go\<close>) as its three methods over a
  consensus system of type \<open>'c\<close>.
\<close>

record ('db, 'sd, 'ks, 'c) consensus =
  cs_Init :: "'c \<Rightarrow> ('db, 'sd, 'ks) service \<Rightarrow> 'c \<times> ('db, 'sd, 'ks) service \<times> unit outcome"
  cs_Run :: "'c \<Rightarrow> ('db, 'sd, 'ks) service \<Rightarrow> 'c \<times> ('db, 'sd, 'ks) service \<times> unit outcome"
  cs_Info :: "'c \<Rightarrow> (string \<times> string) list outcome"

record ('db, 'sd, 'ks, 'c) consensus_engine =
  ce_service :: "('db, 'sd, 'ks) service"
  ce_consensus :: 'c

text \<open>The callback is the method value \<^verbatim>\<open>consensus.Info\<close>; the record keeps what it answers now.\<close>

definition NewConsensusEngine ::
  "('db, 'sd, 'x) geth_scheme \<Rightarrow> 'db node_env \<Rightarrow> ('db, 'sd, 'ks, 'c) consensus \<Rightarrow> config \<Rightarrow> 'c
   \<Rightarrow> ('db, 'sd, 'ks, 'c) consensus_engine outcome" where
  "NewConsensusEngine X D C cfg c =
     (case build_service X D cfg of
        Fail e \<Rightarrow> Fail e
      | Panic \<Rightarrow> Panic
      | Ret m \<Rightarrow>
          (case cs_Init C c m of
             (c, m, Fail e) \<Rightarrow> Fail e
           | (c, m, Panic) \<Rightarrow> Panic
           | (c, m, Ret _) \<Rightarrow> Ret \<lparr>ce_service = SetInfoCallback m (cs_Info C c), ce_consensus = c\<rparr>))"

text \<open>\<^verbatim>\<open>Run\<close> starts the service as a goroutine and returns the error of the consensus.\<close>

definition ConsensusEngine_Run ::
  "('db, 'sd, 'ks, 'c) consensus \<Rightarrow> ('db, 'sd, 'ks, 'c) consensus_engine
   \<Rightarrow> ('db, 'sd, 'ks, 'c) consensus_engine \<times> unit outcome" where
  "ConsensusEngine_Run C en =
     (case cs_Run C (ce_consensus en) (ce_service en) of
        (c, m, res) \<Rightarrow> (\<lparr>ce_service = m, ce_consensus = c\<rparr>, res))"

section \<open>The engine over a socket\<close>

text \<open>
  \<open>se_submits\<close> are the calls of \<^verbatim>\<open>SubmitTx\<close> the loop has made, each with the error it returned,
  \<open>se_responses\<close> the answers to the proxy's commits; \<open>se_nonceLock\<close> is the \<^verbatim>\<open>AddrLocker\<close> that
  \<^verbatim>\<open>Web3AccountService.APIs\<close> makes for the APIs of the running RPC server.
\<close>

record ('db, 'sd, 'ks) socket_engine =
  se_service :: "('db, 'sd, 'ks) service"
  se_nonceLock :: addr_locker
  se_submits :: "(bytes \<times> error option) list"
  se_responses :: "(bytes \<times> error option) list"

text \<open>
  What the loop has taken from \<^verbatim>\<open>submitCh\<close>, what of it the consensus has, and what is lost: \<^verbatim>\<open>serve\<close>
  only logs an error of \<^verbatim>\<open>SubmitTx\<close>.
\<close>

definition se_taken :: "('db, 'sd, 'ks) socket_engine \<Rightarrow> bytes list" where
  "se_taken en = map fst (se_submits en)"

definition se_given :: "('db, 'sd, 'ks) socket_engine \<Rightarrow> bytes list" where
  "se_given en = map fst (filter (\<lambda>(b, err). err = None) (se_submits en))"

lemma se_taken_frame [simp]:
  "se_taken (en\<lparr>se_service := m\<rparr>) = se_taken en" "se_given (en\<lparr>se_service := m\<rparr>) = se_given en"
  "se_taken (en\<lparr>se_nonceLock := l\<rparr>) = se_taken en" "se_given (en\<lparr>se_nonceLock := l\<rparr>) = se_given en"
  "se_taken (en\<lparr>se_responses := rs\<rparr>) = se_taken en" "se_given (en\<lparr>se_responses := rs\<rparr>) = se_given en"
  by (simp_all add: se_taken_def se_given_def)

definition NewSocketEngine ::
  "('db, 'sd, 'x) geth_scheme \<Rightarrow> 'db node_env \<Rightarrow> (string \<Rightarrow> unit outcome) \<Rightarrow> config
   \<Rightarrow> ('db, 'sd, 'ks) socket_engine outcome" where
  "NewSocketEngine X D NewGrpcLachesisProxy cfg =
     (case build_service X D cfg of
        Fail e \<Rightarrow> Fail e
      | Panic \<Rightarrow> Panic
      | Ret m \<Rightarrow>
          (case NewGrpcLachesisProxy (cf_ProxyAddr cfg) of
             Fail e \<Rightarrow> Fail e
           | Panic \<Rightarrow> Panic
           | Ret _ \<Rightarrow> Ret \<lparr>se_service = m, se_nonceLock = NewAddrLocker, se_submits = [], se_responses = []\<rparr>))"

text \<open>
  The two cases of the \<^verbatim>\<open>select\<close> in \<^verbatim>\<open>serve\<close>.  \<open>err\<close> is what \<^verbatim>\<open>SubmitTx\<close> returns for the
  submission, which the loop does not keep either way; the first case is ready only when a submission is pending.
\<close>

definition pending :: "('db, 'sd, 'ks) socket_engine \<Rightarrow> bytes option" where
  "pending en =
     (case drop (length (se_taken en)) (sv_submitCh (se_service en)) of [] \<Rightarrow> None | t # _ \<Rightarrow> Some t)"

definition serve_submit ::
  "('db, 'sd, 'ks) socket_engine \<Rightarrow> error option \<Rightarrow> ('db, 'sd, 'ks) socket_engine option" where
  "serve_submit en err =
     (case pending en of None \<Rightarrow> None | Some t \<Rightarrow> Some (en\<lparr>se_submits := se_submits en @ [(t, err)]\<rparr>))"

definition serve_commit ::
  "('db, 'sd, 'x) geth_scheme \<Rightarrow> int \<Rightarrow> block \<Rightarrow> ('db, 'sd, 'ks) socket_engine
   \<Rightarrow> ('db, 'sd, 'ks) socket_engine outcome" where
  "serve_commit X now blk en =
     (case ProcessBlock X now (sv_state (se_service en)) blk of
        (st, Ret (stateHash, err)) \<Rightarrow>
          Ret (en\<lparr>se_service := (se_service en)\<lparr>sv_state := st\<rparr>,
                 se_responses := se_responses en @ [(hash_bytes stateHash, err)]\<rparr>)
      | (st, Fail e) \<Rightarrow> Fail e
      | (st, Panic) \<Rightarrow> Panic)"

text \<open>The handler of the newer proxy interface, and the proxy of the in-memory engine.\<close>

definition CommitHandler ::
  "('db, 'sd, 'x) geth_scheme \<Rightarrow> int \<Rightarrow> ('db, 'sd) state \<Rightarrow> block \<Rightarrow> ('db, 'sd) state \<times> (bytes \<times> error option) outcome" where
  "CommitHandler X now st blk =
     (case ProcessBlock X now st blk of
        (st, Ret (stateHash, err)) \<Rightarrow> (st, Ret (hash_bytes stateHash, None))
      | (st, Fail e) \<Rightarrow> (st, Fail e)
      | (st, Panic) \<Rightarrow> (st, Panic))"

definition SnapshotHandler :: "int \<Rightarrow> bytes \<times> error option" where
  "SnapshotHandler blockIndex = ([], None)"

definition RestoreHandler :: "bytes \<Rightarrow> bytes \<times> error option" where
  "RestoreHandler snapshot = ([], None)"

definition engine_CommitBlock ::
  "('db, 'sd, 'x) geth_scheme \<Rightarrow> int \<Rightarrow> ('db, 'sd) state \<Rightarrow> block \<Rightarrow> ('db, 'sd) state \<times> (bytes \<times> error option) outcome" where
  "engine_CommitBlock X now st blk =
     (case ProcessBlock X now st blk of
        (st, Ret (stateHash, err)) \<Rightarrow> (st, Ret (hash_bytes stateHash, err))
      | (st, Fail e) \<Rightarrow> (st, Fail e)
      | (st, Panic) \<Rightarrow> (st, Panic))"

definition engine_GetSnapshot :: "int \<Rightarrow> bytes \<times> error option" where
  "engine_GetSnapshot blockIndex = ([], None)"

definition engine_Restore :: "bytes \<Rightarrow> error option" where
  "engine_Restore snapshot = None"

section \<open>The engine in memory\<close>

text \<open>
  What the Lachesis libraries answer to \<^verbatim>\<open>NewInmemEngine\<close>: the hexadecimal public key of the node,
  the peers with their ids, the transport, the initialisation of the node.
\<close>

record lachesis_env =
  le_ReadKey :: "string outcome"
  le_Peers :: "(string \<times> int) list outcome"
  le_NewTCPTransport :: "string \<Rightarrow> int \<Rightarrow> int \<Rightarrow> error option"
  le_node_Init :: "error option"

record node_conf =                \<comment> \<open>the arguments of \<^verbatim>\<open>node.NewConfig\<close>\<close>
  nd_Heartbeat :: int
  nd_TCPTimeout :: int
  nd_CacheSize :: int
  nd_SyncLimit :: int

record ('db, 'sd, 'ks) inmem_engine =
  ie_service :: "('db, 'sd, 'ks) service"
  ie_conf :: node_conf
  ie_nodeID :: int
  ie_nonceLock :: addr_locker
  ie_taken :: "bytes list"       \<comment> \<open>what the node has received from the proxy's \<^verbatim>\<open>SubmitCh\<close>\<close>
  ie_responses :: "(bytes \<times> error option) list"   \<comment> \<open>what \<^verbatim>\<open>CommitBlock\<close> has answered to the node\<close>

text \<open>A product of two durations is a product of signed 64-bit numbers.\<close>

definition duration_times :: "int \<Rightarrow> int \<Rightarrow> int" where
  "duration_times a b = sint (word_of_int (a * b) :: 64 word)"

definition inmem_conf :: "lachesis_config \<Rightarrow> node_conf" where
  "inmem_conf l = \<lparr>nd_Heartbeat = duration_times (lc_Heartbeat l) Millisecond,
     nd_TCPTimeout = duration_times (lc_TCPTimeout l) Millisecond,
     nd_CacheSize = lc_CacheSize l, nd_SyncLimit = lc_SyncLimit l\<rparr>"

definition NewInmemEngine ::
  "('db, 'sd, 'x) geth_scheme \<Rightarrow> 'db node_env \<Rightarrow> lachesis_env \<Rightarrow> config \<Rightarrow> ('db, 'sd, 'ks) inmem_engine outcome" where
  "NewInmemEngine X D L cfg =
     (case build_service X D cfg of
        Fail e \<Rightarrow> Fail e
      | Panic \<Rightarrow> Panic
      | Ret m \<Rightarrow>
     (case cf_Lachesis cfg of
        None \<Rightarrow> Panic
      | Some l \<Rightarrow>
     (case le_ReadKey L of
        Fail e \<Rightarrow> Fail e
      | Panic \<Rightarrow> Panic
      | Ret nodePub \<Rightarrow>
     (case le_Peers L of
        Fail e \<Rightarrow> Fail e
      | Panic \<Rightarrow> Panic
      | Ret participants \<Rightarrow>
          if length participants < 2 then Fail (Errorf ''peers.json should define at least two peers'')
          else
     (case map_of participants nodePub of
        None \<Rightarrow> Fail (Errorf ''cannot find self pubkey in peers.json'')
      | Some nodeID \<Rightarrow>
          let conf = inmem_conf l in
     (case le_NewTCPTransport L (lc_BindAddr l) 2 (nd_TCPTimeout conf) of
        Some e \<Rightarrow> Fail (wrap_error ''creating TCP Transport: '' e)
      | None \<Rightarrow>
     (case le_node_Init L of
        Some e \<Rightarrow> Fail (wrap_error ''initializing node: '' e)
      | None \<Rightarrow> Ret \<lparr>ie_service = m, ie_conf = conf, ie_nodeID = nodeID, ie_nonceLock = NewAddrLocker,
          ie_taken = [], ie_responses = []\<rparr>)))))))"

section \<open>The running engine\<close>

text \<open>
  \<^verbatim>\<open>SocketEngine.Run\<close> starts the service and loops in \<^verbatim>\<open>serve\<close>; a start that does not end in
  serving ends the process, so it is no step; neither is a commit whose \<^verbatim>\<open>ProcessBlock\<close> panics.  A start makes the
  APIs anew, with a new nonce lock.  A JSON-RPC request may be any call, by any thread.  Here a request or a call is
  one step, from its arrival to its answer; the points at which it can wait are in \<open>Interleaving\<close>.
\<close>

inductive engine_step ::
  "('db, 'sd, 'ks, 'w, 'x) web3_scheme \<Rightarrow> (string \<Rightarrow> string \<Rightarrow> bool)
   \<Rightarrow> ('db, 'sd, 'ks) socket_engine \<Rightarrow> ('db, 'sd, 'ks) socket_engine \<Rightarrow> bool" for X match where
  service_start: "service_Run X Os E (se_service en) = (m, Serving) \<Longrightarrow>
    engine_step X match en (en\<lparr>se_service := m, se_nonceLock := NewAddrLocker\<rparr>)"
| http_request: "ServeHTTP X match r (se_service en) = (m, res) \<Longrightarrow> engine_step X match en (en\<lparr>se_service := m\<rparr>)"
| rpc_request: "rpc_serve X (se_nonceLock en) t (se_service en) c = Some (m, l, res) \<Longrightarrow>
    engine_step X match en (en\<lparr>se_service := m, se_nonceLock := l\<rparr>)"
| forward: "serve_submit en err = Some en' \<Longrightarrow> engine_step X match en en'"
| commit_block: "serve_commit X now blk en = Ret en' \<Longrightarrow> engine_step X match en en'"

inductive_cases engine_stepE: "engine_step X match en en'"

text \<open>
  The channel of the proxy, which is the service's; there are no internal transactions.
\<close>

definition engine_SubmitCh :: "('db, 'sd, 'ks) inmem_engine \<Rightarrow> bytes list" where
  "engine_SubmitCh en = sv_submitCh (ie_service en)"

definition engine_SubmitInternalCh :: "bytes list option" where
  "engine_SubmitInternalCh = None"

text \<open>
  \<^verbatim>\<open>InmemEngine.Run\<close> starts the service and runs the Lachesis node, which receives from the
  channel of the proxy and calls \<^verbatim>\<open>CommitBlock\<close> with the blocks the network agrees on.
\<close>

inductive inmem_step ::
  "('db, 'sd, 'ks, 'w, 'x) web3_scheme \<Rightarrow> (string \<Rightarrow> string \<Rightarrow> bool)
   \<Rightarrow> ('db, 'sd, 'ks) inmem_engine \<Rightarrow> ('db, 'sd, 'ks) inmem_engine \<Rightarrow> bool" for X match where
  inmem_start: "service_Run X Os E (ie_service en) = (m, Serving) \<Longrightarrow>
    inmem_step X match en (en\<lparr>ie_service := m, ie_nonceLock := NewAddrLocker\<rparr>)"
| inmem_http: "ServeHTTP X match r (ie_service en) = (m, res) \<Longrightarrow> inmem_step X match en (en\<lparr>ie_service := m\<rparr>)"
| inmem_rpc: "rpc_serve X (ie_nonceLock en) t (ie_service en) c = Some (m, l, res) \<Longrightarrow>
    inmem_step X match en (en\<lparr>ie_service := m, ie_nonceLock := l\<rparr>)"
| inmem_submit: "drop (length (ie_taken en)) (engine_SubmitCh en) = t # ts \<Longrightarrow>
    inmem_step X match en (en\<lparr>ie_taken := ie_taken en @ [t]\<rparr>)"
| inmem_commit: "engine_CommitBlock X now (sv_state (ie_service en)) blk = (st, Ret answer) \<Longrightarrow>
    inmem_step X match en (en\<lparr>ie_service := (ie_service en)\<lparr>sv_state := st\<rparr>,
      ie_responses := ie_responses en @ [answer]\<rparr>)"

section \<open>The consensus systems behind the interface\<close>

text \<open>A function that returns an error and nothing else.\<close>

definition error_result :: "error option \<Rightarrow> unit outcome" where
  "error_result err = (case err of Some e \<Rightarrow> Fail e | None \<Rightarrow> Ret ())"

text \<open>
  \<^verbatim>\<open>NewSolo\<close> and Solo as a consensus system: it shares the state with the service, and its loop
  receives what was sent on the service's channel.
\<close>

definition NewSolo :: "('db, 'sd) state \<Rightarrow> ('db, 'sd) solo" where
  "NewSolo nil_state = \<lparr>solo_txIndex = 0, solo_state = nil_state\<rparr>"

definition solo_system :: "('db, 'sd, 'x) geth_scheme \<Rightarrow> ('db, 'sd, 'ks, ('db, 'sd) solo) consensus" where
  "solo_system X = \<lparr>
     cs_Init = (\<lambda>s m. case Solo_Init s (sv_state m) of (s, err) \<Rightarrow> (s, m, error_result err)),
     cs_Run = (\<lambda>s m. case Solo_Run X (s\<lparr>solo_state := sv_state m\<rparr>) (GetSubmitCh m) of
       (s, res) \<Rightarrow> (s, m\<lparr>sv_state := solo_state s\<rparr>, res)),
     cs_Info = Solo_Info\<rparr>"

text \<open>
  Raft: \<open>L\<close> is the library; from the transactions on the channel come, by the cluster and the
  operating system, the rounds of the loop, \<open>rounds\<close>, and the log entries that are committed on this
  node, \<open>log\<close>, for which the library calls \<^verbatim>\<open>FSM.Apply\<close> in a goroutine of its own: a panic there
  ends the process.  A loop that is still running has no error.
\<close>

definition raft_system ::
  "('db, 'sd, 'x) geth_scheme \<Rightarrow> raft_library \<Rightarrow> (bytes list \<Rightarrow> raft_event list) \<Rightarrow> (bytes list \<Rightarrow> (u64 \<times> bytes) list)
   \<Rightarrow> ('db, 'sd, 'ks, raft) consensus" where
  "raft_system X L rounds log = \<lparr>
     cs_Init = (\<lambda>r m. case Raft_Init L r of (r, err) \<Rightarrow> (r, m, error_result err)),
     cs_Run = (\<lambda>r m. case Raft_Run r (rounds (GetSubmitCh m)) of
         (r, Some Panic) \<Rightarrow> (r, m, Panic)
       | (r, Some (Fail e)) \<Rightarrow> (r, m, Fail e)
       | (r, _) \<Rightarrow>
           (case FSM_log X (sv_state m) (log (GetSubmitCh m)) of
              (st, Panic) \<Rightarrow> (r, m\<lparr>sv_state := st\<rparr>, Panic)
            | (st, _) \<Rightarrow> (r, m\<lparr>sv_state := st\<rparr>, Ret ()))),
     cs_Info = (\<lambda>r. Raft_Info r (rl_Stats L))\<rparr>"

text \<open>
  Lachesis: from the transactions on the channel come the blocks of the network, \<open>blocks\<close>.
\<close>

definition lachesis_system ::
  "('db, 'sd, 'x) geth_scheme \<Rightarrow> real_lachesis_config \<Rightarrow> (real_lachesis_config \<Rightarrow> error option)
   \<Rightarrow> (real_lachesis_config \<Rightarrow> unit) \<Rightarrow> (string \<times> string) list \<Rightarrow> (bytes list \<Rightarrow> block list)
   \<Rightarrow> ('db, 'sd, 'ks, lachesis) consensus" where
  "lachesis_system X NewLachesisConfig node_Init node_Run stats blocks = \<lparr>
     cs_Init = (\<lambda>b m. case Lachesis_Init NewLachesisConfig node_Init b of (b, res) \<Rightarrow> (b, m, res)),
     cs_Run = (\<lambda>b m. case Lachesis_Run node_Run b of
         Ret _ \<Rightarrow> (case proxy_blocks X (sv_state m) (blocks (GetSubmitCh m)) of
             (st, res) \<Rightarrow> (b, m\<lparr>sv_state := st\<rparr>, res))
       | res \<Rightarrow> (b, m, res)),
     cs_Info = (\<lambda>b. Lachesis_Info b stats)\<rparr>"

end
