(* ===== verification/Web3ApiSpec.thy ===== *)
theory Web3ApiSpec
  imports Web3Api Web3Spec
begin

text \<open>
  Soundness of the JSON-RPC interface: every method answers a value of the type of its Go
  signature, changes only what its kind of method may change, and panics only when a sending method has to
  fill in a nonce or a gas price; what the reading methods answer.
\<close>

section \<open>Result types and effects\<close>

text \<open>The first result of the Go signatures; a pointer, slice or map that may be nil is \<open>TMaybe\<close>.\<close>

datatype rpc_type =
    TNone | TBool | TUint | TBig | TString | TAddress | TAddresses | THash | TBytes
  | TTransaction | TTransactions | TBlock | TAccount | TWallets | TSigned | TMap
  | TMaybe rpc_type

primrec type_of :: "rpc_value \<Rightarrow> rpc_type" where
  "type_of VNull = TNone"
| "type_of (VBool b) = TBool"
| "type_of (VUint n) = TUint"
| "type_of (VBig i) = TBig"
| "type_of (VString s) = TString"
| "type_of (VAddress a) = TAddress"
| "type_of (VAddresses as) = TAddresses"
| "type_of (VHash h) = THash"
| "type_of (VBytes b) = TBytes"
| "type_of (VTransaction r) = TTransaction"
| "type_of (VTransactions rs) = TTransactions"
| "type_of (VBlock b) = TBlock"
| "type_of (VAccount a) = TAccount"
| "type_of (VWallets ws) = TWallets"
| "type_of (VSigned s) = TSigned"

definition has_type :: "rpc_value \<Rightarrow> rpc_type \<Rightarrow> bool" where
  "has_type v T =
     (case T of TMaybe T' \<Rightarrow> v = VNull \<or> type_of v = T' | TMap \<Rightarrow> v = VNull | _ \<Rightarrow> type_of v = T)"

primrec ethereum_type :: "ethereum_call \<Rightarrow> rpc_type" where
  "ethereum_type GasPriceC = TMaybe TBig"
| "ethereum_type ProtocolVersionC = TUint"
| "ethereum_type SyncingC = TBool"

primrec block_chain_type :: "block_chain_call \<Rightarrow> rpc_type" where
  "block_chain_type BlockNumberC = TUint"
| "block_chain_type (GetBalanceC a nr) = TMaybe TBig"
| "block_chain_type (GetBlockByNumberC nr full) = TMaybe TBlock"
| "block_chain_type (GetBlockByHashC h full) = TMaybe TBlock"
| "block_chain_type (GetUncleByBlockNumberAndIndexC nr i) = TMaybe TBlock"
| "block_chain_type (GetUncleByBlockHashAndIndexC h i) = TMaybe TBlock"
| "block_chain_type (GetUncleCountByBlockNumberC nr) = TMaybe TUint"
| "block_chain_type (GetUncleCountByBlockHashC h) = TMaybe TUint"
| "block_chain_type (GetCodeC a nr) = TMaybe TBytes"
| "block_chain_type (GetStorageAtC a key nr) = TMaybe TBytes"
| "block_chain_type (CallC args nr) = TMaybe TBytes"
| "block_chain_type (EstimateGasC args) = TUint"

primrec transaction_pool_type :: "transaction_pool_call \<Rightarrow> rpc_type" where
  "transaction_pool_type (GetBlockTransactionCountByNumberC nr) = TMaybe TUint"
| "transaction_pool_type (GetBlockTransactionCountByHashC h) = TMaybe TUint"
| "transaction_pool_type (GetTransactionByBlockNumberAndIndexC nr i) = TMaybe TTransaction"
| "transaction_pool_type (GetTransactionByBlockHashAndIndexC h i) = TMaybe TTransaction"
| "transaction_pool_type (GetRawTransactionByBlockNumberAndIndexC nr i) = TMaybe TBytes"
| "transaction_pool_type (GetRawTransactionByBlockHashAndIndexC h i) = TMaybe TBytes"
| "transaction_pool_type (GetTransactionCountC a nr) = TMaybe TUint"
| "transaction_pool_type (GetTransactionByHashC h) = TMaybe TTransaction"
| "transaction_pool_type (GetRawTransactionByHashC h) = TMaybe TBytes"
| "transaction_pool_type (GetTransactionReceiptC h) = TMap"
| "transaction_pool_type (SendTransactionC args) = THash"
| "transaction_pool_type (SendRawTransactionC b) = THash"
| "transaction_pool_type (SignC a dat) = TMaybe TBytes"
| "transaction_pool_type (SignTransactionC args) = TMaybe TSigned"
| "transaction_pool_type PendingTransactionsC = TMaybe TTransactions"
| "transaction_pool_type (ResendC args price limit) = THash"

primrec private_debug_type :: "private_debug_call \<Rightarrow> rpc_type" where
  "private_debug_type (ChaindbPropertyC p) = TString"
| "private_debug_type ChaindbCompactC = TNone"
| "private_debug_type (SetHeadC n) = TNone"

primrec private_account_type :: "private_account_call \<Rightarrow> rpc_type" where
  "private_account_type ListAccountsC = TMaybe TAddresses"
| "private_account_type ListWalletsC = TMaybe TWallets"
| "private_account_type (OpenWalletC url pwd) = TNone"
| "private_account_type (DeriveAccountC url path pin) = TAccount"
| "private_account_type (NewAccountC pwd) = TAddress"
| "private_account_type (ImportRawKeyC key pwd) = TAddress"
| "private_account_type (UnlockAccountC a pwd d) = TBool"
| "private_account_type (LockAccountC a) = TBool"
| "private_account_type (PersonalSendTransactionC args pwd) = THash"
| "private_account_type (PersonalSignTransactionC args pwd) = TMaybe TSigned"
| "private_account_type (PersonalSignC dat a pwd) = TMaybe TBytes"
| "private_account_type (EcRecoverC dat sig) = TAddress"
| "private_account_type (SignAndSendTransactionC args pwd) = THash"

primrec ethereum_chain_type :: "ethereum_chain_call \<Rightarrow> rpc_type" where
  "ethereum_chain_type EtherbaseC = TAddress"
| "ethereum_chain_type CoinbaseC = TAddress"
| "ethereum_chain_type HashrateC = TUint"
| "ethereum_chain_type ChainIdC = TUint"

primrec result_type :: "rpc_call \<Rightarrow> rpc_type" where
  "result_type (Ethereum c) = ethereum_type c"
| "result_type (BlockChain c) = block_chain_type c"
| "result_type (TransactionPool c) = transaction_pool_type c"
| "result_type (TxPool c) = TMap"
| "result_type (PublicDebug c) = TString"
| "result_type (PrivateDebug c) = private_debug_type c"
| "result_type PublicAccounts = TMaybe TAddresses"
| "result_type (PrivateAccount c) = private_account_type c"
| "result_type (EthereumChain c) = ethereum_chain_type c"
| "result_type (Admin c) = TBool"
| "result_type (DumpBlockC nr) = TMap"

text \<open>What a method may do: nothing, change the key store, or submit one transaction.\<close>

datatype effect = Reads | Keys | Submits

definition call_effect :: "rpc_call \<Rightarrow> effect" where
  "call_effect c =
     (case c of
        TransactionPool d \<Rightarrow>
          (case d of SendTransactionC args \<Rightarrow> Submits | SendRawTransactionC b \<Rightarrow> Submits | _ \<Rightarrow> Reads)
      | PrivateAccount d \<Rightarrow>
          (case d of
             PersonalSendTransactionC args pwd \<Rightarrow> Submits
           | SignAndSendTransactionC args pwd \<Rightarrow> Submits
           | OpenWalletC url pwd \<Rightarrow> Keys
           | DeriveAccountC url path pin \<Rightarrow> Keys
           | NewAccountC pwd \<Rightarrow> Keys
           | ImportRawKeyC key pwd \<Rightarrow> Keys
           | UnlockAccountC a pwd t \<Rightarrow> Keys
           | LockAccountC a \<Rightarrow> Keys
           | _ \<Rightarrow> Reads)
      | _ \<Rightarrow> Reads)"

text \<open>The arguments of the sending methods that take the nonce lock when the nonce is missing.\<close>

definition send_args :: "rpc_call \<Rightarrow> send_tx_args option" where
  "send_args c =
     (case c of
        TransactionPool d \<Rightarrow> (case d of SendTransactionC args \<Rightarrow> Some args | _ \<Rightarrow> None)
      | PrivateAccount d \<Rightarrow>
          (case d of
             PersonalSendTransactionC args pwd \<Rightarrow> Some args
           | SignAndSendTransactionC args pwd \<Rightarrow> Some args
           | _ \<Rightarrow> None)
      | _ \<Rightarrow> None)"

definition permits ::
  "effect \<Rightarrow> ('db, 'sd, 'ks) service \<Rightarrow> ('db, 'sd, 'ks) service \<Rightarrow> rpc_value outcome \<Rightarrow> bool" where
  "permits eff m m' res =
     (case eff of
        Reads \<Rightarrow> m' = m
      | Keys \<Rightarrow> \<exists>ks. m' = m\<lparr>sv_keyStore := ks\<rparr>
      | Submits \<Rightarrow> if \<exists>h. res = Ret (VHash h) then \<exists>raw. m' = submit m raw else m' = m)"

section \<open>Soundness\<close>

lemma map_outcome_simps [simp]:
  "map_outcome f (Ret v) = Ret (f v)" "map_outcome f (Fail e) = Fail e" "map_outcome f Panic = Panic"
  by (simp_all add: map_outcome_def)

lemma map_outcome_Ret [simp]: "map_outcome f r = Ret v \<longleftrightarrow> (\<exists>x. r = Ret x \<and> v = f x)"
  by (cases r) auto

text \<open>The bodies of the sending methods either submit and answer the hash, or do nothing.\<close>

definition sent :: "('db, 'sd, 'ks) service \<Rightarrow> ('db, 'sd, 'ks) service \<times> hash outcome \<Rightarrow> bool" where
  "sent m r \<longleftrightarrow> (if \<exists>h. snd r = Ret h then \<exists>raw. fst r = submit m raw else fst r = m)"

lemma sent_nothing [simp]: "sent m (m, Fail e)" "sent m (m, Panic)"
  by (simp_all add: sent_def)

lemma submitTransaction_sent [simp]: "sent m (submitTransaction X m t)"
  by (auto simp: sent_def submitTransaction_def Let_def split: outcome.split)

lemma with_nonce_lock_sent:
  assumes "locker_ok l" "sent m body"
  shows "(with_nonce_lock l t args body = None \<longrightarrow> sa_Nonce args = None \<and> holder l (sa_From args) \<noteq> None) \<and>
    (\<forall>m' l' r. with_nonce_lock l t args body = Some (m', l', r) \<longrightarrow>
       sent m (m', r) \<and> locker_ok l' \<and> holder l' = holder l)"
proof (intro conjI impI allI)
  note lock = with_nonce_lock_spec[OF assms(1), of t args body]
  fix m' l' r assume "with_nonce_lock l t args body = Some (m', l', r)"
  from lock(2)[OF this] assms(2) show "sent m (m', r)" "locker_ok l'" "holder l' = holder l" by simp_all
qed (use with_nonce_lock_spec(1)[OF assms(1), of t args body] in simp_all)

definition sends_ok ::
  "addr_locker \<Rightarrow> ('db, 'sd, 'ks) service \<Rightarrow> send_tx_args
   \<Rightarrow> (('db, 'sd, 'ks) service \<times> addr_locker \<times> hash outcome) option \<Rightarrow> bool" where
  "sends_ok l m args a \<longleftrightarrow>
     (a = None \<longrightarrow> sa_Nonce args = None \<and> holder l (sa_From args) \<noteq> None) \<and>
     (\<forall>m' l' r. a = Some (m', l', r) \<longrightarrow> sent m (m', r) \<and> locker_ok l' \<and> holder l' = holder l)"

lemma private_SendTransaction_sends:
  "locker_ok l \<Longrightarrow> sends_ok l m args (private_SendTransaction X l t m args passwd)"
  unfolding sends_ok_def private_SendTransaction_def
  by (rule with_nonce_lock_sent) (auto split: outcome.split)

lemma public_SendTransaction_sends:
  assumes "locker_ok l"
  shows "sends_ok l m args (public_SendTransaction X l t m args)"
proof -
  have err: "sends_ok l m args (Some (m, l, Fail e))" "sends_ok l m args (Some (m, l, Panic))" for e
    using assms by (simp_all add: sends_ok_def)
  have lock: "sends_ok l m args (with_nonce_lock l t args body)" if "sent m body" for body
    unfolding sends_ok_def by (rule with_nonce_lock_sent[OF assms that])
  show ?thesis unfolding public_SendTransaction_def by (auto intro!: err lock split: outcome.split)
qed

lemma SendRawTransaction_sent: "sent m (SendRawTransaction X m b)"
  by (auto simp: SendRawTransaction_def split: outcome.split)

text \<open>The methods that use the key store change nothing else.\<close>

lemma key_methods_frame:
  "\<exists>ks. fst (OpenWallet X m url pass) = m\<lparr>sv_keyStore := ks\<rparr>"
  "\<exists>ks. fst (DeriveAccount X m url path pin) = m\<lparr>sv_keyStore := ks\<rparr>"
  "\<exists>ks. fst (NewAccount X m pwd) = m\<lparr>sv_keyStore := ks\<rparr>"
  "\<exists>ks. fst (ImportRawKey X m key pwd) = m\<lparr>sv_keyStore := ks\<rparr>"
  "\<exists>ks. fst (UnlockAccount X m a pwd d) = m\<lparr>sv_keyStore := ks\<rparr>"
  "\<exists>ks. fst (LockAccount X m a) = m\<lparr>sv_keyStore := ks\<rparr>"
proof -
  have same: "\<exists>ks. m = m\<lparr>sv_keyStore := ks\<rparr>" by (rule exI[of _ "sv_keyStore m"]) simp
  show "\<exists>ks. fst (OpenWallet X m url pass) = m\<lparr>sv_keyStore := ks\<rparr>"
    "\<exists>ks. fst (DeriveAccount X m url path pin) = m\<lparr>sv_keyStore := ks\<rparr>"
    "\<exists>ks. fst (NewAccount X m pwd) = m\<lparr>sv_keyStore := ks\<rparr>"
    "\<exists>ks. fst (ImportRawKey X m key pwd) = m\<lparr>sv_keyStore := ks\<rparr>"
    "\<exists>ks. fst (UnlockAccount X m a pwd d) = m\<lparr>sv_keyStore := ks\<rparr>"
    "\<exists>ks. fst (LockAccount X m a) = m\<lparr>sv_keyStore := ks\<rparr>"
    by (auto simp: same NewAccount_def ImportRawKey_def UnlockAccount_def LockAccount_def OpenWallet_def
        DeriveAccount_def Let_def split: outcome.split prod.split option.split)
qed


text \<open>
  An answer of a call is sound: it is missing only for a sending method that needs the nonce lock
  while another thread has it; otherwise the effect is permitted, the nonce lock is as before, and
  the value has the type of the method.
\<close>

definition answer_ok ::
  "addr_locker \<Rightarrow> ('db, 'sd, 'ks) service \<Rightarrow> rpc_call \<Rightarrow> ('db, 'sd, 'ks) rpc_answer \<Rightarrow> bool" where
  "answer_ok l m c a \<longleftrightarrow>
     (a = None \<longrightarrow> (\<exists>args. send_args c = Some args \<and> sa_Nonce args = None \<and> holder l (sa_From args) \<noteq> None)) \<and>
     (\<forall>m' l' res. a = Some (m', l', res) \<longrightarrow>
        permits (call_effect c) m m' res \<and> locker_ok l' \<and> holder l' = holder l \<and>
        (\<forall>v. res = Ret v \<longrightarrow> has_type v (result_type c)))"

lemma answer_ok_reads:
  assumes "locker_ok l" "call_effect c = Reads" "\<And>v. r = Ret v \<Longrightarrow> has_type v (result_type c)"
  shows "answer_ok l m c (reads m l r)"
  using assms by (simp add: answer_ok_def reads_def permits_def)

lemma answer_ok_keys:
  assumes "locker_ok l" "call_effect c = Keys" "\<And>x. snd r = Ret x \<Longrightarrow> has_type (f x) (result_type c)"
    "\<exists>ks. fst r = m\<lparr>sv_keyStore := ks\<rparr>"
  shows "answer_ok l m c (leaves l f r)"
  using assms by (auto simp: answer_ok_def leaves_def permits_def)

lemma permits_Submits:
  "sent m (m', r) \<Longrightarrow> permits Submits m m' (map_outcome VHash r)"
  by (auto simp: sent_def permits_def)

lemma answer_ok_raw:
  assumes "locker_ok l" "call_effect c = Submits" "result_type c = THash" "sent m r"
  shows "answer_ok l m c (leaves l VHash r)"
  using assms permits_Submits[of m "fst r" "snd r"] by (auto simp: answer_ok_def leaves_def has_type_def)

lemma answer_ok_sends:
  assumes "call_effect c = Submits" "result_type c = THash" "send_args c = Some args" "sends_ok l m args a"
  shows "answer_ok l m c (sends VHash a)"
proof (cases a)
  case None
  with assms show ?thesis by (simp add: answer_ok_def sends_def sends_ok_def)
next
  case (Some r)
  with assms permits_Submits show ?thesis
    by (cases r) (auto simp: answer_ok_def sends_def sends_ok_def has_type_def)
qed

lemmas constant_answers =
  eth_GasPrice_def eth_Syncing_def GetBlockByNumber_def GetBlockByHash_def
  GetUncleByBlockNumberAndIndex_def GetUncleByBlockHashAndIndex_def GetUncleCountByBlockNumber_def
  GetUncleCountByBlockHash_def GetCode_def GetStorageAt_def rpc_Call_def doCall_def EstimateGas_def
  GetBlockTransactionCountByNumber_def GetBlockTransactionCountByHash_def
  GetTransactionByBlockNumberAndIndex_def GetTransactionByBlockHashAndIndex_def
  GetRawTransactionByBlockNumberAndIndex_def GetRawTransactionByBlockHashAndIndex_def
  GetTransactionCount_def GetTransactionByHash_def GetRawTransactionByHash_def
  GetTransactionReceipt_def PendingTransactions_def Resend_def txpool_Content_def txpool_Status_def
  txpool_Inspect_def GetBlockRlp_def PrintBlock_def SeedHash_def ChaindbProperty_def ChaindbCompact_def
  Etherbase_def Coinbase_def ExportChain_def ImportChain_def DumpBlock_def nullable_def

lemma transaction_pool_answer_ok:
  assumes "locker_ok l"
  shows "answer_ok l m (TransactionPool c) (transaction_pool_serve X l t m c)"
proof (cases c)
  case (SendTransactionC args)
  with public_SendTransaction_sends[OF assms] show ?thesis
    by (auto intro!: answer_ok_sends simp: call_effect_def send_args_def)
next
  case (SendRawTransactionC b)
  with SendRawTransaction_sent assms show ?thesis
    by (auto intro!: answer_ok_raw simp: call_effect_def)
qed (auto intro!: answer_ok_reads[OF assms] simp: call_effect_def has_type_def constant_answers split: outcome.splits)

lemma private_account_answer_ok:
  assumes "locker_ok l"
  shows "answer_ok l m (PrivateAccount c) (private_account_serve X l t m c)"
proof -
  note read = answer_ok_reads[OF assms] and key = answer_ok_keys[OF assms _ _ key_methods_frame(1)]
    answer_ok_keys[OF assms _ _ key_methods_frame(2)] answer_ok_keys[OF assms _ _ key_methods_frame(3)]
    answer_ok_keys[OF assms _ _ key_methods_frame(4)] answer_ok_keys[OF assms _ _ key_methods_frame(5)]
    answer_ok_keys[OF assms _ _ key_methods_frame(6)]
  show ?thesis
  proof (cases c)
    case (PersonalSendTransactionC args pwd)
    with private_SendTransaction_sends[OF assms] show ?thesis
      by (auto intro!: answer_ok_sends simp: call_effect_def send_args_def)
  next
    case (SignAndSendTransactionC args pwd)
    with private_SendTransaction_sends[OF assms] show ?thesis
      by (auto intro!: answer_ok_sends simp: call_effect_def send_args_def SignAndSendTransaction_def)
  qed (simp only: private_account_serve.simps, (rule read key; auto simp: call_effect_def has_type_def))+
qed

lemma rpc_serve_answer_ok:
  assumes "locker_ok l"
  shows "answer_ok l m c (rpc_serve X l t m c)"
proof (cases c)
  case (Ethereum d)
  then show ?thesis
    by (cases d) (auto intro!: answer_ok_reads[OF assms] simp: call_effect_def has_type_def constant_answers)
next
  case (BlockChain d)
  then show ?thesis
    by (cases d) (auto intro!: answer_ok_reads[OF assms] simp: call_effect_def has_type_def constant_answers)
next
  case (TxPool d)
  then show ?thesis
    by (cases d) (auto intro!: answer_ok_reads[OF assms] simp: call_effect_def has_type_def constant_answers)
next
  case (PublicDebug d)
  then show ?thesis
    by (cases d) (auto intro!: answer_ok_reads[OF assms] simp: call_effect_def has_type_def)
next
  case (PrivateDebug d)
  then show ?thesis
    by (cases d) (auto intro!: answer_ok_reads[OF assms] simp: call_effect_def has_type_def ChaindbCompact_def)
next
  case (EthereumChain d)
  then show ?thesis
    by (cases d) (auto intro!: answer_ok_reads[OF assms] simp: call_effect_def has_type_def)
next
  case (Admin d)
  then show ?thesis
    by (cases d) (auto intro!: answer_ok_reads[OF assms] simp: call_effect_def has_type_def)
qed (auto intro!: answer_ok_reads[OF assms] transaction_pool_answer_ok[OF assms] private_account_answer_ok[OF assms]
      simp: call_effect_def has_type_def)

section \<open>Which methods answer what\<close>

text \<open>The methods without a body: they return \<^verbatim>\<open>ErrNotImplemented\<close>, or they answer \<^verbatim>\<open>null\<close>.\<close>

definition not_implemented :: "rpc_call \<Rightarrow> bool" where
  "not_implemented c =
     (case c of
        Ethereum d \<Rightarrow> d \<in> {GasPriceC, SyncingC}
      | BlockChain d \<Rightarrow>
          (case d of BlockNumberC \<Rightarrow> False | GetBalanceC a nr \<Rightarrow> False
           | GetUncleCountByBlockNumberC nr \<Rightarrow> False | GetUncleCountByBlockHashC h \<Rightarrow> False | _ \<Rightarrow> True)
      | TransactionPool d \<Rightarrow>
          (case d of GetTransactionCountC a nr \<Rightarrow> True | GetRawTransactionByHashC h \<Rightarrow> True
           | GetTransactionReceiptC h \<Rightarrow> True | PendingTransactionsC \<Rightarrow> True | ResendC args p n \<Rightarrow> True | _ \<Rightarrow> False)
      | PublicDebug d \<Rightarrow> True
      | PrivateDebug d \<Rightarrow> (case d of SetHeadC n \<Rightarrow> False | _ \<Rightarrow> True)
      | EthereumChain d \<Rightarrow> d \<in> {EtherbaseC, CoinbaseC}
      | Admin d \<Rightarrow> True
      | DumpBlockC nr \<Rightarrow> True
      | _ \<Rightarrow> False)"

definition answers_null :: "rpc_call \<Rightarrow> bool" where
  "answers_null c =
     (case c of
        BlockChain d \<Rightarrow>
          (case d of GetUncleCountByBlockNumberC nr \<Rightarrow> True | GetUncleCountByBlockHashC h \<Rightarrow> True | _ \<Rightarrow> False)
      | TransactionPool d \<Rightarrow>
          (case d of GetBlockTransactionCountByNumberC nr \<Rightarrow> True | GetBlockTransactionCountByHashC h \<Rightarrow> True
           | GetTransactionByBlockNumberAndIndexC nr i \<Rightarrow> True | GetTransactionByBlockHashAndIndexC h i \<Rightarrow> True
           | GetRawTransactionByBlockNumberAndIndexC nr i \<Rightarrow> True | GetRawTransactionByBlockHashAndIndexC h i \<Rightarrow> True
           | GetTransactionByHashC h \<Rightarrow> True | _ \<Rightarrow> False)
      | TxPool d \<Rightarrow> True
      | PrivateDebug d \<Rightarrow> (case d of SetHeadC n \<Rightarrow> True | _ \<Rightarrow> False)
      | _ \<Rightarrow> False)"

text \<open>The methods that read the service, and the three that return a number of their own.\<close>

definition read_value ::
  "('db, 'sd, 'ks, 'w, 'x) web3_scheme \<Rightarrow> ('db, 'sd, 'ks) service \<Rightarrow> 'ks \<Rightarrow> rpc_call \<Rightarrow> rpc_value option" where
  "read_value X m ks c =
     (case c of
        Ethereum d \<Rightarrow> if d = ProtocolVersionC then Some (VUint 3) else None
      | EthereumChain d \<Rightarrow> if d \<in> {HashrateC, ChainIdC} then Some (VUint 0) else None
      | BlockChain d \<Rightarrow>
          (case d of BlockNumberC \<Rightarrow> Some (VUint (word_of_int (s_blockIndex (sv_state m))))
           | GetBalanceC a nr \<Rightarrow> Some (VBig (sd_GetBalance X (s_ethState (sv_state m)) a)) | _ \<Rightarrow> None)
      | PublicAccounts \<Rightarrow> Some (VAddresses [ea_Address a. w \<leftarrow> am_Wallets X ks, a \<leftarrow> wallet_Accounts X ks w])
      | PrivateAccount d \<Rightarrow>
          (if d = ListAccountsC
           then Some (VAddresses [ea_Address a. w \<leftarrow> am_Wallets X ks, a \<leftarrow> wallet_Accounts X ks w]) else None)
      | _ \<Rightarrow> None)"

definition read_answer ::
  "('db, 'sd, 'ks, 'w, 'x) web3_scheme \<Rightarrow> ('db, 'sd, 'ks) service \<Rightarrow> 'ks \<Rightarrow> rpc_call \<Rightarrow> rpc_value outcome option" where
  "read_answer X m ks c =
     (if not_implemented c then Some (Fail ErrNotImplemented)
      else if answers_null c then Some (Ret VNull)
      else map_option Ret (read_value X m ks c))"

text \<open>
  The contract of go-ethereum's wallets and codecs: none of them panics, and a signature has at
  least its 65 bytes.
\<close>

definition long_signatures :: "('db, 'sd, 'ks, 'w, 'x) web3_scheme \<Rightarrow> bool" where
  "long_signatures X \<longleftrightarrow>
     (\<forall>ks w acc b sig. wallet_SignHash X ks w acc b = Ret sig \<longrightarrow> 64 < length sig) \<and>
     (\<forall>ks w acc pwd b sig. wallet_SignHashWithPassphrase X ks w acc pwd b = Ret sig \<longrightarrow> 64 < length sig)"

definition web3_calm :: "('db, 'sd, 'ks, 'w, 'x) web3_scheme \<Rightarrow> bool" where
  "web3_calm X \<longleftrightarrow>
     (\<forall>ks url. am_Wallet X ks url \<noteq> Panic) \<and> (\<forall>ks acc. am_Find X ks acc \<noteq> Panic) \<and>
     (\<forall>s. ParseDerivationPath X s \<noteq> Panic) \<and> (\<forall>ks w p b ks'. wallet_Derive X ks w p b \<noteq> (ks', Panic)) \<and>
     (\<forall>ks w acc t c. wallet_SignTx X ks w acc t c \<noteq> Panic) \<and>
     (\<forall>ks w acc pwd t c. wallet_SignTxWithPassphrase X ks w acc pwd t c \<noteq> Panic) \<and>
     (\<forall>ks w acc b. wallet_SignHash X ks w acc b \<noteq> Panic) \<and>
     (\<forall>ks w acc pwd b. wallet_SignHashWithPassphrase X ks w acc pwd b \<noteq> Panic) \<and>
     long_signatures X \<and>
     (\<forall>ks pwd ks'. ks_NewAccount X ks pwd \<noteq> (ks', Panic)) \<and>
     (\<forall>ks key pwd ks'. ks_ImportECDSA X ks key pwd \<noteq> (ks', Panic)) \<and>
     (\<forall>s. HexToECDSA X s \<noteq> Panic) \<and> (\<forall>b sig. SigToPub X b sig \<noteq> Panic) \<and> (\<forall>t. MarshalJSON_tx X t \<noteq> Panic) \<and>
     (\<forall>s t. Sender X s t \<noteq> Panic) \<and> (\<forall>t. rlp_Encode_tx X t \<noteq> Panic) \<and> (\<forall>b. rlp_DecodeBytes_tx X b \<noteq> Panic)"

lemma web3_calmD:
  assumes "web3_calm X"
  shows "am_Wallet X ks url \<noteq> Panic" "am_Find X ks acc \<noteq> Panic" "ParseDerivationPath X s \<noteq> Panic"
    "wallet_Derive X ks w p b \<noteq> (ks', Panic)" "wallet_SignTx X ks w acc t c \<noteq> Panic"
    "wallet_SignTxWithPassphrase X ks w acc pwd t c \<noteq> Panic" "wallet_SignHash X ks w acc bs \<noteq> Panic"
    "wallet_SignHashWithPassphrase X ks w acc pwd bs \<noteq> Panic"
    "ks_NewAccount X ks pwd \<noteq> (ks', Panic)" "ks_ImportECDSA X ks key pwd \<noteq> (ks', Panic)" "HexToECDSA X s \<noteq> Panic"
    "SigToPub X bs sig \<noteq> Panic" "MarshalJSON_tx X t \<noteq> Panic" "Sender X sg t \<noteq> Panic" "rlp_Encode_tx X t \<noteq> Panic"
    "rlp_DecodeBytes_tx X bs \<noteq> Panic"
  using assms by (simp_all add: web3_calm_def)

lemma web3_calm_signature:
  assumes "web3_calm X"
  shows "wallet_SignHash X ks w acc bs = Ret sig \<Longrightarrow> 64 < length sig"
    "wallet_SignHashWithPassphrase X ks w acc pwd bs = Ret sig \<Longrightarrow> 64 < length sig"
proof -
  have "long_signatures X" using assms by (simp only: web3_calm_def)
  then show "wallet_SignHash X ks w acc bs = Ret sig \<Longrightarrow> 64 < length sig"
    "wallet_SignHashWithPassphrase X ks w acc pwd bs = Ret sig \<Longrightarrow> 64 < length sig"
    unfolding long_signatures_def by blast+
qed

lemma setDefaults_Panic:
  "setDefaults args = Panic \<longleftrightarrow> sa_GasPrice args = None \<or> sa_Nonce args = None"
  by (simp add: setDefaults_eq)

lemma submitTransaction_calm: "web3_calm X \<Longrightarrow> snd (submitTransaction X m t) \<noteq> Panic"
  by (auto simp: submitTransaction_def Let_def web3_calmD split: outcome.splits)

text \<open>The account of a sending method is found, and its gas price or its nonce is missing.\<close>

definition default_missing ::
  "('db, 'sd, 'ks, 'w, 'x) web3_scheme \<Rightarrow> 'ks \<Rightarrow> send_tx_args \<Rightarrow> bool" where
  "default_missing X ks args \<longleftrightarrow>
     returned (am_Find X ks (account_of (sa_From args))) \<and> (sa_GasPrice args = None \<or> sa_Nonce args = None)"

lemma private_signTransaction_Panic:
  assumes "web3_calm X" "fetchKeystore m = Ret ks"
  shows "private_signTransaction X m args pwd = Panic \<longleftrightarrow> default_missing X ks args"
proof (cases "setDefaults args")
  case (Ret a)
  moreover from this obtain t where "toTransaction X a = Ret t" using setDefaults_Ret(5) by blast
  moreover have "\<not> (sa_GasPrice args = None \<or> sa_Nonce args = None)" using Ret by (simp flip: setDefaults_Panic)
  ultimately show ?thesis
    by (auto simp: private_signTransaction_def default_missing_def assms web3_calmD[OF assms(1)] split: outcome.split)
qed (auto simp: private_signTransaction_def default_missing_def assms web3_calmD[OF assms(1)] returned_def
      simp flip: setDefaults_Panic split: outcome.split)

lemma with_nonce_lock_res:
  assumes "with_nonce_lock l t args body = Some (m', l', r)" "locker_ok l"
  shows "r = snd body"
  using with_nonce_lock_spec(2)[OF assms(2,1)] by simp

lemma sending_Panic:
  assumes "web3_calm X" "fetchKeystore m = Ret ks" "locker_ok l"
  shows "private_SendTransaction X l t m args pwd = Some (m', l', r) \<Longrightarrow> r = Panic \<longleftrightarrow> default_missing X ks args"
    "public_SendTransaction X l t m args = Some (m', l', r) \<Longrightarrow> r = Panic \<longleftrightarrow> default_missing X ks args"
proof -
  note sub = submitTransaction_calm[OF assms(1)]
  show "private_SendTransaction X l t m args pwd = Some (m', l', r) \<Longrightarrow> r = Panic \<longleftrightarrow> default_missing X ks args"
    unfolding private_SendTransaction_def
    using private_signTransaction_Panic[OF assms(1,2), of args pwd] sub
    by (auto dest!: with_nonce_lock_res[OF _ assms(3)] split: outcome.splits)
  show "public_SendTransaction X l t m args = Some (m', l', r) \<Longrightarrow> r = Panic \<longleftrightarrow> default_missing X ks args"
  proof (cases "am_Find X ks (account_of (sa_From args))")
    case (Ret w)
    let ?body = "case setDefaults args of
        Fail e \<Rightarrow> (m, Fail e)
      | Panic \<Rightarrow> (m, Panic)
      | Ret args \<Rightarrow>
          (case toTransaction X args of
             Fail e \<Rightarrow> (m, Fail e)
           | Panic \<Rightarrow> (m, Panic)
           | Ret t \<Rightarrow>
               (case wallet_SignTx X ks w (account_of (sa_From args)) t (cc_ChainID (sv_chainConfig m)) of
                  Fail e \<Rightarrow> (m, Fail e)
                | Panic \<Rightarrow> (m, Panic)
                | Ret signedTx \<Rightarrow> submitTransaction X m signedTx))"
    have body: "snd ?body = Panic \<longleftrightarrow> setDefaults args = Panic"
    proof (cases "setDefaults args")
      case d: (Ret args')
      then obtain tx where "toTransaction X args' = Ret tx" using setDefaults_Ret(5) by blast
      with d sub show ?thesis by (simp add: web3_calmD(5)[OF assms(1)] split: outcome.split)
    qed simp_all
    assume "public_SendTransaction X l t m args = Some (m', l', r)"
    then have "with_nonce_lock l t args ?body = Some (m', l', r)"
      by (simp only: public_SendTransaction_def assms(2) Ret outcome.case)
    then have "r = snd ?body" by (rule with_nonce_lock_res[OF _ assms(3)])
    then have "r = Panic \<longleftrightarrow> setDefaults args = Panic" using body by (simp only:)
    with Ret show "r = Panic \<longleftrightarrow> default_missing X ks args"
      by (simp add: default_missing_def setDefaults_Panic)
  qed (auto simp: public_SendTransaction_def assms(2) default_missing_def web3_calmD(2)[OF assms(1)])
qed

text \<open>No other method panics.\<close>

lemma check_specified_Panic: "check_specified args = None \<Longrightarrow> setDefaults args \<noteq> Panic"
  by (auto simp: check_specified_def setDefaults_Panic split: if_splits)

lemma signing_calm:
  assumes "web3_calm X" "fetchKeystore m = Ret ks"
  shows "public_SignTransaction X m args \<noteq> Panic" "private_SignTransaction X m args pwd \<noteq> Panic"
    "public_Sign X m a dat \<noteq> Panic" "private_Sign X m dat a pwd \<noteq> Panic" "EcRecover X dat sig \<noteq> Panic"
proof -
  note c = web3_calmD[OF assms(1)]
  have pub: "public_sign X m a t \<noteq> Panic" for a t by (simp add: public_sign_def assms(2) c split: outcome.split)
  have "\<exists>t. toTransaction X a = Ret t" if "setDefaults args = Ret a" for a using setDefaults_Ret(5)[OF that] .
  then show "public_SignTransaction X m args \<noteq> Panic"
    using check_specified_Panic[of args]
    by (fastforce simp: public_SignTransaction_def pub c split: option.splits outcome.splits)
  show "private_SignTransaction X m args pwd \<noteq> Panic"
  proof (cases "check_specified args")
    case None
    then have "\<not> default_missing X ks args"
      using check_specified_Panic[OF None] by (simp add: default_missing_def setDefaults_Panic)
    with None show ?thesis
      using private_signTransaction_Panic[OF assms, of args pwd] by (simp add: private_SignTransaction_def c split: outcome.split)
  qed (simp add: private_SignTransaction_def)
  show "public_Sign X m a dat \<noteq> Panic" "private_Sign X m dat a pwd \<noteq> Panic"
    by (auto simp: public_Sign_def private_Sign_def assms(2) c add_V_def dest: web3_calm_signature[OF assms(1)]
        split: outcome.splits)
  show "EcRecover X dat sig \<noteq> Panic" by (simp add: EcRecover_def c split: outcome.split)
qed

lemma key_methods_calm:
  assumes "web3_calm X" "fetchKeystore m = Ret ks"
  shows "snd (OpenWallet X m url pass) \<noteq> Panic" "snd (DeriveAccount X m url path pin) \<noteq> Panic"
    "snd (NewAccount X m pwd) \<noteq> Panic" "snd (ImportRawKey X m key pwd) \<noteq> Panic"
    "snd (UnlockAccount X m a pwd d) \<noteq> Panic" "snd (LockAccount X m a) \<noteq> Panic"
    "ListAccounts X m \<noteq> Panic" "ListWallets X m \<noteq> Panic" "Accounts X m \<noteq> Panic"
  by (auto simp: OpenWallet_def DeriveAccount_def NewAccount_def ImportRawKey_def UnlockAccount_def LockAccount_def
      unlock_duration_def ListAccounts_def ListWallets_def Accounts_def assms(2) web3_calmD[OF assms(1)]
      split: outcome.split option.split prod.split)

lemma SendRawTransaction_calm: "web3_calm X \<Longrightarrow> snd (SendRawTransaction X m b) \<noteq> Panic"
  using submitTransaction_calm by (auto simp: SendRawTransaction_def web3_calmD split: outcome.split)

lemma map_outcome_Panic [simp]: "map_outcome f r = Panic \<longleftrightarrow> r = Panic"
  by (cases r) auto

lemma rpc_serve_Panic:
  assumes "web3_calm X" "fetchKeystore m = Ret ks" "locker_ok l"
  shows "rpc_serve X l t m c = Some x \<Longrightarrow>
    snd (snd x) = Panic \<longleftrightarrow> (\<exists>args. send_args c = Some args \<and> default_missing X ks args)"
proof -
  note calm = signing_calm[OF assms(1,2)] key_methods_calm[OF assms(1,2)] SendRawTransaction_calm[OF assms(1)]
  note sending = sending_Panic[OF assms]
  show "rpc_serve X l t m c = Some x \<Longrightarrow> ?thesis"
  proof (cases c)
    case (TransactionPool d)
    then show "rpc_serve X l t m c = Some x \<Longrightarrow> ?thesis"
      by (cases d) (auto simp: send_args_def reads_def leaves_def sends_def constant_answers calm sending)
  next
    case (PrivateAccount d)
    then show "rpc_serve X l t m c = Some x \<Longrightarrow> ?thesis"
      by (cases d) (auto simp: send_args_def reads_def leaves_def sends_def calm SignAndSendTransaction_def sending)
  next
    case (BlockChain d)
    then show "rpc_serve X l t m c = Some x \<Longrightarrow> ?thesis"
      by (cases d) (auto simp: send_args_def reads_def constant_answers rpc_GetBalance_def)
  next
    case (Ethereum d)
    then show "rpc_serve X l t m c = Some x \<Longrightarrow> ?thesis"
      by (cases d) (auto simp: send_args_def reads_def constant_answers)
  next
    case (TxPool d)
    then show "rpc_serve X l t m c = Some x \<Longrightarrow> ?thesis"
      by (cases d) (auto simp: send_args_def reads_def constant_answers)
  next
    case (PublicDebug d)
    then show "rpc_serve X l t m c = Some x \<Longrightarrow> ?thesis"
      by (cases d) (auto simp: send_args_def reads_def constant_answers)
  next
    case (PrivateDebug d)
    then show "rpc_serve X l t m c = Some x \<Longrightarrow> ?thesis"
      by (cases d) (auto simp: send_args_def reads_def constant_answers)
  next
    case (EthereumChain d)
    then show "rpc_serve X l t m c = Some x \<Longrightarrow> ?thesis"
      by (cases d) (auto simp: send_args_def reads_def constant_answers)
  next
    case (Admin d)
    then show "rpc_serve X l t m c = Some x \<Longrightarrow> ?thesis"
      by (cases d) (auto simp: send_args_def reads_def constant_answers)
  qed (auto simp: send_args_def reads_def constant_answers calm)
qed

text \<open>One direction needs nothing of the wallets but that the account is found.\<close>

lemma default_missing_panics:
  assumes "fetchKeystore m = Ret ks" "locker_ok l" "send_args c = Some args" "default_missing X ks args"
    "rpc_serve X l t m c = Some (m', l', res)"
  shows "res = Panic"
proof -
  obtain w where w: "am_Find X ks (account_of (sa_From args)) = Ret w" "setDefaults args = Panic"
    using assms(4) by (auto simp: default_missing_def returned_def setDefaults_Panic)
  have sign: "private_signTransaction X m args pwd = Panic" for pwd
    by (simp add: private_signTransaction_def assms(1) w)
  have "r = Panic" if "private_SendTransaction X l t m args pwd = Some (m1, l1, r)" for m1 l1 r pwd
    using with_nonce_lock_res[OF that[unfolded private_SendTransaction_def] assms(2)] by (simp add: sign)
  moreover have "r = Panic" if "public_SendTransaction X l t m args = Some (m1, l1, r)" for m1 l1 r
    using with_nonce_lock_res[OF _ assms(2), of t args "(m, Panic)" m1 l1 r] that
    by (simp add: public_SendTransaction_def assms(1) w)
  ultimately show ?thesis
    using assms(3,5)
    by (auto simp: send_args_def sends_def SignAndSendTransaction_def
        split: rpc_call.splits transaction_pool_call.splits private_account_call.splits option.splits)
qed

text \<open>The methods that read answer what the table says.\<close>

lemma foldl_append: "foldl (\<lambda>as a. as @ [f a]) acc xs = acc @ map f xs"
  by (induction xs arbitrary: acc) simp_all

lemma Accounts_eq: "fetchKeystore m = Ret ks \<Longrightarrow>
    Accounts X m = Ret [ea_Address a. w \<leftarrow> am_Wallets X ks, a \<leftarrow> wallet_Accounts X ks w]"
proof -
  have "foldl (\<lambda>addresses w. addresses @ map ea_Address (wallet_Accounts X ks w)) acc ws
      = acc @ [ea_Address a. w \<leftarrow> ws, a \<leftarrow> wallet_Accounts X ks w]" for acc ws
    by (induction ws arbitrary: acc) simp_all
  then show "fetchKeystore m = Ret ks \<Longrightarrow> ?thesis" by (simp add: Accounts_def foldl_append)
qed

lemmas read_tables = read_answer_def not_implemented_def answers_null_def read_value_def

lemma rpc_serve_reads:
  assumes "fetchKeystore m = Ret ks" "rpc_serve X l t m c = Some (m', l', res)" "read_answer X m ks c = Some r"
  shows "res = r"
proof (cases c)
  case (TransactionPool d)
  with assms(2,3) show ?thesis by (cases d) (auto simp: read_tables reads_def leaves_def sends_def constant_answers)
next
  case (PrivateAccount d)
  with assms show ?thesis by (cases d) (auto simp: read_tables reads_def ListAccounts_def)
next
  case (BlockChain d)
  with assms(2,3) show ?thesis
    by (cases d) (auto simp: read_tables reads_def constant_answers rpc_GetBalance_def BlockNumber_def GetBalance_def GetBlockIndex_def)
next
  case (Ethereum d)
  with assms(2,3) show ?thesis
    by (cases d) (auto simp: read_tables reads_def constant_answers eth_ProtocolVersion_def)
next
  case (TxPool d)
  with assms(2,3) show ?thesis by (cases d) (auto simp: read_tables reads_def constant_answers)
next
  case (PublicDebug d)
  with assms(2,3) show ?thesis by (cases d) (auto simp: read_tables reads_def constant_answers)
next
  case (PrivateDebug d)
  with assms(2,3) show ?thesis by (cases d) (auto simp: read_tables reads_def constant_answers)
next
  case (EthereumChain d)
  with assms(2,3) show ?thesis
    by (cases d) (auto simp: read_tables reads_def constant_answers Hashrate_def ChainId_def)
next
  case (Admin d)
  with assms(2,3) show ?thesis by (cases d) (auto simp: read_tables reads_def constant_answers)
qed (use assms in \<open>auto simp: read_tables reads_def constant_answers Accounts_eq\<close>)


lemma demo_web3_decodes: "rlp_DecodeBytes_tx demo_web3 = demo_decode_tx"
  by (simp add: demo_web3_def demo_backend_def demo_def backend.defs geth.defs)

lemma demo_web3_calm: "web3_calm demo_web3"
proof -
  have "demo_encode_tx t \<noteq> Panic" "demo_decode_tx b \<noteq> Panic" for t b
    by (simp_all add: demo_decode_calm)
  then show ?thesis
    by (auto simp: web3_calm_def long_signatures_def demo_web3_def demo_backend_def demo_def backend.defs geth.defs
        demo_SignHash_def split: if_splits)
qed


end
