(* ===== verification/EngineSpec.thy ===== *)
theory EngineSpec
  imports Engine Web3ApiSpec ServiceSpec
begin

text \<open>
  Properties of the engines: what every run of the socket engine keeps, with the transactions that a
  failed \<^verbatim>\<open>SubmitTx\<close> loses; what happens to a transaction in a Solo node from the HTTP request
  to the consensus; the answers to commits, and the timeouts of the in-memory engine.
\<close>

section \<open>Construction\<close>

lemma NewService_Ret:
  assumes "NewService g k a p st = Ret m"
  shows "sv_state m = st" "sv_submitCh m = []" "sv_getInfo m = None" "\<not> sv_locked m" "sv_keyStore m = None"
  using assms by (auto simp: NewService_def split: outcome.splits prod.splits option.splits)

lemma build_service_Ret:
  assumes "build_service X D cfg = Ret m"
  shows "reachable X (sv_state m)" "sv_submitCh m = []" "sv_getInfo m = None" "\<not> sv_locked m"
proof -
  obtain eth :: eth_config and st where "NewState X (env_Getrlimit D) (env_NewLDBDatabase D) (ec_DbFile eth) (ec_Cache eth) = Ret st"
    and m: "NewService (ec_Genesis eth) (ec_Keystore eth) (ec_EthAPIAddr eth) (ec_PwdFile eth) st = Ret m"
    using assms unfolding build_service_def by (cases "cf_Eth cfg") (simp_all split: outcome.splits)
  then show "reachable X (sv_state m)" by (metis NewService_Ret(1) reachable.opened)
  show "sv_submitCh m = []" "sv_getInfo m = None" "\<not> sv_locked m" using NewService_Ret[OF m] by simp_all
qed

section \<open>Runs of the socket engine\<close>

text \<open>Whatever happens, a request changes the mutex and appends to the submissions, nothing else.\<close>

lemma ServeHTTP_submitted:
  "\<exists>bs b. fst (ServeHTTP X match r m) = (submitted bs m)\<lparr>sv_locked := b\<rparr>"
proof (cases "sv_locked m")
  case True
  then show ?thesis by (intro exI[of _ "[]"] exI[of _ True]) (simp add: ServeHTTP_locked)
next
  case False
  show ?thesis
  proof (cases "rq_Method r = ''OPTIONS'' \<or> route match r = None")
    case True
    with False show ?thesis
      by (intro exI[of _ "[]"] exI[of _ False]) (simp add: ServeHTTP_unrouted)
  next
    case routed: False
    then obtain h where "route match r = Some h" "rq_Method r \<noteq> ''OPTIONS''" by auto
    with run_handler_guarded[of X h r m] ServeHTTP_routed(1) show ?thesis by metis
  qed
qed

text \<open>A JSON-RPC call changes the key store or appends to the submissions, nothing else.\<close>

lemma permits_submitted:
  assumes "permits eff m m' res"
  shows "\<exists>bs ks. m' = (submitted bs m)\<lparr>sv_keyStore := ks\<rparr>"
proof -
  have same: "\<exists>bs ks. m = (submitted bs m)\<lparr>sv_keyStore := ks\<rparr>"
    by (intro exI[of _ "[]"] exI[of _ "sv_keyStore m"]) simp
  have "\<exists>bs ks. submit m raw = (submitted bs m)\<lparr>sv_keyStore := ks\<rparr>" for raw
    by (intro exI[of _ "[raw]"] exI[of _ "sv_keyStore m"]) (simp add: submit_submitted submitted_def)
  moreover have "\<exists>bs ks'. m\<lparr>sv_keyStore := ks\<rparr> = (submitted bs m)\<lparr>sv_keyStore := ks'\<rparr>" for ks
    by (intro exI[of _ "[]"] exI[of _ ks]) simp
  ultimately show ?thesis using assms same by (cases eff) (auto simp: permits_def split: if_splits)
qed

lemma set_up_frame:
  "makeKeyStore X Os m = (m1, e) \<Longrightarrow> sv_submitCh m1 = sv_submitCh m \<and> sv_locked m1 = sv_locked m
     \<and> sv_getInfo m1 = sv_getInfo m \<and> sv_state m1 = sv_state m"
  "unlockAccounts X Os m1 = (m2, r) \<Longrightarrow> sv_submitCh m2 = sv_submitCh m1 \<and> sv_locked m2 = sv_locked m1
     \<and> sv_getInfo m2 = sv_getInfo m1 \<and> sv_state m2 = sv_state m1"
  "createGenesisAccounts X Os m2 = (m3, r) \<Longrightarrow> sv_submitCh m3 = sv_submitCh m2 \<and> sv_locked m3 = sv_locked m2
     \<and> sv_getInfo m3 = sv_getInfo m2 \<and> (reachable X (sv_state m2) \<longrightarrow> reachable X (sv_state m3))"
  by (auto simp: makeKeyStore_def unlockAccounts_def createGenesisAccounts_def intro: reachable.accounts
      split: option.splits outcome.splits prod.splits if_splits)

lemma service_Run_frame:
  assumes "service_Run X Os E m = (m', Serving)"
  shows "sv_submitCh m' = sv_submitCh m \<and> sv_locked m' = sv_locked m \<and> sv_getInfo m' = sv_getInfo m
     \<and> (reachable X (sv_state m) \<longrightarrow> reachable X (sv_state m'))"
proof -
  from assms obtain m1 m2 m3 where 1: "makeKeyStore X Os m = (m1, None)"
    and 2: "unlockAccounts X Os m1 = (m2, Ret None)" and 3: "createGenesisAccounts X Os m2 = (m3, Ret None)"
    and m': "m' = m3\<lparr>sv_rpcServer := fst (Start E (sv_rpcServer m3))\<rparr>"
    unfolding service_Run_Serving by blast
  from set_up_frame(1)[OF 1] set_up_frame(2)[OF 2] set_up_frame(3)[OF 3] m' show ?thesis by simp
qed

definition engine_ok :: "('db, 'sd, 'ks, 'w, 'x) web3_scheme \<Rightarrow> ('db, 'sd, 'ks) socket_engine \<Rightarrow> bool" where
  "engine_ok X en \<longleftrightarrow> reachable X (sv_state (se_service en)) \<and> sv_getInfo (se_service en) = None \<and>
     (\<exists>rest. sv_submitCh (se_service en) = se_taken en @ rest) \<and>
     locker_ok (se_nonceLock en) \<and> holder (se_nonceLock en) = (\<lambda>_. None)"

lemma NewAddrLocker_free: "holder NewAddrLocker = (\<lambda>_. None)"
  by (simp add: fun_eq_iff holder_def NewAddrLocker_def)

lemma engine_ok_submitted:
  "engine_ok X en \<Longrightarrow> m = (submitted bs (se_service en))\<lparr>sv_locked := b\<rparr> \<Longrightarrow> engine_ok X (en\<lparr>se_service := m\<rparr>)"
  by (auto simp: engine_ok_def submitted_def)

lemma engine_step_ok:
  assumes "engine_step X match en en'" "engine_ok X en"
  shows "engine_ok X en'"
  using assms(1)
proof cases
  case (service_start Os E m)
  with service_Run_frame[OF service_start(2)] assms(2) show ?thesis
    by (auto simp: engine_ok_def NewAddrLocker_ok NewAddrLocker_free)
next
  case (http_request r m res)
  obtain bs b where "m = (submitted bs (se_service en))\<lparr>sv_locked := b\<rparr>"
    using ServeHTTP_submitted[of X match r "se_service en"] http_request(2) by auto
  with http_request(1) engine_ok_submitted[OF assms(2)] show ?thesis by blast
next
  case (rpc_request t c m l res)
  have "locker_ok (se_nonceLock en)" using assms(2) by (simp add: engine_ok_def)
  from rpc_serve_answer_ok[OF this] rpc_request(2)
  have "permits (call_effect c) (se_service en) m res" "locker_ok l" "holder l = holder (se_nonceLock en)"
    unfolding answer_ok_def by blast+
  moreover from permits_submitted[OF this(1)] obtain bs ks
    where "m = (submitted bs (se_service en))\<lparr>sv_keyStore := ks\<rparr>" by blast
  ultimately show ?thesis using rpc_request(1) assms(2) by (auto simp: engine_ok_def submitted_def)
next
  case (forward err)
  then obtain t where t: "pending en = Some t" "en' = en\<lparr>se_submits := se_submits en @ [(t, err)]\<rparr>"
    by (auto simp: serve_submit_def split: option.splits)
  obtain rest where "sv_submitCh (se_service en) = se_taken en @ rest" using assms(2) by (auto simp: engine_ok_def)
  with t assms(2) show ?thesis by (auto simp: engine_ok_def pending_def se_taken_def split: list.splits)
next
  case (commit_block now blk)
  then obtain st out where run: "ProcessBlock X now (sv_state (se_service en)) blk = (st, out)"
    and en': "\<exists>rs. en' = en\<lparr>se_service := (se_service en)\<lparr>sv_state := st\<rparr>, se_responses := rs\<rparr>"
    by (auto simp: serve_commit_def split: prod.splits outcome.splits)
  have "reachable X st" using assms(2) run by (auto simp: engine_ok_def intro: reachable.processed)
  with en' assms(2) show ?thesis by (auto simp: engine_ok_def se_taken_def)
qed

lemma engine_steps_ok: "(engine_step X match)\<^sup>*\<^sup>* en en' \<Longrightarrow> engine_ok X en \<Longrightarrow> engine_ok X en'"
  by (induction rule: rtranclp_induct) (blast intro: engine_step_ok)+

lemma NewSocketEngine_ok:
  assumes "NewSocketEngine X D P cfg = Ret en"
  shows "engine_ok X en" "se_submits en = []"
proof -
  obtain m where m: "build_service X D cfg = Ret m"
    "en = \<lparr>se_service = m, se_nonceLock = NewAddrLocker, se_submits = [], se_responses = []\<rparr>"
    using assms by (auto simp: NewSocketEngine_def split: outcome.splits)
  with build_service_Ret[OF m(1)] show "engine_ok X en" "se_submits en = []"
    by (simp_all add: engine_ok_def se_taken_def NewAddrLocker_ok NewAddrLocker_free)
qed

text \<open>
  C4. Along every run of the socket engine, however HTTP requests, JSON-RPC calls, forwarding
  and commits interleave and whichever calls of \<^verbatim>\<open>SubmitTx\<close> fail: the application state is one its own
  operations can reach, so all its invariants hold; \<^verbatim>\<open>SubmitTx\<close> has been called for exactly a prefix of
  what the API submitted, each submission once and in order; and of these the consensus has those whose call returned
  no error, in their order, while the others are lost: they are in no later call.  If no call failed, the consensus
  has the whole prefix.
\<close>

theorem engine_run_invariant:
  assumes "NewSocketEngine X D P cfg = Ret en0" "(engine_step X match)\<^sup>*\<^sup>* en0 en"
  shows "reachable X (sv_state (se_service en)) \<and>
    (\<exists>unsent. sv_submitCh (se_service en) = map fst (se_submits en) @ unsent) \<and>
    (\<forall>b. count_list (se_given en) b + count_list (map fst (filter (\<lambda>(b, err). err \<noteq> None) (se_submits en))) b
       \<le> count_list (sv_submitCh (se_service en)) b) \<and>
    ((\<forall>(b, err) \<in> set (se_submits en). err = None) \<longrightarrow>
       se_given en = take (length (se_given en)) (sv_submitCh (se_service en)))"
proof -
  have ok: "engine_ok X en" by (rule engine_steps_ok[OF assms(2) NewSocketEngine_ok(1)[OF assms(1)]])
  then obtain rest where rest: "sv_submitCh (se_service en) = map fst (se_submits en) @ rest"
    by (auto simp: engine_ok_def se_taken_def)
  have "count_list (map fst (filter (\<lambda>(b, err). err = None) xs)) b
      + count_list (map fst (filter (\<lambda>(b, err). err \<noteq> None) xs)) b = count_list (map fst xs) b"
    for xs :: "(bytes \<times> error option) list" and b by (induction xs) auto
  from this[of "se_submits en"] have "count_list (se_given en) b
      + count_list (map fst (filter (\<lambda>(b, err). err \<noteq> None) (se_submits en))) b
      \<le> count_list (sv_submitCh (se_service en)) b" for b
    unfolding rest se_given_def count_list_append by (metis le_add1)
  moreover have "se_given en = take (length (se_given en)) (sv_submitCh (se_service en))"
    if "\<forall>(b, err) \<in> set (se_submits en). err = None"
  proof -
    have "filter (\<lambda>(b, err). err = None) (se_submits en) = se_submits en" using that by (auto simp: filter_id_conv)
    then show ?thesis by (simp add: se_given_def rest)
  qed
  ultimately show ?thesis using ok rest unfolding engine_ok_def by blast
qed

text \<open>
  C30. The socket engine never sets the callback of \<^verbatim>\<open>/info\<close>: in every state of every run in which
  the mutex is free, a request for the consensus information panics, and from then on every routed
  request waits for ever.
\<close>

theorem socket_info_blocks_api:
  assumes "NewSocketEngine X D P cfg = Ret en0" "(engine_step X match)\<^sup>*\<^sup>* en0 en"
    "\<not> sv_locked (se_service en)" "rq_Method r \<noteq> ''OPTIONS''" "route match r \<in> {Some InfoH, Some HtmlInfoH}"
  shows "snd (ServeHTTP X match r (se_service en)) = Aborted \<and>
    (\<forall>r'. rq_Method r' \<noteq> ''OPTIONS'' \<and> route match r' \<noteq> None \<longrightarrow>
       ServeHTTP X match r' (fst (ServeHTTP X match r (se_service en))) =
         (fst (ServeHTTP X match r (se_service en)), Blocked))"
proof -
  have "sv_getInfo (se_service en) = None"
    using engine_steps_ok[OF assms(2) NewSocketEngine_ok(1)[OF assms(1)]] by (simp add: engine_ok_def)
  then have ab: "snd (ServeHTTP X match r (se_service en)) = Aborted"
    using assms(3-5)
    by (auto simp: ServeHTTP_routed(2) makeHandler_def infoHandler_def htmlInfoHandler_def respond_def)
  show ?thesis
    using ab by (intro conjI allI impI) (simp_all add: ServeHTTP_locked[OF Aborted_locked[OF ab]] del: not_None_eq)
qed

text \<open>The in-memory engine, seen as a socket engine.\<close>

definition as_socket :: "('db, 'sd, 'ks) inmem_engine \<Rightarrow> ('db, 'sd, 'ks) socket_engine" where
  "as_socket en = \<lparr>se_service = ie_service en, se_nonceLock = ie_nonceLock en,
     se_submits = map (\<lambda>b. (b, None)) (ie_taken en), se_responses = ie_responses en\<rparr>"

lemma inmem_step_socket:
  assumes "inmem_step X match en en'"
  shows "engine_step X match (as_socket en) (as_socket en')"
  using assms
proof cases
  case (inmem_start Os E m)
  from engine_step.service_start[of X Os E "as_socket en" m match] inmem_start show ?thesis by (simp add: as_socket_def)
next
  case (inmem_http r m res)
  from engine_step.http_request[of X match r "as_socket en" m res] inmem_http show ?thesis by (simp add: as_socket_def)
next
  case (inmem_rpc t c m l res)
  from engine_step.rpc_request[of X "as_socket en" t c m l res match] inmem_rpc show ?thesis by (simp add: as_socket_def)
next
  case (inmem_submit t ts)
  then have "serve_submit (as_socket en) None = Some (as_socket en')"
    by (simp add: serve_submit_def pending_def as_socket_def engine_SubmitCh_def se_taken_def comp_def)
  then show ?thesis by (rule engine_step.forward)
next
  case (inmem_commit now blk st answer)
  then have "serve_commit X now blk (as_socket en) = Ret (as_socket en')"
    by (auto simp: serve_commit_def engine_CommitBlock_def as_socket_def split: prod.splits outcome.splits)
  then show ?thesis by (rule engine_step.commit_block)
qed

lemma NewInmemEngine_ok:
  assumes "NewInmemEngine X D L cfg = Ret en"
  shows "engine_ok X (as_socket en)"
proof -
  obtain m where m: "build_service X D cfg = Ret m" "ie_service en = m" "ie_nonceLock en = NewAddrLocker"
      "ie_taken en = []"
    using assms by (auto simp: NewInmemEngine_def Let_def split: outcome.splits option.splits if_splits)
  with build_service_Ret[OF m(1)] show ?thesis
    by (simp add: engine_ok_def as_socket_def se_taken_def NewAddrLocker_ok NewAddrLocker_free)
qed

text \<open>
  Every run of the in-memory engine is a run of the socket engine in which no submission is lost: the
  Lachesis node receives from the channel itself, so there is no \<^verbatim>\<open>SubmitTx\<close> that could fail.
\<close>

lemma inmem_run_socket:
  assumes "NewInmemEngine X D L cfg = Ret en0" "(inmem_step X match)\<^sup>*\<^sup>* en0 en"
  shows "(engine_step X match)\<^sup>*\<^sup>* (as_socket en0) (as_socket en)" "reachable X (sv_state (ie_service en))"
    "ie_taken en = take (length (ie_taken en)) (engine_SubmitCh en)"
proof -
  show run: "(engine_step X match)\<^sup>*\<^sup>* (as_socket en0) (as_socket en)"
    using assms(2)
    by (induction rule: rtranclp_induct) (auto dest: inmem_step_socket intro: rtranclp.rtrancl_into_rtrancl)
  have "engine_ok X (as_socket en)" by (rule engine_steps_ok[OF run NewInmemEngine_ok[OF assms(1)]])
  then show "reachable X (sv_state (ie_service en))" "ie_taken en = take (length (ie_taken en)) (engine_SubmitCh en)"
    by (auto simp: engine_ok_def as_socket_def engine_SubmitCh_def se_taken_def comp_def)
qed

section \<open>Commits\<close>

text \<open>
  \<^verbatim>\<open>CommitHandler\<close> always reports success: it does the same as \<^verbatim>\<open>CommitBlock\<close> of the in-memory
  proxy and answers the same bytes, but without the error; when the block cannot be stored, its answer is
  the zero hash.
\<close>

lemma CommitHandler_hides_error:
  assumes "ProcessBlock X now st blk = (st', Ret (h, err))"
  shows "engine_CommitBlock X now st blk = (st', Ret (hash_bytes h, err))"
    "CommitHandler X now st blk = (st', Ret (hash_bytes h, None))"
    "db_Put X (s_db st) (fst (BlockHash X blk)) (fst (ProtoMarshal X (stamp_block now blk))) = (db, Some e)
       \<Longrightarrow> h = 0 \<and> err = Some e"
  using assms by (auto simp: engine_CommitBlock_def CommitHandler_def ProcessBlock_def Let_def)

section \<open>A submission by HTTP\<close>

lemma makeHandler_result:
  assumes "\<not> sv_locked m"
  shows "\<exists>b. fst (makeHandler h r m) = (fst (h r (m\<lparr>sv_locked := True\<rparr>)))\<lparr>sv_locked := b\<rparr>"
proof -
  obtain m' rep where h: "h r (m\<lparr>sv_locked := True\<rparr>) = (m', rep)" by fastforce
  have "m' = m'\<lparr>sv_locked := sv_locked m'\<rparr>" by simp
  with h assms show ?thesis
    by (cases rep) (auto simp: makeHandler_def intro: exI[of _ "sv_locked m'"])
qed

lemma transaction_request_decodes:
  assumes "codec_ok X" "rq_Method r \<noteq> ''OPTIONS''" "route match r = Some TransactionH" "\<not> sv_locked m"
    "m' = fst (ServeHTTP X match r m)" "sv_submitCh m' \<noteq> sv_submitCh m"
  obtains b t where "sv_submitCh m' = sv_submitCh m @ [b]" "rlp_Decode_tx X b = Ret t" "sv_state m' = sv_state m"
proof -
  let ?h = "fst (transactionHandler X r (m\<lparr>sv_locked := True\<rparr>))"
  have "\<exists>b. m' = ?h\<lparr>sv_locked := b\<rparr>"
    using makeHandler_result[OF assms(4), of "transactionHandler X" r]
    unfolding assms(5) ServeHTTP_routed(1)[OF assms(2,3)] by simp
  then obtain l where m': "m' = ?h\<lparr>sv_locked := l\<rparr>" by blast
  with assms(6) have "sv_submitCh ?h \<noteq> sv_submitCh m" by simp
  then obtain t b where b: "rlp_Encode_tx X t = Ret b" "sv_submitCh ?h = sv_submitCh m @ [b]" "sv_state ?h = sv_state m"
    unfolding transactionHandler_submits by (auto simp: submitted_def split: outcome.splits)
  then have "rlp_Decode_tx X b = Ret t" using assms(1) by (simp add: codec_ok_def)
  with that[of b t] b m' show ?thesis by simp
qed

section \<open>Timeouts\<close>

text \<open>
  The in-memory engine multiplies the configured heartbeat and timeout, which are durations
  already, by a millisecond: unless the product overflows it is a million times the duration that
  the same configuration gives the Lachesis consensus; for the defaults this is almost six and
  eleven days; and from two hours and 34 minutes on it overflows, first to a negative duration.
\<close>

theorem inmem_conf_timeouts:
  "(0 \<le> lc_Heartbeat l \<and> lc_Heartbeat l \<le> 9223372036854 \<longrightarrow>
      nd_Heartbeat (inmem_conf l) = 1000000 * rl_HeartbeatTimeout (ToRealLachesisConfig N l)) \<and>
   (lc_Heartbeat l = 9223372036855 \<longrightarrow> nd_Heartbeat (inmem_conf l) < 0) \<and>
   nd_Heartbeat (inmem_conf (DefaultLachesisConfig dd)) = 500000 * Second \<and>
   nd_TCPTimeout (inmem_conf (DefaultLachesisConfig dd)) = 1000000 * Second"
proof -
  have word: "sint (word_of_int i :: 64 word) = i" if "0 \<le> i" "i \<le> 9223372036854775807" for i :: int
    using that by (simp add: signed_of_int) (rule signed_take_bit_int_eq_self; simp)
  have small: "duration_times a b = a * b" if "0 \<le> a * b" "a * b \<le> 9223372036854775807" for a b
    unfolding duration_times_def by (rule word[OF that])
  have "sint (word_of_int 9223372036855000000 :: 64 word) < 0" by simp
  then show ?thesis
    by (simp add: inmem_conf_def ToRealLachesisConfig_def DefaultLachesisConfig_def small Second_def Millisecond_def)
       (simp add: duration_times_def)
qed

section \<open>A node\<close>

definition demo_node_env :: "demo_db node_env" where
  "demo_node_env = \<lparr>env_Getrlimit = Ret 1024, env_NewLDBDatabase = (\<lambda>_ _ _. Ret demo_db0)\<rparr>"

definition demo_config :: config where
  "demo_config = (DefaultConfig 3 ''/tmp'' ''/data'')\<lparr>cf_Eth := Some \<lparr>ec_Genesis = ''genesis.json'',
     ec_Keystore = ''keystore'', ec_PwdFile = ''pwd.txt'', ec_DbFile = ''chaindata'', ec_EthAPIAddr = '':8080'',
     ec_Cache = 128\<rparr>\<rparr>"

lemma demo_build_service:
  "build_service demo_backend demo_node_env demo_config = Ret demo_service"
  "build_service demo_web3 demo_node_env demo_config = Ret demo_service"
proof -
  have "db_Get demo_web3 = db_Get demo" "sd_New demo_web3 = sd_New demo" "sd_Copy demo_web3 = sd_Copy demo"
    "gp_AddGas demo_web3 = gp_AddGas demo"
    by (simp_all add: demo_web3_def backend.defs)
  then have "NewState demo_web3 (Ret 1024) (\<lambda>_ _ _. Ret demo_db0) ''chaindata'' 128 = Ret demo_s0"
    "NewState demo_backend (Ret 1024) (\<lambda>_ _ _. Ret demo_db0) ''chaindata'' 128 = Ret demo_s0"
    by (simp_all add: NewState_def getFdLimit_def InitState_def NewWriteAheadState_def resetWAS_def NewTxPool_def
      demo_s0_def demo_db0_def chainID_def gasLimit_def state0.defs)
  then show "build_service demo_backend demo_node_env demo_config = Ret demo_service"
    "build_service demo_web3 demo_node_env demo_config = Ret demo_service"
    by (simp_all add: build_service_def demo_node_env_def demo_config_def demo_NewService)
qed

definition demo_socket_engine :: "(demo_db, demo_sd, eth_account list) socket_engine" where
  "demo_socket_engine = \<lparr>se_service = demo_service, se_nonceLock = NewAddrLocker, se_submits = [], se_responses = []\<rparr>"

lemma demo_NewSocketEngine:
  "NewSocketEngine demo_web3 demo_node_env (\<lambda>_. Ret ()) demo_config = Ret demo_socket_engine"
  by (simp add: NewSocketEngine_def demo_build_service demo_socket_engine_def)

lemma demo_web3_keys:
  "ks_New demo_web3 = ks_New demo_backend" "ks_Accounts demo_web3 = ks_Accounts demo_backend"
  "ks_Unlock demo_web3 = ks_Unlock demo_backend"
  by (simp_all add: demo_web3_def backend.defs)

lemma demo_started_served:
  "\<exists>n. service_Run demo_web3 demo_os (demo_env None) demo_service = (demo_served\<lparr>sv_rpcServer := n\<rparr>, Serving)"
proof -
  have steps: "makeKeyStore demo_web3 demo_os demo_service = (demo_served, None)"
    "unlockAccounts demo_web3 demo_os demo_served = (demo_served, Ret None)"
    "createGenesisAccounts demo_web3 demo_os demo_served = (demo_served, Ret None)"
    by (simp_all add: makeKeyStore_def unlockAccounts_def createGenesisAccounts_def readPwd_def demo_served_def
        demo_service_eq demo_os_def newline_def carriage_return_def trim_right_def demo_web3_keys)
  have "returned (snd (Start (demo_env None) (sv_rpcServer demo_service)))"
    using Start_program_services[OF _ _ refl, of "sv_rpcServer demo_service" "demo_env None"] by (simp add: demo_service_eq)
  then have "service_Run demo_web3 demo_os (demo_env None) demo_service =
      (demo_served\<lparr>sv_rpcServer := fst (Start (demo_env None) (sv_rpcServer demo_served))\<rparr>, Serving)"
    unfolding service_Run_Serving using steps
    by (intro exI[of _ demo_served] conjI) (simp_all add: demo_served_def demo_os_sel)
  then show ?thesis by blast
qed

text \<open>Two submissions, of which the first is lost.\<close>

abbreviation demo_raw :: "bytes \<Rightarrow> rpc_call" where
  "demo_raw b \<equiv> TransactionPool (SendRawTransactionC b)"

lemma demo_raw_serve:
  "rpc_serve demo_web3 NewAddrLocker t m (demo_raw [193, n]) =
     Some (submit m [123, 125], NewAddrLocker, Ret (VHash (tx_Hash demo (demo_tx n))))"
  by (simp add: leaves_def SendRawTransaction_def submitTransaction_def demo_web3_decodes demo_tx_def demo_def)

lemma demo_raw_forward:
  assumes "se_nonceLock en = NewAddrLocker" "sv_submitCh (se_service en) = se_taken en"
  shows "(engine_step demo_web3 demo_mux)\<^sup>*\<^sup>* en
    (en\<lparr>se_service := submit (se_service en) [123, 125], se_submits := se_submits en @ [([123, 125], err)]\<rparr>)"
proof -
  let ?en = "en\<lparr>se_service := submit (se_service en) [123, 125]\<rparr>"
  have "en\<lparr>se_service := submit (se_service en) [123, 125], se_nonceLock := NewAddrLocker\<rparr> = ?en"
    using assms(1) by simp
  then have 1: "engine_step demo_web3 demo_mux en ?en"
    using engine_step.rpc_request[of demo_web3 en 1 "demo_raw [193, 4]" _ NewAddrLocker _ demo_mux]
    by (metis assms(1) demo_raw_serve)
  have "serve_submit ?en err = Some (?en\<lparr>se_submits := se_submits en @ [([123, 125], err)]\<rparr>)"
    using assms(2) by (simp add: serve_submit_def pending_def submit_def se_taken_def)
  then have "engine_step demo_web3 demo_mux ?en (?en\<lparr>se_submits := se_submits en @ [([123, 125], err)]\<rparr>)"
    by (rule engine_step.forward)
  with 1 show ?thesis by (rule converse_rtranclp_into_rtranclp[OF _ r_into_rtranclp])
qed

definition demo_lossy :: "(demo_db, demo_sd, eth_account list) socket_engine" where
  "demo_lossy = demo_socket_engine\<lparr>se_service := submit (submit demo_service [123, 125]) [123, 125],
     se_submits := [([123, 125], Some (LibError ''unavailable'')), ([123, 125], None)]\<rparr>"

lemma demo_submit_forward: "(engine_step demo_web3 demo_mux)\<^sup>*\<^sup>* demo_socket_engine demo_lossy"
proof -
  let ?en = "demo_socket_engine\<lparr>se_service := submit demo_service [123, 125],
    se_submits := [([123, 125], Some (LibError ''unavailable''))]\<rparr>"
  have "(engine_step demo_web3 demo_mux)\<^sup>*\<^sup>* demo_socket_engine ?en"
    using demo_raw_forward[of demo_socket_engine "Some (LibError ''unavailable'')"]
    by (simp add: demo_socket_engine_def se_taken_def demo_service_eq)
  moreover have "(engine_step demo_web3 demo_mux)\<^sup>*\<^sup>* ?en demo_lossy"
    using demo_raw_forward[of ?en None]
    by (simp add: demo_socket_engine_def demo_lossy_def se_taken_def demo_service_eq submit_def)
  ultimately show ?thesis by simp
qed

theorem engine_run_invariant_witness:
  "reachable demo_web3 demo_s0 \<and> se_given demo_lossy = [[123, 125]] \<and>
   sv_submitCh (se_service demo_lossy) = map fst (se_submits demo_lossy) \<and> length (se_submits demo_lossy) = 2"
  using engine_run_invariant[OF demo_NewSocketEngine demo_submit_forward]
  by (simp add: demo_lossy_def demo_socket_engine_def se_given_def submit_def demo_service_eq)

definition demo_lachesis_env :: lachesis_env where
  "demo_lachesis_env = \<lparr>le_ReadKey = Ret ''0x1'', le_Peers = Ret [(''0x1'', 1), (''0x2'', 2)],
     le_NewTCPTransport = (\<lambda>_ _ _. None), le_node_Init = None\<rparr>"

definition demo_inmem_engine :: "(demo_db, demo_sd, eth_account list) inmem_engine" where
  "demo_inmem_engine = \<lparr>ie_service = demo_service, ie_conf = inmem_conf (DefaultLachesisConfig ''/data''),
     ie_nodeID = 1, ie_nonceLock = NewAddrLocker, ie_taken = [], ie_responses = []\<rparr>"

lemma demo_NewInmemEngine:
  "NewInmemEngine demo_web3 demo_node_env demo_lachesis_env demo_config = Ret demo_inmem_engine"
proof -
  have "cf_Lachesis demo_config = Some (DefaultLachesisConfig ''/data'')" by (simp add: demo_config_def DefaultConfig_def)
  then show ?thesis
    by (simp add: NewInmemEngine_def demo_build_service demo_inmem_engine_def demo_lachesis_env_def Let_def)
qed

lemma demo_inmem_submit:
  "(inmem_step demo_web3 demo_mux)\<^sup>*\<^sup>* demo_inmem_engine
     (demo_inmem_engine\<lparr>ie_service := submit demo_service [123, 125], ie_taken := [[123, 125]]\<rparr>)"
proof -
  let ?m = "submit demo_service [123, 125]"
  have "rpc_serve demo_web3 (ie_nonceLock demo_inmem_engine) 1 (ie_service demo_inmem_engine)
      (TransactionPool (SendRawTransactionC [193, 4])) = Some (?m, NewAddrLocker, Ret (VHash 11))"
    by (simp add: leaves_def SendRawTransaction_def submitTransaction_def demo_inmem_engine_def
        demo_web3_decodes demo_tx_def demo_def)
  from inmem_step.inmem_rpc[OF this, of demo_mux]
  have 1: "inmem_step demo_web3 demo_mux demo_inmem_engine (demo_inmem_engine\<lparr>ie_service := ?m\<rparr>)"
    by (simp add: demo_inmem_engine_def)
  have "drop (length (ie_taken (demo_inmem_engine\<lparr>ie_service := ?m\<rparr>))) (engine_SubmitCh (demo_inmem_engine\<lparr>ie_service := ?m\<rparr>))
      = [123, 125] # []"
    by (simp add: demo_inmem_engine_def engine_SubmitCh_def submit_def demo_service_eq)
  from inmem_step.inmem_submit[OF this, of demo_web3 demo_mux]
  have "inmem_step demo_web3 demo_mux (demo_inmem_engine\<lparr>ie_service := ?m\<rparr>)
      (demo_inmem_engine\<lparr>ie_service := ?m, ie_taken := [[123, 125]]\<rparr>)"
    by (simp add: demo_inmem_engine_def)
  with 1 show ?thesis by (rule converse_rtranclp_into_rtranclp[OF _ r_into_rtranclp])
qed

lemma demo_inmem_run:
  "reachable demo_web3 demo_s0 \<and> [[123, 125]] = take 1 (sv_submitCh (submit demo_service [123, 125]))"
  using inmem_run_socket[OF demo_NewInmemEngine demo_inmem_submit]
  by (simp add: submit_def demo_service_eq engine_SubmitCh_def)

theorem socket_info_blocks_api_witness:
  "snd (ServeHTTP demo_web3 demo_mux (demo_request ''GET'' ''/info'' []) demo_service) = Aborted"
proof -
  have "route demo_mux (demo_request ''GET'' ''/info'' []) = Some InfoH"
    by (simp add: route_def routes_def demo_mux_def demo_request_def Let_def)
  then show ?thesis
    using socket_info_blocks_api[OF demo_NewSocketEngine rtranclp.rtrancl_refl,
        where match = demo_mux and r = "demo_request ''GET'' ''/info'' []"]
    by (simp add: demo_socket_engine_def demo_service_eq)
qed

theorem inmem_conf_timeouts_witness:
  "nd_Heartbeat (inmem_conf ((DefaultLachesisConfig ''/data'')\<lparr>lc_Heartbeat := 9223372036855\<rparr>)) < 0"
  using inmem_conf_timeouts[of "(DefaultLachesisConfig ''/data'')\<lparr>lc_Heartbeat := 9223372036855\<rparr>" undefined "''/data''"] by simp

end
