(* ===== verification/DoubleSend.thy ===== *)
theory DoubleSend
  imports EngineSpec
begin

text \<open>
  Two transactions of one account between two commits: the nonce that \<^verbatim>\<open>POST /tx\<close> fills in comes
  from the transaction pool, which nothing but a commit changes, because no handler calls
  \<^verbatim>\<open>CheckTx\<close>.
\<close>

section \<open>Contracts\<close>

text \<open>
  \<^verbatim>\<open>AsMessage\<close> keeps the nonce and asks for its check.  For the accounts with a key, \<open>ext\<close>, a
  message counts the nonce of its sender at most once and no other; a message with another nonce than its
  sender's is refused with an error before anything is executed (\<^verbatim>\<open>StateTransition.preCheck\<close>), and a message
  that is executed counted it (\<^verbatim>\<open>TransitionDb\<close>).  Neither \<^verbatim>\<open>Prepare\<close> nor \<^verbatim>\<open>IntermediateRoot\<close> changes a nonce of
  these accounts.
\<close>

definition nonce_ok :: "('db, 'sd, 'x) geth_scheme \<Rightarrow> (address \<Rightarrow> bool) \<Rightarrow> bool" where
  "nonce_ok X ext \<longleftrightarrow>
     (\<forall>sg t m. AsMessage X sg t = Ret m \<longrightarrow> msg_Nonce m = tx_Nonce t \<and> msg_CheckNonce m) \<and>
     (\<forall>ctx sd cc vc m gp sd' left res a. ApplyMessage X ctx sd cc vc m gp = (sd', left, res) \<and> ext a \<longrightarrow>
        sd_GetNonce X sd' a = sd_GetNonce X sd a \<or> sd_GetNonce X sd' a = sd_GetNonce X sd a + 1) \<and>
     (\<forall>ctx sd cc vc m gp sd' left res. ApplyMessage X ctx sd cc vc m gp = (sd', left, res) \<and>
        msg_CheckNonce m \<and> ext (msg_From m) \<longrightarrow>
        (if sd_GetNonce X sd (msg_From m) \<noteq> msg_Nonce m then \<exists>e. res = Fail e
         else returned res \<longrightarrow> sd_GetNonce X sd' (msg_From m) = msg_Nonce m + 1)) \<and>
     (\<forall>sd t h i a. ext a \<longrightarrow> sd_GetNonce X (sd_Prepare X sd t h i) a = sd_GetNonce X sd a) \<and>
     (\<forall>sd d a. ext a \<longrightarrow> sd_GetNonce X (fst (sd_IntermediateRoot X sd d)) a = sd_GetNonce X sd a)"

lemma nonce_okD:
  assumes "nonce_ok X ext"
  shows "AsMessage X sg t = Ret m \<Longrightarrow> msg_Nonce m = tx_Nonce t \<and> msg_CheckNonce m"
    and "ext a \<Longrightarrow> ApplyMessage X ctx sd cc vc m gp = (sd', left, res) \<Longrightarrow>
      sd_GetNonce X sd' a = sd_GetNonce X sd a \<or> sd_GetNonce X sd' a = sd_GetNonce X sd a + 1"
    and "ext (msg_From m) \<Longrightarrow> ApplyMessage X ctx sd cc vc m gp = (sd', left, res) \<Longrightarrow> msg_CheckNonce m \<Longrightarrow>
      if sd_GetNonce X sd (msg_From m) \<noteq> msg_Nonce m then \<exists>e. res = Fail e
      else returned res \<longrightarrow> sd_GetNonce X sd' (msg_From m) = msg_Nonce m + 1"
    and "ext a \<Longrightarrow> sd_GetNonce X (sd_Prepare X sd h bh i) a = sd_GetNonce X sd a"
    and "ext a \<Longrightarrow> sd_IntermediateRoot X sd d = (sd', r) \<Longrightarrow> sd_GetNonce X sd' a = sd_GetNonce X sd a"
proof -
  note ok = assms[unfolded nonce_ok_def]
  note ok2 = ok[THEN conjunct2]
  note ok3 = ok2[THEN conjunct2]
  note ok4 = ok3[THEN conjunct2]
  show "AsMessage X sg t = Ret m \<Longrightarrow> msg_Nonce m = tx_Nonce t \<and> msg_CheckNonce m"
    by (rule ok[THEN conjunct1, rule_format])
  show "ext a \<Longrightarrow> ApplyMessage X ctx sd cc vc m gp = (sd', left, res) \<Longrightarrow>
      sd_GetNonce X sd' a = sd_GetNonce X sd a \<or> sd_GetNonce X sd' a = sd_GetNonce X sd a + 1"
    by (rule ok2[THEN conjunct1, rule_format]) (rule conjI)
  show "ext (msg_From m) \<Longrightarrow> ApplyMessage X ctx sd cc vc m gp = (sd', left, res) \<Longrightarrow> msg_CheckNonce m \<Longrightarrow>
      if sd_GetNonce X sd (msg_From m) \<noteq> msg_Nonce m then \<exists>e. res = Fail e
      else returned res \<longrightarrow> sd_GetNonce X sd' (msg_From m) = msg_Nonce m + 1"
    by (rule ok3[THEN conjunct1, rule_format]) (intro conjI)
  show "ext a \<Longrightarrow> sd_GetNonce X (sd_Prepare X sd h bh i) a = sd_GetNonce X sd a"
    by (rule ok4[THEN conjunct1, rule_format])
  show "ext a \<Longrightarrow> sd_IntermediateRoot X sd d = (sd', r) \<Longrightarrow> sd_GetNonce X sd' a = sd_GetNonce X sd a"
    using ok4[THEN conjunct2, rule_format, of a sd d] by simp
qed

text \<open>A transaction that the key store signed for an address, and the sender recovered from it.\<close>

definition signed_for :: "('db, 'sd, 'ks, 'x) backend_scheme \<Rightarrow> 'ks \<Rightarrow> address \<Rightarrow> tx \<Rightarrow> bool" where
  "signed_for X ks a t \<longleftrightarrow> (\<exists>account t0 sig. ks_Find X ks \<lparr>ea_Address = a, ea_URL = []\<rparr> = Ret account \<and>
     ks_SignHash X ks account (hash_bytes (signer_Hash X (EIP155Signer 1) t0)) = Ret sig \<and>
     WithSignature X (EIP155Signer 1) t0 sig = Ret t)"

definition key_store_ok :: "('db, 'sd, 'ks, 'x) backend_scheme \<Rightarrow> 'ks \<Rightarrow> bool" where
  "key_store_ok X ks \<longleftrightarrow>
     (\<forall>a t m. signed_for X ks a t \<and> AsMessage X (Some (EIP155Signer 1)) t = Ret m \<longrightarrow> msg_From m = a)"

section \<open>Nonces along a block\<close>

abbreviation pending_nonce :: "('db, 'sd, 'x) geth_scheme \<Rightarrow> ('db, 'sd) state \<Rightarrow> address \<Rightarrow> u64" where
  "pending_nonce X s a \<equiv> sd_GetNonce X (w_ethState (s_was s)) a"

text \<open>The StateDB that a transaction leaves: as it was, or after the message, or also after its root.\<close>

lemma apply_transaction_evm:
  assumes "apply_transaction X s b i h = (s', res)"
  obtains (same) "w_ethState (s_was s') = w_ethState (s_was s)" "res \<noteq> Ret ()"
  | (run) t m sd gp r ctx where "rlp_Decode_tx X b = Ret t" "AsMessage X (s_signer s) t = Ret m"
      "ApplyMessage X ctx (sd_Prepare X (w_ethState (s_was s)) (tx_Hash X t) h i) (s_chainConfig s) (s_vmConfig s) m
        (w_gp (s_was s)) = (sd, gp, r)"
      "w_ethState (s_was s') = sd \<and> res \<noteq> Ret () \<or>
       (\<exists>out. r = Ret out) \<and> w_ethState (s_was s') = fst (sd_IntermediateRoot X sd True)"
proof (cases "rlp_Decode_tx X b")
  case t: (Ret t)
  show ?thesis
  proof (cases "AsMessage X (s_signer s) t")
    case m: (Ret m)
    let ?ctx = "message_context h m"
    obtain sd gp r where 1: "ApplyMessage X ?ctx (sd_Prepare X (w_ethState (s_was s)) (tx_Hash X t) h i)
        (s_chainConfig s) (s_vmConfig s) m (w_gp (s_was s)) = (sd, gp, r)" by (metis prod_cases3)
    show ?thesis
    proof (rule run[OF t m 1], cases r)
      case (Ret out)
      obtain o1 gas failed where "out = (o1, gas, failed)" by (metis prod_cases3)
      with Ret t m 1 assms
      show "w_ethState (s_was s') = sd \<and> res \<noteq> Ret () \<or>
          (\<exists>out. r = Ret out) \<and> w_ethState (s_was s') = fst (sd_IntermediateRoot X sd True)"
        by (cases "w_totalUsedGas (s_was s)"; cases "sd_IntermediateRoot X sd True")
           (auto simp: apply_transaction_def Let_def)
    qed (use t m 1 assms in \<open>auto simp: apply_transaction_def Let_def\<close>)
  qed (use t assms same in \<open>auto simp: apply_transaction_def\<close>)
qed (use assms same in \<open>auto simp: apply_transaction_def\<close>)

lemma apply_transaction_nonce:
  assumes "nonce_ok X ext" "ext a" "apply_transaction X s b i h = (s', res)"
  shows "pending_nonce X s' a = pending_nonce X s a \<or> pending_nonce X s' a = pending_nonce X s a + 1"
    and "res = Ret () \<Longrightarrow> rlp_Decode_tx X b = Ret t \<Longrightarrow> (\<And>m. AsMessage X (s_signer s) t = Ret m \<Longrightarrow> msg_From m = a)
      \<Longrightarrow> pending_nonce X s a = tx_Nonce t \<and> pending_nonce X s' a = tx_Nonce t + 1"
proof -
  note prep = nonce_okD(4)[OF assms(1,2)]
  have root: "sd_GetNonce X (fst (sd_IntermediateRoot X sd True)) a = sd_GetNonce X sd a" for sd
    using nonce_okD(5)[OF assms(1,2)] by (metis prod.collapse)
  show "pending_nonce X s' a = pending_nonce X s a \<or> pending_nonce X s' a = pending_nonce X s a + 1"
    using assms(3)
  proof (cases rule: apply_transaction_evm)
    case (run t m sd gp r ctx)
    with nonce_okD(2)[OF assms(1,2) run(3)] show ?thesis by (auto simp: prep root)
  qed simp
  assume ret: "res = Ret ()" and dec: "rlp_Decode_tx X b = Ret t"
    and sender: "\<And>m. AsMessage X (s_signer s) t = Ret m \<Longrightarrow> msg_From m = a"
  from assms(3) show "pending_nonce X s a = tx_Nonce t \<and> pending_nonce X s' a = tx_Nonce t + 1"
  proof (cases rule: apply_transaction_evm)
    case (run t' m sd gp r ctx)
    then have m: "t' = t" "msg_From m = a" using dec sender by simp_all
    from run(4) ret obtain out where "r = Ret out" "w_ethState (s_was s') = fst (sd_IntermediateRoot X sd True)" by auto
    with nonce_okD(3)[OF assms(1) _ run(3)[unfolded \<open>r = Ret out\<close>]] nonce_okD(1)[OF assms(1) run(2)] m assms(2)
    show ?thesis by (simp add: prep root split: if_splits)
  qed (use ret in simp)
qed

lemma wrong_nonce_refused:
  assumes "nonce_ok X ext" "ext a" "rlp_Decode_tx X b = Ret t" "AsMessage X (s_signer s) t \<noteq> Panic"
    "\<And>m. AsMessage X (s_signer s) t = Ret m \<Longrightarrow> msg_From m = a" "pending_nonce X s a \<noteq> tx_Nonce t"
  shows "\<exists>s' e. apply_transaction X s b i h = (s', Fail e)"
proof (cases "AsMessage X (s_signer s) t")
  case m: (Ret m)
  obtain sd gp r where 1: "ApplyMessage X (message_context h m) (sd_Prepare X (w_ethState (s_was s)) (tx_Hash X t) h i)
      (s_chainConfig s) (s_vmConfig s) m (w_gp (s_was s)) = (sd, gp, r)" by (metis prod_cases3)
  have "\<exists>e. r = Fail e"
    using nonce_okD(3)[OF assms(1) _ 1] nonce_okD(1)[OF assms(1) m] nonce_okD(4)[OF assms(1,2)] assms(2,5,6) m
    by (simp split: if_splits)
  with 1 m assms(3) show ?thesis by (auto simp: apply_transaction_def Let_def)
qed (use assms(3,4) in \<open>auto simp: apply_transaction_def\<close>)

lemma apply_block_transactions_nonce:
  assumes "nonce_ok X ext" "ext a" "apply_block_transactions X s i h bs = (s', Ret ())"
  shows "\<exists>k \<le> length bs. pending_nonce X s' a = pending_nonce X s a + of_nat k"
  using assms(3)
proof (induction bs arbitrary: s i)
  case (Cons b bs)
  obtain s1 r where 1: "apply_transaction X s b i h = (s1, r)" by fastforce
  with Cons.prems have rest: "apply_block_transactions X s1 (i + 1) h bs = (s', Ret ())" by (cases r) auto
  obtain k where k: "k \<le> length bs" "pending_nonce X s' a = pending_nonce X s1 a + of_nat k"
    using Cons.IH[OF rest] by blast
  from apply_transaction_nonce(1)[OF assms(1,2) 1] show ?case
  proof
    assume "pending_nonce X s1 a = pending_nonce X s a"
    with k show ?thesis by (intro exI[of _ k]) simp
  next
    assume "pending_nonce X s1 a = pending_nonce X s a + 1"
    with k show ?thesis by (intro exI[of _ "Suc k"]) simp
  qed
qed (auto intro: exI[of _ 0])

section \<open>Two requests\<close>

lemma ServeHTTP_keeps:
  "sv_state (fst (ServeHTTP X match r m)) = sv_state m \<and> sv_keyStore (fst (ServeHTTP X match r m)) = sv_keyStore m"
  using ServeHTTP_submitted[of X match r m] by (auto simp: submitted_def)

lemma serve_requests_keeps: "sv_state (fst (serve_requests X match rs m)) = sv_state m
    \<and> sv_keyStore (fst (serve_requests X match rs m)) = sv_keyStore m"
proof (induction rs arbitrary: m)
  case (Cons r rs)
  obtain m1 res where 1: "ServeHTTP X match r m = (m1, res)" by fastforce
  with ServeHTTP_keeps[of X match r m] Cons.IH[of m1] show ?case by (auto split: prod.split)
qed simp

lemma transaction_request_signed:
  assumes "codec_ok X" "new_tx_ok X" "rq_Method r \<noteq> ''OPTIONS''" "route match r = Some TransactionH"
    "sv_submitCh (fst (ServeHTTP X match r m)) = sv_submitCh m @ [b]"
    "json_Decode_args X (rq_Body r) = Ret args"
  obtains ks t where "sv_keyStore m = Some ks" "signed_for X ks (sa_From args) t" "rlp_Decode_tx X b = Ret t"
    "sa_Nonce args = None \<Longrightarrow> tx_Nonce t = GetPoolNonce X (sv_state m) (sa_From args)"
proof -
  have "\<not> sv_locked m" using assms(5) ServeHTTP_locked[of m X match r] by auto
  let ?m = "m\<lparr>sv_locked := True\<rparr>"
  obtain l where "fst (ServeHTTP X match r m) = (fst (transactionHandler X r ?m))\<lparr>sv_locked := l\<rparr>"
    using makeHandler_result[OF \<open>\<not> sv_locked m\<close>, of "transactionHandler X" r]
    unfolding ServeHTTP_routed(1)[OF assms(3,4)] by auto
  with assms(5) have "sv_submitCh (fst (transactionHandler X r ?m)) = sv_submitCh ?m @ [b]" by simp
  then obtain t where t: "prepareTransaction X args (sv_state m) (sv_keyStore m) = Ret t" "rlp_Encode_tx X t = Ret b"
    unfolding transactionHandler_submits assms(6) by (auto simp: submitted_def split: outcome.splits)
  obtain dat ks account sig where k: "sv_keyStore m = Some ks"
    "ks_Find X ks \<lparr>ea_Address = sa_From args, ea_URL = []\<rparr> = Ret account"
    "ks_SignHash X ks account (hash_bytes (signer_Hash X (EIP155Signer 1) (prepared_tx X args (sv_state m) dat))) = Ret sig"
    "WithSignature X (EIP155Signer 1) (prepared_tx X args (sv_state m) dat) sig = Ret t"
    using t(1) by (auto simp: prepareTransaction_eq split: outcome.splits option.splits)
  have "signed_for X ks (sa_From args) t" unfolding signed_for_def using k(2-4) by blast
  moreover have "rlp_Decode_tx X b = Ret t" using assms(1) t(2) by (simp add: codec_ok_def)
  moreover have "tx_Nonce t = GetPoolNonce X (sv_state m) (sa_From args)" if "sa_Nonce args = None"
    using signed_fields(2)[OF assms(2) k(4)] prepared_tx_fields(2)[OF assms(2)] that by simp
  ultimately show ?thesis by (rule that[OF k(1)])
qed

text \<open>A nonce that was used is not used again, until the counter has run through all 64-bit numbers.\<close>

lemma used_nonce_refused:
  assumes "nonce_ok X ext" "ext a" "libs_total X" "reachable X s"
    "\<And>t m. t = t1 \<or> t = t2 \<Longrightarrow> AsMessage X (Some (EIP155Signer 1)) t = Ret m \<Longrightarrow> msg_From m = a"
    "rlp_Decode_tx X b1 = Ret t1" "rlp_Decode_tx X b2 = Ret t2" "tx_Nonce t1 = tx_Nonce t2"
    "apply_transaction X s b1 i h = (s1, Ret ())" "apply_block_transactions X s1 j h bs = (s2, Ret ())"
    "length bs < 2 ^ 64 - 1"
  shows "\<exists>s3 e. apply_transaction X s2 b2 k h = (s3, Fail e)"
proof -
  have conf: "config_inv s" "config_inv s1" "config_inv s2"
    using config.invariant[OF assms(4)] config.apply_tx[OF _ assms(9)] config.apply_txs[OF _ assms(10)] by blast+
  then have sg: "s_signer s = Some (EIP155Signer 1)" "s_signer s2 = Some (EIP155Signer 1)"
    by (simp_all add: config_inv_def state_config_def chainID_def)
  have 1: "pending_nonce X s1 a = tx_Nonce t1 + 1"
    using apply_transaction_nonce(2)[OF assms(1,2,9) refl assms(6)] assms(5) sg(1) by metis
  obtain n where n: "n \<le> length bs" "pending_nonce X s2 a = tx_Nonce t1 + 1 + of_nat n"
    using apply_block_transactions_nonce[OF assms(1,2,10)] 1 by auto
  have "pending_nonce X s2 a \<noteq> tx_Nonce t2"
  proof
    assume "pending_nonce X s2 a = tx_Nonce t2"
    with n(2) assms(8) have "(of_nat (Suc n) :: u64) = 0" by (simp add: algebra_simps)
    moreover have "(of_nat (Suc n) :: u64) \<noteq> 0"
      using n(1) assms(11) by (auto simp: word_of_nat_eq_0_iff simp del: of_nat_Suc dest: dvd_imp_le)
    ultimately show False by blast
  qed
  then show ?thesis
    by (intro wrong_nonce_refused[OF assms(1,2,7)]) (auto simp: sg(2) libs_totalD(2)[OF assms(3)] intro: assms(5))
qed

text \<open>
  C10. Two transactions that \<^verbatim>\<open>POST /tx\<close> accepts for the same account without a nonce, with any other
  requests between them but no commit, are signed with the same nonce, the one the pool had at the
  last commit.  So at most one of them can be executed: in every block in which the first is
  executed, the second is refused.
\<close>

theorem double_send_refused:
  assumes "codec_ok X" "new_tx_ok X" "sv_keyStore m = Some ks" "key_store_ok X ks" "nonce_ok X ext" "libs_total X"
    "rq_Method r1 \<noteq> ''OPTIONS''" "route match r1 = Some TransactionH" "json_Decode_args X (rq_Body r1) = Ret args1"
    "rq_Method r2 \<noteq> ''OPTIONS''" "route match r2 = Some TransactionH" "json_Decode_args X (rq_Body r2) = Ret args2"
    "sa_From args1 = a" "sa_From args2 = a" "ext a" "sa_Nonce args1 = None" "sa_Nonce args2 = None"
    "m1 = fst (ServeHTTP X match r1 m)" "sv_submitCh m1 = sv_submitCh m @ [b1]"
    "m2 = fst (serve_requests X match rs m1)"
    "m3 = fst (ServeHTTP X match r2 m2)" "sv_submitCh m3 = sv_submitCh m2 @ [b2]"
  shows "\<exists>t1 t2. rlp_Decode_tx X b1 = Ret t1 \<and> rlp_Decode_tx X b2 = Ret t2 \<and>
      tx_Nonce t1 = GetPoolNonce X (sv_state m) a \<and> tx_Nonce t2 = GetPoolNonce X (sv_state m) a \<and>
      (\<forall>s i h s1 j bs s2 k. reachable X s \<and> apply_transaction X s b1 i h = (s1, Ret ()) \<and>
         apply_block_transactions X s1 j h bs = (s2, Ret ()) \<and> length bs < 2 ^ 64 - 1 \<longrightarrow>
         (\<exists>s3 e. apply_transaction X s2 b2 k h = (s3, Fail e)))"
proof -
  obtain t1 where 1: "signed_for X ks a t1" "rlp_Decode_tx X b1 = Ret t1"
      "tx_Nonce t1 = GetPoolNonce X (sv_state m) a"
    using transaction_request_signed[OF assms(1,2,7,8) assms(19)[unfolded assms(18)] assms(9)] assms(3,16)
    unfolding assms(13) by auto
  have st: "sv_state m2 = sv_state m" "sv_keyStore m2 = Some ks"
    unfolding assms(18,20) by (simp_all add: serve_requests_keeps ServeHTTP_keeps assms(3))
  obtain t2 where 2: "signed_for X ks a t2" "rlp_Decode_tx X b2 = Ret t2"
      "tx_Nonce t2 = GetPoolNonce X (sv_state m2) a"
    using transaction_request_signed[OF assms(1,2,10,11) assms(22)[unfolded assms(21)] assms(12)] st(2) assms(17)
    unfolding assms(14) by auto
  have sender: "msg_From g = a" if "t = t1 \<or> t = t2" "AsMessage X (Some (EIP155Signer 1)) t = Ret g" for t g
    using that 1(1) 2(1) assms(4) unfolding key_store_ok_def by blast
  have same: "tx_Nonce t1 = tx_Nonce t2" using 1(3) 2(3) st by simp
  show ?thesis
  proof (rule exI[of _ t1], rule exI[of _ t2], intro conjI allI impI)
    fix s i h s1 j bs s2 k
    assume "reachable X s \<and> apply_transaction X s b1 i h = (s1, Ret ()) \<and>
         apply_block_transactions X s1 j h bs = (s2, Ret ()) \<and> length bs < 2 ^ 64 - 1"
    then have run: "reachable X s" "apply_transaction X s b1 i h = (s1, Ret ())"
      "apply_block_transactions X s1 j h bs = (s2, Ret ())" "length bs < 2 ^ 64 - 1" by simp_all
    show "\<exists>s3 e. apply_transaction X s2 b2 k h = (s3, Fail e)"
      by (rule used_nonce_refused[OF assms(5,15,6) run(1) _ 1(2) 2(2) same run(2-4)]) (rule sender)
  qed (use 1 2 st in simp_all)
qed

lemma demo_nonce_ok: "nonce_ok demo_backend (\<lambda>_. True)"
  unfolding nonce_ok_def demo_backend_geth
proof (intro conjI allI impI)
  fix sg t m assume "AsMessage demo sg t = Ret m"
  then show "msg_Nonce m = tx_Nonce t" "msg_CheckNonce m" by (cases sg; auto simp: demo_message_def)+
qed (auto simp: demo_ApplyMessage_def split: if_splits option.splits)

lemma demo_key_store_ok: "key_store_ok demo_backend [demo_account]"
  by (auto simp: key_store_ok_def signed_for_def demo_account_def demo_message_def split: if_splits)

lemma demo_two_submissions:
  "fst (ServeHTTP demo_backend demo_mux (demo_post [1]) demo_served) = submit demo_served [193, 0]"
  "fst (ServeHTTP demo_backend demo_mux (demo_post [1]) (submit demo_served [193, 0])) =
     submit (submit demo_served [193, 0]) [193, 0]"
  by (simp_all add: ServeHTTP_def demo_post_tx_routed makeHandler_def transactionHandler_def prepareTransaction_eq
      demo_args_def demo_account_def submit_def prepared_tx_def demo_served_def demo_service_eq
      Let_def demo_NewTransaction_def GetPoolNonce_def demo_s0_def demo_sd0_def demo_encode_tx_def demo_tx_def
      respond_def write_body_def split: prod.splits option.splits)

theorem double_send_refused_witness:
  "\<exists>s1 s2 e. apply_transaction demo_backend demo_s0 [193, 0] 0 0 = (s1, Ret ()) \<and>
     apply_transaction demo_backend s1 [193, 0] 1 0 = (s2, Fail e)"
proof -
  obtain s1 where 1: "apply_transaction demo_backend demo_s0 [193, 0] 0 0 = (s1, Ret ())"
    by (simp add: apply_transaction_def run_defs demo_s0_def)
  have libs: "libs_total demo_backend" using demo_libs_total by (simp add: libs_total_def)
  have r: "reachable demo_backend demo_s0"
    using build_service_Ret(1)[OF demo_build_service(1)] by (simp add: demo_service_eq)
  let ?r = "demo_post [1]"
  have m: "json_Decode_args demo_backend (rq_Body ?r) = Ret demo_args" "rq_Method ?r \<noteq> ''OPTIONS''"
    "sa_From demo_args = 9" "sa_Nonce demo_args = None"
    by (simp_all add: demo_request_def demo_args_def)
  have sub: "sv_submitCh (submit demo_served [193, 0]) = sv_submitCh demo_served @ [[193, 0]]"
    "sv_submitCh (submit (submit demo_served [193, 0]) [193, 0]) = sv_submitCh (submit demo_served [193, 0]) @ [[193, 0]]"
    by (simp_all add: submit_def)
  have between: "submit demo_served [193, 0] =
      fst (serve_requests demo_backend demo_mux [] (submit demo_served [193, 0]))" by simp
  note send = double_send_refused[OF demo_backend_codec_ok demo_new_tx_ok demo_served_sel(2) demo_key_store_ok
      demo_nonce_ok libs m(2) demo_post_tx_routed m(1) m(2) demo_post_tx_routed m(1) m(3) m(3) TrueI m(4) m(4)
      demo_two_submissions(1)[symmetric] sub(1) between demo_two_submissions(2)[symmetric] sub(2)]
  have "apply_block_transactions demo_backend s1 1 0 [] = (s1, Ret ())" "length ([] :: bytes list) < 2 ^ 64 - 1"
    by simp_all
  with send r 1 have "\<exists>s2 e. apply_transaction demo_backend s1 [193, 0] 1 0 = (s2, Fail e)" by blast
  with 1 show ?thesis by blast
qed

end
