(* ===== verification/Flags.thy ===== *)
theory Flags
  imports Config
begin

text \<open>
  The flags of the commands (\<^verbatim>\<open>cmd/evm/commands\<close>) and the configuration fields they set.  A
  flag declaration is its name with its default, which the code takes from the configuration of the
  package.  The names of the fields are the \<^verbatim>\<open>mapstructure\<close> tags of the structs of
  \<^verbatim>\<open>src/config\<close>; a name with a dot is a field of a nested struct.
\<close>

section \<open>Declarations\<close>

datatype flag_value = FString string | FInt int | FUint u64 | FBool bool | FDuration int

fun same_kind :: "flag_value \<Rightarrow> flag_value \<Rightarrow> bool" where
  "same_kind (FString _) (FString _) = True"
| "same_kind (FInt _) (FInt _) = True"
| "same_kind (FUint _) (FUint _) = True"
| "same_kind (FBool _) (FBool _) = True"
| "same_kind (FDuration _) (FDuration _) = True"
| "same_kind _ _ = False"

type_synonym flags = "(string \<times> flag_value) list"

text \<open>\<^verbatim>\<open>init\<close> of \<^verbatim>\<open>root.go\<close>; a nil section of the configuration is a nil dereference.\<close>

definition root_flags :: "config \<Rightarrow> flags outcome" where
  "root_flags c =
     (case cf_Eth c of
        None \<Rightarrow> Panic
      | Some e \<Rightarrow> Ret
          [(''datadir'', FString (cf_DataDir c)),
           (''log'', FString (cf_LogLevel c)),
           (''eth.genesis'', FString (ec_Genesis e)),
           (''eth.keystore'', FString (ec_Keystore e)),
           (''eth.pwd'', FString (ec_PwdFile e)),
           (''eth.db'', FString (ec_DbFile e)),
           (''eth.listen'', FString (ec_EthAPIAddr e)),
           (''eth.cache'', FInt (ec_Cache e))])"

text \<open>The other four bind their flags to viper at once and panic if that fails: \<open>bind\<close> is its error.\<close>

definition bound :: "error option \<Rightarrow> flags \<Rightarrow> flags outcome" where
  "bound bind fs = (case bind of Some e \<Rightarrow> Panic | None \<Rightarrow> Ret fs)"

definition AddLachesisFlags :: "error option \<Rightarrow> config \<Rightarrow> flags outcome" where
  "AddLachesisFlags bind c =
     (case cf_Lachesis c of
        None \<Rightarrow> Panic
      | Some l \<Rightarrow> bound bind
          [(''lachesis.datadir'', FString (lc_DataDir l)),
           (''lachesis.listen'', FString (lc_BindAddr l)),
           (''lachesis.service-listen'', FString (lc_ServiceAddr l)),
           (''lachesis.heartbeat'', FDuration (lc_Heartbeat l)),
           (''lachesis.timeout'', FDuration (lc_TCPTimeout l)),
           (''lachesis.cache-size'', FInt (lc_CacheSize l)),
           (''lachesis.sync-limit'', FInt (lc_SyncLimit l)),
           (''lachesis.max-pool'', FInt (lc_MaxPool l)),
           (''lachesis.store'', FBool (lc_Store l))])"

definition AddRaftFlags :: "error option \<Rightarrow> config \<Rightarrow> flags outcome" where
  "AddRaftFlags bind c =
     (case cf_Raft c of
        None \<Rightarrow> Panic
      | Some r \<Rightarrow> bound bind
          [(''raft.dir'', FString (rc_RaftDir r)),
           (''raft.snapshot-dir'', FString (rc_SnapshotDir r)),
           (''raft.node-addr'', FString (rc_NodeAddr r)),
           (''raft.server-id'', FString (rc_LocalID r))])"

definition AddRunFlags :: "bool \<Rightarrow> error option \<Rightarrow> config \<Rightarrow> flags outcome" where
  "AddRunFlags windows bind c =
     bound bind ((''proxy'', FString (cf_ProxyAddr c)) #
       (if windows then [] else [(''pidfile'', FString (cf_Pidfile c))]))"

text \<open>The flag \<^verbatim>\<open>genesis\<close> of the solo command sets a variable of its own, not the configuration.\<close>

definition AddSoloFlags :: "error option \<Rightarrow> flags outcome" where
  "AddSoloFlags bind = bound bind [(''genesis'', FString [])]"

text \<open>
  The commands that \<^verbatim>\<open>main\<close> adds are built before it runs any; the viper instance is global, so
  it knows the flags of all of them.
\<close>

definition program_flags :: "bool \<Rightarrow> config \<Rightarrow> flags outcome" where
  "program_flags windows c =
     (case (root_flags c, AddSoloFlags None, AddRaftFlags None c, AddRunFlags windows None c) of
        (Ret fs1, Ret fs2, Ret fs3, Ret fs4) \<Rightarrow> Ret (fs1 @ fs2 @ fs3 @ fs4)
      | _ \<Rightarrow> Panic)"

section \<open>Fields by their tags\<close>

text \<open>Reading and writing the field of a tag; \<open>None\<close> for a tag the struct does not have, or a value of another kind.\<close>

definition eth_get :: "string \<Rightarrow> eth_config \<Rightarrow> flag_value option" where
  "eth_get t e =
     (if t = ''genesis'' then Some (FString (ec_Genesis e))
      else if t = ''keystore'' then Some (FString (ec_Keystore e))
      else if t = ''pwd'' then Some (FString (ec_PwdFile e))
      else if t = ''db'' then Some (FString (ec_DbFile e))
      else if t = ''listen'' then Some (FString (ec_EthAPIAddr e))
      else if t = ''cache'' then Some (FInt (ec_Cache e))
      else None)"

fun eth_set :: "string \<Rightarrow> flag_value \<Rightarrow> eth_config \<Rightarrow> eth_config option" where
  "eth_set t (FString s) e =
     (if t = ''genesis'' then Some (e\<lparr>ec_Genesis := s\<rparr>)
      else if t = ''keystore'' then Some (e\<lparr>ec_Keystore := s\<rparr>)
      else if t = ''pwd'' then Some (e\<lparr>ec_PwdFile := s\<rparr>)
      else if t = ''db'' then Some (e\<lparr>ec_DbFile := s\<rparr>)
      else if t = ''listen'' then Some (e\<lparr>ec_EthAPIAddr := s\<rparr>)
      else None)"
| "eth_set t (FInt i) e = (if t = ''cache'' then Some (e\<lparr>ec_Cache := i\<rparr>) else None)"
| "eth_set t v e = None"

definition lachesis_get :: "string \<Rightarrow> lachesis_config \<Rightarrow> flag_value option" where
  "lachesis_get t l =
     (if t = ''datadir'' then Some (FString (lc_DataDir l))
      else if t = ''listen'' then Some (FString (lc_BindAddr l))
      else if t = ''service-listen'' then Some (FString (lc_ServiceAddr l))
      else if t = ''heartbeat'' then Some (FDuration (lc_Heartbeat l))
      else if t = ''timeout'' then Some (FDuration (lc_TCPTimeout l))
      else if t = ''cache-size'' then Some (FInt (lc_CacheSize l))
      else if t = ''sync-limit'' then Some (FInt (lc_SyncLimit l))
      else if t = ''max-pool'' then Some (FInt (lc_MaxPool l))
      else if t = ''store'' then Some (FBool (lc_Store l))
      else None)"

fun lachesis_set :: "string \<Rightarrow> flag_value \<Rightarrow> lachesis_config \<Rightarrow> lachesis_config option" where
  "lachesis_set t (FString s) l =
     (if t = ''datadir'' then Some (l\<lparr>lc_DataDir := s\<rparr>)
      else if t = ''listen'' then Some (l\<lparr>lc_BindAddr := s\<rparr>)
      else if t = ''service-listen'' then Some (l\<lparr>lc_ServiceAddr := s\<rparr>)
      else None)"
| "lachesis_set t (FDuration d) l =
     (if t = ''heartbeat'' then Some (l\<lparr>lc_Heartbeat := d\<rparr>)
      else if t = ''timeout'' then Some (l\<lparr>lc_TCPTimeout := d\<rparr>)
      else None)"
| "lachesis_set t (FInt i) l =
     (if t = ''cache-size'' then Some (l\<lparr>lc_CacheSize := i\<rparr>)
      else if t = ''sync-limit'' then Some (l\<lparr>lc_SyncLimit := i\<rparr>)
      else if t = ''max-pool'' then Some (l\<lparr>lc_MaxPool := i\<rparr>)
      else None)"
| "lachesis_set t (FBool b) l = (if t = ''store'' then Some (l\<lparr>lc_Store := b\<rparr>) else None)"
| "lachesis_set t v l = None"

definition raft_get :: "string \<Rightarrow> raft_config \<Rightarrow> flag_value option" where
  "raft_get t r =
     (if t = ''protocol_version'' then Some (FInt (rc_ProtocolVersion r))
      else if t = ''heartbeat'' then Some (FDuration (rc_HeartbeatTimeout r))
      else if t = ''election_timeout'' then Some (FDuration (rc_ElectionTimeout r))
      else if t = ''commit_timeout'' then Some (FDuration (rc_CommitTimeout r))
      else if t = ''max_append_entries'' then Some (FInt (rc_MaxAppendEntries r))
      else if t = ''shutdown_on_remove'' then Some (FBool (rc_ShutdownOnRemove r))
      else if t = ''trailing_logs'' then Some (FUint (rc_TrailingLogs r))
      else if t = ''snapshot_interval'' then Some (FDuration (rc_SnapshotInterval r))
      else if t = ''snapshot_threshold'' then Some (FUint (rc_SnapshotThreshold r))
      else if t = ''leader_lease_timeout'' then Some (FDuration (rc_LeaderLeaseTimeout r))
      else if t = ''start_as_leader'' then Some (FBool (rc_StartAsLeader r))
      else if t = ''server-id'' then Some (FString (rc_LocalID r))
      else if t = ''dir'' then Some (FString (rc_RaftDir r))
      else if t = ''snapshot-dir'' then Some (FString (rc_SnapshotDir r))
      else if t = ''node-addr'' then Some (FString (rc_NodeAddr r))
      else None)"

fun raft_set :: "string \<Rightarrow> flag_value \<Rightarrow> raft_config \<Rightarrow> raft_config option" where
  "raft_set t (FString s) r =
     (if t = ''server-id'' then Some (r\<lparr>rc_LocalID := s\<rparr>)
      else if t = ''dir'' then Some (r\<lparr>rc_RaftDir := s\<rparr>)
      else if t = ''snapshot-dir'' then Some (r\<lparr>rc_SnapshotDir := s\<rparr>)
      else if t = ''node-addr'' then Some (r\<lparr>rc_NodeAddr := s\<rparr>)
      else None)"
| "raft_set t (FDuration d) r =
     (if t = ''heartbeat'' then Some (r\<lparr>rc_HeartbeatTimeout := d\<rparr>)
      else if t = ''election_timeout'' then Some (r\<lparr>rc_ElectionTimeout := d\<rparr>)
      else if t = ''commit_timeout'' then Some (r\<lparr>rc_CommitTimeout := d\<rparr>)
      else if t = ''snapshot_interval'' then Some (r\<lparr>rc_SnapshotInterval := d\<rparr>)
      else if t = ''leader_lease_timeout'' then Some (r\<lparr>rc_LeaderLeaseTimeout := d\<rparr>)
      else None)"
| "raft_set t (FInt i) r =
     (if t = ''protocol_version'' then Some (r\<lparr>rc_ProtocolVersion := i\<rparr>)
      else if t = ''max_append_entries'' then Some (r\<lparr>rc_MaxAppendEntries := i\<rparr>)
      else None)"
| "raft_set t (FUint n) r =
     (if t = ''trailing_logs'' then Some (r\<lparr>rc_TrailingLogs := n\<rparr>)
      else if t = ''snapshot_threshold'' then Some (r\<lparr>rc_SnapshotThreshold := n\<rparr>)
      else None)"
| "raft_set t (FBool b) r =
     (if t = ''shutdown_on_remove'' then Some (r\<lparr>rc_ShutdownOnRemove := b\<rparr>)
      else if t = ''start_as_leader'' then Some (r\<lparr>rc_StartAsLeader := b\<rparr>)
      else None)"

text \<open>The fields of \<^verbatim>\<open>Config\<close> itself, with those of the squashed \<^verbatim>\<open>BaseConfig\<close>.\<close>

definition base_get :: "string \<Rightarrow> config \<Rightarrow> flag_value option" where
  "base_get t c =
     (if t = ''datadir'' then Some (FString (cf_DataDir c))
      else if t = ''log'' then Some (FString (cf_LogLevel c))
      else if t = ''proxy'' then Some (FString (cf_ProxyAddr c))
      else if t = ''client-connect'' then Some (FString (cf_ClientAddr c))
      else if t = ''standalone'' then Some (FBool (cf_Standalone c))
      else if t = ''pidfile'' then Some (FString (cf_Pidfile c))
      else None)"

fun base_set :: "string \<Rightarrow> flag_value \<Rightarrow> config \<Rightarrow> config option" where
  "base_set t (FString s) c =
     (if t = ''datadir'' then Some (c\<lparr>cf_DataDir := s\<rparr>)
      else if t = ''log'' then Some (c\<lparr>cf_LogLevel := s\<rparr>)
      else if t = ''proxy'' then Some (c\<lparr>cf_ProxyAddr := s\<rparr>)
      else if t = ''client-connect'' then Some (c\<lparr>cf_ClientAddr := s\<rparr>)
      else if t = ''pidfile'' then Some (c\<lparr>cf_Pidfile := s\<rparr>)
      else None)"
| "base_set t (FBool b) c = (if t = ''standalone'' then Some (c\<lparr>cf_Standalone := b\<rparr>) else None)"
| "base_set t v c = None"

definition section_get :: "(string \<Rightarrow> 's \<Rightarrow> flag_value option) \<Rightarrow> string \<Rightarrow> 's option \<Rightarrow> flag_value option" where
  "section_get rd t s = (case s of None \<Rightarrow> None | Some s \<Rightarrow> rd t s)"

definition section_set ::
  "(string \<Rightarrow> flag_value \<Rightarrow> 's \<Rightarrow> 's option) \<Rightarrow> string \<Rightarrow> flag_value \<Rightarrow> 's option \<Rightarrow> 's option option" where
  "section_set upd t v s = (case s of None \<Rightarrow> None | Some s \<Rightarrow> map_option Some (upd t v s))"

text \<open>A key is a tag, or a section and a tag with a dot between them.\<close>

definition key_get :: "string \<Rightarrow> config \<Rightarrow> flag_value option" where
  "key_get k c =
     (case split_on (CHR ''.'') k of
        [t] \<Rightarrow> base_get t c
      | [s, t] \<Rightarrow>
          if s = ''eth'' then section_get eth_get t (cf_Eth c)
          else if s = ''lachesis'' then section_get lachesis_get t (cf_Lachesis c)
          else if s = ''raft'' then section_get raft_get t (cf_Raft c)
          else None
      | _ \<Rightarrow> None)"

definition key_set :: "string \<Rightarrow> flag_value \<Rightarrow> config \<Rightarrow> config option" where
  "key_set k v c =
     (case split_on (CHR ''.'') k of
        [t] \<Rightarrow> base_set t v c
      | [s, t] \<Rightarrow>
          if s = ''eth'' then map_option (\<lambda>e. c\<lparr>cf_Eth := e\<rparr>) (section_set eth_set t v (cf_Eth c))
          else if s = ''lachesis'' then map_option (\<lambda>l. c\<lparr>cf_Lachesis := l\<rparr>) (section_set lachesis_set t v (cf_Lachesis c))
          else if s = ''raft'' then map_option (\<lambda>r. c\<lparr>cf_Raft := r\<rparr>) (section_set raft_set t v (cf_Raft c))
          else None
      | _ \<Rightarrow> None)"

text \<open>
  What \<^verbatim>\<open>viper.Unmarshal\<close> does with settings of the right kinds: it writes the settings of the keys it
  knows, in any order.
\<close>

fun apply_settings ::
  "(string \<Rightarrow> flag_value \<Rightarrow> 'c \<Rightarrow> 'c option) \<Rightarrow> (string \<rightharpoonup> flag_value) \<Rightarrow> string list \<Rightarrow> 'c \<Rightarrow> 'c option" where
  "apply_settings upd st [] c = Some c"
| "apply_settings upd st (k # ks) c =
     (case st k of
        None \<Rightarrow> apply_settings upd st ks c
      | Some v \<Rightarrow> (case upd k v c of None \<Rightarrow> None | Some c \<Rightarrow> apply_settings upd st ks c))"

section \<open>Fields as one interface\<close>

text \<open>
  The contract of the fields of a struct: a field that was written reads back, no other field
  changes, writing what is there changes nothing, and a field takes exactly the values of its kind.
\<close>

locale fields =
  fixes rd :: "string \<Rightarrow> 'c \<Rightarrow> flag_value option" and upd :: "string \<Rightarrow> flag_value \<Rightarrow> 'c \<Rightarrow> 'c option"
  assumes read_written: "upd t v c = Some c' \<Longrightarrow> rd t c' = Some v"
    and read_other: "upd t v c = Some c' \<Longrightarrow> u \<noteq> t \<Longrightarrow> rd u c' = rd u c"
    and write_same: "rd t c = Some v \<Longrightarrow> upd t v c = Some c"
    and takes_kind: "rd t c = Some w \<Longrightarrow> upd t v c = None \<longleftrightarrow> \<not> same_kind v w"
begin

lemma apply_settings_reads:
  "apply_settings upd st ks c = Some c' \<Longrightarrow>
    rd k c' = (if k \<in> set ks \<and> st k \<noteq> None then st k else rd k c)"
proof (induction ks arbitrary: c)
  case (Cons l ks)
  show ?case
  proof (cases "st l")
    case None
    with Cons show ?thesis by auto
  next
    case (Some v)
    with Cons.prems obtain c1 where 1: "upd l v c = Some c1" "apply_settings upd st ks c1 = Some c'"
      by (auto split: option.splits)
    show ?thesis
      using Cons.IH[OF 1(2)] read_written[OF 1(1)] read_other[OF 1(1), of k] Some by (cases "k = l") auto
  qed
qed simp

lemma same_kind_refl: "same_kind v v"
  by (cases v) simp_all

lemma apply_settings_total:
  "(\<And>k v. k \<in> set ks \<Longrightarrow> st k = Some v \<Longrightarrow> \<exists>w. rd k c = Some w \<and> same_kind v w) \<Longrightarrow>
    \<exists>c'. apply_settings upd st ks c = Some c'"
proof (induction ks arbitrary: c)
  case (Cons l ks)
  show ?case
  proof (cases "st l")
    case None
    with Cons show ?thesis by simp
  next
    case (Some v)
    with Cons.prems[of l v] obtain w where "rd l c = Some w" "same_kind v w" by auto
    with takes_kind obtain c1 where 1: "upd l v c = Some c1" by (metis not_None_eq)
    have "\<exists>w. rd k c1 = Some w \<and> same_kind u w" if "k \<in> set ks" "st k = Some u" for k u
      using Cons.prems[of k u] that read_written[OF 1] read_other[OF 1, of k] Some same_kind_refl by (cases "k = l") auto
    with Cons.IH[of c1] Some 1 show ?thesis by simp
  qed
qed simp

lemma apply_settings_same:
  "(\<And>k v. st k = Some v \<Longrightarrow> k \<in> set ks \<Longrightarrow> rd k c = Some v) \<Longrightarrow> apply_settings upd st ks c = Some c"
  by (induction ks) (auto split: option.split intro: write_same simp: write_same)

end

text \<open>A struct that is nested behind a pointer: the pointer has the contract of the struct.\<close>

locale nested_fields = fields

sublocale nested_fields \<subseteq> nested: fields "section_get rd" "section_set upd"
proof
  fix t u v w and s s' :: "'a option"
  show "section_set upd t v s = Some s' \<Longrightarrow> section_get rd t s' = Some v"
    by (cases s) (auto simp: section_get_def section_set_def dest: read_written)
  show "section_set upd t v s = Some s' \<Longrightarrow> u \<noteq> t \<Longrightarrow> section_get rd u s' = section_get rd u s"
    by (cases s) (auto simp: section_get_def section_set_def dest: read_other)
  show "section_get rd t s = Some v \<Longrightarrow> section_set upd t v s = Some s"
    by (cases s) (auto simp: section_get_def section_set_def dest: write_same)
  show "section_get rd t s = Some w \<Longrightarrow> section_set upd t v s = None \<longleftrightarrow> \<not> same_kind v w"
    by (cases s) (auto simp: section_get_def section_set_def dest: takes_kind)
qed

interpretation eth_tags: nested_fields eth_get eth_set
proof
  fix t u v w and c c' :: eth_config
  show "eth_set t v c = Some c' \<Longrightarrow> eth_get t c' = Some v"
    by (cases v) (auto simp: eth_get_def split: if_split_asm split del: if_split cong: if_cong)
  show "eth_set t v c = Some c' \<Longrightarrow> u \<noteq> t \<Longrightarrow> eth_get u c' = eth_get u c"
    by (cases v) (auto simp: eth_get_def split: if_split_asm split del: if_split cong: if_cong)
  show "eth_get t c = Some v \<Longrightarrow> eth_set t v c = Some c"
    by (auto simp: eth_get_def split: if_split_asm split del: if_split cong: if_cong)
  show "eth_get t c = Some w \<Longrightarrow> eth_set t v c = None \<longleftrightarrow> \<not> same_kind v w"
    by (cases v) (auto simp: eth_get_def split: if_split_asm split del: if_split cong: if_cong)
qed

interpretation base_tags: fields base_get base_set
proof
  fix t u v w and c c' :: config
  show "base_set t v c = Some c' \<Longrightarrow> base_get t c' = Some v"
    by (cases v) (auto simp: base_get_def split: if_split_asm split del: if_split cong: if_cong)
  show "base_set t v c = Some c' \<Longrightarrow> u \<noteq> t \<Longrightarrow> base_get u c' = base_get u c"
    by (cases v) (auto simp: base_get_def split: if_split_asm split del: if_split cong: if_cong)
  show "base_get t c = Some v \<Longrightarrow> base_set t v c = Some c"
    by (auto simp: base_get_def split: if_split_asm split del: if_split cong: if_cong)
  show "base_get t c = Some w \<Longrightarrow> base_set t v c = None \<longleftrightarrow> \<not> same_kind v w"
    by (cases v) (auto simp: base_get_def split: if_split_asm split del: if_split cong: if_cong)
qed

interpretation lachesis_tags: nested_fields lachesis_get lachesis_set
proof
  fix t u v w and c c' :: lachesis_config
  show "lachesis_set t v c = Some c' \<Longrightarrow> lachesis_get t c' = Some v"
    by (cases v) (auto simp: lachesis_get_def split: if_split_asm split del: if_split cong: if_cong)
  show "lachesis_set t v c = Some c' \<Longrightarrow> u \<noteq> t \<Longrightarrow> lachesis_get u c' = lachesis_get u c"
    by (cases v) (auto simp: lachesis_get_def split: if_split_asm split del: if_split cong: if_cong)
  show "lachesis_get t c = Some v \<Longrightarrow> lachesis_set t v c = Some c"
    by (auto simp: lachesis_get_def split: if_split_asm split del: if_split cong: if_cong)
  show "lachesis_get t c = Some w \<Longrightarrow> lachesis_set t v c = None \<longleftrightarrow> \<not> same_kind v w"
    by (cases v) (auto simp: lachesis_get_def split: if_split_asm split del: if_split cong: if_cong)
qed

interpretation raft_tags: nested_fields raft_get raft_set
proof
  fix t u v w and c c' :: raft_config
  show "raft_set t v c = Some c' \<Longrightarrow> raft_get t c' = Some v"
    by (cases v) (auto simp: raft_get_def split: if_split_asm split del: if_split cong: if_cong)
  show "raft_set t v c = Some c' \<Longrightarrow> u \<noteq> t \<Longrightarrow> raft_get u c' = raft_get u c"
    by (cases v) (auto simp: raft_get_def split: if_split_asm split del: if_split cong: if_cong)
  show "raft_get t c = Some v \<Longrightarrow> raft_set t v c = Some c"
    by (auto simp: raft_get_def split: if_split_asm split del: if_split cong: if_cong)
  show "raft_get t c = Some w \<Longrightarrow> raft_set t v c = None \<longleftrightarrow> \<not> same_kind v w"
    by (cases v) (auto simp: raft_get_def split: if_split_asm split del: if_split cong: if_cong)
qed

section \<open>The keys of the whole configuration\<close>

lemma join_split_on: "join_with [c] (split_on c s) = s"
proof (induction s)
  case (Cons x s)
  then show ?case by (cases "split_on c s"; cases "tl (split_on c s)") (auto split: list.splits)
qed simp

lemma split_on_inject [simp]: "split_on c s = split_on c t \<longleftrightarrow> s = t"
  by (metis join_split_on)

lemma base_set_sections:
  "base_set t v c = Some c' \<Longrightarrow> cf_Eth c' = cf_Eth c \<and> cf_Lachesis c' = cf_Lachesis c \<and> cf_Raft c' = cf_Raft c"
  by (cases v) (auto split: if_split_asm)

lemma base_get_sections [simp]:
  "base_get t (c\<lparr>cf_Eth := e\<rparr>) = base_get t c" "base_get t (c\<lparr>cf_Lachesis := l\<rparr>) = base_get t c"
  "base_get t (c\<lparr>cf_Raft := r\<rparr>) = base_get t c"
  by (simp_all add: base_get_def)

lemma key_split:
  obtains (tag) t where "split_on (CHR ''.'') k = [t]"
  | (nested) s t where "split_on (CHR ''.'') k = [s, t]"
  | (other) "\<And>c. key_get k c = None" "\<And>v c. key_set k v c = None"
proof (cases "split_on (CHR ''.'') k" rule: remdups_adj.cases)
  case (3 x y xs)
  then show ?thesis
    by (cases xs) (auto intro: nested other simp: key_get_def key_set_def)
qed (auto intro: tag other simp: key_get_def key_set_def)

lemma key_nested:
  assumes "split_on (CHR ''.'') k = [s, t]"
  shows "key_get k c =
      (if s = ''eth'' then section_get eth_get t (cf_Eth c)
       else if s = ''lachesis'' then section_get lachesis_get t (cf_Lachesis c)
       else if s = ''raft'' then section_get raft_get t (cf_Raft c)
       else None)"
    "key_set k v c =
      (if s = ''eth'' then map_option (\<lambda>e. c\<lparr>cf_Eth := e\<rparr>) (section_set eth_set t v (cf_Eth c))
       else if s = ''lachesis'' then map_option (\<lambda>l. c\<lparr>cf_Lachesis := l\<rparr>) (section_set lachesis_set t v (cf_Lachesis c))
       else if s = ''raft'' then map_option (\<lambda>r. c\<lparr>cf_Raft := r\<rparr>) (section_set raft_set t v (cf_Raft c))
       else None)"
  by (simp_all add: key_get_def key_set_def assms)

lemma key_tag:
  assumes "split_on (CHR ''.'') k = [t]"
  shows "key_get k c = base_get t c" "key_set k v c = base_set t v c"
  by (simp_all add: key_get_def key_set_def assms)

interpretation keys: fields key_get key_set
proof
  fix k l v w and c c' :: config
  show "key_set k v c = Some c' \<Longrightarrow> key_get k c' = Some v"
  proof (cases k rule: key_split)
    case (tag t)
    then show "key_set k v c = Some c' \<Longrightarrow> key_get k c' = Some v" by (simp add: key_tag base_tags.read_written)
  next
    case (nested s t)
    then show "key_set k v c = Some c' \<Longrightarrow> key_get k c' = Some v"
      by (auto simp: key_nested eth_tags.nested.read_written lachesis_tags.nested.read_written
          raft_tags.nested.read_written split: if_split_asm)
  qed simp
  show "key_get k c = Some v \<Longrightarrow> key_set k v c = Some c"
  proof (cases k rule: key_split)
    case (tag t)
    then show "key_get k c = Some v \<Longrightarrow> key_set k v c = Some c" by (simp add: key_tag base_tags.write_same)
  next
    case (nested s t)
    then show "key_get k c = Some v \<Longrightarrow> key_set k v c = Some c"
      by (auto simp: key_nested eth_tags.nested.write_same lachesis_tags.nested.write_same
          raft_tags.nested.write_same split: if_split_asm)
  qed simp
  show "key_get k c = Some w \<Longrightarrow> key_set k v c = None \<longleftrightarrow> \<not> same_kind v w"
  proof (cases k rule: key_split)
    case (tag t)
    then show "key_get k c = Some w \<Longrightarrow> key_set k v c = None \<longleftrightarrow> \<not> same_kind v w"
      by (simp add: key_tag base_tags.takes_kind)
  next
    case (nested s t)
    then show "key_get k c = Some w \<Longrightarrow> key_set k v c = None \<longleftrightarrow> \<not> same_kind v w"
      by (auto simp: key_nested eth_tags.nested.takes_kind lachesis_tags.nested.takes_kind
          raft_tags.nested.takes_kind split: if_split_asm)
  qed simp
  show "key_set k v c = Some c' \<Longrightarrow> l \<noteq> k \<Longrightarrow> key_get l c' = key_get l c"
  proof (cases k rule: key_split)
    case k: (tag t)
    show "key_set k v c = Some c' \<Longrightarrow> l \<noteq> k \<Longrightarrow> key_get l c' = key_get l c"
    proof (cases l rule: key_split)
      case (tag u)
      with k have "l \<noteq> k \<Longrightarrow> u \<noteq> t" by (metis split_on_inject)
      with k tag show "key_set k v c = Some c' \<Longrightarrow> l \<noteq> k \<Longrightarrow> key_get l c' = key_get l c"
        by (simp add: key_tag base_tags.read_other)
    next
      case (nested s u)
      with k show "key_set k v c = Some c' \<Longrightarrow> l \<noteq> k \<Longrightarrow> key_get l c' = key_get l c"
        using base_set_sections[of t v c c'] by (simp add: key_tag key_nested)
    qed simp
  next
    case k: (nested s t)
    show "key_set k v c = Some c' \<Longrightarrow> l \<noteq> k \<Longrightarrow> key_get l c' = key_get l c"
    proof (cases l rule: key_split)
      case (tag u)
      with k show "key_set k v c = Some c' \<Longrightarrow> l \<noteq> k \<Longrightarrow> key_get l c' = key_get l c"
        by (auto simp: key_tag key_nested split: if_split_asm)
    next
      case (nested s' u)
      with k have "l \<noteq> k \<Longrightarrow> s' \<noteq> s \<or> u \<noteq> t" by (metis split_on_inject)
      moreover from k have "key_set k v c = Some c' \<Longrightarrow>
          s = ''eth'' \<and> (\<exists>e. section_set eth_set t v (cf_Eth c) = Some e \<and> c' = c\<lparr>cf_Eth := e\<rparr>) \<or>
          s = ''lachesis'' \<and> (\<exists>e. section_set lachesis_set t v (cf_Lachesis c) = Some e \<and> c' = c\<lparr>cf_Lachesis := e\<rparr>) \<or>
          s = ''raft'' \<and> (\<exists>e. section_set raft_set t v (cf_Raft c) = Some e \<and> c' = c\<lparr>cf_Raft := e\<rparr>)"
        by (auto simp: key_nested split: if_split_asm)
      ultimately show "key_set k v c = Some c' \<Longrightarrow> l \<noteq> k \<Longrightarrow> key_get l c' = key_get l c"
        using nested eth_tags.nested.read_other lachesis_tags.nested.read_other raft_tags.nested.read_other
        by (elim disjE meta_impE; clarsimp simp: key_nested)
    qed simp
  qed simp
qed

section \<open>Flags and fields\<close>

text \<open>All tags of the configuration.\<close>

definition config_keys :: "string list" where
  "config_keys = [''datadir'', ''log'', ''proxy'', ''client-connect'', ''standalone'', ''pidfile'',
     ''eth.genesis'', ''eth.keystore'', ''eth.pwd'', ''eth.db'', ''eth.listen'', ''eth.cache'',
     ''lachesis.datadir'', ''lachesis.listen'', ''lachesis.service-listen'', ''lachesis.heartbeat'',
     ''lachesis.timeout'', ''lachesis.cache-size'', ''lachesis.sync-limit'', ''lachesis.max-pool'',
     ''lachesis.store'', ''raft.protocol_version'', ''raft.heartbeat'', ''raft.election_timeout'',
     ''raft.commit_timeout'', ''raft.max_append_entries'', ''raft.shutdown_on_remove'',
     ''raft.trailing_logs'', ''raft.snapshot_interval'', ''raft.snapshot_threshold'',
     ''raft.leader_lease_timeout'', ''raft.start_as_leader'', ''raft.server-id'', ''raft.dir'',
     ''raft.snapshot-dir'', ''raft.node-addr'']"

lemma root_flags_read: "root_flags c = Ret fs \<Longrightarrow> (k, v) \<in> set fs \<Longrightarrow> key_get k c = Some v"
  by (cases "cf_Eth c") (auto simp: root_flags_def key_get_def base_get_def section_get_def eth_get_def)

lemma lachesis_flags_read: "AddLachesisFlags b c = Ret fs \<Longrightarrow> (k, v) \<in> set fs \<Longrightarrow> key_get k c = Some v"
  by (cases "cf_Lachesis c"; cases b)
     (auto simp: AddLachesisFlags_def bound_def key_get_def section_get_def lachesis_get_def)

lemma raft_flags_read: "AddRaftFlags b c = Ret fs \<Longrightarrow> (k, v) \<in> set fs \<Longrightarrow> key_get k c = Some v"
  by (cases "cf_Raft c"; cases b)
     (auto simp: AddRaftFlags_def bound_def key_get_def section_get_def raft_get_def)

lemma run_flags_read: "AddRunFlags windows b c = Ret fs \<Longrightarrow> (k, v) \<in> set fs \<Longrightarrow> key_get k c = Some v"
  by (cases b) (auto simp: AddRunFlags_def bound_def key_get_def base_get_def split: if_split_asm)

lemma key_get_genesis [simp]: "key_get ''genesis'' c = None"
  by (simp add: key_get_def base_get_def)

lemma program_flags_read:
  assumes "program_flags windows c = Ret fs" "(k, v) \<in> set fs" "k \<noteq> ''genesis''"
  shows "key_get k c = Some v"
proof -
  obtain fs1 fs3 fs4 where fs: "root_flags c = Ret fs1" "AddRaftFlags None c = Ret fs3" "AddRunFlags windows None c = Ret fs4"
      "fs = fs1 @ [(''genesis'', FString [])] @ fs3 @ fs4"
    using assms(1) by (auto simp: program_flags_def AddSoloFlags_def bound_def split: outcome.splits)
  with assms(2,3) root_flags_read[OF fs(1)] raft_flags_read[OF fs(2)] run_flags_read[OF fs(3)] show ?thesis by auto
qed

text \<open>
  C32. Every flag of the program but \<^verbatim>\<open>--genesis\<close> is a field of the configuration, with the
  field's present value as its default.  Hence reading the defaults of all flags back into the
  configuration changes nothing; a value of the flag's kind goes to its field and is read back from it, and
  no other field changes; and a value of another kind is refused.  The flags of the lachesis command
  have the same property.
\<close>

theorem flags_roundtrip:
  assumes "program_flags windows c = Ret fs \<or> AddLachesisFlags None c = Ret fs"
  shows "apply_settings key_set (map_of fs) config_keys c = Some c \<and>
    (\<forall>(k, v) \<in> set fs. k \<noteq> ''genesis'' \<longrightarrow> key_get k c = Some v \<and>
      (\<forall>w. if same_kind w v
           then \<exists>c'. key_set k w c = Some c' \<and> key_get k c' = Some w \<and> (\<forall>l. l \<noteq> k \<longrightarrow> key_get l c' = key_get l c)
           else key_set k w c = None))"
proof (intro conjI)
  have read: "key_get k c = Some v" if "(k, v) \<in> set fs" "k \<noteq> ''genesis''" for k v
    using assms that program_flags_read lachesis_flags_read by blast
  have "key_get k c = Some v" if "map_of fs k = Some v" "k \<in> set config_keys" for k v
    using read[OF map_of_SomeD[OF that(1)]] that(2) by (auto simp: config_keys_def)
  then show "apply_settings key_set (map_of fs) config_keys c = Some c" by (rule keys.apply_settings_same)
  have "if same_kind w v
        then \<exists>c'. key_set k w c = Some c' \<and> key_get k c' = Some w \<and> (\<forall>l. l \<noteq> k \<longrightarrow> key_get l c' = key_get l c)
        else key_set k w c = None" if "key_get k c = Some v" for k v w
    using keys.takes_kind[OF that, of w] keys.read_written keys.read_other by (cases "key_set k w c") auto
  with read show "\<forall>(k, v) \<in> set fs. k \<noteq> ''genesis'' \<longrightarrow> key_get k c = Some v \<and>
      (\<forall>w. if same_kind w v
           then \<exists>c'. key_set k w c = Some c' \<and> key_get k c' = Some w \<and> (\<forall>l. l \<noteq> k \<longrightarrow> key_get l c' = key_get l c)
           else key_set k w c = None)" by blast
qed

theorem flags_roundtrip_witness:
  "\<exists>fs c'. program_flags False (DefaultConfig 3 ''/tmp'' ''/d'') = Ret fs \<and>
     apply_settings key_set (map_of fs) config_keys (DefaultConfig 3 ''/tmp'' ''/d'') = Some (DefaultConfig 3 ''/tmp'' ''/d'') \<and>
     key_set ''eth.cache'' (FInt 16) (DefaultConfig 3 ''/tmp'' ''/d'') = Some c' \<and> key_get ''eth.cache'' c' = Some (FInt 16) \<and>
     key_set ''eth.cache'' (FString ''x'') (DefaultConfig 3 ''/tmp'' ''/d'') = None"
proof -
  let ?c = "DefaultConfig 3 ''/tmp'' ''/d''"
  obtain fs where fs: "program_flags False ?c = Ret fs" "(''eth.cache'', FInt 128) \<in> set fs"
    by (simp add: program_flags_def root_flags_def AddSoloFlags_def AddRaftFlags_def AddRunFlags_def bound_def
        DefaultConfig_def DefaultEthConfig_def)
  note flags = flags_roundtrip[OF disjI1[OF fs(1)]]
  from flags[THEN conjunct2, rule_format, OF fs(2)]
  have "if same_kind w (FInt 128)
      then \<exists>c'. key_set ''eth.cache'' w ?c = Some c' \<and> key_get ''eth.cache'' c' = Some w \<and>
        (\<forall>l. l \<noteq> ''eth.cache'' \<longrightarrow> key_get l c' = key_get l ?c)
      else key_set ''eth.cache'' w ?c = None" for w by simp
  from this[of "FInt 16"] this[of "FString ''x''"] fs(1) flags show ?thesis by auto
qed

end
