(* ===== verification/Commands.thy ===== *)
theory Commands
  imports Engine Flags
begin

text \<open>
  The command line (\<^verbatim>\<open>cmd/evm\<close>): what runs before a command and the commands themselves.
  What cobra and viper answer is an argument.  \<open>dd\<close> is the package variable \<^verbatim>\<open>DefaultDataDir\<close>.
\<close>

section \<open>Before a command\<close>

text \<open>
  The package variables \<^verbatim>\<open>config\<close>, a pointer, and \<^verbatim>\<open>logger\<close>, by its level; and the settings
  of the configuration file in the global viper instance.
\<close>

record cli =
  cli_config :: "config option"
  cli_level :: log_level
  cli_file :: "string \<rightharpoonup> flag_value"

text \<open>
  Viper: the flags the user gave, the settings of a file called \<^verbatim>\<open>config\<close> in a directory, and the
  decoding of settings into a configuration.
\<close>

record viper =
  vp_BindPFlags :: "error option"
  vp_Changed :: "string \<rightharpoonup> flag_value"
  vp_ReadInConfig :: "string \<Rightarrow> (string \<rightharpoonup> flag_value) outcome"
  vp_Unmarshal :: "(string \<rightharpoonup> flag_value) \<Rightarrow> config \<Rightarrow> config outcome"

text \<open>
  The search path is the data directory of the configuration as it is before the flags and the file
  are read.  A configuration file that cannot be read is only logged.
\<close>

definition bindFlagsLoadViper :: "viper \<Rightarrow> cli \<Rightarrow> cli \<times> unit outcome" where
  "bindFlagsLoadViper V c =
     (case vp_BindPFlags V of
        Some e \<Rightarrow> (c, Fail e)
      | None \<Rightarrow>
          (case cli_config c of
             None \<Rightarrow> (c, Panic)
           | Some cfg \<Rightarrow>
               (case vp_ReadInConfig V (cf_DataDir cfg) of
                  Ret file \<Rightarrow> (c\<lparr>cli_file := file\<rparr>, Ret ())
                | Fail e \<Rightarrow> (c, Ret ())
                | Panic \<Rightarrow> (c, Panic))))"

text \<open>
  Viper's order of precedence: a flag that was given, the file, the default of a flag.
\<close>

definition viper_settings :: "viper \<Rightarrow> flags \<Rightarrow> (string \<rightharpoonup> flag_value) \<Rightarrow> string \<rightharpoonup> flag_value" where
  "viper_settings V fs file k =
     (case vp_Changed V k of
        Some v \<Rightarrow> Some v
      | None \<Rightarrow> (case file k of Some v \<Rightarrow> Some v | None \<Rightarrow> map_of fs k))"

definition ParseConfig :: "config \<Rightarrow> viper \<Rightarrow> flags \<Rightarrow> (string \<rightharpoonup> flag_value) \<Rightarrow> config outcome" where
  "ParseConfig default_config V fs file = vp_Unmarshal V (viper_settings V fs file) default_config"

text \<open>
  \<^verbatim>\<open>RootCmd.PersistentPreRunE\<close>.  The level is set from the configuration the process started
  with; an error of \<^verbatim>\<open>ParseConfig\<close> leaves the configuration nil.
\<close>

definition PersistentPreRunE :: "string \<Rightarrow> config \<Rightarrow> flags \<Rightarrow> viper \<Rightarrow> string \<Rightarrow> cli \<Rightarrow> cli \<times> unit outcome" where
  "PersistentPreRunE dd default_config fs V name c =
     (case cli_config c of
        None \<Rightarrow> (c, Panic)
      | Some cfg \<Rightarrow>
          let c = c\<lparr>cli_level := logLevel (cf_LogLevel cfg)\<rparr> in
          if name = ''version'' then (c, Ret ())
          else case bindFlagsLoadViper V c of
                 (c, Fail e) \<Rightarrow> (c, Fail e)
               | (c, Panic) \<Rightarrow> (c, Panic)
               | (c, Ret _) \<Rightarrow>
                   (case ParseConfig default_config V fs (cli_file c) of
                      Fail e \<Rightarrow> (c\<lparr>cli_config := None\<rparr>, Fail e)
                    | Panic \<Rightarrow> (c, Panic)
                    | Ret cfg \<Rightarrow> (c\<lparr>cli_config := Some (SetDataDir dd cfg (cf_DataDir cfg))\<rparr>, Ret ())))"

text \<open>The \<^verbatim>\<open>PreRunE\<close> of the raft and lachesis commands, and that of the solo command.\<close>

definition PreRunE :: "string \<Rightarrow> cli \<Rightarrow> cli \<times> unit outcome" where
  "PreRunE dd c =
     (case cli_config c of
        None \<Rightarrow> (c, Panic)
      | Some cfg \<Rightarrow> (c\<lparr>cli_config := Some (SetDataDir dd cfg (cf_DataDir cfg))\<rparr>, Ret ()))"

definition lachesis_PreRunE :: "string \<Rightarrow> cli \<Rightarrow> cli \<times> unit outcome" where
  "lachesis_PreRunE = PreRunE"

definition solo_PreRunE :: "string \<Rightarrow> bool \<Rightarrow> genesis_env \<Rightarrow> cli \<Rightarrow> cli \<times> unit outcome" where
  "solo_PreRunE dd genesis_changed G c =
     (case PreRunE dd c of
        (c, Ret _) \<Rightarrow>
          if genesis_changed
          then (case snd (createGenesis G) of Some e \<Rightarrow> (c, Fail e) | None \<Rightarrow> (c, Ret ()))
          else (c, Ret ())
      | (c, res) \<Rightarrow> (c, res))"

section \<open>The commands\<close>

text \<open>Both errors of a command are wrapped; this is the tail that the four commands share.\<close>

definition build_and_run :: "'e outcome \<Rightarrow> ('e \<Rightarrow> unit outcome) \<Rightarrow> unit outcome" where
  "build_and_run engine run_engine =
     (case engine of
        Fail e \<Rightarrow> Fail (wrap_error ''error building Engine: '' e)
      | Panic \<Rightarrow> Panic
      | Ret en \<Rightarrow>
          (case run_engine en of
             Fail e \<Rightarrow> Fail (wrap_error ''error running Engine: '' e)
           | Panic \<Rightarrow> Panic
           | Ret _ \<Rightarrow> Ret ()))"

text \<open>
  Three commands run a consensus system \<open>C\<close> in a \<^verbatim>\<open>ConsensusEngine\<close>.  The function \<open>during\<close> is what
  the service, a goroutine of its own, does to the shared service record meanwhile.
\<close>

definition run_consensus ::
  "('db, 'sd, 'x) geth_scheme \<Rightarrow> 'db node_env
   \<Rightarrow> (('db, 'sd, 'ks, 'c) consensus_engine \<Rightarrow> ('db, 'sd, 'ks, 'c) consensus_engine)
   \<Rightarrow> ('db, 'sd, 'ks, 'c) consensus \<Rightarrow> 'c \<Rightarrow> config \<Rightarrow> unit outcome" where
  "run_consensus X D during C c cfg =
     build_and_run (NewConsensusEngine X D C cfg c) (\<lambda>en. snd (ConsensusEngine_Run C (during en)))"

definition runSolo ::
  "('db, 'sd, 'x) geth_scheme \<Rightarrow> 'db node_env
   \<Rightarrow> (('db, 'sd, 'ks, ('db, 'sd) solo) consensus_engine \<Rightarrow> ('db, 'sd, 'ks, ('db, 'sd) solo) consensus_engine)
   \<Rightarrow> ('db, 'sd) state \<Rightarrow> config \<Rightarrow> unit outcome" where
  "runSolo X D during nil_state cfg = run_consensus X D during (solo_system X) (NewSolo nil_state) cfg"

text \<open>\<^verbatim>\<open>runRaft\<close> dereferences the Raft configuration, \<^verbatim>\<open>runLachesis\<close> passes the pointer on.\<close>

definition runRaft ::
  "('db, 'sd, 'x) geth_scheme \<Rightarrow> 'db node_env
   \<Rightarrow> (('db, 'sd, 'ks, raft) consensus_engine \<Rightarrow> ('db, 'sd, 'ks, raft) consensus_engine)
   \<Rightarrow> raft_library \<Rightarrow> (bytes list \<Rightarrow> raft_event list) \<Rightarrow> (bytes list \<Rightarrow> (u64 \<times> bytes) list)
   \<Rightarrow> config \<Rightarrow> unit outcome" where
  "runRaft X D during L rounds log cfg =
     (case cf_Raft cfg of
        None \<Rightarrow> Panic
      | Some conf \<Rightarrow> run_consensus X D during (raft_system X L rounds log) (NewRaft conf) cfg)"

definition runLachesis ::
  "('db, 'sd, 'x) geth_scheme \<Rightarrow> 'db node_env
   \<Rightarrow> (('db, 'sd, 'ks, lachesis) consensus_engine \<Rightarrow> ('db, 'sd, 'ks, lachesis) consensus_engine)
   \<Rightarrow> real_lachesis_config \<Rightarrow> (real_lachesis_config \<Rightarrow> error option) \<Rightarrow> (real_lachesis_config \<Rightarrow> unit)
   \<Rightarrow> (string \<times> string) list \<Rightarrow> (bytes list \<Rightarrow> block list) \<Rightarrow> config \<Rightarrow> unit outcome" where
  "runLachesis X D during NewLachesisConfig node_Init node_Run stats blocks cfg =
     run_consensus X D during (lachesis_system X NewLachesisConfig node_Init node_Run stats blocks)
       (NewInmemLachesis (cf_Lachesis cfg)) cfg"


text \<open>
  \<^verbatim>\<open>run\<close>: the check of the pid file, then the socket engine, whose \<^verbatim>\<open>Run\<close> returns nil if it
  returns.
\<close>

definition run_socket ::
  "('db, 'sd, 'x) geth_scheme \<Rightarrow> 'db node_env \<Rightarrow> (string \<Rightarrow> unit outcome) \<Rightarrow> bool \<Rightarrow> (string \<Rightarrow> error option)
   \<Rightarrow> (('db, 'sd, 'ks) socket_engine \<Rightarrow> unit outcome) \<Rightarrow> config \<Rightarrow> unit outcome" where
  "run_socket X D NewGrpcLachesisProxy windows CheckPid run_engine cfg =
     (case (if windows then None else CheckPid (cf_Pidfile cfg)) of
        Some e \<Rightarrow> Fail e
      | None \<Rightarrow> build_and_run (NewSocketEngine X D NewGrpcLachesisProxy cfg) run_engine)"

text \<open>\<^verbatim>\<open>main\<close>: the names of the commands that are added to the root command.\<close>

definition main_commands :: "string list" where
  "main_commands = [''solo'', ''raft'', ''run'', ''version'']"

text \<open>
  The process of a command \<open>name\<close>, whose flags have been parsed.  The root command traverses its
  children (\<^verbatim>\<open>TraverseChildren\<close>), so a name that was not added leaves the root command itself, which has no
  \<^verbatim>\<open>Run\<close>: cobra prints its help and returns nil.  Otherwise cobra runs the hooks and the command in order up to
  the first error; \<^verbatim>\<open>run_command\<close> is the command's own function.  \<^verbatim>\<open>main\<close> panics with any error.
\<close>

fun run_hooks :: "(cli \<Rightarrow> cli \<times> unit outcome) list \<Rightarrow> cli \<Rightarrow> cli \<times> unit outcome" where
  "run_hooks [] c = (c, Ret ())"
| "run_hooks (f # fs) c = (case f c of (c, Ret _) \<Rightarrow> run_hooks fs c | (c, res) \<Rightarrow> (c, res))"

definition command_run :: "(string \<Rightarrow> config \<Rightarrow> unit outcome) \<Rightarrow> string \<Rightarrow> cli \<Rightarrow> cli \<times> unit outcome" where
  "command_run run_command name c =
     (if name = ''version'' then (c, Ret ())
      else case cli_config c of None \<Rightarrow> (c, Panic) | Some cfg \<Rightarrow> (c, run_command name cfg))"

definition evm_main ::
  "string \<Rightarrow> config \<Rightarrow> flags \<Rightarrow> viper \<Rightarrow> bool \<Rightarrow> genesis_env \<Rightarrow> (string \<Rightarrow> config \<Rightarrow> unit outcome)
   \<Rightarrow> string \<Rightarrow> cli \<Rightarrow> cli \<times> unit outcome" where
  "evm_main dd default_config fs V genesis_changed G run_command name c =
     (case (if name \<notin> set main_commands then (c, Ret ())
            else run_hooks
              ([PersistentPreRunE dd default_config fs V name] @
               (if name = ''solo'' then [solo_PreRunE dd genesis_changed G]
                else if name = ''raft'' then [PreRunE dd] else []) @
               [command_run run_command name]) c) of
        (c, Fail e) \<Rightarrow> (c, Panic)
      | (c, res) \<Rightarrow> (c, res))"

text \<open>
  No error is ever reported otherwise than by a panic; the Lachesis command, which is documented, is none: the program
  prints its help and ends without an error and without a node; and a node runs with the configuration that the hooks left.
\<close>

lemma panic_on_error: "snd (case x of (c, Fail e) \<Rightarrow> (c, Panic) | (c, res) \<Rightarrow> (c, res)) \<in> {Ret (), Panic}"
  by (cases x; cases "snd x") auto

lemma evm_main_no_error: "snd (evm_main dd d fs V g G run_command name c) \<in> {Ret (), Panic}"
  unfolding evm_main_def by (rule panic_on_error)

lemma evm_main_lachesis: "evm_main dd d fs V g G run_command ''lachesis'' c = (c, Ret ())"
  by (simp add: evm_main_def main_commands_def)

lemma run_hooks_ok: "f c = (c', Ret ()) \<Longrightarrow> run_hooks (f # fs) c = run_hooks fs c'"
  by simp

lemma run_hooks_last: "run_hooks [f] c = f c"
  by (simp split: prod.split outcome.split)

lemma evm_main_runs:
  assumes "PersistentPreRunE dd d fs V name c = (c1, Ret ())" "PreRunE dd c1 = (c2, Ret ())" "cli_config c2 = Some cfg"
    "name = ''raft'' \<or> name = ''solo'' \<and> \<not> g"
  shows "evm_main dd d fs V g G run_command name c =
    (c2, case run_command name cfg of Ret _ \<Rightarrow> Ret () | _ \<Rightarrow> Panic)"
proof -
  let ?pre = "if name = ''solo'' then [solo_PreRunE dd g G] else if name = ''raft'' then [PreRunE dd] else []"
  obtain P where P: "?pre = [P]" "P c1 = (c2, Ret ())"
    using assms(2,4) by (auto simp: solo_PreRunE_def)
  have hooks: "run_hooks ([PersistentPreRunE dd d fs V name] @ ?pre @ [command_run run_command name]) c
    = command_run run_command name c2"
    unfolding P(1) by (simp only: append.simps run_hooks_ok[where f = "PersistentPreRunE dd d fs V name", OF assms(1)]
      run_hooks_ok[where f = P, OF P(2)] run_hooks_last)
  have "name \<in> set main_commands" "name \<noteq> ''version''" using assms(4) by (auto simp: main_commands_def)
  then show ?thesis
    unfolding evm_main_def hooks by (cases "run_command name cfg") (simp_all add: command_run_def assms(3))
qed

section \<open>The configuration a command runs with\<close>

lemma SetDataDir_DataDir [simp]: "cf_DataDir (SetDataDir dd c d) = d"
  by (simp add: SetDataDir_def)

text \<open>
  The contract of \<^verbatim>\<open>viper.Unmarshal\<close>: settings of the right kinds are written to the fields with
  their tags, and settings without a field are ignored.
\<close>

definition viper_ok :: "viper \<Rightarrow> bool" where
  "viper_ok V \<longleftrightarrow>
     (\<forall>st c c'. apply_settings key_set st config_keys c = Some c' \<longrightarrow> vp_Unmarshal V st c = Ret c')"

definition well_kinded :: "(string \<rightharpoonup> flag_value) \<Rightarrow> config \<Rightarrow> bool" where
  "well_kinded st c \<longleftrightarrow>
     (\<forall>k \<in> set config_keys. \<forall>v. st k = Some v \<longrightarrow> (\<exists>w. key_get k c = Some w \<and> same_kind v w))"

definition file_settings :: "viper \<Rightarrow> string \<Rightarrow> string \<rightharpoonup> flag_value" where
  "file_settings V dir = (case vp_ReadInConfig V dir of Ret file \<Rightarrow> file | _ \<Rightarrow> Map.empty)"

text \<open>What viper has for a key: the flags' defaults are what the fields hold anyway.\<close>

lemma viper_settings_read:
  assumes "program_flags windows c = Ret fs" "k \<in> set config_keys"
  shows "(if viper_settings V fs file k \<noteq> None then viper_settings V fs file k else key_get k c) =
    (case vp_Changed V k of
       Some v \<Rightarrow> Some v
     | None \<Rightarrow> (case file k of Some v \<Rightarrow> Some v | None \<Rightarrow> key_get k c))"
proof -
  have "map_of fs k = Some v \<Longrightarrow> key_get k c = Some v" for v
    using program_flags_read[OF assms(1)] assms(2) by (auto dest!: map_of_SomeD simp: config_keys_def)
  then show ?thesis by (cases "map_of fs k") (auto simp: viper_settings_def split: option.split)
qed

text \<open>
  C31. The configuration a command runs with: every field has the value of the flag the user gave, or
  else that of the configuration file, or else its default; then the data directory is applied, and
  the second application by the command changes nothing.  But the file is the one in the
  default data directory, whatever \<^verbatim>\<open>--datadir\<close> says, and the level of the log is always \<^verbatim>\<open>debug\<close>,
  whatever \<^verbatim>\<open>--log\<close> says: both are taken from the configuration before the flags are read.
\<close>

theorem startup_configuration:
  assumes "viper_ok V" "program_flags windows (DefaultConfig v t dd) = Ret fs"
    "well_kinded (viper_settings V fs (file_settings V dd)) (DefaultConfig v t dd)"
    "cli_config c = Some (DefaultConfig v t dd)" "cli_file c = Map.empty"
    "PersistentPreRunE dd (DefaultConfig v t dd) fs V name c = (c', Ret ())" "name \<noteq> ''version''"
  shows "cli_level c' = DebugLevel \<and>
    (\<exists>cfg. cli_config c' = Some (SetDataDir dd cfg (cf_DataDir cfg)) \<and> PreRunE dd c' = (c', Ret ()) \<and>
       (\<forall>k \<in> set config_keys. key_get k cfg =
          (case vp_Changed V k of
             Some v \<Rightarrow> Some v
           | None \<Rightarrow> (case file_settings V dd k of Some v \<Rightarrow> Some v | None \<Rightarrow> key_get k (DefaultConfig v t dd)))))"
proof -
  let ?d = "DefaultConfig v t dd" and ?st = "viper_settings V fs (file_settings V dd)"
  obtain cfg where cfg: "apply_settings key_set ?st config_keys ?d = Some cfg"
    using keys.apply_settings_total[of config_keys ?st ?d] assms(3) unfolding well_kinded_def by blast
  then have un: "vp_Unmarshal V ?st ?d = Ret cfg" using assms(1) by (simp add: viper_ok_def)
  have dd: "cf_DataDir ?d = dd" "cf_LogLevel ?d = ''debug''" by (simp_all add: DefaultConfig_def)
  have "\<exists>c1. bindFlagsLoadViper V (c\<lparr>cli_level := DebugLevel\<rparr>) = (c1, Ret ()) \<and> cli_level c1 = DebugLevel \<and>
      cli_file c1 = file_settings V dd"
    using assms(4-7)
    by (auto simp: PersistentPreRunE_def bindFlagsLoadViper_def dd file_settings_def Let_def logLevel_def
        split: option.splits outcome.splits)
  then obtain c1 where c1: "bindFlagsLoadViper V (c\<lparr>cli_level := DebugLevel\<rparr>) = (c1, Ret ())"
    "cli_level c1 = DebugLevel" "cli_file c1 = file_settings V dd" by blast
  have c': "c' = c1\<lparr>cli_config := Some (SetDataDir dd cfg (cf_DataDir cfg))\<rparr>"
    using assms(4,6,7) c1 un by (simp add: PersistentPreRunE_def dd logLevel_def ParseConfig_def)
  have read: "\<forall>k \<in> set config_keys. key_get k cfg =
          (case vp_Changed V k of
             Some v \<Rightarrow> Some v
           | None \<Rightarrow> (case file_settings V dd k of Some v \<Rightarrow> Some v | None \<Rightarrow> key_get k ?d))"
    using keys.apply_settings_reads[OF cfg] viper_settings_read[OF assms(2)] by simp
  have "PreRunE dd c' = (c', Ret ())" by (simp add: PreRunE_def c' SetDataDir_idempotent)
  with read show ?thesis by (intro conjI exI[of _ cfg]) (simp_all add: c' c1(2))
qed

text \<open>
  Here the user asks for the level \<^verbatim>\<open>error\<close> and the directory \<^verbatim>\<open>/x\<close>, where another file lies.
\<close>

definition demo_viper :: viper where
  "demo_viper = \<lparr>vp_BindPFlags = None,
     vp_Changed = [''log'' \<mapsto> FString ''error'', ''datadir'' \<mapsto> FString ''/x''],
     vp_ReadInConfig = (\<lambda>dir. if dir = ''/d'' then Ret [''eth.cache'' \<mapsto> FInt 16]
       else if dir = ''/x'' then Ret [''eth.cache'' \<mapsto> FInt 64] else Fail (LibError ''not found'')),
     vp_Unmarshal = (\<lambda>st c. case apply_settings key_set st config_keys c of Some c' \<Rightarrow> Ret c'
       | None \<Rightarrow> Fail (LibError ''decoding''))\<rparr>"

lemma demo_viper_settings:
  assumes "program_flags False (DefaultConfig 3 ''/tmp'' ''/d'') = Ret fs"
  shows "well_kinded (viper_settings demo_viper fs (file_settings demo_viper ''/d'')) (DefaultConfig 3 ''/tmp'' ''/d'')"
proof -
  let ?c = "DefaultConfig 3 ''/tmp'' ''/d''"
  have keys: "key_get ''log'' ?c = Some (FString ''debug'')" "key_get ''datadir'' ?c = Some (FString ''/d'')"
    "key_get ''eth.cache'' ?c = Some (FInt 128)"
    by (simp_all add: key_get_def base_get_def section_get_def eth_get_def DefaultConfig_def DefaultEthConfig_def)
  have cfile: "file_settings demo_viper ''/d'' = [''eth.cache'' \<mapsto> FInt 16]"
    by (simp add: file_settings_def demo_viper_def)
  have "\<exists>w. key_get k ?c = Some w \<and> same_kind x w"
    if "k \<in> set config_keys" "viper_settings demo_viper fs [''eth.cache'' \<mapsto> FInt 16] k = Some x" for k x
  proof (cases "k \<in> {''log'', ''datadir'', ''eth.cache''}")
    case True
    with that(2) keys show ?thesis by (auto simp: viper_settings_def demo_viper_def)
  next
    case False
    with that(2) have "map_of fs k = Some x" by (auto simp: viper_settings_def demo_viper_def)
    then have "key_get k ?c = Some x"
      using program_flags_read[OF assms map_of_SomeD] that(1) by (auto simp: config_keys_def)
    then show ?thesis using keys.same_kind_refl by blast
  qed
  then show ?thesis unfolding well_kinded_def cfile by blast
qed

theorem startup_configuration_witness:
  "\<exists>c' cfg fs. PersistentPreRunE ''/d'' (DefaultConfig 3 ''/tmp'' ''/d'') fs demo_viper ''solo''
       \<lparr>cli_config = Some (DefaultConfig 3 ''/tmp'' ''/d''), cli_level = InfoLevel, cli_file = Map.empty\<rparr> = (c', Ret ())
     \<and> cli_level c' = DebugLevel \<and> cli_config c' = Some (SetDataDir ''/d'' cfg (cf_DataDir cfg))
     \<and> key_get ''datadir'' cfg = Some (FString ''/x'') \<and> key_get ''eth.cache'' cfg = Some (FInt 16)"
proof -
  let ?d = "DefaultConfig 3 ''/tmp'' ''/d''"
  let ?c = "\<lparr>cli_config = Some ?d, cli_level = InfoLevel, cli_file = Map.empty\<rparr>"
  obtain fs where fs: "program_flags False ?d = Ret fs"
    by (simp add: program_flags_def root_flags_def AddSoloFlags_def AddRaftFlags_def AddRunFlags_def bound_def
        DefaultConfig_def)
  note wk = demo_viper_settings[OF fs]
  have ok: "viper_ok demo_viper" by (simp add: viper_ok_def demo_viper_def)
  have cfile: "file_settings demo_viper ''/d'' = [''eth.cache'' \<mapsto> FInt 16]" "cf_DataDir ?d = ''/d''"
    by (simp_all add: file_settings_def demo_viper_def DefaultConfig_def)
  obtain cfg where "apply_settings key_set (viper_settings demo_viper fs [''eth.cache'' \<mapsto> FInt 16]) config_keys ?d = Some cfg"
    using keys.apply_settings_total[of config_keys _ ?d] wk unfolding well_kinded_def cfile by blast
  then have "vp_Unmarshal demo_viper (viper_settings demo_viper fs [''eth.cache'' \<mapsto> FInt 16]) ?d = Ret cfg"
    using ok by (simp add: viper_ok_def)
  then obtain c' where run: "PersistentPreRunE ''/d'' ?d fs demo_viper ''solo'' ?c = (c', Ret ())"
    using cfile by (simp add: PersistentPreRunE_def bindFlagsLoadViper_def ParseConfig_def demo_viper_def Let_def)
  have "''datadir'' \<in> set config_keys" "''eth.cache'' \<in> set config_keys" by (simp_all add: config_keys_def)
  with startup_configuration[OF ok fs wk _ _ run] obtain cfg where
    "cli_level c' = DebugLevel" "cli_config c' = Some (SetDataDir ''/d'' cfg (cf_DataDir cfg))"
    "key_get ''datadir'' cfg = Some (FString ''/x'')" "key_get ''eth.cache'' cfg = Some (FInt 16)"
    unfolding cfile by (auto simp: demo_viper_def)
  with run show ?thesis by blast
qed

end
