(* ===== verification/ConsensusNode.thy ===== *)
theory ConsensusNode
  imports Commands EngineSpec
begin

text \<open>
  A node with one of the consensus systems of \<^verbatim>\<open>src/consensus\<close>, from the first request to what
  becomes of the process: what the engine needs of a consensus system as a locale, with Solo, Raft
  and Lachesis as its interpretations, and the three commands that run them.
\<close>

section \<open>The first request\<close>

text \<open>The service of an engine starts and answers one request; it accepts it when it submits something.\<close>

definition first_request ::
  "('db, 'sd, 'ks, 'w) backend_scheme \<Rightarrow> os \<Rightarrow> rpc_env \<Rightarrow> (string \<Rightarrow> string \<Rightarrow> bool) \<Rightarrow> request
   \<Rightarrow> ('db, 'sd, 'ks, 'c) consensus_engine \<Rightarrow> ('db, 'sd, 'ks, 'c) consensus_engine" where
  "first_request X Os E match r en =
     en\<lparr>ce_service := fst (ServeHTTP X match r (fst (service_Run X Os E (ce_service en))))\<rparr>"

definition accepts ::
  "('db, 'sd, 'ks, 'w) backend_scheme \<Rightarrow> os \<Rightarrow> rpc_env \<Rightarrow> (string \<Rightarrow> string \<Rightarrow> bool) \<Rightarrow> request
   \<Rightarrow> ('db, 'sd, 'ks, 'c) consensus_engine \<Rightarrow> bool" where
  "accepts X Os E match r en \<longleftrightarrow>
     snd (service_Run X Os E (ce_service en)) = Serving \<and>
     sv_submitCh (ce_service (first_request X Os E match r en)) \<noteq> []"

section \<open>The interface of a consensus system\<close>

text \<open>
  \<^verbatim>\<open>Init\<close> leaves the service alone and makes the system \<open>ready\<close>; and a ready system executes, with
  \<^verbatim>\<open>ApplyTransaction\<close>, the transactions that it \<open>delivers\<close> out of those sent on the channel, so it
  panics if one of them decodes.
\<close>

locale executing_consensus =
  fixes X :: "('db, 'sd, 'ks, 'w) backend_scheme"
    and C :: "('db, 'sd, 'ks, 'c) consensus"
    and ready :: "'c \<Rightarrow> bool"
    and delivers :: "bytes list \<Rightarrow> bytes set"
  assumes Init_ready: "cs_Init C c m = (c', m', Ret ()) \<Longrightarrow> m' = m \<and> ready c'"
    and Run_executes: "nil_signer_panics X \<Longrightarrow> libs_total X \<Longrightarrow> reachable X (sv_state m) \<Longrightarrow> ready c \<Longrightarrow>
      b \<in> delivers (GetSubmitCh m) \<Longrightarrow> returned (rlp_Decode_tx X b) \<Longrightarrow> snd (snd (cs_Run C c m)) = Panic"

context executing_consensus
begin

lemma new_engine:
  assumes "NewConsensusEngine X D C cfg c = Ret en"
  shows "reachable X (sv_state (ce_service en))" "sv_submitCh (ce_service en) = []"
    "\<not> sv_locked (ce_service en)" "ready (ce_consensus en)"
proof -
  obtain m c' m' where m: "build_service X D cfg = Ret m" "cs_Init C c m = (c', m', Ret ())"
    "en = \<lparr>ce_service = SetInfoCallback m' (cs_Info C c'), ce_consensus = c'\<rparr>"
    using assms by (auto simp: NewConsensusEngine_def split: outcome.splits prod.splits)
  with Init_ready[OF m(2)] build_service_Ret[OF m(1)]
  show "reachable X (sv_state (ce_service en))" "sv_submitCh (ce_service en) = []"
    "\<not> sv_locked (ce_service en)" "ready (ce_consensus en)" by (simp_all add: SetInfoCallback_def)
qed

lemma engine_crashes:
  assumes "codec_ok X" "nil_signer_panics X" "libs_total X" "NewConsensusEngine X D C cfg c = Ret en"
    "service_Run X Os E (ce_service en) = (m0, Serving)"
    "rq_Method r \<noteq> ''OPTIONS''" "route match r = Some TransactionH"
    "m = fst (ServeHTTP X match r m0)" "sv_submitCh m \<noteq> []" "\<And>b. b \<in> delivers [b]"
  shows "snd (ConsensusEngine_Run C (en\<lparr>ce_service := m\<rparr>)) = Panic"
proof -
  note new = new_engine[OF assms(4)]
  have m0: "reachable X (sv_state m0)" "sv_submitCh m0 = []" "\<not> sv_locked m0"
    using new service_Run_frame[OF assms(5)] by simp_all
  obtain b t where b: "sv_submitCh m = [b]" "rlp_Decode_tx X b = Ret t" "sv_state m = sv_state m0"
    using transaction_request_decodes[OF assms(1,6,7) m0(3) assms(8)] assms(9) m0(2) by auto
  have "snd (snd (cs_Run C (ce_consensus en) m)) = Panic"
    by (rule Run_executes[OF assms(2,3), where b = b])
       (use m0(1) b new(4) assms(10) in \<open>simp_all add: GetSubmitCh_def returned_def\<close>)
  then show ?thesis by (auto simp: ConsensusEngine_Run_def split: prod.splits)
qed

lemma run_crashes:
  assumes "codec_ok X" "nil_signer_panics X" "libs_total X" "rq_Method r \<noteq> ''OPTIONS''" "route match r = Some TransactionH"
    "\<And>b. b \<in> delivers [b]" "NewConsensusEngine X D C cfg c = Ret en" "accepts X Os E match r en"
  shows "run_consensus X D (first_request X Os E match r) C c cfg = Panic"
proof -
  obtain m0 where m0: "service_Run X Os E (ce_service en) = (m0, Serving)"
    using assms(8) by (cases "service_Run X Os E (ce_service en)") (simp add: accepts_def)
  with assms(8) have "sv_submitCh (fst (ServeHTTP X match r m0)) \<noteq> []" by (simp add: accepts_def first_request_def)
  from engine_crashes[OF assms(1-3,7) m0 assms(4,5) refl this assms(6)] m0 show ?thesis
    by (simp add: run_consensus_def build_and_run_def assms(7) first_request_def)
qed

end

section \<open>Solo, Raft and Lachesis\<close>

lemma error_result_Ret [simp]: "error_result err = Ret () \<longleftrightarrow> err = None"
  by (simp add: error_result_def split: option.splits)

interpretation solo_node: executing_consensus X "solo_system X" "\<lambda>_. True" set
  for X :: "('db, 'sd, 'ks, 'w) backend_scheme"
proof
  fix b :: bytes and m :: "('db, 'sd, 'ks) service" and c :: "('db, 'sd) solo"
  let ?s = "c\<lparr>solo_state := sv_state m\<rparr>"
  assume asm: "nil_signer_panics X" "libs_total X" "reachable X (sv_state m)" "b \<in> set (GetSubmitCh m)"
    "returned (rlp_Decode_tx X b)"
  have "snd (Solo_Run X ?s (GetSubmitCh m)) = Panic"
    using Solo_Run_result[OF asm(1,2), of ?s "GetSubmitCh m"] config.invariant[OF asm(3)] asm(4,5)
    by (auto split: if_splits)
  then show "snd (snd (cs_Run (solo_system X) c m)) = Panic" by (auto simp: solo_system_def split: prod.splits)
qed (auto simp: solo_system_def Solo_Init_def)

lemma Raft_Run_result: "raft_node r \<Longrightarrow> snd (Raft_Run r evs) = None \<or> snd (Raft_Run r evs) = Some (Ret ())"
  by (induction r evs rule: Raft_Run.induct) (auto split: option.splits)

interpretation raft_node: executing_consensus X "raft_system X L rounds log" raft_node "\<lambda>ts. snd ` set (log ts)"
  for X :: "('db, 'sd, 'ks, 'w) backend_scheme" and L rounds log
proof
  fix b :: bytes and m :: "('db, 'sd, 'ks) service" and r :: raft
  assume asm: "nil_signer_panics X" "libs_total X" "reachable X (sv_state m)" "raft_node r"
    "b \<in> snd ` set (log (GetSubmitCh m))" "returned (rlp_Decode_tx X b)"
  obtain r' res where run: "Raft_Run r (rounds (GetSubmitCh m)) = (r', res)" "res = None \<or> res = Some (Ret ())"
    using Raft_Run_result[OF asm(4), of "rounds (GetSubmitCh m)"] by (metis prod.collapse)
  have "FSM_log X (sv_state m) (log (GetSubmitCh m)) = (sv_state m, Panic)"
    unfolding FSM_log_result[OF asm(1,2) config.invariant[OF asm(3)]] using asm(5,6) by auto
  with run show "snd (snd (cs_Run (raft_system X L rounds log) r m)) = Panic" by (auto simp: raft_system_def)
qed (auto simp: raft_system_def Raft_Init_def split: option.splits)

text \<open>The transactions that blocks start with.\<close>

definition first_transactions :: "block list \<Rightarrow> bytes set" where
  "first_transactions blks = {b. \<exists>blk \<in> set blks. \<exists>bs. blk_Transactions blk = b # bs}"

interpretation lachesis_node: executing_consensus X "lachesis_system X conf node_Init node_Run stats blocks"
    "\<lambda>l. la_node l \<noteq> None" "\<lambda>ts. first_transactions (blocks ts)"
  for X :: "('db, 'sd, 'ks, 'w) backend_scheme" and conf node_Init node_Run stats blocks
proof
  fix b :: bytes and m :: "('db, 'sd, 'ks) service" and l :: lachesis
  assume asm: "nil_signer_panics X" "libs_total X" "reachable X (sv_state m)" "la_node l \<noteq> None"
    "b \<in> first_transactions (blocks (GetSubmitCh m))" "returned (rlp_Decode_tx X b)"
  have "\<exists>blk \<in> set (blocks (GetSubmitCh m)). starts_with_transaction X blk"
    using asm(5,6) by (force simp: first_transactions_def starts_with_transaction_def)
  then have "snd (proxy_blocks X (sv_state m) (blocks (GetSubmitCh m))) = Panic"
    unfolding proxy_blocks_result[OF asm(1,2) config.invariant[OF asm(3)]] by simp
  with asm(4) show "snd (snd (cs_Run (lachesis_system X conf node_Init node_Run stats blocks) l m)) = Panic"
    by (auto simp: lachesis_system_def Lachesis_Run_def split: prod.splits)
qed (auto simp: lachesis_system_def Lachesis_Init_def Let_def split: option.splits)

text \<open>
  A Solo node does not survive its first transaction: when its service has started and
  \<^verbatim>\<open>POST /tx\<close> accepts a transaction, the consensus loop that receives it panics, and with it the
  process.
\<close>

theorem solo_node_crashes:
  assumes "codec_ok X" "nil_signer_panics X" "libs_total X" "NewConsensusEngine X D (solo_system X) cfg c = Ret en"
    "service_Run X Os E (ce_service en) = (m0, Serving)"
    "rq_Method r \<noteq> ''OPTIONS''" "route match r = Some TransactionH"
    "m = fst (ServeHTTP X match r m0)" "sv_submitCh m \<noteq> []"
  shows "snd (ConsensusEngine_Run (solo_system X) (en\<lparr>ce_service := m\<rparr>)) = Panic"
  by (rule solo_node.engine_crashes[OF assms(1-9)]) simp

text \<open>
  C13. No node with a consensus system of \<^verbatim>\<open>src/consensus\<close> survives the first transaction its service
  accepts.  When the service of a Solo, Raft or Lachesis node has started and \<^verbatim>\<open>POST /tx\<close> submits a
  transaction, and the cluster commits it (on this node, in Raft; at the head of a block, in
  Lachesis), the command that runs the node ends in a panic.
\<close>

theorem consensus_nodes_crash:
  assumes "codec_ok X" "nil_signer_panics X" "libs_total X" "rq_Method r \<noteq> ''OPTIONS''" "route match r = Some TransactionH"
    "\<And>b. b \<in> snd ` set (log [b])" "\<And>b. b \<in> first_transactions (blocks [b])"
  shows "(\<forall>en. NewConsensusEngine X D (solo_system X) cfg (NewSolo nil_state) = Ret en \<and> accepts X Os E match r en
      \<longrightarrow> runSolo X D (first_request X Os E match r) nil_state cfg = Panic) \<and>
    (\<forall>conf en. cf_Raft cfg = Some conf \<and>
        NewConsensusEngine X D (raft_system X L rounds log) cfg (NewRaft conf) = Ret en \<and> accepts X Os E match r en
      \<longrightarrow> runRaft X D (first_request X Os E match r) L rounds log cfg = Panic) \<and>
    (\<forall>en. NewConsensusEngine X D (lachesis_system X lconf node_Init node_Run stats blocks) cfg
          (NewInmemLachesis (cf_Lachesis cfg)) = Ret en \<and> accepts X Os E match r en
      \<longrightarrow> runLachesis X D (first_request X Os E match r) lconf node_Init node_Run stats blocks cfg = Panic)"
proof -
  note solo = solo_node.run_crashes[OF assms(1-5)]
    and raft = raft_node.run_crashes[OF assms(1-6)]
    and lachesis = lachesis_node.run_crashes[OF assms(1-5,7)]
  show ?thesis by (auto simp: runSolo_def runRaft_def runLachesis_def intro: solo raft lachesis)
qed

section \<open>Three nodes\<close>

lemma demo_solo_engine:
  "\<exists>en. NewConsensusEngine demo_backend demo_node_env (solo_system demo_backend) demo_config (NewSolo demo_s0) = Ret en
     \<and> ce_service en = SetInfoCallback demo_service (Ret [(''type'', ''solo''), (''tx_index'', sprintf_d 0)])"
  by (simp add: NewConsensusEngine_def demo_build_service solo_system_def Solo_Init_def error_result_def NewSolo_def Solo_Info_def)

lemma demo_solo_started:
  fixes f :: "(string \<times> string) list outcome"
  shows "\<exists>n. service_Run demo_backend demo_os (demo_env None) (SetInfoCallback demo_service f) =
    ((SetInfoCallback demo_served f)\<lparr>sv_rpcServer := n\<rparr>, Serving)"
proof -
  let ?m = "SetInfoCallback demo_service f" and ?m1 = "SetInfoCallback demo_served f"
  have steps: "makeKeyStore demo_backend demo_os ?m = (?m1, None)" "unlockAccounts demo_backend demo_os ?m1 = (?m1, Ret None)"
    "createGenesisAccounts demo_backend demo_os ?m1 = (?m1, Ret None)"
    by (simp_all add: makeKeyStore_def unlockAccounts_def createGenesisAccounts_def readPwd_def SetInfoCallback_def
        demo_served_def demo_service_eq demo_os_def newline_def carriage_return_def trim_right_def)
  have "returned (snd (Start (demo_env None) (sv_rpcServer demo_service)))"
    using Start_program_services[OF _ _ refl, of "sv_rpcServer demo_service" "demo_env None"] by (simp add: demo_service_eq)
  then have "service_Run demo_backend demo_os (demo_env None) ?m =
      (?m1\<lparr>sv_rpcServer := fst (Start (demo_env None) (sv_rpcServer ?m1))\<rparr>, Serving)"
    unfolding service_Run_Serving using steps
    by (intro exI[of _ ?m1] conjI) (simp_all add: SetInfoCallback_def demo_served_def demo_os_sel)
  then show ?thesis by blast
qed

lemma demo_posted:
  fixes f :: "(string \<times> string) list outcome"
  shows "sv_submitCh (fst (ServeHTTP demo_backend demo_mux (demo_post [1]) ((SetInfoCallback demo_served f)\<lparr>sv_rpcServer := n\<rparr>)))
    = [[193, 0]]"
  by (simp add: ServeHTTP_def demo_post_tx_routed makeHandler_def transactionHandler_def prepareTransaction_eq
      demo_args_def demo_account_def submit_def prepared_tx_def SetInfoCallback_def demo_served_def demo_service_eq
      Let_def demo_NewTransaction_def GetPoolNonce_def demo_s0_def demo_sd0_def demo_encode_tx_def demo_tx_def
      split: prod.splits option.splits)

theorem solo_node_crashes_witness:
  "\<exists>en (m :: (demo_db, demo_sd, eth_account list) service). NewConsensusEngine demo_backend demo_node_env (solo_system demo_backend) demo_config (NewSolo demo_s0) = Ret en
     \<and> sv_submitCh m = [[193, 0]]
     \<and> snd (ConsensusEngine_Run (solo_system demo_backend) (en\<lparr>ce_service := m\<rparr>)) = Panic"
proof -
  obtain en f where en: "NewConsensusEngine demo_backend demo_node_env (solo_system demo_backend) demo_config
      (NewSolo demo_s0) = Ret en" "ce_service en = SetInfoCallback demo_service f" using demo_solo_engine by blast
  obtain n where run: "service_Run demo_backend demo_os (demo_env None) (ce_service en) =
      ((SetInfoCallback demo_served f)\<lparr>sv_rpcServer := n\<rparr>, Serving)" unfolding en(2) using demo_solo_started by blast
  define m where "m = fst (ServeHTTP demo_backend demo_mux (demo_post [1]) ((SetInfoCallback demo_served f)\<lparr>sv_rpcServer := n\<rparr>))"
  have sub: "sv_submitCh m = [[193, 0]]"
    by (simp add: m_def demo_posted)
  have "libs_total demo_backend" using demo_libs_total by (simp add: libs_total_def)
  from solo_node_crashes[OF demo_backend_codec_ok demo_backend_nil_signer this en(1) run _ demo_post_tx_routed m_def] sub en(1)
  show ?thesis by auto
qed


lemma demo_accepts:
  assumes "ce_service en = SetInfoCallback demo_service f"
  shows "accepts demo_backend demo_os (demo_env None) demo_mux (demo_post [1]) en"
proof -
  obtain n where "service_Run demo_backend demo_os (demo_env None) (ce_service en) =
      ((SetInfoCallback demo_served f)\<lparr>sv_rpcServer := n\<rparr>, Serving)" unfolding assms using demo_solo_started by blast
  then show ?thesis by (simp add: accepts_def first_request_def demo_posted)
qed

text \<open>Libraries that succeed, and a cluster that commits what it is given.\<close>

definition demo_raft_library :: raft_library where
  "demo_raft_library = \<lparr>rl_NewTCPTransport = (\<lambda>_. None), rl_NewFileSnapshotStore = (\<lambda>_. None),
     rl_NewRaft = (\<lambda>_. None), rl_ReadConfigJSON = (\<lambda>_. None), rl_Stats = [(''state'', ''Leader'')]\<rparr>"

definition demo_lachesis_config :: real_lachesis_config where
  "demo_lachesis_config = \<lparr>rl_DataDir = ''/data'', rl_BindAddr = '':1337'', rl_ServiceAddr = '':8000'', rl_MaxPool = 2,
     rl_Store = False, rl_HeartbeatTimeout = Second, rl_TCPTimeout = Second, rl_CacheSize = 500, rl_SyncLimit = 100\<rparr>"

definition demo_rounds :: "bytes list \<Rightarrow> raft_event list" where
  "demo_rounds ts = map (\<lambda>t. Submitted t True None) ts"

definition demo_log :: "bytes list \<Rightarrow> (u64 \<times> bytes) list" where
  "demo_log ts = map (Pair 1) ts"

definition demo_blocks :: "bytes list \<Rightarrow> block list" where
  "demo_blocks ts = map (\<lambda>t. (demo_block 0 0 [])\<lparr>blk_Transactions := [t]\<rparr>) ts"

text \<open>The three nodes start, accept the request, and panic.\<close>

lemma demo_raft_engine:
  "\<exists>en. NewConsensusEngine demo_backend demo_node_env (raft_system demo_backend demo_raft_library demo_rounds demo_log)
      demo_config (NewRaft conf) = Ret en \<and> (\<exists>f. ce_service en = SetInfoCallback demo_service f)"
  by (auto simp: NewConsensusEngine_def demo_build_service raft_system_def Raft_Init_def NewRaft_def error_result_def
      demo_raft_library_def)

lemma demo_lachesis_engine:
  "\<exists>en. NewConsensusEngine demo_backend demo_node_env
      (lachesis_system demo_backend demo_lachesis_config (\<lambda>_. None) (\<lambda>_. ()) [] demo_blocks) demo_config
      (NewInmemLachesis (cf_Lachesis demo_config)) = Ret en \<and> (\<exists>f. ce_service en = SetInfoCallback demo_service f)"
proof -
  have "cf_Lachesis demo_config = Some (DefaultLachesisConfig ''/data'')" by (simp add: demo_config_def DefaultConfig_def)
  then show ?thesis
    by (auto simp: NewConsensusEngine_def demo_build_service lachesis_system_def Lachesis_Init_def NewInmemLachesis_def Let_def)
qed

theorem consensus_nodes_crash_witness:
  "runSolo demo_backend demo_node_env (first_request demo_backend demo_os (demo_env None) demo_mux (demo_post [1]))
     demo_s0 demo_config = Panic
   \<and> runRaft demo_backend demo_node_env (first_request demo_backend demo_os (demo_env None) demo_mux (demo_post [1]))
     demo_raft_library demo_rounds demo_log demo_config = Panic
   \<and> runLachesis demo_backend demo_node_env (first_request demo_backend demo_os (demo_env None) demo_mux (demo_post [1]))
     demo_lachesis_config (\<lambda>_. None) (\<lambda>_. ()) [] demo_blocks demo_config = Panic"
proof -
  have libs: "libs_total demo_backend" using demo_libs_total by (simp add: libs_total_def)
  have deliver: "b \<in> snd ` set (demo_log [b])" "b \<in> first_transactions (demo_blocks [b])" for b
    by (auto simp: demo_log_def demo_blocks_def first_transactions_def)
  have "rq_Method (demo_post [1]) \<noteq> ''OPTIONS''" by simp
  note crash = consensus_nodes_crash[OF demo_backend_codec_ok demo_backend_nil_signer libs this demo_post_tx_routed deliver]
  have raft: "cf_Raft demo_config = Some (DefaultRaftConfig 3 ''/data'')" by (simp add: demo_config_def DefaultConfig_def)
  show ?thesis
  proof (intro conjI)
    obtain en where "NewConsensusEngine demo_backend demo_node_env (solo_system demo_backend) demo_config
        (NewSolo demo_s0) = Ret en" "accepts demo_backend demo_os (demo_env None) demo_mux (demo_post [1]) en"
      using demo_solo_engine demo_accepts by blast
    with crash[THEN conjunct1] show "runSolo demo_backend demo_node_env (first_request demo_backend demo_os (demo_env None)
        demo_mux (demo_post [1])) demo_s0 demo_config = Panic" by blast
  next
    obtain en where "NewConsensusEngine demo_backend demo_node_env (raft_system demo_backend demo_raft_library demo_rounds
        demo_log) demo_config (NewRaft (DefaultRaftConfig 3 ''/data'')) = Ret en"
        "accepts demo_backend demo_os (demo_env None) demo_mux (demo_post [1]) en"
      using demo_raft_engine demo_accepts by blast
    with raft crash[THEN conjunct2, THEN conjunct1] show "runRaft demo_backend demo_node_env (first_request demo_backend demo_os
        (demo_env None) demo_mux (demo_post [1])) demo_raft_library demo_rounds demo_log demo_config = Panic" by blast
  next
    obtain en where "NewConsensusEngine demo_backend demo_node_env (lachesis_system demo_backend demo_lachesis_config
        (\<lambda>_. None) (\<lambda>_. ()) [] demo_blocks) demo_config (NewInmemLachesis (cf_Lachesis demo_config)) = Ret en"
        "accepts demo_backend demo_os (demo_env None) demo_mux (demo_post [1]) en"
      using demo_lachesis_engine demo_accepts by blast
    with crash[THEN conjunct2, THEN conjunct2] show "runLachesis demo_backend demo_node_env (first_request demo_backend demo_os
        (demo_env None) demo_mux (demo_post [1])) demo_lachesis_config (\<lambda>_. None) (\<lambda>_. ()) [] demo_blocks demo_config = Panic" by blast
  qed
qed

end
