(* ===== verification/Interleaving.thy ===== *)
theory Interleaving
  imports EngineSpec
begin

text \<open>
  The running socket engine with its goroutines, one step for each point at which a goroutine can
  wait: HTTP requests for the mutex of the service (\<^verbatim>\<open>makeHandler\<close>), a call for \<^verbatim>\<open>commitMutex\<close>,
  every submission for the receiver of the unbuffered channel \<^verbatim>\<open>submitCh\<close>; and the loop
  \<^verbatim>\<open>serve\<close>, which receives a submission or a block and then is busy with it: it waits until the
  proxy's \<^verbatim>\<open>SubmitTx\<close> returns, with or without an error, processes the block, and waits until the
  response to the commit is taken.  \<open>Engine\<close> takes a whole request for one step; here requests, calls and
  commits interleave.  What a handler computes between two such points is one step, so it reads the state before
  or after a block, not within.

  A panic in a handler ends its request and leaves the mutex locked (\<^verbatim>\<open>net/http\<close> recovers it).  A panic of
  a JSON-RPC call ends the call over HTTP, where go-ethereum's server recovers it, and the process over a
  WebSocket, where the call runs in a goroutine without a recover; a panic in a commit ends the process.
\<close>

section \<open>Goroutines\<close>

text \<open>
  A request waits for the mutex, runs, perhaps waits for the receiver of what it sends, and replies;
  \<open>None\<close> is the reply of a handler that panics.  A JSON-RPC call takes no mutex.  A goroutine keeps what it
  has passed to the loop.
\<close>

datatype transport = OverHttp | OverWebSocket

datatype goroutine =
    Arrived request handler
  | Running request handler
  | Sending request bytes reply
  | Replying request "bytes list" reply
  | Done "bytes list" http_result
  | Calling transport rpc_call
  | CallSending bytes "rpc_value outcome"
  | Returned "bytes list" "rpc_value outcome"

primrec passed :: "goroutine \<Rightarrow> bytes list" where
  "passed (Arrived r h) = []"
| "passed (Running r h) = []"
| "passed (Sending r b reply) = []"
| "passed (Replying r out reply) = out"
| "passed (Done out res) = out"
| "passed (Calling tr c) = []"
| "passed (CallSending b res) = []"
| "passed (Returned out res) = out"

datatype serve_loop = Selecting | Submitting bytes | Committing block | Responding bytes "error option"

text \<open>
  The mutex is \<open>sv_locked\<close>; \<^verbatim>\<open>ProcessBlock\<close> has \<^verbatim>\<open>commitMutex\<close> while the loop is \<open>Committing\<close>.
  \<open>nd_given\<close> is what the proxy accepted for the consensus, \<open>nd_lost\<close> what it refused; \<open>nd_alive\<close> is
  false when the process has ended.
\<close>

record ('db, 'sd, 'ks) node =
  nd_service :: "('db, 'sd, 'ks) service"
  nd_nonceLock :: addr_locker
  nd_goroutines :: "goroutine list"
  nd_loop :: serve_loop
  nd_given :: "bytes list"
  nd_lost :: "bytes list"
  nd_responses :: "(bytes \<times> error option) list"
  nd_alive :: bool

definition start_node :: "('db, 'sd, 'ks) service \<Rightarrow> ('db, 'sd, 'ks) node" where
  "start_node m = \<lparr>nd_service = m, nd_nonceLock = NewAddrLocker, nd_goroutines = [], nd_loop = Selecting,
     nd_given = [], nd_lost = [], nd_responses = [], nd_alive = True\<rparr>"

abbreviation become :: "nat \<Rightarrow> goroutine \<Rightarrow> ('db, 'sd, 'ks) node \<Rightarrow> ('db, 'sd, 'ks) node" where
  "become i g n \<equiv> n\<lparr>nd_goroutines := (nd_goroutines n)[i := g]\<rparr>"

text \<open>What a handler or a call has put on the channel waits there until it is received.\<close>

definition put_on_channel :: "('db, 'sd, 'ks) service \<Rightarrow> ('db, 'sd, 'ks) service \<Rightarrow> bytes list" where
  "put_on_channel m m' = drop (length (sv_submitCh m)) (sv_submitCh m')"

definition unsent :: "('db, 'sd, 'ks) service \<Rightarrow> ('db, 'sd, 'ks) service \<Rightarrow> ('db, 'sd, 'ks) service" where
  "unsent m m' = m'\<lparr>sv_submitCh := sv_submitCh m\<rparr>"

definition after_handler :: "request \<Rightarrow> bytes list \<Rightarrow> reply \<Rightarrow> goroutine" where
  "after_handler r out reply = (case out of [] \<Rightarrow> Replying r [] reply | b # _ \<Rightarrow> Sending r b reply)"

definition after_call :: "bytes list \<Rightarrow> rpc_value outcome \<Rightarrow> goroutine" where
  "after_call out res = (case out of [] \<Rightarrow> Returned [] res | b # _ \<Rightarrow> CallSending b res)"

definition arrival :: "(string \<Rightarrow> string \<Rightarrow> bool) \<Rightarrow> request \<Rightarrow> goroutine" where
  "arrival match r =
     (if rq_Method r = ''OPTIONS'' then Done [] (Answered (cors_headers r))
      else case route match r of None \<Rightarrow> Done [] NotRouted | Some h \<Rightarrow> Arrived r h)"

section \<open>Steps\<close>

text \<open>
  The goroutines of the API.  \<^verbatim>\<open>/call\<close> waits while a block is processed; a panic leaves the
  mutex locked.
\<close>

inductive handler_work ::
  "('db, 'sd, 'ks, 'w, 'x) web3_scheme \<Rightarrow> ('db, 'sd, 'ks) node \<Rightarrow> ('db, 'sd, 'ks) node \<Rightarrow> bool" for X n where
  lock: "i < length (nd_goroutines n) \<Longrightarrow> nd_goroutines n ! i = Arrived r h \<Longrightarrow> \<not> sv_locked (nd_service n) \<Longrightarrow>
    handler_work X n (become i (Running r h) (n\<lparr>nd_service := (nd_service n)\<lparr>sv_locked := True\<rparr>\<rparr>))"
| run: "i < length (nd_goroutines n) \<Longrightarrow> nd_goroutines n ! i = Running r h \<Longrightarrow>
    h = CallH \<longrightarrow> (\<forall>blk. nd_loop n \<noteq> Committing blk) \<Longrightarrow>
    run_handler X h r (nd_service n) = (m, reply) \<Longrightarrow>
    handler_work X n (become i (after_handler r (put_on_channel (nd_service n) m) reply) (n\<lparr>nd_service := unsent (nd_service n) m\<rparr>))"
| unlock: "i < length (nd_goroutines n) \<Longrightarrow> nd_goroutines n ! i = Replying r out (Some effs) \<Longrightarrow>
    handler_work X n (become i (Done out (Answered (cors_headers r @ effs))) (n\<lparr>nd_service := (nd_service n)\<lparr>sv_locked := False\<rparr>\<rparr>))"
| panic: "i < length (nd_goroutines n) \<Longrightarrow> nd_goroutines n ! i = Replying r out None \<Longrightarrow>
    handler_work X n (become i (Done out Aborted) n)"
| call: "i < length (nd_goroutines n) \<Longrightarrow> nd_goroutines n ! i = Calling tr c \<Longrightarrow>
    rpc_serve X (nd_nonceLock n) i (nd_service n) c = Some (m, l, res) \<Longrightarrow> res = Panic \<longrightarrow> tr = OverHttp \<Longrightarrow>
    handler_work X n (become i (after_call (put_on_channel (nd_service n) m) res)
      (n\<lparr>nd_service := unsent (nd_service n) m, nd_nonceLock := l\<rparr>))"
| crash_call: "i < length (nd_goroutines n) \<Longrightarrow> nd_goroutines n ! i = Calling OverWebSocket c \<Longrightarrow>
    rpc_serve X (nd_nonceLock n) i (nd_service n) c = Some (m, l, Panic) \<Longrightarrow>
    handler_work X n (n\<lparr>nd_alive := False\<rparr>)"

text \<open>
  The loop \<^verbatim>\<open>serve\<close>: its \<^verbatim>\<open>select\<close> meets a goroutine that sends, and it processes the block that it
  has received.
\<close>

inductive serve_work ::
  "('db, 'sd, 'ks, 'w, 'x) web3_scheme \<Rightarrow> ('db, 'sd, 'ks) node \<Rightarrow> ('db, 'sd, 'ks) node \<Rightarrow> bool" for X n where
  receive: "i < length (nd_goroutines n) \<Longrightarrow> nd_goroutines n ! i = Sending r b reply \<Longrightarrow> nd_loop n = Selecting \<Longrightarrow>
    serve_work X n (become i (Replying r [b] reply) (n\<lparr>nd_loop := Submitting b\<rparr>))"
| receive_call: "i < length (nd_goroutines n) \<Longrightarrow> nd_goroutines n ! i = CallSending b res \<Longrightarrow> nd_loop n = Selecting \<Longrightarrow>
    serve_work X n (become i (Returned [b] res) (n\<lparr>nd_loop := Submitting b\<rparr>))"
| committed: "nd_loop n = Committing blk \<Longrightarrow> ProcessBlock X now (sv_state (nd_service n)) blk = (st, Ret (h, err)) \<Longrightarrow>
    serve_work X n (n\<lparr>nd_service := (nd_service n)\<lparr>sv_state := st\<rparr>, nd_loop := Responding (hash_bytes h) err\<rparr>)"
| crash_commit: "nd_loop n = Committing blk \<Longrightarrow> ProcessBlock X now (sv_state (nd_service n)) blk = (st, Panic) \<Longrightarrow>
    serve_work X n (n\<lparr>nd_alive := False\<rparr>)"

text \<open>
  What the libraries do for the loop: \<^verbatim>\<open>SubmitTx\<close> returns, and the transaction is lost if it returns an error,
  which \<^verbatim>\<open>serve\<close> only logs; the response to a commit is taken.
\<close>

inductive library_return :: "('db, 'sd, 'ks) node \<Rightarrow> ('db, 'sd, 'ks) node \<Rightarrow> bool" for n where
  submit_accepted: "nd_loop n = Submitting b \<Longrightarrow>
    library_return n (n\<lparr>nd_loop := Selecting, nd_given := nd_given n @ [b]\<rparr>)"
| submit_failed: "nd_loop n = Submitting b \<Longrightarrow>
    library_return n (n\<lparr>nd_loop := Selecting, nd_lost := nd_lost n @ [b]\<rparr>)"
| responded: "nd_loop n = Responding h err \<Longrightarrow>
    library_return n (n\<lparr>nd_loop := Selecting, nd_responses := nd_responses n @ [(h, err)]\<rparr>)"

text \<open>What comes from outside: requests, calls, and blocks, which the loop receives when it is free.\<close>

inductive node_input ::
  "(string \<Rightarrow> string \<Rightarrow> bool) \<Rightarrow> ('db, 'sd, 'ks) node \<Rightarrow> ('db, 'sd, 'ks) node \<Rightarrow> bool" for match n where
  request_arrives: "node_input match n (n\<lparr>nd_goroutines := nd_goroutines n @ [arrival match r]\<rparr>)"
| call_arrives: "node_input match n (n\<lparr>nd_goroutines := nd_goroutines n @ [Calling tr c]\<rparr>)"
| block_arrives: "nd_loop n = Selecting \<Longrightarrow> node_input match n (n\<lparr>nd_loop := Committing blk\<rparr>)"

text \<open>Nothing moves in a process that has ended.\<close>

definition node_work ::
  "('db, 'sd, 'ks, 'w, 'x) web3_scheme \<Rightarrow> ('db, 'sd, 'ks) node \<Rightarrow> ('db, 'sd, 'ks) node \<Rightarrow> bool" where
  "node_work X n n' \<longleftrightarrow> nd_alive n \<and> (handler_work X n n' \<or> serve_work X n n')"

definition node_progress ::
  "('db, 'sd, 'ks, 'w, 'x) web3_scheme \<Rightarrow> ('db, 'sd, 'ks) node \<Rightarrow> ('db, 'sd, 'ks) node \<Rightarrow> bool" where
  "node_progress X n n' \<longleftrightarrow> node_work X n n' \<or> nd_alive n \<and> library_return n n'"

definition node_step ::
  "('db, 'sd, 'ks, 'w, 'x) web3_scheme \<Rightarrow> (string \<Rightarrow> string \<Rightarrow> bool)
   \<Rightarrow> ('db, 'sd, 'ks) node \<Rightarrow> ('db, 'sd, 'ks) node \<Rightarrow> bool" where
  "node_step X match n n' \<longleftrightarrow> node_progress X n n' \<or> nd_alive n \<and> node_input match n n'"

inductive_cases node_inputE: "node_input match n n'"
inductive_cases library_returnE: "library_return n n'"

lemma by_handler: "nd_alive n \<Longrightarrow> handler_work X n n' \<Longrightarrow> node_work X n n'"
  by (simp add: node_work_def)

lemma by_loop: "nd_alive n \<Longrightarrow> serve_work X n n' \<Longrightarrow> node_work X n n'"
  by (simp add: node_work_def)

lemma step_input: "nd_alive n \<Longrightarrow> node_input match n n' \<Longrightarrow> node_step X match n n'"
  by (simp add: node_step_def)

lemma step_work: "node_work X n n' \<Longrightarrow> node_step X match n n'"
  by (simp add: node_step_def node_progress_def)

lemma step_return: "nd_alive n \<Longrightarrow> library_return n n' \<Longrightarrow> node_step X match n n'"
  by (simp add: node_step_def node_progress_def)

lemmas node_lock = by_handler[OF _ handler_work.lock]
lemmas node_run = by_handler[OF _ handler_work.run]
lemmas node_unlock = by_handler[OF _ handler_work.unlock]
lemmas node_panic = by_handler[OF _ handler_work.panic]
lemmas node_call = by_handler[OF _ handler_work.call]
lemmas node_crash_call = by_handler[OF _ handler_work.crash_call]
lemmas node_receive = by_loop[OF _ serve_work.receive]
lemmas node_receive_call = by_loop[OF _ serve_work.receive_call]
lemmas node_committed = by_loop[OF _ serve_work.committed]
lemmas node_crash_commit = by_loop[OF _ serve_work.crash_commit]

section \<open>Mutual exclusion\<close>

text \<open>A goroutine has the mutex from its lock to its unlock, and for ever if its handler panicked.\<close>

primrec in_section :: "goroutine \<Rightarrow> bool" where
  "in_section (Arrived r h) = False"
| "in_section (Running r h) = True"
| "in_section (Sending r b reply) = True"
| "in_section (Replying r out reply) = True"
| "in_section (Done out res) = (res = Aborted)"
| "in_section (Calling tr c) = False"
| "in_section (CallSending b res) = False"
| "in_section (Returned out res) = False"

definition holders :: "goroutine list \<Rightarrow> nat" where
  "holders gs = length (filter in_section gs)"

text \<open>What the goroutines have passed to the loop is with the consensus, lost, or in the loop's hands.\<close>

definition in_hand :: "serve_loop \<Rightarrow> bytes list" where
  "in_hand l = (case l of Submitting b \<Rightarrow> [b] | _ \<Rightarrow> [])"

lemma in_hand_simps [simp]:
  "in_hand Selecting = []" "in_hand (Submitting b) = [b]" "in_hand (Committing blk) = []" "in_hand (Responding h e) = []"
  by (simp_all add: in_hand_def)

definition all_passed :: "goroutine list \<Rightarrow> bytes multiset" where
  "all_passed gs = mset (concat (map passed gs))"

definition node_ok :: "('db, 'sd, 'ks, 'w, 'x) web3_scheme \<Rightarrow> ('db, 'sd, 'ks) node \<Rightarrow> bool" where
  "node_ok X n \<longleftrightarrow> reachable X (sv_state (nd_service n)) \<and>
     all_passed (nd_goroutines n) = mset (nd_given n) + mset (nd_lost n) + mset (in_hand (nd_loop n)) \<and>
     locker_ok (nd_nonceLock n) \<and> holder (nd_nonceLock n) = (\<lambda>_. None) \<and>
     holders (nd_goroutines n) = of_bool (sv_locked (nd_service n))"

lemma sum_list_update:
  fixes f :: "'a \<Rightarrow> nat"
  shows "i < length xs \<Longrightarrow> sum_list (map f (xs[i := x])) + f (xs ! i) = sum_list (map f xs) + f x"
  by (induction xs arbitrary: i) (auto split: nat.split)

lemma holders_sum: "holders gs = sum_list (map (\<lambda>g. of_bool (in_section g)) gs)"
  by (induction gs) (simp_all add: holders_def)

lemma holders_update:
  "i < length gs \<Longrightarrow> holders (gs[i := g]) + of_bool (in_section (gs ! i)) = holders gs + of_bool (in_section g)"
  unfolding holders_sum by (rule sum_list_update)

lemma all_passed_update:
  "i < length gs \<Longrightarrow> all_passed (gs[i := g]) + mset (passed (gs ! i)) = all_passed gs + mset (passed g)"
proof (induction gs arbitrary: i)
  case (Cons x gs)
  then show ?case by (cases i) (simp_all add: all_passed_def ac_simps)
qed simp

lemma all_passed_same:
  "i < length gs \<Longrightarrow> passed (gs ! i) = passed g \<Longrightarrow> all_passed (gs[i := g]) = all_passed gs"
  using all_passed_update[of i gs g] by simp

lemma all_passed_more:
  "i < length gs \<Longrightarrow> passed (gs ! i) = [] \<Longrightarrow> passed g = [b] \<Longrightarrow> all_passed (gs[i := g]) = add_mset b (all_passed gs)"
  using all_passed_update[of i gs g] by simp

lemma passed_after [simp]:
  "passed (after_handler r out reply) = []" "passed (after_call out res) = []" "passed (arrival match r) = []"
  by (simp_all add: after_handler_def after_call_def arrival_def split: list.split option.split)

lemma in_section_after [simp]:
  "in_section (after_handler r out reply)" "\<not> in_section (after_call out res)" "\<not> in_section (arrival match r)"
  by (simp_all add: after_handler_def after_call_def arrival_def split: list.split option.split)

lemma run_handler_submits: "\<exists>bs. length bs \<le> 1 \<and> fst (run_handler X h r m) = submitted bs m"
  by (cases h) (simp_all only: run_handler.simps account_h.submits accounts_h.submits block_h.submits block_id_h.submits
      call_h.submits transaction_h.submits raw_h.submits tx_receipt_h.submits transaction_receipt_h.submits
      info_h.submits html_info_h.submits)

lemma run_handler_unsent:
  assumes "run_handler X h r m = (m', reply)"
  shows "unsent m m' = m" "length (put_on_channel m m') \<le> 1" "m' = submitted (put_on_channel m m') m"
  using run_handler_submits[of X h r m] assms by (auto simp: unsent_def put_on_channel_def submitted_def)

lemma rpc_serve_unsent:
  assumes "locker_ok l" "rpc_serve X l t m c = Some (m', l', res)"
  shows "\<exists>ks. unsent m m' = m\<lparr>sv_keyStore := ks\<rparr>" "locker_ok l'" "holder l' = holder l"
proof -
  have ok: "permits (call_effect c) m m' res" "locker_ok l'" "holder l' = holder l"
    using rpc_serve_answer_ok[OF assms(1), of m c X t] assms(2) unfolding answer_ok_def by blast+
  from permits_submitted[OF ok(1)] show "\<exists>ks. unsent m m' = m\<lparr>sv_keyStore := ks\<rparr>"
    by (auto simp: unsent_def submitted_def)
  show "locker_ok l'" "holder l' = holder l" by (rule ok)+
qed

lemma handler_work_ok:
  assumes "handler_work X n n'" "node_ok X n"
  shows "node_ok X n'"
  using assms(1)
proof cases
  case (lock i r h)
  with holders_update[OF lock(2), of "Running r h"] all_passed_same[OF lock(2), of "Running r h"] assms(2)
  show ?thesis by (auto simp: node_ok_def)
next
  case (run i r h m reply)
  let ?g = "after_handler r (put_on_channel (nd_service n) m) reply"
  from run holders_update[OF run(2), of ?g] all_passed_same[OF run(2), of ?g] run_handler_unsent(1)[OF run(5)] assms(2)
  show ?thesis by (auto simp: node_ok_def)
next
  case (unlock i r out effs)
  let ?g = "Done out (Answered (cors_headers r @ effs))"
  from unlock holders_update[OF unlock(2), of ?g] all_passed_same[OF unlock(2), of ?g] assms(2) show ?thesis
    by (cases "sv_locked (nd_service n)") (auto simp: node_ok_def)
next
  case (panic i r out)
  with holders_update[OF panic(2), of "Done out Aborted"] all_passed_same[OF panic(2), of "Done out Aborted"] assms(2)
  show ?thesis by (auto simp: node_ok_def)
next
  case (call i tr c m l res)
  let ?g = "after_call (put_on_channel (nd_service n) m) res"
  have "locker_ok (nd_nonceLock n)" using assms(2) by (simp add: node_ok_def)
  from rpc_serve_unsent[OF this call(4)] holders_update[OF call(2), of ?g] all_passed_same[OF call(2), of ?g] call assms(2)
  show ?thesis by (auto simp: node_ok_def)
next
  case (crash_call i c m l)
  with assms(2) show ?thesis by (simp add: node_ok_def)
qed

lemma serve_work_ok:
  assumes "serve_work X n n'" "node_ok X n"
  shows "node_ok X n'"
  using assms(1)
proof cases
  case (receive i r b reply)
  with holders_update[OF receive(2), of "Replying r [b] reply"] all_passed_more[OF receive(2), of "Replying r [b] reply" b]
    assms(2) show ?thesis by (auto simp: node_ok_def)
next
  case (receive_call i b res)
  with holders_update[OF receive_call(2), of "Returned [b] res"] all_passed_more[OF receive_call(2), of "Returned [b] res" b]
    assms(2) show ?thesis by (auto simp: node_ok_def)
next
  case (committed blk now st h err)
  with assms(2) show ?thesis by (auto simp: node_ok_def intro: reachable.processed)
next
  case (crash_commit blk now st)
  with assms(2) show ?thesis by (simp add: node_ok_def)
qed

lemma node_work_ok: "node_work X n n' \<Longrightarrow> node_ok X n \<Longrightarrow> node_ok X n'"
  by (auto simp: node_work_def dest: handler_work_ok serve_work_ok)

lemma library_return_ok: "library_return n n' \<Longrightarrow> node_ok X n \<Longrightarrow> node_ok X n'"
  by (erule library_returnE) (auto simp: node_ok_def)

lemma node_input_ok: "node_input match n n' \<Longrightarrow> node_ok X n \<Longrightarrow> node_ok X n'"
  by (erule node_inputE) (auto simp: node_ok_def holders_def all_passed_def)

lemma node_step_ok: "node_step X match n n' \<Longrightarrow> node_ok X n \<Longrightarrow> node_ok X n'"
  by (auto simp: node_step_def node_progress_def dest: node_work_ok library_return_ok node_input_ok)

lemma node_steps_ok: "(node_step X match)\<^sup>*\<^sup>* n n' \<Longrightarrow> node_ok X n \<Longrightarrow> node_ok X n'"
  by (induction rule: rtranclp_induct) (auto dest: node_step_ok)

lemma start_node_ok:
  assumes "NewSocketEngine X D P cfg = Ret en" "service_Run X Os E (se_service en) = (m, Serving)"
  shows "node_ok X (start_node m)"
proof -
  obtain m0 where "build_service X D cfg = Ret m0" "se_service en = m0"
    using assms(1) by (auto simp: NewSocketEngine_def split: outcome.splits)
  with build_service_Ret[of X D cfg m0] service_Run_frame[OF assms(2)] show ?thesis
    by (simp add: node_ok_def start_node_def NewAddrLocker_ok NewAddrLocker_free holders_def all_passed_def)
qed

lemma holders_unique:
  assumes "holders gs \<le> 1" "i < length gs" "j < length gs" "in_section (gs ! i)" "in_section (gs ! j)"
  shows "i = j"
proof (rule ccontr)
  assume "i \<noteq> j"
  have "card {k. k < length gs \<and> in_section (gs ! k)} \<le> 1"
    using assms(1) by (simp add: holders_def length_filter_conv_card)
  moreover have "{i, j} \<subseteq> {k. k < length gs \<and> in_section (gs ! k)}" using assms(2-5) by auto
  then have "card {i, j} \<le> card {k. k < length gs \<and> in_section (gs ! k)}" by (rule card_mono[rotated]) simp
  ultimately show False using \<open>i \<noteq> j\<close> by simp
qed

lemma holders_pos: "0 < holders gs \<longleftrightarrow> (\<exists>g \<in> set gs. in_section g)"
  by (simp add: holders_def filter_empty_conv)

lemma holders_exclude:
  assumes "holders gs \<le> 1" "g \<in> set gs" "in_section g" "g' \<in> set gs" "in_section g'"
  shows "g = g'"
  using assms(2,4) holders_unique[OF assms(1)] assms(3,5) unfolding in_set_conv_nth by blast

lemma update_keeps: "x \<in> set xs \<Longrightarrow> xs ! i \<noteq> x \<Longrightarrow> x \<in> set (xs[i := y])"
  by (metis in_set_conv_nth length_list_update nth_list_update_neq)

lemma node_step_cases:
  assumes "node_step X match n n'"
  obtains "handler_work X n n'" | "serve_work X n n'" | "library_return n n'" | "node_input match n n'"
  using assms by (auto simp: node_step_def node_progress_def node_work_def)

lemma aborted_stays:
  "(node_step X match)\<^sup>*\<^sup>* n n' \<Longrightarrow> Done out Aborted \<in> set (nd_goroutines n) \<Longrightarrow> Done out Aborted \<in> set (nd_goroutines n')"
proof (induction rule: rtranclp_induct)
  case (step n1 n2)
  then have in1: "Done out Aborted \<in> set (nd_goroutines n1)" by simp
  from step(2) show ?case
  proof (cases rule: node_step_cases)
    case 1
    then show ?thesis by cases (use in1 in \<open>auto intro!: update_keeps\<close>)
  next
    case 2
    then show ?thesis by cases (use in1 in \<open>auto intro!: update_keeps\<close>)
  next
    case 3
    then show ?thesis by cases (use in1 in auto)
  next
    case 4
    then show ?thesis by cases (use in1 in auto)
  qed
qed

text \<open>
  C5. However the goroutines of a running node interleave, and whichever calls of \<^verbatim>\<open>SubmitTx\<close> fail: at
  most one request is between its lock and its unlock, and the mutex is locked exactly if there is one; after a
  handler has panicked, no other request is ever there; the state is one its operations can reach; and of
  everything that requests and calls have passed to the loop, each is exactly once with the consensus, or lost by a
  failed \<^verbatim>\<open>SubmitTx\<close>, or in the hands of the loop, and the consensus has nothing else.
\<close>

theorem node_run_invariant:
  assumes "NewSocketEngine X D P cfg = Ret en" "service_Run X Os E (se_service en) = (m, Serving)"
    "(node_step X match)\<^sup>*\<^sup>* (start_node m) n"
  shows "(\<forall>i < length (nd_goroutines n). \<forall>j < length (nd_goroutines n).
      in_section (nd_goroutines n ! i) \<and> in_section (nd_goroutines n ! j) \<longrightarrow> i = j) \<and>
    (sv_locked (nd_service n) \<longleftrightarrow> (\<exists>g \<in> set (nd_goroutines n). in_section g)) \<and>
    (\<forall>out. Done out Aborted \<in> set (nd_goroutines n) \<longrightarrow>
      (\<forall>n2. (node_step X match)\<^sup>*\<^sup>* n n2 \<longrightarrow> (\<forall>r h. Running r h \<notin> set (nd_goroutines n2)))) \<and>
    reachable X (sv_state (nd_service n)) \<and>
    mset (concat (map passed (nd_goroutines n))) =
      mset (nd_given n) + mset (nd_lost n) + mset (in_hand (nd_loop n))"
proof (intro conjI impI allI)
  have ok: "node_ok X n" by (rule node_steps_ok[OF assms(3) start_node_ok[OF assms(1,2)]])
  then have one: "holders (nd_goroutines n) \<le> 1" by (simp add: node_ok_def)
  show "i = j" if "i < length (nd_goroutines n)" "j < length (nd_goroutines n)"
    "in_section (nd_goroutines n ! i) \<and> in_section (nd_goroutines n ! j)" for i j
    using holders_unique[OF one that(1,2)] that(3) by blast
  show "sv_locked (nd_service n) \<longleftrightarrow> (\<exists>g \<in> set (nd_goroutines n). in_section g)"
    using ok unfolding holders_pos[symmetric] by (simp add: node_ok_def)
  show "reachable X (sv_state (nd_service n))"
    "mset (concat (map passed (nd_goroutines n))) = mset (nd_given n) + mset (nd_lost n) + mset (in_hand (nd_loop n))"
    using ok by (simp_all add: node_ok_def all_passed_def)
  fix out n2 r h
  assume "Done out Aborted \<in> set (nd_goroutines n)" and run: "(node_step X match)\<^sup>*\<^sup>* n n2"
  then have "Done out Aborted \<in> set (nd_goroutines n2)" by (metis aborted_stays)
  moreover have "holders (nd_goroutines n2) \<le> 1" using node_steps_ok[OF run ok] by (simp add: node_ok_def)
  ultimately show "Running r h \<notin> set (nd_goroutines n2)" using holders_exclude by fastforce
qed

section \<open>Every request ends\<close>

text \<open>The steps a goroutine and the loop have before them; one more may be the end of the process.\<close>

primrec steps_left :: "goroutine \<Rightarrow> nat" where
  "steps_left (Arrived r h) = 5"
| "steps_left (Running r h) = 4"
| "steps_left (Sending r b reply) = 3"
| "steps_left (Replying r out reply) = 1"
| "steps_left (Done out res) = 0"
| "steps_left (Calling tr c) = 3"
| "steps_left (CallSending b res) = 2"
| "steps_left (Returned out res) = 0"

primrec loop_left :: "serve_loop \<Rightarrow> nat" where
  "loop_left Selecting = 0"
| "loop_left (Submitting b) = 1"
| "loop_left (Committing blk) = 2"
| "loop_left (Responding h err) = 1"

definition todo :: "('db, 'sd, 'ks) node \<Rightarrow> nat" where
  "todo n = (if nd_alive n then 1 + sum_list (map steps_left (nd_goroutines n)) + loop_left (nd_loop n) else 0)"

lemma steps_left_after:
  "steps_left (after_handler r out reply) \<le> 3" "steps_left (after_call out res) \<le> 2"
  by (simp_all add: after_handler_def after_call_def split: list.split)

lemma handler_work_decreases:
  assumes "handler_work X n n'" "nd_alive n"
  shows "todo n' < todo n"
  using assms(1)
proof cases
  case (lock i r h)
  with sum_list_update[OF lock(2), of steps_left "Running r h"] assms(2) show ?thesis by (simp add: todo_def)
next
  case (run i r h m reply)
  with sum_list_update[OF run(2), of steps_left "after_handler r (put_on_channel (nd_service n) m) reply"] assms(2)
    steps_left_after(1)[of r "put_on_channel (nd_service n) m" reply] show ?thesis by (simp add: todo_def)
next
  case (unlock i r out effs)
  with sum_list_update[OF unlock(2), of steps_left "Done out (Answered (cors_headers r @ effs))"] assms(2)
  show ?thesis by (simp add: todo_def)
next
  case (panic i r out)
  with sum_list_update[OF panic(2), of steps_left "Done out Aborted"] assms(2) show ?thesis by (simp add: todo_def)
next
  case (call i tr c m l res)
  with sum_list_update[OF call(2), of steps_left "after_call (put_on_channel (nd_service n) m) res"] assms(2)
    steps_left_after(2)[of "put_on_channel (nd_service n) m" res] show ?thesis by (simp add: todo_def)
qed (use assms(2) in \<open>simp add: todo_def\<close>)

lemma serve_work_decreases:
  assumes "serve_work X n n'" "nd_alive n"
  shows "todo n' < todo n"
  using assms(1)
proof cases
  case (receive i r b reply)
  with sum_list_update[OF receive(2), of steps_left "Replying r [b] reply"] assms(2) show ?thesis by (simp add: todo_def)
next
  case (receive_call i b res)
  with sum_list_update[OF receive_call(2), of steps_left "Returned [b] res"] assms(2) show ?thesis by (simp add: todo_def)
qed (use assms(2) in \<open>simp_all add: todo_def\<close>)

lemma library_return_decreases: "library_return n n' \<Longrightarrow> nd_alive n \<Longrightarrow> todo n' < todo n"
  by (erule library_returnE) (simp_all add: todo_def)

lemma node_progress_decreases: "node_progress X n n' \<Longrightarrow> todo n' < todo n"
  by (auto simp: node_progress_def node_work_def
      dest: handler_work_decreases serve_work_decreases library_return_decreases)

lemma node_progress_bounded: "(node_progress X ^^ k) n n' \<Longrightarrow> k + todo n' \<le> todo n"
proof (induction k arbitrary: n')
  case (Suc k)
  then obtain n1 where "(node_progress X ^^ k) n n1" "node_progress X n1 n'" by auto
  with Suc.IH[of n1] node_progress_decreases[of X n1 n'] show ?case by simp
qed simp

text \<open>
  Where a goroutine can be when nothing moves: it has its answer; its handler or its call has panicked;
  it waits for the mutex; or it waits for the loop to receive.
\<close>

primrec answered :: "goroutine \<Rightarrow> bool" where
  "answered (Arrived r h) = False"
| "answered (Running r h) = False"
| "answered (Sending r b reply) = False"
| "answered (Replying r out reply) = False"
| "answered (Done out res) = (res \<noteq> Aborted)"
| "answered (Calling tr c) = False"
| "answered (CallSending b res) = False"
| "answered (Returned out res) = (res \<noteq> Panic)"

definition panicked :: "goroutine \<Rightarrow> bool" where
  "panicked g \<longleftrightarrow> (\<exists>out. g = Done out Aborted \<or> g = Returned out Panic)"

definition waits_for_mutex :: "goroutine \<Rightarrow> bool" where
  "waits_for_mutex g \<longleftrightarrow> (\<exists>r h. g = Arrived r h)"

definition sends :: "goroutine \<Rightarrow> bool" where
  "sends g \<longleftrightarrow> (\<exists>r b reply. g = Sending r b reply) \<or> (\<exists>b res. g = CallSending b res)"

text \<open>The loop is with a library, or ready: it is not in the middle of a block.\<close>

definition in_library :: "serve_loop \<Rightarrow> bool" where
  "in_library l \<longleftrightarrow> (\<exists>b. l = Submitting b) \<or> (\<exists>h err. l = Responding h err)"

lemma ProcessBlock_not_Fail: "ProcessBlock X now s blk \<noteq> (s', Fail e)"
proof -
  have "Commit X s1 \<noteq> (s', Fail e)" for s1
    by (auto simp: Commit_def Let_def split: prod.splits outcome.splits option.splits)
  then show ?thesis
    by (cases rule: ProcessBlock_by_storing[of X now s blk]) (auto split: prod.splits outcome.splits)
qed

lemma loop_works:
  assumes "nd_alive n" "nd_loop n = Committing blk"
  shows "\<exists>n'. node_work X n n'"
proof -
  obtain st res where run: "ProcessBlock X 0 (sv_state (nd_service n)) blk = (st, res)" by fastforce
  show ?thesis
  proof (cases res)
    case (Ret v)
    with run obtain h err where "ProcessBlock X 0 (sv_state (nd_service n)) blk = (st, Ret (h, err))" by (cases v) simp
    from node_committed[OF assms this] show ?thesis by blast
  next
    case Panic
    with node_crash_commit[OF assms] run show ?thesis by blast
  qed (use run ProcessBlock_not_Fail in blast)
qed

text \<open>A goroutine that is not done can go on, unless it waits for the mutex or for the loop.\<close>

lemma goroutine_works:
  assumes "node_ok X n" "nd_alive n" "\<And>blk. nd_loop n \<noteq> Committing blk" "i < length (nd_goroutines n)"
    "\<not> answered (nd_goroutines n ! i)" "\<not> panicked (nd_goroutines n ! i)"
    "waits_for_mutex (nd_goroutines n ! i) \<Longrightarrow> \<not> sv_locked (nd_service n)"
    "sends (nd_goroutines n ! i) \<Longrightarrow> nd_loop n = Selecting"
  shows "\<exists>n'. node_work X n n'"
proof (cases "nd_goroutines n ! i")
  case (Arrived r h)
  with node_lock[OF assms(2,4)] assms(7) show ?thesis by (auto simp: waits_for_mutex_def)
next
  case (Running r h)
  obtain m reply where "run_handler X h r (nd_service n) = (m, reply)" by fastforce
  from node_run[OF assms(2,4) Running _ this] assms(3) show ?thesis by auto
next
  case (Sending r b reply)
  with node_receive[OF assms(2,4)] assms(8) show ?thesis by (auto simp: sends_def)
next
  case (Replying r out reply)
  then show ?thesis using node_unlock[OF assms(2,4)] node_panic[OF assms(2,4)] by (cases reply) blast+
next
  case (Calling tr c)
  have "rpc_serve X (nd_nonceLock n) i (nd_service n) c \<noteq> None"
    using rpc_serve_answer_ok[of "nd_nonceLock n" "nd_service n" c X i] assms(1) unfolding answer_ok_def node_ok_def by metis
  then obtain m l res where run: "rpc_serve X (nd_nonceLock n) i (nd_service n) c = Some (m, l, res)"
    by (metis option.exhaust prod_cases3)
  show ?thesis
  proof (cases "res = Panic \<longrightarrow> tr = OverHttp")
    case True
    from node_call[OF assms(2,4) Calling run True] show ?thesis by blast
  next
    case False
    then have "tr = OverWebSocket" "res = Panic" by (cases tr; simp)+
    with node_crash_call[OF assms(2,4)] Calling run show ?thesis by blast
  qed
next
  case (CallSending b res)
  with node_receive_call[OF assms(2,4)] assms(8) show ?thesis by (auto simp: sends_def)
qed (use assms(5,6) in \<open>auto simp: panicked_def\<close>)

lemma in_section_waits:
  "in_section g \<Longrightarrow> answered g \<or> panicked g \<or> waits_for_mutex g \<or> sends g \<Longrightarrow> (\<exists>out. g = Done out Aborted) \<or> sends g"
  by (cases g) (auto simp: panicked_def waits_for_mutex_def sends_def)

lemma node_stuck:
  assumes "node_ok X n" "nd_alive n" "\<And>n'. \<not> node_work X n n'"
  shows "nd_loop n = Selecting \<or> in_library (nd_loop n)"
    "g \<in> set (nd_goroutines n) \<Longrightarrow> answered g \<or> panicked g \<or> sends g \<and> in_library (nd_loop n) \<or>
       waits_for_mutex g \<and> (\<exists>g' \<in> set (nd_goroutines n). (\<exists>out. g' = Done out Aborted) \<or> sends g' \<and> in_library (nd_loop n))"
proof -
  have nc: "nd_loop n \<noteq> Committing blk" for blk using loop_works[OF assms(2)] assms(3) by blast
  then show loop: "nd_loop n = Selecting \<or> in_library (nd_loop n)" by (cases "nd_loop n") (auto simp: in_library_def)
  have stuck: "answered g \<or> panicked g \<or> sends g \<and> in_library (nd_loop n) \<or> waits_for_mutex g \<and> sv_locked (nd_service n)"
    if "g \<in> set (nd_goroutines n)" for g
    using that goroutine_works[OF assms(1,2) nc] loop assms(3) unfolding in_set_conv_nth by blast
  show "answered g \<or> panicked g \<or> sends g \<and> in_library (nd_loop n) \<or>
       waits_for_mutex g \<and> (\<exists>g' \<in> set (nd_goroutines n). (\<exists>out. g' = Done out Aborted) \<or> sends g' \<and> in_library (nd_loop n))"
    if g: "g \<in> set (nd_goroutines n)"
  proof (cases "waits_for_mutex g \<and> sv_locked (nd_service n)")
    case True
    then have "0 < holders (nd_goroutines n)" using assms(1) by (simp add: node_ok_def)
    then obtain g' where g': "g' \<in> set (nd_goroutines n)" "in_section g'" unfolding holders_pos by blast
    moreover have "\<not> (sends g' \<and> (answered g' \<or> panicked g' \<or> waits_for_mutex g'))"
      by (cases g') (auto simp: sends_def panicked_def waits_for_mutex_def)
    ultimately show ?thesis using stuck[OF g'(1)] in_section_waits[OF g'(2)] True by blast
  qed (use stuck[OF g] in blast)
qed

text \<open>
  C11. No schedule keeps a node from answering.  From any point of any run, the goroutines and the
  loop, with what the libraries return to it, can take at most \<open>todo\<close> steps before new input arrives: five for a
  request, three for a JSON-RPC call, two for a block.  When no goroutine and not the loop can take a step in a process
  that has not ended, the loop is ready for input or a library has not returned to it; and every request or
  call has its answer, except those whose handler or call has panicked, those that wait to send while the library
  has not returned, and the requests that wait for the mutex behind one of these.
\<close>

theorem node_requests_finish:
  assumes "NewSocketEngine X D P cfg = Ret en" "service_Run X Os E (se_service en) = (m, Serving)"
    "(node_step X match)\<^sup>*\<^sup>* (start_node m) n"
  shows "(\<forall>k n'. (node_progress X ^^ k) n n' \<longrightarrow> k \<le> todo n) \<and>
    (nd_alive n \<and> (\<forall>n'. \<not> node_work X n n') \<longrightarrow>
      (nd_loop n = Selecting \<or> in_library (nd_loop n)) \<and>
      (\<forall>g \<in> set (nd_goroutines n). answered g \<or> panicked g \<or> sends g \<and> in_library (nd_loop n) \<or>
         waits_for_mutex g \<and>
         (\<exists>g' \<in> set (nd_goroutines n). (\<exists>out. g' = Done out Aborted) \<or> sends g' \<and> in_library (nd_loop n))))"
proof -
  have ok: "node_ok X n" by (rule node_steps_ok[OF assms(3) start_node_ok[OF assms(1,2)]])
  have "k \<le> todo n" if "(node_progress X ^^ k) n n'" for k n' using node_progress_bounded[OF that] by simp
  moreover note node_stuck[OF ok]
  ultimately show ?thesis by blast
qed

section \<open>A call that ends the process\<close>


section \<open>A node\<close>

lemma demo_started:
  "\<exists>m. service_Run demo_web3 demo_os (demo_env None) demo_service = (m, Serving) \<and> \<not> sv_locked m"
  using demo_started_served by (auto simp: demo_served_def demo_service_eq)

text \<open>Two requests arrive, and the first gets the mutex.\<close>

definition demo_busy :: "(demo_db, demo_sd, eth_account list) service \<Rightarrow> (demo_db, demo_sd, eth_account list) node" where
  "demo_busy m = (start_node m)\<lparr>nd_service := m\<lparr>sv_locked := True\<rparr>,
     nd_goroutines := [Running (demo_post [1]) TransactionH, Arrived (demo_post [1]) TransactionH]\<rparr>"

lemma demo_arrival: "arrival demo_mux (demo_post [1]) = Arrived (demo_post [1]) TransactionH"
  using demo_post_tx_routed by (simp add: arrival_def)

lemma three_steps: "r a b \<Longrightarrow> r b c \<Longrightarrow> r c d \<Longrightarrow> r\<^sup>*\<^sup>* a d"
  by (blast intro: converse_rtranclp_into_rtranclp)

lemma demo_busy_run:
  assumes "\<not> sv_locked m"
  shows "(node_step demo_web3 demo_mux)\<^sup>*\<^sup>* (start_node m) (demo_busy m)"
proof -
  let ?g = "Arrived (demo_post [1]) TransactionH"
  let ?n1 = "(start_node m)\<lparr>nd_goroutines := [?g]\<rparr>" and ?n2 = "(start_node m)\<lparr>nd_goroutines := [?g, ?g]\<rparr>"
  have "node_input demo_mux (start_node m) ?n1" "node_input demo_mux ?n1 ?n2"
    using node_input.request_arrives[of demo_mux "start_node m" "demo_post [1]"]
      node_input.request_arrives[of demo_mux ?n1 "demo_post [1]"]
    unfolding demo_arrival by (simp_all add: start_node_def)
  moreover have "node_work demo_web3 ?n2 (demo_busy m)"
    using node_lock[of ?n2 0 "demo_post [1]" TransactionH demo_web3] assms
    by (simp add: demo_busy_def start_node_def)
  moreover have "nd_alive ?n1" "nd_alive (start_node m)" by (simp_all add: start_node_def)
  ultimately have "node_step demo_web3 demo_mux (start_node m) ?n1" "node_step demo_web3 demo_mux ?n1 ?n2"
    "node_step demo_web3 demo_mux ?n2 (demo_busy m)"
    by (simp_all only: step_input step_work)
  then show ?thesis by (rule three_steps)
qed

text \<open>A call passes a submission to the loop, and \<^verbatim>\<open>SubmitTx\<close> fails.\<close>

definition demo_lost :: "(demo_db, demo_sd, eth_account list) service \<Rightarrow> (demo_db, demo_sd, eth_account list) node" where
  "demo_lost m = (start_node m)\<lparr>nd_goroutines := [Returned [[123, 125]] (Ret (VHash 11))], nd_lost := [[123, 125]]\<rparr>"

lemma demo_lost_run:
  "(node_step demo_web3 demo_mux)\<^sup>*\<^sup>* (start_node m) (demo_lost m)"
proof -
  let ?s = "start_node m" and ?b = "[123, 125] :: bytes"
  let ?n1 = "?s\<lparr>nd_goroutines := [Calling OverWebSocket (demo_raw [193, 4])]\<rparr>"
  let ?n2 = "?s\<lparr>nd_goroutines := [CallSending ?b (Ret (VHash 11))]\<rparr>"
  let ?n3 = "?s\<lparr>nd_goroutines := [Returned [?b] (Ret (VHash 11))], nd_loop := Submitting ?b\<rparr>"
  have 1: "node_input demo_mux ?s ?n1"
    using node_input.call_arrives[of demo_mux ?s OverWebSocket "demo_raw [193, 4]"] by (simp add: start_node_def)
  have "tx_Hash demo (demo_tx 4) = 11" by (simp add: demo_tx_def)
  then have serve: "rpc_serve demo_web3 (nd_nonceLock ?n1) 0 (nd_service ?n1) (demo_raw [193, 4])
      = Some (submit m ?b, NewAddrLocker, Ret (VHash 11))"
    using demo_raw_serve[of 0 m 4] by (simp add: start_node_def)
  have "after_call (put_on_channel m (submit m ?b)) (Ret (VHash 11)) = CallSending ?b (Ret (VHash 11))"
    "unsent m (submit m ?b) = m"
    by (simp_all add: after_call_def put_on_channel_def submit_def unsent_def)
  then have 2: "node_work demo_web3 ?n1 ?n2"
    using node_call[OF _ _ _ serve, of OverWebSocket] by (simp add: start_node_def)
  have 3: "node_work demo_web3 ?n2 ?n3"
    using node_receive_call[of ?n2 0 ?b "Ret (VHash 11)" demo_web3] by (simp add: start_node_def)
  have 4: "library_return ?n3 (demo_lost m)"
    using library_return.submit_failed[of ?n3 ?b] by (simp add: demo_lost_def start_node_def)
  have "nd_alive ?s" "nd_alive ?n3" by (simp_all add: start_node_def)
  with 1 2 3 4 have steps: "node_step demo_web3 demo_mux ?s ?n1" "node_step demo_web3 demo_mux ?n1 ?n2"
    "node_step demo_web3 demo_mux ?n2 ?n3" "node_step demo_web3 demo_mux ?n3 (demo_lost m)"
    by (simp_all only: step_input step_work step_return)
  from three_steps[where r = "node_step demo_web3 demo_mux", OF steps(1-3)] steps(4) show ?thesis
    by (rule rtranclp.rtrancl_into_rtrancl)
qed

theorem node_run_invariant_witness:
  "\<exists>m. sv_locked (nd_service (demo_busy m)) \<and> in_section (nd_goroutines (demo_busy m) ! 0)
     \<and> \<not> in_section (nd_goroutines (demo_busy m) ! 1) \<and> reachable demo_web3 (sv_state m)
     \<and> nd_given (demo_lost m) = [] \<and> concat (map passed (nd_goroutines (demo_lost m))) = [[123, 125]]
     \<and> mset (nd_lost (demo_lost m)) = {#[123, 125]#}"
proof -
  obtain m where m: "service_Run demo_web3 demo_os (demo_env None) (se_service demo_socket_engine) = (m, Serving)"
    "\<not> sv_locked m" using demo_started by (auto simp: demo_socket_engine_def)
  from node_run_invariant[OF demo_NewSocketEngine m(1) demo_busy_run[OF m(2)]]
    node_run_invariant[OF demo_NewSocketEngine m(1) demo_lost_run] show ?thesis
    by (intro exI[of _ m]) (simp add: demo_busy_def demo_lost_def start_node_def)
qed

theorem node_requests_finish_witness:
  "\<exists>m. service_Run demo_web3 demo_os (demo_env None) demo_service = (m, Serving)
     \<and> (\<forall>k n. (node_progress demo_web3 ^^ k) (demo_busy m) n \<longrightarrow> k \<le> 10)"
proof -
  obtain m where m: "service_Run demo_web3 demo_os (demo_env None) (se_service demo_socket_engine) = (m, Serving)"
    "\<not> sv_locked m" using demo_started by (auto simp: demo_socket_engine_def)
  have "todo (demo_busy m) = 10" by (simp add: todo_def demo_busy_def start_node_def)
  with node_requests_finish[OF demo_NewSocketEngine m(1) demo_busy_run[OF m(2)]] m(1) show ?thesis
    by (intro exI[of _ m]) (simp add: demo_socket_engine_def)
qed


end
