(* ===== verification/Fate.thy ===== *)
theory Fate
  imports DoubleSend BlockSpec
begin

text \<open>
  What becomes of a transaction: from the request that submits it, over the engine and the block, to
  the receipt that the service shows for it.
\<close>

section \<open>Transactions of a block\<close>

text \<open>A transaction is pending, or its refusal is on record.\<close>

definition recorded :: "('db, 'sd, 'x) geth_scheme \<Rightarrow> ('db, 'sd) state \<Rightarrow> tx \<Rightarrow> bool" where
  "recorded X s t \<longleftrightarrow> t \<in> set (w_transactions (s_was s)) \<or>
     (\<exists>e d. txerror_Marshal X \<lparr>te_Tx = t, te_Error = e\<rparr> = Ret d \<and>
       db_slots X (s_db s) (ErrorSlot (tx_Hash X t)) = Ret d)"

text \<open>The errors with which a message can be refused can be printed and stored for a transaction.\<close>

definition refuses :: "('db, 'sd, 'x) geth_scheme \<Rightarrow> error \<Rightarrow> bool" where
  "refuses X e \<longleftrightarrow> (\<exists>ctx sd cc vc m gp. snd (snd (ApplyMessage X ctx sd cc vc m gp)) = Fail e)"

definition refusal_stored :: "('db, 'sd, 'x) geth_scheme \<Rightarrow> tx \<Rightarrow> bool" where
  "refusal_stored X t \<longleftrightarrow>
     (\<forall>e. refuses X e \<longrightarrow> (\<exists>d. txerror_Marshal X \<lparr>te_Tx = t, te_Error = error_text e\<rparr> = Ret d \<and>
        (\<forall>db. snd (db_Put X db (errorKey (tx_Hash X t)) d) = None)))"

lemma put_failed_tx_recorded:
  assumes "kv_ok X" "refusal_stored X t" "refuses X e" "s_db s = put_failed_tx X db t e"
  shows "recorded X s t"
proof -
  obtain d where d: "txerror_Marshal X \<lparr>te_Tx = t, te_Error = error_text e\<rparr> = Ret d"
    "snd (db_Put X db (errorKey (tx_Hash X t)) d) = None" using assms(2,3) unfolding refusal_stored_def by blast
  then obtain db' where "db_Put X db (errorKey (tx_Hash X t)) d = (db', None)" by (metis prod.collapse)
  with assms(1,4) d(1) show ?thesis by (auto simp: recorded_def put_failed_tx_def db_slots_def kv_ok_Put)
qed

text \<open>A transaction is refused by its message, or its sender is unknown and nothing is stored.\<close>

lemma apply_message_Fail:
  assumes "apply_transaction X s b i h = (s', Fail e)" "rlp_Decode_tx X b = Ret t" "AsMessage X (s_signer s) t = Ret m"
  shows "refuses X e"
proof -
  let ?c = "message_context h m"
  have "snd (snd (ApplyMessage X ?c (sd_Prepare X (w_ethState (s_was s)) (tx_Hash X t) h i) (s_chainConfig s)
      (s_vmConfig s) m (w_gp (s_was s)))) = Fail e"
    using assms by (auto simp: apply_transaction_def Let_def split: outcome.splits prod.splits option.splits)
  then show ?thesis unfolding refuses_def by blast
qed

lemma apply_transaction_Fail:
  assumes "apply_transaction X s b i h = (s', Fail e)" "rlp_Decode_tx X b = Ret t"
  shows "s' = s \<or> refuses X e \<and> s_db s' = put_failed_tx X (s_db s) t e"
  using apply_transaction_refused[OF assms] apply_message_Fail[OF assms] assms
  by (cases "AsMessage X (s_signer s) t") (auto simp: apply_transaction_def)

lemma recorded_stays:
  assumes "apply_transaction X s b i h = (s', res)" "recorded X s t" "kv_ok X" "refusal_stored X t"
    "\<And>t'. rlp_Decode_tx X b = Ret t' \<Longrightarrow> tx_Hash X t' = tx_Hash X t \<Longrightarrow> t' = t"
  shows "recorded X s' t"
  using apply_transaction_result[OF assms(1)]
proof cases
  case (executed t' r w)
  with assms(2) show ?thesis by (auto simp: recorded_def applied_def)
next
  case (refused t' w e)
  have lists: "w_transactions w = w_transactions (s_was s)" using refused(4) by (auto simp: same_but_evm_def)
  show ?thesis
  proof (cases "tx_Hash X t' = tx_Hash X t")
    case True
    with assms(5) refused(3) have "t' = t" by simp
    with apply_transaction_Fail[OF assms(1)[unfolded refused(2)] refused(3)] assms(2-4) show ?thesis
      using put_failed_tx_recorded by auto
  next
    case False
    with assms(2,3) refused(1) lists show ?thesis by (simp add: recorded_def put_failed_tx_slots)
  qed
next
  case (skipped w)
  with assms(2) show ?thesis by (auto simp: recorded_def same_but_evm_def)
qed

lemma recorded_by_applying:
  assumes "apply_transaction X s b i h = (s', res)" "res \<noteq> Panic" "kv_ok X" "refusal_stored X t"
    "rlp_Decode_tx X b = Ret t" "AsMessage X (s_signer s) t = Ret m"
  shows "recorded X s' t"
proof (cases res)
  case (Ret u)
  with apply_transaction_result[OF assms(1)] assms(5) show ?thesis
    by (auto elim!: apply_result_RetE simp: recorded_def applied_def)
next
  case (Fail e)
  then have fail: "apply_transaction X s b i h = (s', Fail e)" using assms(1) by simp
  have db: "s_db s' = put_failed_tx X (s_db s) t e" by (rule apply_transaction_refused[OF fail assms(5,6)])
  have "refuses X e" using fail assms(5,6) by (rule apply_message_Fail)
  then show ?thesis by (rule put_failed_tx_recorded[OF assms(3,4) _ db])
qed (use assms(2) in simp)

lemma apply_transaction_signer: "apply_transaction X s b i h = (s', res) \<Longrightarrow> s_signer s' = s_signer s"
  using apply_transaction_result[of X s b i h s' res] by (auto elim!: apply_resultE)

lemma block_recorded_stays:
  assumes "apply_block_transactions X s i h bs = (s', Ret ())" "recorded X s t" "kv_ok X" "refusal_stored X t"
    "\<And>b t'. b \<in> set bs \<Longrightarrow> rlp_Decode_tx X b = Ret t' \<Longrightarrow> tx_Hash X t' = tx_Hash X t \<Longrightarrow> t' = t"
  shows "recorded X s' t"
  using assms(1,2,5)
proof (induction bs arbitrary: s i)
  case (Cons b bs)
  obtain s1 r where 1: "apply_transaction X s b i h = (s1, r)" by fastforce
  with Cons.prems(1) have rest: "apply_block_transactions X s1 (i + 1) h bs = (s', Ret ())" by (cases r) auto
  have "recorded X s1 t" by (rule recorded_stays[OF 1 Cons.prems(2) assms(3,4)]) (use Cons.prems(3) in auto)
  from Cons.IH[OF rest this] Cons.prems(3) show ?case by auto
qed simp

lemma block_recorded:
  assumes "apply_block_transactions X s i h bs = (s', Ret ())" "b \<in> set bs" "kv_ok X" "refusal_stored X t"
    "rlp_Decode_tx X b = Ret t" "AsMessage X (s_signer s) t = Ret m"
    "\<And>b t'. b \<in> set bs \<Longrightarrow> rlp_Decode_tx X b = Ret t' \<Longrightarrow> tx_Hash X t' = tx_Hash X t \<Longrightarrow> t' = t"
  shows "recorded X s' t"
  using assms(1,2,6,7)
proof (induction bs arbitrary: s i)
  case (Cons c bs)
  obtain s1 r where 1: "apply_transaction X s c i h = (s1, r)" by fastforce
  with Cons.prems(1) have rest: "r \<noteq> Panic" "apply_block_transactions X s1 (i + 1) h bs = (s', Ret ())" by (cases r; simp)+
  show ?case
  proof (cases "c = b")
    case True
    have "recorded X s1 t"
      by (rule recorded_by_applying[OF 1 rest(1) assms(3,4)]) (use assms(5) Cons.prems(3) True in simp_all)
    then show ?thesis using block_recorded_stays[OF rest(2) _ assms(3,4)] Cons.prems(4) by auto
  next
    case False
    with Cons.prems Cons.IH[OF rest(2)] apply_transaction_signer[OF 1] show ?thesis by auto
  qed
qed simp

section \<open>Blocks\<close>

text \<open>What a commit shows of a recorded transaction.\<close>

lemma Commit_shows_recorded:
  assumes "Commit X s = (s', Ret (root, None))" "recorded X s t" "was_wf X (s_was s)"
    "kv_ok X" "trie_ok X node stored" "codec_ok X" "\<not> node (hash_bytes (tx_Hash X t))"
    "\<And>t'. t' \<in> set (w_transactions (s_was s)) \<Longrightarrow> tx_Hash X t' = tx_Hash X t \<Longrightarrow> t' = t"
  shows "GetTransaction X s' (tx_Hash X t) = Ret t \<and> (\<exists>r. GetReceipt X s' (tx_Hash X t) = Ret r) \<or>
    t \<notin> set (w_transactions (s_was s)) \<and>
    db_slots X (s_db s') (HashSlot (tx_Hash X t)) = db_slots X (s_db s) (HashSlot (tx_Hash X t)) \<and>
    (\<exists>e. GetFailedTx X s' (tx_Hash X t) = Ret \<lparr>te_Tx = t, te_Error = e\<rparr>)"
proof (cases "t \<in> set (w_transactions (s_was s))")
  case True
  let ?h = "tx_Hash X t"
  obtain t' where last: "last_for (tx_Hash X) (w_transactions (s_was s)) ?h = Some t'"
    using True last_for_None[of "tx_Hash X" "w_transactions (s_was s)" ?h] by (cases "last_for (tx_Hash X) (w_transactions (s_was s)) ?h") auto
  then have "t' = t" using assms(8) last_for_Some by metis
  moreover obtain d where d: "rlp_Encode_tx X t = Ret d"
    using Commit_encoded(1)[OF assms(1,4) True] by (auto simp: returned_def)
  ultimately have tx: "GetTransaction X s' ?h = Ret t"
    using Commit_slots[OF assms(1,4,5), of "HashSlot ?h"] last assms(7) codec_ok_tx[OF assms(6) d] by (simp add: reads_by_slots)
  have "?h \<in> TxHash ` set (w_receipts (s_was s))"
    using True assms(3) unfolding was_wf_def by (metis imageI image_set)
  then obtain r where r: "last_for TxHash (w_receipts (s_was s)) ?h = Some r"
    using last_for_None[of TxHash "w_receipts (s_was s)" ?h] by (cases "last_for TxHash (w_receipts (s_was s)) ?h") auto
  then have "\<exists>r'. GetReceipt X s' ?h = Ret r'"
    using Commit_GetReceipt[OF assms(1,4,5,6), of ?h] by auto
  with tx show ?thesis by blast
next
  case False
  let ?h = "tx_Hash X t"
  obtain e d where d: "txerror_Marshal X \<lparr>te_Tx = t, te_Error = e\<rparr> = Ret d"
    "db_slots X (s_db s) (ErrorSlot ?h) = Ret d" using False assms(2) by (auto simp: recorded_def)
  have "txerror_Unmarshal X d = Ret \<lparr>te_Tx = t, te_Error = e\<rparr>"
    using codec_ok_txerror[OF assms(6)] d(1) by (simp add: txerror_Marshal_def txerror_Unmarshal_def)
  then have "GetFailedTx X s' ?h = Ret \<lparr>te_Tx = t, te_Error = e\<rparr>"
    using Commit_slots[OF assms(1,4,5), of "ErrorSlot ?h"] slot_not_node[OF assms(5), of "ErrorSlot ?h"] d(2)
    by (simp add: reads_by_slots)
  moreover have "last_for (tx_Hash X) (w_transactions (s_was s)) ?h = None"
    unfolding last_for_None using False assms(8) by (metis imageE)
  ultimately show ?thesis
    using Commit_slots[OF assms(1,4,5), of "HashSlot ?h"] assms(7) False by simp
qed

section \<open>The receipt\<close>

text \<open>
  A new transaction of a block: nothing else that is pending or in the block has its hash, neither has
  the block, no trie node is stored under it, and the database has no transaction for it.
\<close>

definition fresh_tx ::
  "('db, 'sd, 'x) geth_scheme \<Rightarrow> (bytes \<Rightarrow> bool) \<Rightarrow> ('db, 'sd) state \<Rightarrow> block \<Rightarrow> tx \<Rightarrow> bool" where
  "fresh_tx X node s blk t \<longleftrightarrow>
     (\<forall>t'. (t' \<in> set (w_transactions (s_was s)) \<or> Ret t' \<in> rlp_Decode_tx X ` set (blk_Transactions blk)) \<and>
        tx_Hash X t' = tx_Hash X t \<longrightarrow> t' = t) \<and>
     fst (BlockHash X blk) \<noteq> hash_bytes (tx_Hash X t) \<and> \<not> node (hash_bytes (tx_Hash X t)) \<and>
     (\<exists>e. GetTransaction X s (tx_Hash X t) = Fail e)"

lemma ProcessBlock_records:
  assumes "ProcessBlock X now s blk = (s', Ret (root, None))" "reachable X s" "receipt_ok X" "kv_ok X"
    "fst (BlockHash X blk) = hash_bytes bh" "valid_slot (BlockSlot (blk_Index blk))" "b \<in> set (blk_Transactions blk)"
    "rlp_Decode_tx X b = Ret t" "AsMessage X (Some (EIP155Signer 1)) t = Ret m" "refusal_stored X t"
    "fresh_tx X node s blk t"
  obtains s1 where "Commit X s1 = (s', Ret (root, None))" "recorded X s1 t" "was_wf X (s_was s1)"
    "\<And>t'. t' \<in> set (w_transactions (s_was s1)) \<Longrightarrow> tx_Hash X t' = tx_Hash X t \<Longrightarrow> t' = t"
    "\<exists>e. GetTransaction X s1 (tx_Hash X t) = Fail e"
proof (rule ProcessBlock_ok[OF assms(1)])
  fix db1 db2 s1
  let ?d = "fst (ProtoMarshal X (stamp_block now blk))" and ?h = "tx_Hash X t"
  let ?s0 = "s\<lparr>s_blockIndex := blk_Index blk, s_db := db2\<rparr>"
  let ?run = "apply_block_transactions X ?s0 0 (BytesToHash X (fst (BlockHash X blk))) (blk_Transactions blk)"
  assume puts: "db_Put X (s_db s) (fst (BlockHash X blk)) ?d = (db1, None)"
    "db_Put X db1 (blockKey (blk_Index blk)) ?d = (db2, None)"
    and run: "fst ?run = s1" and c: "Commit X s1 = (s', Ret (root, None))"
  have "snd ?run = Ret ()"
    using assms(1) puts run by (auto simp: ProcessBlock_def Let_def split: outcome.splits prod.splits)
  with run have run': "?run = (s1, Ret ())" by (metis prod.collapse)
  have conf: "config_inv ?s0"
    using config.put_db[OF config.put_index[OF config.invariant[OF assms(2)]]] by simp
  have signer: "s_signer ?s0 = Some (EIP155Signer 1)"
    using conf by (simp add: config_inv_def state_config_def chainID_def)
  have sole: "t' = t" if "t' \<in> set (w_transactions (s_was s)) \<or> (\<exists>c \<in> set (blk_Transactions blk). rlp_Decode_tx X c = Ret t')"
    "tx_Hash X t' = ?h" for t'
    using assms(11) that unfolding fresh_tx_def by (metis imageI)
  show thesis
  proof (rule that[OF c])
    show "recorded X s1 t"
      by (rule block_recorded[OF run' assms(7,4,10,8)]) (use signer assms(9) sole in auto)
    show "was_wf X (s_was s1)"
      using bookkeeping.apply_txs[OF bookkeeping.put_db[OF bookkeeping.put_index[OF bookkeeping.invariant[OF assms(2)]]] run']
        assms(3) by simp
    show "t' = t" if "t' \<in> set (w_transactions (s_was s1))" "tx_Hash X t' = ?h" for t'
      using apply_block_transactions_members[OF run' that(1)] sole that(2) by simp
    have ne: "HashSlot ?h \<noteq> HashSlot bh" using assms(5,11) by (auto simp: fresh_tx_def)
    have "db_slots X db1 (HashSlot ?h) = db_slots X (s_db s) (HashSlot ?h)"
      using puts(1) assms(4,5) ne by (subst db_slots_Put[of X _ "HashSlot bh"]) auto
    moreover have "db_slots X db2 (HashSlot ?h) = db_slots X db1 (HashSlot ?h)"
      using puts(2) assms(4,6) by (subst db_slots_Put[of X _ "BlockSlot (blk_Index blk)"]) auto
    ultimately have "db_slots X (s_db s1) (HashSlot ?h) = db_slots X (s_db s) (HashSlot ?h)"
      using apply_block_transactions_slots[OF run' assms(4), of "HashSlot ?h"] by simp
    then show "\<exists>e. GetTransaction X s1 ?h = Fail e"
      using assms(11) by (simp add: fresh_tx_def reads_by_slots)
  qed
qed

lemma ProcessBlock_fate:
  assumes "ProcessBlock X now s blk = (s', Ret (root, None))" "reachable X s" "receipt_ok X" "kv_ok X"
    "fst (BlockHash X blk) = hash_bytes bh" "valid_slot (BlockSlot (blk_Index blk))" "b \<in> set (blk_Transactions blk)"
    "rlp_Decode_tx X b = Ret t" "AsMessage X (Some (EIP155Signer 1)) t = Ret m" "refusal_stored X t"
    "fresh_tx X node s blk t" "trie_ok X node stored" "codec_ok X" "Sender X (EIP155Signer 1) t = Ret a"
  shows "\<exists>jr. transaction_receipt X s' (tx_Hash X t) = Ret jr \<and> jr_TransactionHash jr = tx_Hash X t \<and> jr_From jr = a"
proof (rule ProcessBlock_records[OF assms(1-11)])
  fix s1
  let ?h = "tx_Hash X t"
  assume s1: "Commit X s1 = (s', Ret (root, None))" "recorded X s1 t" "was_wf X (s_was s1)"
    "\<And>t'. t' \<in> set (w_transactions (s_was s1)) \<Longrightarrow> tx_Hash X t' = ?h \<Longrightarrow> t' = t"
    "\<exists>e. GetTransaction X s1 ?h = Fail e"
  have "\<not> node (hash_bytes ?h)" using assms(11) by (simp add: fresh_tx_def)
  from Commit_shows_recorded[OF s1(1-3) assms(4,12,13) this] s1(4)
  have "GetTransaction X s' ?h = Ret t \<and> (\<exists>r. GetReceipt X s' ?h = Ret r) \<or>
    db_slots X (s_db s') (HashSlot ?h) = db_slots X (s_db s1) (HashSlot ?h) \<and>
    (\<exists>e. GetFailedTx X s' ?h = Ret \<lparr>te_Tx = t, te_Error = e\<rparr>)" by blast
  then show ?thesis
  proof (elim disjE conjE exE)
    fix e
    assume "db_slots X (s_db s') (HashSlot ?h) = db_slots X (s_db s1) (HashSlot ?h)"
      "GetFailedTx X s' ?h = Ret \<lparr>te_Tx = t, te_Error = e\<rparr>"
    with s1(5) assms(14) show ?thesis
      by (auto simp: transaction_receipt_def failed_receipt_def zero_receipt_def Let_def reads_by_slots(1))
  next
    fix r
    assume "GetTransaction X s' ?h = Ret t" "GetReceipt X s' ?h = Ret r"
    with assms(14) show ?thesis by (simp add: transaction_receipt_def)
  qed
qed

section \<open>From the request to the receipt\<close>

text \<open>The library recovers the sender for which the key store signed.\<close>

definition signing_ok :: "('db, 'sd, 'ks, 'x) backend_scheme \<Rightarrow> 'ks \<Rightarrow> bool" where
  "signing_ok X ks \<longleftrightarrow> (\<forall>a t. signed_for X ks a t \<longrightarrow>
     Sender X (EIP155Signer 1) t = Ret a \<and> (\<exists>m. AsMessage X (Some (EIP155Signer 1)) t = Ret m))"

lemma forward_all:
  "sv_submitCh (se_service en) = se_taken en @ rest \<Longrightarrow>
     (engine_step X match)\<^sup>*\<^sup>* en (en\<lparr>se_submits := se_submits en @ map (\<lambda>b. (b, None)) rest\<rparr>)"
proof (induction rest arbitrary: en)
  case (Cons b rest)
  let ?en = "en\<lparr>se_submits := se_submits en @ [(b, None)]\<rparr>"
  have "serve_submit en None = Some ?en" using Cons.prems by (simp add: serve_submit_def pending_def se_taken_def)
  then have "engine_step X match en ?en" by (rule engine_step.forward)
  moreover have "(engine_step X match)\<^sup>*\<^sup>* ?en (?en\<lparr>se_submits := se_submits ?en @ map (\<lambda>b. (b, None)) rest\<rparr>)"
    using Cons.prems by (intro Cons.IH) (simp add: se_taken_def)
  ultimately show ?case by (simp add: converse_rtranclp_into_rtranclp)
qed simp

text \<open>
  C3. From the request to the receipt.  A transaction that \<^verbatim>\<open>POST /tx\<close> accepts in a run of the
  socket engine can be given to the consensus, by a \<^verbatim>\<open>SubmitTx\<close> that returns no error; and whatever happens
  in between, when a block that contains it is committed without an error, the receipt endpoint shows it, executed or failed, with
  its hash and with the account that the request named as the sender.
\<close>

theorem submission_shown:
  assumes "NewSocketEngine X D P cfg = Ret en0" "(engine_step X match)\<^sup>*\<^sup>* en0 en"
    "rq_Method r \<noteq> ''OPTIONS''" "route match r = Some TransactionH" "json_Decode_args X (rq_Body r) = Ret args"
    "ServeHTTP X match r (se_service en) = (m, res)" "sv_submitCh m = sv_submitCh (se_service en) @ [b]"
    "\<forall>ks. sv_keyStore (se_service en) = Some ks \<longrightarrow> signing_ok X ks" "new_tx_ok X" "codec_ok X"
    "receipt_ok X" "kv_ok X" "trie_ok X node stored"
  shows "\<exists>t. rlp_Decode_tx X b = Ret t \<and>
    (\<exists>en1. (engine_step X match)\<^sup>*\<^sup>* (en\<lparr>se_service := m\<rparr>) en1 \<and> b \<in> set (se_given en1)) \<and>
    (\<forall>en1 now blk bh s' root. (engine_step X match)\<^sup>*\<^sup>* (en\<lparr>se_service := m\<rparr>) en1 \<and>
       ProcessBlock X now (sv_state (se_service en1)) blk = (s', Ret (root, None)) \<and> b \<in> set (blk_Transactions blk) \<and>
       fst (BlockHash X blk) = hash_bytes bh \<and> valid_slot (BlockSlot (blk_Index blk)) \<and> refusal_stored X t \<and>
       fresh_tx X node (sv_state (se_service en1)) blk t \<longrightarrow>
       (\<exists>jr. transaction_receipt X s' (tx_Hash X t) = Ret jr \<and>
          jr_TransactionHash jr = tx_Hash X t \<and> jr_From jr = sa_From args))"
proof -
  let ?en = "en\<lparr>se_service := m\<rparr>"
  have "sv_submitCh (fst (ServeHTTP X match r (se_service en))) = sv_submitCh (se_service en) @ [b]"
    using assms(6,7) by simp
  then obtain ks t where t: "sv_keyStore (se_service en) = Some ks" "signed_for X ks (sa_From args) t"
    "rlp_Decode_tx X b = Ret t"
    using transaction_request_signed[OF assms(10,9,3,4) _ assms(5)] by blast
  then obtain g where g: "Sender X (EIP155Signer 1) t = Ret (sa_From args)" "AsMessage X (Some (EIP155Signer 1)) t = Ret g"
    using assms(8) unfolding signing_ok_def by blast
  have ok: "engine_ok X ?en"
    using engine_steps_ok[OF assms(2) NewSocketEngine_ok(1)[OF assms(1)]] engine_step.http_request[OF assms(6)]
      engine_step_ok by blast
  have "\<exists>en1. (engine_step X match)\<^sup>*\<^sup>* ?en en1 \<and> b \<in> set (se_given en1)"
  proof -
    obtain rest where "sv_submitCh (se_service en) = se_taken en @ rest"
      using engine_steps_ok[OF assms(2) NewSocketEngine_ok(1)[OF assms(1)]] by (auto simp: engine_ok_def)
    then have "sv_submitCh m = se_taken en @ (rest @ [b])" using assms(7) by simp
    then have "(engine_step X match)\<^sup>*\<^sup>* ?en (?en\<lparr>se_submits := se_submits en @ map (\<lambda>b. (b, None)) (rest @ [b])\<rparr>)"
      using forward_all[of ?en "rest @ [b]" X match] by simp
    moreover have "b \<in> set (se_given (?en\<lparr>se_submits := se_submits en @ map (\<lambda>b. (b, None)) (rest @ [b])\<rparr>))"
      by (simp add: se_given_def)
    ultimately show ?thesis by blast
  qed
  moreover have "\<exists>jr. transaction_receipt X s' (tx_Hash X t) = Ret jr \<and>
          jr_TransactionHash jr = tx_Hash X t \<and> jr_From jr = sa_From args"
    if "(engine_step X match)\<^sup>*\<^sup>* ?en en1" "ProcessBlock X now (sv_state (se_service en1)) blk = (s', Ret (root, None))"
      "b \<in> set (blk_Transactions blk)" "fst (BlockHash X blk) = hash_bytes bh"
      "valid_slot (BlockSlot (blk_Index blk))" "refusal_stored X t" "fresh_tx X node (sv_state (se_service en1)) blk t"
    for en1 now blk s' root bh
  proof -
    have "reachable X (sv_state (se_service en1))" using engine_steps_ok[OF that(1) ok] by (simp add: engine_ok_def)
    from ProcessBlock_fate[OF that(2) this assms(11,12) that(4,5,3) t(3) g(2) that(6,7) assms(13,10) g(1)]
    show ?thesis .
  qed
  ultimately show ?thesis using t(3) by (intro exI[of _ t]) blast
qed

lemma demo_web3_geth:
  "db_Get demo_web3 = db_Get demo" "db_Put demo_web3 = db_Put demo" "batch_Put demo_web3 = batch_Put demo"
  "batch_Write demo_web3 = batch_Write demo" "sd_Reset demo_web3 = sd_Reset demo" "sd_Copy demo_web3 = sd_Copy demo"
  "sd_Prepare demo_web3 = sd_Prepare demo" "sd_IntermediateRoot demo_web3 = sd_IntermediateRoot demo"
  "sd_GetLogs demo_web3 = sd_GetLogs demo" "sd_Commit demo_web3 = sd_Commit demo" "trie_Commit demo_web3 = trie_Commit demo"
  "sd_GetNonce demo_web3 = sd_GetNonce demo" "ApplyMessage demo_web3 = ApplyMessage demo"
  "gp_AddGas demo_web3 = gp_AddGas demo" "AsMessage demo_web3 = AsMessage demo" "NewReceipt demo_web3 = NewReceipt demo"
  "CreateBloom demo_web3 = CreateBloom demo" "CreateAddress demo_web3 = CreateAddress demo"
  "rlp_DecodeBytes_tx demo_web3 = demo_decode_tx" "rlp_Encode_tx demo_web3 = demo_encode_tx"
  "rlp_Encode_receipt demo_web3 = demo_encode_receipt" "rlp_DecodeBytes_receipt demo_web3 = demo_decode_receipt"
  "json_Encode_txerror demo_web3 = demo_encode_error" "json_Decode_txerror demo_web3 = demo_decode_error"
  "BlockHash demo_web3 = demo_BlockHash" "ProtoMarshal demo_web3 = demo_encode_block"
  "ProtoUnmarshal demo_web3 = demo_decode_block" "BytesToHash demo_web3 = demo_BytesToHash"
  "NewContractCreation demo_web3 = NewContractCreation demo_backend" "WithSignature demo_web3 = WithSignature demo_backend"
  "signer_Hash demo_web3 = signer_Hash demo_backend" "ks_Find demo_web3 = ks_Find demo_backend"
  "ks_SignHash demo_web3 = ks_SignHash demo_backend" "json_Decode_args demo_web3 = demo_Decode_args"
  "hash_Hex demo_web3 = hash_Hex demo_backend" "json_Marshal demo_web3 = json_Marshal demo_backend"
  by (simp_all add: demo_web3_def demo_backend_def demo_def geth.defs backend.defs)

lemma demo_web3_contracts:
  shows demo_web3_kv_ok: "kv_ok demo_web3"
    and demo_web3_trie_ok: "trie_ok demo_web3 (\<lambda>_. False) demo_stored"
    and demo_web3_receipt_ok: "receipt_ok demo_web3"
    and demo_web3_codec_ok: "codec_ok demo_web3"
    and demo_web3_new_tx_ok: "new_tx_ok demo_web3"
    and demo_web3_signing_ok: "signing_ok demo_web3 [demo_account]"
  subgoal using demo_kv_ok by (simp add: kv_ok_def demo_web3_geth)
  subgoal using demo_trie_ok by (simp add: trie_ok_def same_accounts_def demo_web3_def demo_backend_def geth.defs backend.defs)
  subgoal by (simp add: receipt_ok_def demo_web3_geth)
  subgoal using demo_codec_ok by (simp add: codec_ok_def demo_web3_geth)
  subgoal using demo_new_tx_ok by (simp add: new_tx_ok_def demo_web3_geth)
  subgoal by (auto simp: signing_ok_def signed_for_def demo_web3_geth demo_account_def split: if_splits)
  done

lemma demo_refusal_stored: "refusal_stored demo_web3 (demo_tx 0)"
proof -
  have "e = LibError ''nonce too low''" if "refuses demo_web3 e" for e
    using that by (auto simp: refuses_def demo_web3_geth demo_ApplyMessage_def split: if_splits option.splits)
  then show ?thesis
    by (fastforce simp: refusal_stored_def txerror_Marshal_def demo_web3_geth demo_encode_error_def demo_error_def Let_def demo_tx_def)
qed

lemma demo_fresh: "fresh_tx demo_web3 (\<lambda>_. False) demo_s0 demo_blk (demo_tx 0)"
  by (auto simp: fresh_tx_def demo_web3_geth demo_s0_def demo_blk_def demo_block_def demo_BlockHash_def demo_tx_def
      GetTransaction_def demo_db0_def)

lemma demo_served_post:
  "ServeHTTP demo_web3 demo_mux (demo_post [1]) (demo_served\<lparr>sv_rpcServer := n\<rparr>) =
     (submit (demo_served\<lparr>sv_rpcServer := n\<rparr>) [193, 0],
      snd (ServeHTTP demo_web3 demo_mux (demo_post [1]) (demo_served\<lparr>sv_rpcServer := n\<rparr>)))"
  by (simp add: ServeHTTP_def demo_post_tx_routed makeHandler_def transactionHandler_def prepareTransaction_eq
      demo_web3_geth demo_args_def demo_account_def submit_def prepared_tx_def demo_served_def demo_service_eq
      Let_def demo_NewTransaction_def GetPoolNonce_def demo_s0_def demo_sd0_def demo_encode_tx_def demo_tx_def
      respond_def write_body_def split: prod.splits option.splits)

theorem submission_shown_witness:
  "\<exists>s' jr. ProcessBlock demo_web3 0 demo_s0 demo_blk = (s', Ret (3, None)) \<and>
     transaction_receipt demo_web3 s' 7 = Ret jr \<and> jr_TransactionHash jr = 7 \<and> jr_From jr = 9"
proof -
  obtain n where n: "service_Run demo_web3 demo_os (demo_env None) (se_service demo_socket_engine) =
      (demo_served\<lparr>sv_rpcServer := n\<rparr>, Serving)"
    using demo_started_served by (auto simp: demo_socket_engine_def)
  let ?m = "demo_served\<lparr>sv_rpcServer := n\<rparr>"
  let ?en = "demo_socket_engine\<lparr>se_service := ?m, se_nonceLock := NewAddrLocker\<rparr>"
  have run: "(engine_step demo_web3 demo_mux)\<^sup>*\<^sup>* demo_socket_engine ?en"
    using engine_step.service_start[OF n] by blast
  have req: "rq_Method (demo_post [1]) \<noteq> ''OPTIONS''" "json_Decode_args demo_web3 (rq_Body (demo_post [1])) = Ret demo_args"
    by (simp_all add: demo_request_def demo_web3_geth)
  have st: "sv_state ?m = demo_s0" "sv_keyStore ?m = Some [demo_account]" by (simp_all add: demo_served_def demo_service_eq)
  have "snd (ProcessBlock demo_web3 0 demo_s0 demo_blk) = Ret (3, None)"
    by (simp add: demo_s0_def demo_blk_def run_defs demo_web3_geth)
  then obtain s' where s': "ProcessBlock demo_web3 0 demo_s0 demo_blk = (s', Ret (3, None))" by (metis prod.collapse)
  have blk: "[193, 0] \<in> set (blk_Transactions demo_blk)" "fst (BlockHash demo_web3 demo_blk) = hash_bytes 1001"
    "valid_slot (BlockSlot (blk_Index demo_blk))"
    by (simp_all add: demo_blk_def demo_block_def demo_BlockHash_def demo_web3_geth)
  have served: "ServeHTTP demo_web3 demo_mux (demo_post [1]) (se_service ?en) =
      (submit ?m [193, 0], snd (ServeHTTP demo_web3 demo_mux (demo_post [1]) ?m))"
    "sv_submitCh (submit ?m [193, 0]) = sv_submitCh (se_service ?en) @ [[193, 0]]"
    "\<forall>ks. sv_keyStore (se_service ?en) = Some ks \<longrightarrow> signing_ok demo_web3 ks"
    using demo_served_post[of n] demo_web3_signing_ok st(2) by (simp_all add: submit_def)
  have run0: "(engine_step demo_web3 demo_mux)\<^sup>*\<^sup>* (?en\<lparr>se_service := submit ?m [193, 0]\<rparr>) (?en\<lparr>se_service := submit ?m [193, 0]\<rparr>)"
    "sv_state (se_service (?en\<lparr>se_service := submit ?m [193, 0]\<rparr>)) = demo_s0"
    using st(1) by (simp_all add: submit_def)
  obtain t where dec: "rlp_Decode_tx demo_web3 [193, 0] = Ret t"
    and shown: "\<And>en1 now blk bh s' root. (engine_step demo_web3 demo_mux)\<^sup>*\<^sup>* (?en\<lparr>se_service := submit ?m [193, 0]\<rparr>) en1 \<Longrightarrow>
       ProcessBlock demo_web3 now (sv_state (se_service en1)) blk = (s', Ret (root, None)) \<Longrightarrow>
       [193, 0] \<in> set (blk_Transactions blk) \<Longrightarrow> fst (BlockHash demo_web3 blk) = hash_bytes bh \<Longrightarrow>
       valid_slot (BlockSlot (blk_Index blk)) \<Longrightarrow> refusal_stored demo_web3 t \<Longrightarrow>
       fresh_tx demo_web3 (\<lambda>_. False) (sv_state (se_service en1)) blk t \<Longrightarrow>
       \<exists>jr. transaction_receipt demo_web3 s' (tx_Hash demo_web3 t) = Ret jr \<and>
          jr_TransactionHash jr = tx_Hash demo_web3 t \<and> jr_From jr = sa_From demo_args"
    using submission_shown[OF demo_NewSocketEngine run req(1) demo_post_tx_routed req(2) served demo_web3_new_tx_ok
      demo_web3_codec_ok demo_web3_receipt_ok demo_web3_kv_ok demo_web3_trie_ok] by blast
  have t: "t = demo_tx 0" using dec by simp
  have "\<exists>jr. transaction_receipt demo_web3 s' (tx_Hash demo_web3 (demo_tx 0)) = Ret jr \<and>
      jr_TransactionHash jr = tx_Hash demo_web3 (demo_tx 0) \<and> jr_From jr = sa_From demo_args"
    using shown[OF run0(1), unfolded run0(2) t, OF s' blk demo_refusal_stored demo_fresh] .
  with s' show ?thesis by (auto simp: demo_tx_def demo_args_def)
qed

end
