(* ===== verification/Logging.thy ===== *)
theory Logging
  imports Web3Format
begin

text \<open>
  What the program writes to its log where that is more than a constant: the text of a transaction
  (\<^verbatim>\<open>PrintTransaction\<close> in \<^verbatim>\<open>src/state/state.go\<close>), which \<^verbatim>\<open>applyTransaction\<close> builds for
  every transaction, whatever the level of the logger; and the writer of the tests' logger
  (\<^verbatim>\<open>src/common/logger.go\<close>).  The first is why the model of \<^verbatim>\<open>applyTransaction\<close> can leave its
  text out; the second breaks the contract of \<^verbatim>\<open>io.Writer\<close>.
\<close>

section \<open>The text of a transaction\<close>

text \<open>\<^verbatim>\<open>addr[:]\<close>, and \<^verbatim>\<open>%#x\<close> of a number.\<close>

definition addr_bytes :: "address \<Rightarrow> bytes" where
  "addr_bytes a = map (\<lambda>i. ucast (drop_bit (8 * (19 - i)) a)) [0..<20]"

fun hex_digits :: "nat \<Rightarrow> string" where
  "hex_digits n = (if n < 16 then [hex_digit n] else hex_digits (n div 16) @ [hex_digit (n mod 16)])"

declare hex_digits.simps [simp del]

definition sprintf_0x :: "int \<Rightarrow> string" where
  "sprintf_0x i = (if i < 0 then ''-0x'' @ hex_digits (nat (- i)) else ''0x'' @ hex_digits (nat i))"

definition text_line :: "string \<Rightarrow> string \<Rightarrow> string" where
  "text_line name value = [CHR 0x09] @ name @ value @ [newline]"

definition PrintTransaction ::
  "('db, 'sd, 'ks, 'x) backend_scheme \<Rightarrow> ('db, 'sd) state \<Rightarrow> tx \<Rightarrow> string outcome" where
  "PrintTransaction X s t =
     (case (case s_signer s of
              None \<Rightarrow> Panic
            | Some signer \<Rightarrow>
                (case Sender X signer t of
                   Fail _ \<Rightarrow> Ret ''[invalid sender: invalid sig]''
                 | Panic \<Rightarrow> Panic
                 | Ret f \<Rightarrow> Ret (sprintf_x (addr_bytes f)))) of
        Fail e \<Rightarrow> Fail e
      | Panic \<Rightarrow> Panic
      | Ret from \<Rightarrow>
          let to = (case tx_To t of None \<Rightarrow> ''[contract creation]'' | Some a \<Rightarrow> sprintf_x (addr_bytes a)) in
          Ret ([newline] @
            text_line ''TX('' (sprintf_x (hash_bytes (tx_Hash X t)) @ '')'') @
            text_line ''Contract: '' (if tx_To t = None then ''true'' else ''false'') @
            text_line ''From:     '' from @
            text_line ''To:       '' to @
            text_line ''Nonce:    '' (sprintf_d (uint (tx_Nonce t))) @
            text_line ''GasPrice: '' (sprintf_0x (tx_GasPrice t)) @
            text_line ''GasLimit  '' (sprintf_0x (uint (tx_Gas t))) @
            text_line ''Value:    '' (sprintf_0x (tx_Value t)) @
            text_line ''Data:     0x'' (sprintf_x (tx_Data t))))"

text \<open>
  In a reachable state the text is always built, and says that the sender is invalid exactly
  if the library does not recover it; so leaving it out of \<^verbatim>\<open>applyTransaction\<close> loses no behaviour.
\<close>

lemma length_addr_bytes [simp]: "length (addr_bytes a) = 20"
  by (simp add: addr_bytes_def)

lemma PrintTransaction_Ret:
  assumes "reachable X s" "Sender X (EIP155Signer 1) t \<noteq> Panic"
  shows "\<exists>text. PrintTransaction X s t = Ret text"
proof -
  have "s_signer s = Some (EIP155Signer 1)"
    using config.invariant[OF assms(1)] by (simp add: config_inv_def state_config_def chainID_def)
  then show ?thesis
    using assms(2) by (cases "Sender X (EIP155Signer 1) t") (auto simp: PrintTransaction_def Let_def)
qed

text \<open>The text determines the numbers printed with \<^verbatim>\<open>%#x\<close>.\<close>

definition hex_value :: "string \<Rightarrow> nat" where
  "hex_value = foldl (\<lambda>n c. 16 * n + (if of_char c < (58 :: nat) then of_char c - 48 else of_char c - 87)) 0"

lemma hex_value_digits [simp]: "hex_value (hex_digits n) = n"
proof (induction n rule: hex_digits.induct)
  case (1 n)
  have digit: "(if of_char (hex_digit d) < (58 :: nat) then of_char (hex_digit d) - 48 else of_char (hex_digit d) - 87) = d"
    if "d < 16" for d
    using that by (auto simp: hex_digit_def)
  show ?case
  proof (cases "n < 16")
    case True
    then show ?thesis by (subst hex_digits.simps) (simp add: hex_value_def digit)
  next
    case False
    then have "hex_value (hex_digits n) = 16 * hex_value (hex_digits (n div 16)) + n mod 16"
      by (subst hex_digits.simps) (simp add: hex_value_def digit)
    then show ?thesis using 1 False by simp
  qed
qed

lemma sprintf_0x_inject: "sprintf_0x i = sprintf_0x j \<longleftrightarrow> i = j"
proof
  assume eq: "sprintf_0x i = sprintf_0x j"
  then have "(i < 0) = (j < 0)" by (auto simp: sprintf_0x_def split: if_splits)
  with eq have "hex_digits (nat \<bar>i\<bar>) = hex_digits (nat \<bar>j\<bar>)" by (auto simp: sprintf_0x_def split: if_splits)
  then have "nat \<bar>i\<bar> = nat \<bar>j\<bar>" by (metis hex_value_digits)
  with \<open>(i < 0) = (j < 0)\<close> show "i = j" by linarith
qed simp

section \<open>The logger of the tests\<close>

text \<open>The log of \<^verbatim>\<open>testing.T\<close> is a list of lines.\<close>

record test_logger =
  tl_prefix :: string
  tl_lines :: "string list"
  tl_level :: log_level

definition adapter_Write :: "test_logger \<Rightarrow> bytes \<Rightarrow> test_logger \<times> (int \<times> error option) outcome" where
  "adapter_Write a d =
     (if d = [] then (a, Panic)
      else let d = (if last d = 10 then butlast d else d) in
        if tl_prefix a \<noteq> [] then
          let l = tl_prefix a @ '': '' @ bytes_str d in (a\<lparr>tl_lines := tl_lines a @ [l]\<rparr>, Ret (int (length l), None))
        else (a\<lparr>tl_lines := tl_lines a @ [bytes_str d]\<rparr>, Ret (int (length d), None)))"

definition NewTestLogger :: test_logger where
  "NewTestLogger = \<lparr>tl_prefix = [], tl_lines = [], tl_level = DebugLevel\<rparr>"

text \<open>
  \<^verbatim>\<open>io.Writer\<close> asks for an error when fewer bytes are written than given, and for no more than
  were given.  The logger's texts end in a line feed, so every write is short without an error; with a
  prefix the count would be too large; an empty write panics.
\<close>

lemma adapter_Write_count:
  "adapter_Write NewTestLogger (d @ [10]) = (NewTestLogger\<lparr>tl_lines := [bytes_str d]\<rparr>, Ret (int (length d), None))"
  "tl_prefix a \<noteq> [] \<Longrightarrow> d \<noteq> [] \<Longrightarrow>
     \<exists>n. snd (adapter_Write a d) = Ret (n, None) \<and> n > int (length d)"
  "snd (adapter_Write a []) = Panic"
  by (auto simp: adapter_Write_def NewTestLogger_def Let_def bytes_str_def)

end
