(* ===== verification/Spec2Isabelle.thy ===== *)
theory Spec2Isabelle
  imports Ledger BlockSpec Web3Spec EngineSpec DoubleSend ConsensusNode Interleaving Fate Logging
begin

text \<open>
  Verification of go-evm, an Ethereum state machine with an HTTP and a JSON-RPC interface that
  takes the order of its transactions from an interchangeable consensus system.

  \<^bold>\<open>The program.\<close>  A client posts a transaction to the service (\<^verbatim>\<open>src/service\<close>).  The service
  signs or decodes it and sends its bytes on the channel \<^verbatim>\<open>submitCh\<close>.  An engine
  (\<^verbatim>\<open>src/engine\<close>) connects this channel to a consensus (\<^verbatim>\<open>src/consensus\<close>, or go-lachesis
  over a socket), which sends blocks, or single transactions, to the application state
  (\<^verbatim>\<open>src/state\<close>).  The state executes them on a write-ahead state, commits them to LevelDB and
  the Merkle trie, and the handlers of the service read the result.  The command line
  (\<^verbatim>\<open>cmd/evm\<close>) builds the configuration (\<^verbatim>\<open>src/config\<close>) and starts an engine.

  \<^bold>\<open>How it is modelled.\<close>  Everything is explicit state passing over records named after the structs
  of the source; a result is an \<open>outcome\<close>: a value, a returned error, or a panic, so that every
  early return and every nil dereference is a branch.  Machine integers are words, big integers and
  durations are \<open>int\<close>, a nil pointer is \<open>None\<close>.  Code outside the repository (go-ethereum, LevelDB,
  go-lachesis, the Raft library, JSON and RLP codecs, the operating system) is the records \<open>geth\<close>,
  \<open>backend\<close>, \<open>web3\<close>, \<open>os\<close>, \<open>node_env\<close> and a few more, whose fields are its functions; a theorem
  names what it needs of them by a predicate that states documented behaviour (\<open>kv_ok\<close>, \<open>trie_ok\<close>,
  \<open>codec_ok\<close>, \<open>libs_total\<close>, \<open>calm\<close>, \<open>web3_calm\<close>, \<open>wallets_ok\<close>, \<open>json_not_rlp\<close>, \<open>iterator_ok\<close>, \<open>nonce_ok\<close>, \<open>key_store_ok\<close>, \<open>signing_ok\<close>,
  \<open>refusal_stored\<close>, \<open>viper_ok\<close>), and the theories
  \<open>Demo\<close>, \<open>DemoService\<close> and \<open>DemoWeb3\<close> give one concrete instance that satisfies them and in which
  the witnesses of the theorems run.  The record \<open>backend\<close> extends \<open>geth\<close> and \<open>web3\<close> extends
  \<open>backend\<close>, so a definition about the state is used unchanged in the service and in the RPC API.
  \<open>libs_total\<close>, \<open>calm\<close> and \<open>web3_calm\<close> say which library functions do not panic.  \<^verbatim>\<open>core.ApplyMessage\<close> is in none
  of them: the program runs it in a \<^verbatim>\<open>vm.Context\<close> whose \<^verbatim>\<open>Time\<close> and \<^verbatim>\<open>Difficulty\<close> are nil, on which the
  instructions that read them panic.  The theorems on blocks and on \<^verbatim>\<open>POST /call\<close> have this panic as a case
  (\<open>execution_panics\<close>, \<open>call_execution_panics\<close>), and \<open>demo_clock\<close> is an instance in which it happens.

  \<^bold>\<open>The theories.\<close>
  \<^item> \<open>Prelude\<close>: types, outcomes, bytes of hashes, generic lemmas.
  \<^item> \<open>Numbers\<close>: \<^verbatim>\<open>src/common/math.go\<close> and the signer functions of \<^verbatim>\<open>state.go\<close>;
    saturation, and the EIP-155 round trip.  \<open>Keys\<close>: the key layout of the database.
  \<^item> \<open>Geth\<close>: the boundary, its contracts, and the locale \<open>key_layout\<close>.
  \<^item> \<open>Was\<close>, \<open>TxPool\<close>, \<open>StateCore\<close>: \<^verbatim>\<open>was.go\<close>, \<^verbatim>\<open>txpool.go\<close>, \<^verbatim>\<open>state.go\<close>,
    function by function.  \<open>StateProps\<close>: the reachable states and their invariants, as a locale of
    properties that every operation keeps.  \<open>StateSpec\<close>: what a commit stores, refused transactions,
    restart, genesis.  \<open>Ledger\<close>: the abstract ledger that \<^verbatim>\<open>ProcessBlock\<close>
    refines, and the events that the transactions of a block determine.
  \<^item> \<open>Consensus\<close>: Solo, Raft (its construction and its state machine) and Lachesis (its
    construction and its proxy) over the interface \<open>app_state\<close>; one theorem on when
    each of them panics, and that they execute no transaction.
  \<^item> \<open>AddrLock\<close>: \<^verbatim>\<open>addrlock.go\<close>, mutual exclusion as a step relation over the interface
    \<open>keyed_lock\<close>.  \<open>RpcServer\<close>: the life cycle of the JSON-RPC endpoints (\<^verbatim>\<open>rpc_server.go\<close>,
    \<^verbatim>\<open>rpc_context.go\<close>, the two web3 services).
  \<^item> \<open>Config\<close>: \<^verbatim>\<open>src/config\<close>, log levels and the genesis file.  \<open>Flags\<close>: the flag tables of
    \<^verbatim>\<open>cmd/evm/commands\<close>, the \<^verbatim>\<open>mapstructure\<close> tags of the configuration and the unmarshalling
    of settings into it, over the interfaces \<open>fields\<close> and \<open>nested_fields\<close>; their round trip.
    \<open>Commands\<close>: the commands, from the flags and the file to the configuration they run with, and the
    process, which reports every error by a panic.
  \<^item> \<open>ServiceCore\<close>, \<open>ServiceSpec\<close>: \<^verbatim>\<open>service.go\<close>: construction, start-up and password file.
  \<^item> \<open>Handlers\<close>, \<open>HandlerSpec\<close>, \<open>BlockSpec\<close>: \<^verbatim>\<open>http_handlers.go\<close>, the routes and the mutex; the
    contracts \<open>submitter\<close> and \<open>reader\<close> of a handler, with every handler as an interpretation; which
    requests panic; submissions; receipts and blocks.
  \<^item> \<open>Web3Account\<close>, \<open>Web3Format\<close>, \<open>Web3Chain\<close>, \<open>Web3Spec\<close>: \<^verbatim>\<open>web3_account_api.go\<close> and
    \<^verbatim>\<open>web3_chain_api.go\<close>: accounts, signing, submission, the nonce lock, the RPC form of blocks and
    traces, pages of storage.  \<open>Web3Api\<close>, \<open>Web3ApiSpec\<close>: every method of the registered APIs, the
    commented-out ones with the constant they return, as one datatype of calls per API; the dispatch
    \<open>rpc_serve\<close>, the Go types of its answers and what each kind of call may change.
  \<^item> \<open>Engine\<close>, \<open>EngineSpec\<close>: \<^verbatim>\<open>src/engine\<close>: the three engines; the running socket engine as a
    step relation over requests, RPC calls, calls of \<^verbatim>\<open>SubmitTx\<close>, which may fail and lose their transaction, and
    commits, with its invariant; the in-memory engine as a step relation; the consensus systems behind the interface
    \<^verbatim>\<open>Consensus\<close>.  \<open>ConsensusNode\<close>: what an engine needs of a consensus system as the locale
    \<open>executing_consensus\<close>, with Solo, Raft and Lachesis as its interpretations; nodes from the first
    request to the panic.
  \<^item> \<open>DoubleSend\<close>: a composition of service, state and Solo consensus: two sends of one account
    between two blocks get one nonce, and the second is refused when it is applied.
  \<^item> \<open>Interleaving\<close>: the running socket engine goroutine by goroutine: requests that wait for the
    mutex, submissions that wait for the unbuffered channel, the loop \<^verbatim>\<open>serve\<close> that is ready, waits for
    \<^verbatim>\<open>SubmitTx\<close>, processes a block or waits for its response to be taken; panics that end a request and panics
    that end the process.  Mutual exclusion, where every transaction is that was passed on, a bound on the steps that
    are left, who can be kept waiting and by whom, and the call over the WebSocket that ends the process.
  \<^item> \<open>Fate\<close>: the whole way of a transaction, from the request over the engine and the block to the receipt.
  \<^item> \<open>Logging\<close>: the text of a transaction in the log, which cannot stop its execution, and the
    writer of the tests' logger.

  \<^bold>\<open>Loops and fuel.\<close>  No definition uses fuel.  Loops over data are structural recursions; the memory
  loop of \<^verbatim>\<open>FormatLogs\<close> has a measure.  A loop that receives from a channel for ever is a recursion
  over the list of what it receives, or one step of a relation.

  \<^bold>\<open>Abstractions.\<close>  In \<open>Engine\<close> a request, a commit and an RPC call are atomic steps, their
  interleavings any sequence of steps; in \<open>Interleaving\<close> they interleave at every point at which a
  goroutine can wait, but what runs between two such points is one step, so a race of a read of the
  state with \<^verbatim>\<open>ProcessBlock\<close>, which Go leaves undefined, is not modelled.  The channel \<^verbatim>\<open>submitCh\<close>
  is the list of everything sent on it; the socket engine keeps each call of \<^verbatim>\<open>SubmitTx\<close> with its
  error, the in-memory engine what it has received.  That a panic of a JSON-RPC call is recovered over HTTP and not over a
  WebSocket is a property of go-ethereum's server.  Log output is left
  out of the operations; \<open>Logging\<close> shows that building it has no effect on them.

  \<^bold>\<open>Not modelled.\<close>  The EVM, the trie, the key store, the codecs, the HTTP and RPC servers, viper and
  cobra are libraries.  The Lachesis and Raft nodes run in their libraries: what they answer is an
  argument, and the code around them is modelled.  The output of the version command, the level
  handed to go-ethereum's logger, the HTML template of the index page and the interface declarations of
  \<^verbatim>\<open>src/state/utils.go\<close>, which nothing implements, hold no logic the system reads.
\<close>

end
